(* ===== verification/Smsd_Prelude.thy ===== *)
theory Smsd_Prelude
  imports Main "HOL-Library.Word" "HOL-Library.Monad_Syntax"
begin

text \<open>
  Shared vocabulary of the SMSD verification: the characters, the C string functions, the
  number parsing and printing functions the daemon uses from the C library, the return codes
  of \<^verbatim>\<open>src/sms/smserror/include/sms_error.h\<close>, and the generic lemmas about them.

  A C string is a \<^typ>\<open>string\<close> without its terminating NUL, a pointer that may be NULL
  is a \<^typ>\<open>string option\<close>. Number parsing follows glibc, where \<^verbatim>\<open>atol\<close> is
  \<^verbatim>\<open>strtol\<close> in base 10 (it saturates at the bounds of a 64-bit \<^verbatim>\<open>long\<close>) and
  \<^verbatim>\<open>atoi\<close> truncates that \<^verbatim>\<open>long\<close> to 32 bits.
\<close>

named_theorems c_string_simps \<open>rewrite rules of the C string functions\<close>

section \<open>Characters\<close>

abbreviation NUL :: char where "NUL \<equiv> CHR 0x00"
abbreviation TAB :: char where "TAB \<equiv> CHR 0x09"
abbreviation LF :: char where "LF \<equiv> CHR 0x0A"
abbreviation CR :: char where "CR \<equiv> CHR 0x0D"
abbreviation SP :: char where "SP \<equiv> CHR 0x20"
abbreviation DQ :: char where "DQ \<equiv> CHR 0x22"
abbreviation SQ :: char where "SQ \<equiv> CHR 0x27"

abbreviation crlf :: string where "crlf \<equiv> [CR, LF]"

definition is_blank :: "char \<Rightarrow> bool" where
  "is_blank c \<longleftrightarrow> c = SP \<or> c = TAB"

text \<open>\<^verbatim>\<open>isspace\<close> of the C locale: space, \<open>\\t\<close>, \<open>\\n\<close>, \<open>\\v\<close>, \<open>\\f\<close> and \<open>\\r\<close>.\<close>

definition c_isspace :: "char \<Rightarrow> bool" where
  "c_isspace c \<longleftrightarrow> c \<in> {SP, TAB, LF, CHR 0x0B, CHR 0x0C, CR}"

definition c_isdigit :: "char \<Rightarrow> bool" where
  "c_isdigit c \<longleftrightarrow> (48::nat) \<le> of_char c \<and> (of_char c :: nat) \<le> 57"

definition c_toupper :: "char \<Rightarrow> char" where
  "c_toupper c = (if (97::nat) \<le> of_char c \<and> (of_char c :: nat) \<le> 122
     then char_of (of_char c - (32::nat)) else c)"

definition c_tolower :: "char \<Rightarrow> char" where
  "c_tolower c = (if (65::nat) \<le> of_char c \<and> (of_char c :: nat) \<le> 90
     then char_of (of_char c + (32::nat)) else c)"

section \<open>String functions\<close>

text \<open>\<^verbatim>\<open>if ((p = strpbrk(s, sel))) *p = 0;\<close> keeps what precedes the first selected character.\<close>

definition cut_pbrk :: "string \<Rightarrow> string \<Rightarrow> string" where
  "cut_pbrk sel s = takeWhile (\<lambda>c. c \<notin> set sel) s"

definition skip_blanks :: "string \<Rightarrow> string" where
  "skip_blanks s = dropWhile is_blank s"

definition rtrim_blanks :: "string \<Rightarrow> string" where
  "rtrim_blanks s = rev (dropWhile is_blank (rev s))"

text \<open>\<^verbatim>\<open>strchr\<close> followed by a split: what precedes the character and what follows it.\<close>

definition strchr_split :: "char \<Rightarrow> string \<Rightarrow> (string \<times> string) option" where
  "strchr_split c s = (if c \<in> set s
     then Some (takeWhile (\<lambda>x. x \<noteq> c) s, tl (dropWhile (\<lambda>x. x \<noteq> c) s)) else None)"

text \<open>\<^verbatim>\<open>strncmp(t, key, sizeof(key) - 1) == 0\<close>\<close>

definition strncmp_eq :: "string \<Rightarrow> string \<Rightarrow> bool" where
  "strncmp_eq t key \<longleftrightarrow> take (length key) t = key"

text \<open>The words that \<^verbatim>\<open>sscanf(s, "%s %s ... %s", ...)\<close> with \<open>n\<close> conversions stores.\<close>

fun sscanf_s :: "nat \<Rightarrow> string \<Rightarrow> string list" where
  "sscanf_s 0 s = []"
| "sscanf_s (Suc n) s =
     (let t = dropWhile c_isspace s
      in if t = [] then []
         else takeWhile (\<lambda>c. \<not> c_isspace c) t # sscanf_s n (dropWhile (\<lambda>c. \<not> c_isspace c) t))"

text \<open>The value \<^verbatim>\<open>sscanf\<close> returns: \<^verbatim>\<open>EOF\<close> when the input ends before the first conversion.\<close>

definition sscanf_count :: "'a list \<Rightarrow> int" where
  "sscanf_count ws = (if ws = [] then -1 else int (length ws))"

definition word_or :: "string \<Rightarrow> string list \<Rightarrow> nat \<Rightarrow> string" where
  "word_or d ws i = (if i < length ws then ws ! i else d)"

section \<open>Numbers\<close>

definition digit_val :: "char \<Rightarrow> nat" where
  "digit_val c = (let n = of_char c in
     if 48 \<le> n \<and> n \<le> 57 then n - 48
     else if 97 \<le> n \<and> n \<le> 122 then n - 87
     else if 65 \<le> n \<and> n \<le> 90 then n - 55 else 255)"

definition num_val :: "nat \<Rightarrow> string \<Rightarrow> nat" where
  "num_val base s = foldl (\<lambda>n c. base * n + digit_val c) 0 (takeWhile (\<lambda>c. digit_val c < base) s)"

definition long_clamp :: "int \<Rightarrow> int" where
  "long_clamp x = max (- (2 ^ 63)) (min (2 ^ 63 - 1) x)"

definition split_sign :: "string \<Rightarrow> bool \<times> string" where
  "split_sign s = (case s of [] \<Rightarrow> (False, [])
     | c # t \<Rightarrow> if c = CHR ''-'' then (True, t) else if c = CHR ''+'' then (False, t) else (False, s))"

definition signed_val :: "bool \<Rightarrow> nat \<Rightarrow> int" where
  "signed_val neg n = long_clamp (if neg then - int n else int n)"

text \<open>\<^verbatim>\<open>strtol(s, NULL, 10)\<close>, which is \<^verbatim>\<open>atol(s)\<close>.\<close>

definition atol :: "string \<Rightarrow> int" where
  "atol s = (case split_sign (dropWhile c_isspace s) of (neg, t) \<Rightarrow> signed_val neg (num_val 10 t))"

definition atoi :: "string \<Rightarrow> int" where
  "atoi s = sint (word_of_int (atol s) :: 32 word)"

text \<open>\<^verbatim>\<open>strtol(s, NULL, 0)\<close>: the prefix selects base 16, 8 or 10.\<close>

definition strtol0 :: "string \<Rightarrow> int" where
  "strtol0 s = (case split_sign (dropWhile c_isspace s) of (neg, t) \<Rightarrow>
     signed_val neg
       (case t of
          z # x # h # _ \<Rightarrow>
            (if z = CHR ''0'' \<and> x \<in> {CHR ''x'', CHR ''X''} \<and> digit_val h < 16 then num_val 16 (drop 2 t)
             else if z = CHR ''0'' then num_val 8 t else num_val 10 t)
        | z # _ \<Rightarrow> if z = CHR ''0'' then num_val 8 t else num_val 10 t
        | [] \<Rightarrow> 0))"

text \<open>One \<^verbatim>\<open>%d\<close> conversion of \<^verbatim>\<open>sscanf\<close>: the value and the rest of the input.\<close>

definition scan_int :: "string \<Rightarrow> (int \<times> string) option" where
  "scan_int s = (case split_sign (dropWhile c_isspace s) of (neg, t) \<Rightarrow>
     if takeWhile c_isdigit t = [] then None
     else Some (sint (word_of_int (signed_val neg (num_val 10 t)) :: 32 word), dropWhile c_isdigit t))"

definition digit_char :: "nat \<Rightarrow> char" where
  "digit_char d = char_of (48 + d)"

fun dec_nat :: "nat \<Rightarrow> string" where
  "dec_nat n = (if n < 10 then [digit_char n] else dec_nat (n div 10) @ [digit_char (n mod 10)])"

declare dec_nat.simps [simp del]

definition pad0 :: "nat \<Rightarrow> string \<Rightarrow> string" where
  "pad0 w s = replicate (w - length s) (CHR ''0'') @ s"

text \<open>\<^verbatim>\<open>%d\<close>, \<^verbatim>\<open>%0wd\<close> and \<^verbatim>\<open>%lu\<close> of a \<^verbatim>\<open>long\<close>.\<close>

definition fmt_d :: "int \<Rightarrow> string" where
  "fmt_d x = (if x < 0 then CHR ''-'' # dec_nat (nat (- x)) else dec_nat (nat x))"

definition fmt_0d :: "nat \<Rightarrow> int \<Rightarrow> string" where
  "fmt_0d w x = (if x < 0 then CHR ''-'' # pad0 (w - 1) (dec_nat (nat (- x))) else pad0 w (dec_nat (nat x)))"

definition fmt_lu :: "int \<Rightarrow> string" where
  "fmt_lu x = dec_nat (nat (x mod 2 ^ 64))"

section \<open>Return codes\<close>

definition SMS_OK :: int where "SMS_OK = 0"
definition ERR_DB_FAILED :: int where "ERR_DB_FAILED = 3"
definition ERR_DB_NOTFOUND :: int where "ERR_DB_NOTFOUND = 4"
definition ERR_DB_CONNECTION_LOST :: int where "ERR_DB_CONNECTION_LOST = 5"
definition ERR_VERB_UNKNWN :: int where "ERR_VERB_UNKNWN = 9"
definition ERR_VERB_BAD_PARAM :: int where "ERR_VERB_BAD_PARAM = 10"
definition ERR_LOCAL_PHP :: int where "ERR_LOCAL_PHP = 15"
definition ERR_SD_NOT_SUPPORTED :: int where "ERR_SD_NOT_SUPPORTED = 28"
definition ERR_SD_PROVLOCK :: int where "ERR_SD_PROVLOCK = 31"
definition ERR_SD_LOCK :: int where "ERR_SD_LOCK = 32"
definition ERR_SD_FAILED :: int where "ERR_SD_FAILED = 33"
definition ERR_SD_TIMEOUTCONNECT :: int where "ERR_SD_TIMEOUTCONNECT = 39"
definition ERR_SD_NOIP :: int where "ERR_SD_NOIP = 41"
definition ERR_SD_INTRUPDT :: int where "ERR_SD_INTRUPDT = 45"
definition IPCHANGED :: int where "IPCHANGED = 955"

lemmas return_code_defs = SMS_OK_def ERR_DB_FAILED_def ERR_DB_NOTFOUND_def
  ERR_DB_CONNECTION_LOST_def ERR_VERB_UNKNWN_def ERR_VERB_BAD_PARAM_def ERR_LOCAL_PHP_def
  ERR_SD_NOT_SUPPORTED_def ERR_SD_PROVLOCK_def ERR_SD_LOCK_def ERR_SD_FAILED_def
  ERR_SD_TIMEOUTCONNECT_def ERR_SD_NOIP_def ERR_SD_INTRUPDT_def IPCHANGED_def

text \<open>\<^verbatim>\<open>BUFSIZ\<close> of glibc, the size of the daemon's line buffers.\<close>

definition BUFSIZ :: nat where "BUFSIZ = 8192"

section \<open>Lemmas on options\<close>

text \<open>Elimination rules for a monadic program that returned: one disjunct per branch.\<close>

lemma if_eq_Some: "((if b then x else y) = Some z) \<longleftrightarrow> (b \<and> x = Some z) \<or> (\<not> b \<and> y = Some z)"
  by simp

text \<open>For long chains of conditions: the branch taken, without the conditions that failed.\<close>

lemma if_SomeE: "(if b then x else y) = Some z \<Longrightarrow> (b \<Longrightarrow> x = Some z \<Longrightarrow> P) \<Longrightarrow> (y = Some z \<Longrightarrow> P) \<Longrightarrow> P"
  by (simp split: if_splits)

lemma case_prod_eq: "((case p of (a, b) \<Rightarrow> f a b) = z) \<longleftrightarrow> (\<exists>a b. p = (a, b) \<and> f a b = z)"
  by (cases p) simp

lemmas returned = bind_eq_Some_conv if_eq_Some case_prod_eq Let_def

section \<open>Lemmas on strings\<close>

lemma length_cut_pbrk_le: "length (cut_pbrk sel s) \<le> length s"
  by (simp add: cut_pbrk_def length_takeWhile_le)

lemma set_cut_pbrk: "c \<in> set (cut_pbrk sel s) \<Longrightarrow> c \<notin> set sel"
  by (auto simp: cut_pbrk_def dest: set_takeWhileD)

lemma cut_pbrk_id: "set s \<inter> set sel = {} \<Longrightarrow> cut_pbrk sel s = s"
  by (auto simp: cut_pbrk_def takeWhile_eq_all_conv)

lemma cut_pbrk_append: "set s \<inter> set sel = {} \<Longrightarrow> x \<in> set sel \<Longrightarrow> cut_pbrk sel (s @ x # t) = s"
  unfolding cut_pbrk_def by (subst takeWhile_append2) auto

lemma length_skip_blanks_le: "length (skip_blanks s) \<le> length s"
  by (simp add: skip_blanks_def length_dropWhile_le)

lemma skip_blanks_id: "s = [] \<or> \<not> is_blank (hd s) \<Longrightarrow> skip_blanks s = s"
  by (cases s) (auto simp: skip_blanks_def)

lemma hd_skip_blanks: "skip_blanks s \<noteq> [] \<Longrightarrow> \<not> is_blank (hd (skip_blanks s))"
  unfolding skip_blanks_def by (rule hd_dropWhile)

lemma skip_blanks_append: "\<forall>c\<in>set b. is_blank c \<Longrightarrow> skip_blanks (b @ s) = skip_blanks s"
  by (simp add: skip_blanks_def)

lemma length_rtrim_blanks_le: "length (rtrim_blanks s) \<le> length s"
proof -
  have "length (dropWhile is_blank (rev s)) \<le> length (rev s)" by (rule length_dropWhile_le)
  then show ?thesis by (simp add: rtrim_blanks_def)
qed

lemma rtrim_blanks_id: "s = [] \<or> \<not> is_blank (last s) \<Longrightarrow> rtrim_blanks s = s"
  by (cases s rule: rev_cases) (auto simp: rtrim_blanks_def)

lemma last_rtrim_blanks: "rtrim_blanks s \<noteq> [] \<Longrightarrow> \<not> is_blank (last (rtrim_blanks s))"
  using hd_dropWhile [of is_blank "rev s"] by (auto simp: rtrim_blanks_def last_rev)

lemma rtrim_blanks_append: "\<forall>c\<in>set b. is_blank c \<Longrightarrow> rtrim_blanks (s @ b) = rtrim_blanks s"
  unfolding rtrim_blanks_def rev_append by (subst dropWhile_append2) auto

lemma rtrim_blanks_prefix: "\<exists>b. s = rtrim_blanks s @ b \<and> (\<forall>c\<in>set b. is_blank c)"
proof (intro exI conjI)
  have "s = rev (takeWhile is_blank (rev s) @ dropWhile is_blank (rev s))" by simp
  also have "\<dots> = rtrim_blanks s @ rev (takeWhile is_blank (rev s))"
    by (simp only: rev_append rtrim_blanks_def)
  finally show "s = rtrim_blanks s @ rev (takeWhile is_blank (rev s))" .
  show "\<forall>c\<in>set (rev (takeWhile is_blank (rev s))). is_blank c" by (auto dest: set_takeWhileD)
qed

lemma length_sscanf_s: "length (sscanf_s n s) \<le> n"
  by (induction n s rule: sscanf_s.induct) (auto simp: Let_def)

lemma sscanf_s_word:
  "w \<in> set (sscanf_s n s) \<Longrightarrow> w \<noteq> [] \<and> length w \<le> length s \<and> (\<forall>c\<in>set w. \<not> c_isspace c)"
proof (induction n s rule: sscanf_s.induct)
  case (1 s)
  then show ?case by simp
next
  case (2 n s)
  let ?t = "dropWhile c_isspace s"
  from "2.prems" have ne: "?t \<noteq> []" by (auto simp: Let_def split: if_splits)
  have len: "length ?t \<le> length s" by (rule length_dropWhile_le)
  from "2.prems" ne consider (here) "w = takeWhile (\<lambda>c. \<not> c_isspace c) ?t"
    | (later) "w \<in> set (sscanf_s n (dropWhile (\<lambda>c. \<not> c_isspace c) ?t))"
    unfolding sscanf_s.simps Let_def by (metis (lifting) set_ConsD)
  then show ?case
  proof cases
    case here
    have "length (takeWhile (\<lambda>c. \<not> c_isspace c) ?t) \<le> length s"
      using len length_takeWhile_le le_trans by blast
    moreover have "\<not> c_isspace (hd ?t)" by (rule hd_dropWhile [OF ne])
    ultimately show ?thesis
      using here ne by (cases ?t) (auto dest: set_takeWhileD)
  next
    case later
    with "2.IH" [OF refl ne] have
      "w \<noteq> [] \<and> length w \<le> length (dropWhile (\<lambda>c. \<not> c_isspace c) ?t) \<and> (\<forall>c\<in>set w. \<not> c_isspace c)"
      by blast
    moreover have "length (dropWhile (\<lambda>c. \<not> c_isspace c) ?t) \<le> length s"
      using len by (meson le_trans length_dropWhile_le)
    ultimately show ?thesis by linarith
  qed
qed

lemma strchr_split_Some:
  "strchr_split c s = Some (a, b) \<longleftrightarrow> s = a @ c # b \<and> c \<notin> set a"
proof
  assume *: "strchr_split c s = Some (a, b)"
  then have "c \<in> set s" by (simp add: strchr_split_def split: if_splits)
  then obtain p q where "s = p @ c # q" "c \<notin> set p" by (meson split_list_first)
  with * show "s = a @ c # b \<and> c \<notin> set a"
    by (auto simp: strchr_split_def takeWhile_append dropWhile_append split: if_splits)
next
  assume "s = a @ c # b \<and> c \<notin> set a"
  then show "strchr_split c s = Some (a, b)"
    by (auto simp: strchr_split_def takeWhile_append dropWhile_append)
qed

section \<open>Lemmas on numbers\<close>

lemma digit_val_digit_char: "d < 10 \<Longrightarrow> digit_val (digit_char d) = d"
  by (auto simp: digit_val_def digit_char_def Let_def)

lemma digit_char_isdigit: "d < 10 \<Longrightarrow> c_isdigit (digit_char d)"
  by (auto simp: c_isdigit_def digit_char_def)

lemma dec_nat_nonempty [simp]: "dec_nat n \<noteq> []"
  by (subst dec_nat.simps) simp

lemma dec_nat_digits: "c \<in> set (dec_nat n) \<Longrightarrow> c_isdigit c"
proof (induction n rule: dec_nat.induct)
  case (1 n)
  then show ?case
    by (subst (asm) dec_nat.simps) (auto simp: digit_char_isdigit split: if_splits)
qed

lemma digit_val_less_10: "c_isdigit c \<Longrightarrow> digit_val c < 10"
  by (auto simp: c_isdigit_def digit_val_def Let_def)

lemma foldl_dec_nat:
  "foldl (\<lambda>n c. 10 * n + digit_val c) 0 (dec_nat n) = n"
proof (induction n rule: dec_nat.induct)
  case (1 n)
  then show ?case
    by (subst dec_nat.simps) (auto simp: digit_val_digit_char)
qed

lemma num_val_dec_nat: "num_val 10 (dec_nat n) = n"
proof -
  have "takeWhile (\<lambda>c. digit_val c < 10) (dec_nat n) = dec_nat n"
    by (simp add: takeWhile_eq_all_conv digit_val_less_10 dec_nat_digits)
  then show ?thesis by (simp only: num_val_def foldl_dec_nat)
qed

lemma c_isdigit_facts: "c_isdigit c \<Longrightarrow> \<not> c_isspace c \<and> c \<noteq> CHR ''-'' \<and> c \<noteq> CHR ''+''"
  by (auto simp: c_isdigit_def c_isspace_def)

lemma atol_dec_nat: "n < 2 ^ 63 \<Longrightarrow> atol (dec_nat n) = int n"
proof -
  assume n: "n < 2 ^ 63"
  obtain c t where ct: "dec_nat n = c # t" by (cases "dec_nat n") auto
  then have "c_isdigit c" using dec_nat_digits [of c n] by simp
  then have "dropWhile c_isspace (dec_nat n) = dec_nat n" "split_sign (dec_nat n) = (False, dec_nat n)"
    using ct c_isdigit_facts by (auto simp: split_sign_def)
  with n show ?thesis
    by (simp add: atol_def num_val_dec_nat signed_val_def long_clamp_def)
qed

lemma atol_range: "- (2 ^ 63) \<le> atol s \<and> atol s < 2 ^ 63"
  by (auto simp: atol_def signed_val_def long_clamp_def min_def split: prod.splits)

lemma atol_fmt_lu: "0 \<le> x \<Longrightarrow> x < 2 ^ 63 \<Longrightarrow> atol (fmt_lu x) = x"
  using atol_dec_nat [of "nat x"] by (simp add: fmt_lu_def nat_less_iff)

lemma length_dec_nat_less: "n < 10 ^ k \<Longrightarrow> 0 < k \<Longrightarrow> length (dec_nat n) \<le> k"
proof (induction n arbitrary: k rule: dec_nat.induct)
  case (1 n)
  show ?case
  proof (cases "n < 10")
    case True
    with "1.prems" show ?thesis by (subst dec_nat.simps) simp
  next
    case False
    with "1.prems" obtain j where k: "k = Suc j" "0 < j"
      by (cases k; cases "k - 1") auto
    with "1.prems" False have "length (dec_nat (n div 10)) \<le> j"
      by (intro "1.IH") auto
    with False k show ?thesis by (subst dec_nat.simps) simp
  qed
qed

end
