(* ===== verification/Smsd_State.thy ===== *)
theory Smsd_State
  imports Smsd_Prelude
begin

text \<open>
  The state of one daemon task and the interface to the code outside \<^verbatim>\<open>src/sms/smsd\<close>.

  The libraries \<^verbatim>\<open>libsmsbd\<close> (database), \<^verbatim>\<open>libsmsphp\<close> (PHP engine), \<^verbatim>\<open>libnet\<close>
  (sockets), \<^verbatim>\<open>libsmserror\<close> and \<^verbatim>\<open>libgpul\<close> are shipped as objects with headers only, so
  their functions are parameters: the fields \<open>x_f\<close> of the record \<open>ops\<close>, one per C function
  \<open>f\<close>, acting on an abstract world of type \<open>'w\<close>. Nothing is assumed of them here. The task
  state \<open>smsd\<close> holds the client connection, the statistics, the PHP variables of the running
  request, the world, and the list of the external calls made so far, in order, on which the
  resource and protocol properties are stated.

  Functions that always return are HOL functions to a pair of result and state. A function that may
  not return (it loops while the database connection is lost, it reads from a client for as long as
  the client writes, it dereferences a NULL pointer or leaves an array) returns an option, with
  \<open>None\<close> for every execution that does not come back to its caller in a defined way.
\<close>

named_theorems smsd_eff \<open>definitions of the primitive effects on the task state\<close>

section \<open>Data\<close>

text \<open>The fields of \<^verbatim>\<open>sd_like_t\<close> the daemon reads.\<close>

record sd_like =
  sd_cli_prefix :: string
  sd_seqnum :: int
  sd_sdid :: string
  sd_login_entry :: string
  sd_passwd_entry :: string
  sd_passwd_adm :: string
  sd_type :: string
  sd_ip_config :: string
  sd_connected :: int
  sd_prov_lock :: int
  sd_config_step :: int
  man_id :: int
  mod_id :: int

record sd_interface =
  int_ip_type :: string
  int_ip_addr :: string

record sd_info =
  SD :: sd_like
  sd_ext_interface :: "sd_interface option"
  info_sdid :: string
  router_path :: string

record cust_info =
  custid :: string

definition LOG_MESG_LEN :: nat where "LOG_MESG_LEN = 1000"

record fildelog =
  log_cli_prefix :: string
  log_seqnum :: int
  log_msg :: string
  log_level :: int
  log_reference :: string

record sd_updatestatus =
  upd_cli_prefix :: string
  upd_seqnum :: int
  upd_type :: string
  upd_status :: string
  upd_lastdate :: string
  upd_failure_message :: string

record sd_asset =
  as_cli_prefix :: string
  as_seqnum :: int
  as_fields :: "string list"

record sd_provstatus =
  sdps_prefix :: string
  sdps_seqnum :: int
  sdps_stage_index :: int
  sdps_status :: string
  sdps_error_code :: "64 word"
  sdps_error_message :: string

record sd_crud_object =
  crud_cli_prefix :: string
  crud_seqnum :: int
  crud_name :: string
  crud_value :: string

text \<open>The fields of \<^verbatim>\<open>struct tm\<close> the daemon prints.\<close>

record tm =
  tm_year :: int
  tm_mon :: int
  tm_mday :: int
  tm_hour :: int
  tm_min :: int
  tm_sec :: int

text \<open>\<^verbatim>\<open>client_state_t\<close>: \<open>db_ctx\<close> is NULL (\<open>None\<close>) or a handle of the context pool.\<close>

record client_state =
  cfd :: int
  ip_addr_str :: "string option"
  ip_addr_long :: int
  db_ctx :: "nat option"

text \<open>The counters of \<^verbatim>\<open>sms_stat_t\<close>, of type \<^verbatim>\<open>unsigned long\<close>.\<close>

record sms_stat =
  activeThreads :: "64 word"
  totalThreads :: "64 word"
  totalupdate :: "64 word"
  totalerrorupdate :: "64 word"
  totalgetreport :: "64 word"
  totalerrorgetreport :: "64 word"
  totalgetconf :: "64 word"
  totalerrorgetconf :: "64 word"
  totalgetvpnreport :: "64 word"
  totalerrorgetvpnreport :: "64 word"
  totalgetrouterip :: "64 word"
  totalerrorgetrouterip :: "64 word"
  totalcheckupdate :: "64 word"
  totalerrorcheckupdate :: "64 word"
  totalipdown :: "64 word"
  totalerroripdown :: "64 word"
  totalpppipup :: "64 word"
  totalerrorpppipup :: "64 word"

text \<open>A value stored in a PHP global variable.\<close>

datatype php_val =
    PStr "string option"
  | PLong int
  | PBool bool
  | PCsp
  | PSdinfo sd_info
  | PCust cust_info

text \<open>One call of a function outside the daemon, with the arguments the properties speak about.\<close>

datatype ext_call =
    FindCtx nat nat
  | ReleaseCtx "nat option"
  | ReallocCtx nat nat
  | Sql string nat int
  | GetSdInfo string int
  | FreeSdInfo
  | GetCustInfo string int
  | FreeCust
  | SockWrite int string int
  | SockRead int int
  | SockClose int
  | PhpStartup
  | PhpExec string string string int
  | PhpShutdown
  | SetLog int
  | SetAlarm string int int string string
  | SetLogLevel int
  | SetDbgLevel int
  | NewTask string int int bool
  | LogReinit
  | SnmpGet string int
  | SnmpGetNext string int

section \<open>The code outside the daemon\<close>

record 'w sql_ops =
  x_SetSDIPConfig :: "nat \<Rightarrow> string \<Rightarrow> int \<Rightarrow> string \<Rightarrow> int \<Rightarrow> 'w \<Rightarrow> int \<times> 'w"
  x_SetSDUpdated :: "nat \<Rightarrow> string \<Rightarrow> int \<Rightarrow> int \<Rightarrow> 'w \<Rightarrow> int \<times> 'w"
  x_SetSDprovlock :: "nat \<Rightarrow> string \<Rightarrow> int \<Rightarrow> int \<Rightarrow> 'w \<Rightarrow> int \<times> 'w"
  x_GetSDprovlock :: "nat \<Rightarrow> string \<Rightarrow> int \<Rightarrow> int \<Rightarrow> 'w \<Rightarrow> (int \<times> int) \<times> 'w"
  x_SetLock :: "nat \<Rightarrow> string \<Rightarrow> int \<Rightarrow> int \<Rightarrow> 'w \<Rightarrow> (int \<times> int) \<times> 'w"
  x_UnLock :: "nat \<Rightarrow> string \<Rightarrow> int \<Rightarrow> 'w \<Rightarrow> int \<times> 'w"
  x_UnLockAll :: "nat \<Rightarrow> string option \<Rightarrow> 'w \<Rightarrow> int \<times> 'w"
  x_SetProvDate :: "nat \<Rightarrow> string \<Rightarrow> int \<Rightarrow> 'w \<Rightarrow> int \<times> 'w"
  x_SetSDConfigStep :: "nat \<Rightarrow> string \<Rightarrow> int \<Rightarrow> int \<Rightarrow> 'w \<Rightarrow> int \<times> 'w"
  x_SetSDConnected :: "nat \<Rightarrow> string \<Rightarrow> int \<Rightarrow> int \<Rightarrow> 'w \<Rightarrow> int \<times> 'w"
  x_GetAsset :: "nat \<Rightarrow> sd_asset \<Rightarrow> 'w \<Rightarrow> (int \<times> sd_asset) \<times> 'w"
  x_GetSDToUpdateFirst :: "nat \<Rightarrow> sd_like option \<Rightarrow> 'w \<Rightarrow> (int \<times> sd_like option) \<times> 'w"
  x_GetSDToUpdateNext :: "nat \<Rightarrow> sd_like option \<Rightarrow> 'w \<Rightarrow> (int \<times> sd_like option) \<times> 'w"
  x_InitProvStatus :: "nat \<Rightarrow> string \<Rightarrow> int \<Rightarrow> int \<Rightarrow> string list \<Rightarrow> 'w \<Rightarrow> int \<times> 'w"
  x_SetProvStatus :: "nat \<Rightarrow> string \<Rightarrow> int \<Rightarrow> int \<Rightarrow> string option \<Rightarrow> string option \<Rightarrow> 32 word \<Rightarrow> string \<Rightarrow> 'w \<Rightarrow> int \<times> 'w"
  x_GetProvStatus :: "nat \<Rightarrow> sd_provstatus \<Rightarrow> 'w \<Rightarrow> (int \<times> sd_provstatus) \<times> 'w"
  x_SetPollMode :: "nat \<Rightarrow> string \<Rightarrow> int \<Rightarrow> int \<Rightarrow> 'w \<Rightarrow> int \<times> 'w"
  x_SetSDPing :: "nat \<Rightarrow> string \<Rightarrow> int \<Rightarrow> int \<Rightarrow> int \<Rightarrow> int \<Rightarrow> 'w \<Rightarrow> int \<times> 'w"

record 'w db_ops =
  x_sql :: "'w sql_ops"
  x_find_ctx :: "nat \<Rightarrow> 'w \<Rightarrow> nat \<times> 'w"
  x_release_ctx :: "nat option \<Rightarrow> 'w \<Rightarrow> 'w"
  x_AllocateContext :: "nat \<Rightarrow> nat \<Rightarrow> 'w \<Rightarrow> 'w"
  x_get_sd_info :: "nat option \<Rightarrow> string \<Rightarrow> 'w \<Rightarrow> (int \<times> sd_info) \<times> 'w"
  x_get_cust_info :: "nat option \<Rightarrow> string \<Rightarrow> 'w \<Rightarrow> (int \<times> cust_info) \<times> 'w"
  x_SetSDAssetUpdate :: "nat \<Rightarrow> string \<Rightarrow> int \<Rightarrow> int \<Rightarrow> 'w \<Rightarrow> int \<times> 'w"
  x_GetUpdateStatus :: "nat \<Rightarrow> sd_updatestatus \<Rightarrow> 'w \<Rightarrow> (int \<times> sd_updatestatus) \<times> 'w"
  x_SetUpdateStatus :: "nat \<Rightarrow> sd_updatestatus \<Rightarrow> 'w \<Rightarrow> int \<times> 'w"
  x_ResetSDCrudObjects :: "nat \<Rightarrow> sd_crud_object \<Rightarrow> 'w \<Rightarrow> int \<times> 'w"
  x_SetSDCrudObjects :: "nat \<Rightarrow> sd_crud_object \<Rightarrow> 'w \<Rightarrow> int \<times> 'w"
  x_DeleteSDCrudObjects :: "nat \<Rightarrow> sd_crud_object \<Rightarrow> 'w \<Rightarrow> int \<times> 'w"
  x_GetSDconnectedFirst :: "nat \<Rightarrow> 'w \<Rightarrow> (int \<times> sd_like) \<times> 'w"
  x_GetSDconnectedNext :: "nat \<Rightarrow> 'w \<Rightarrow> (int \<times> sd_like) \<times> 'w"
  x_set_log_by_id :: "nat option \<Rightarrow> fildelog \<Rightarrow> 'w \<Rightarrow> int \<times> 'w"
  x_set_sd_alarm :: "string \<Rightarrow> int \<Rightarrow> int \<Rightarrow> string \<Rightarrow> string \<Rightarrow> 'w \<Rightarrow> 'w"

text \<open>
  \<open>x_shutdownRequired\<close> is the value the volatile flag \<^verbatim>\<open>shutdownRequired\<close> has when it is read:
  the signal handler sets it at any time, so the flag is seen through the world.
\<close>

record 'w ops =
  x_db :: "'w db_ops"
  x_shutdownRequired :: "'w \<Rightarrow> bool"
  x_socketWrite :: "int \<Rightarrow> string \<Rightarrow> 'w \<Rightarrow> int \<times> 'w"
  x_socketReadLine :: "int \<Rightarrow> nat \<Rightarrow> nat \<Rightarrow> 'w \<Rightarrow> (int \<times> string) \<times> 'w"
  x_socketClose :: "int \<Rightarrow> 'w \<Rightarrow> int \<times> 'w"
  x_execute_script :: "string \<Rightarrow> string \<Rightarrow> string \<Rightarrow> (string \<times> php_val) list \<Rightarrow> client_state \<Rightarrow> 'w \<Rightarrow> int \<times> client_state \<times> 'w"
  x_get_global_str :: "string \<Rightarrow> 'w \<Rightarrow> string option"
  x_get_error_message :: "int \<Rightarrow> string option"
  x_get_error_code_str :: "int \<Rightarrow> string option"
  x_get_error_code_num :: "int \<Rightarrow> 32 word"
  x_backslashify :: "string \<Rightarrow> string"
  x_get_router_config_type :: "int \<Rightarrow> int \<Rightarrow> string option"
  x_sched_new_task :: "string \<Rightarrow> int \<Rightarrow> int \<Rightarrow> 'w \<Rightarrow> bool \<times> 'w"
  x_sched_stats :: "'w \<Rightarrow> string"
  x_now :: "'w \<Rightarrow> int \<times> tm"
  x_log_reinit :: "'w \<Rightarrow> 'w"
  x_LogSetLevel :: "int \<Rightarrow> 'w \<Rightarrow> 'w"
  x_DbgSetLevel :: "int \<Rightarrow> 'w \<Rightarrow> 'w"
  x_doSnmpGet :: "string \<Rightarrow> int \<Rightarrow> 'w \<Rightarrow> int \<times> 'w"
  x_doSnmpGetNext :: "string \<Rightarrow> int \<Rightarrow> 'w \<Rightarrow> int \<times> 'w"

section \<open>The task state and its primitive effects\<close>

record 'w smsd =
  csp :: client_state
  currentStat :: sms_stat
  php_vars :: "(string \<times> php_val) list"
  calls :: "ext_call list"
  world :: 'w

abbreviation (input) DB_SMS :: nat where "DB_SMS \<equiv> 0"
abbreviation (input) DB_CUST :: nat where "DB_CUST \<equiv> 1"

definition log_call :: "ext_call \<Rightarrow> 'w smsd \<Rightarrow> 'w smsd" where
  "log_call c s = s\<lparr>calls := calls s @ [c]\<rparr>"

definition shutdownRequired :: "'w ops \<Rightarrow> 'w smsd \<Rightarrow> bool" where
  "shutdownRequired ops s = x_shutdownRequired ops (world s)"

definition set_db_ctx :: "nat option \<Rightarrow> 'w smsd \<Rightarrow> 'w smsd" where
  "set_db_ctx c s = s\<lparr>csp := (csp s)\<lparr>db_ctx := c\<rparr>\<rparr>"

definition set_cfd :: "int \<Rightarrow> 'w smsd \<Rightarrow> 'w smsd" where
  "set_cfd fd s = s\<lparr>csp := (csp s)\<lparr>cfd := fd\<rparr>\<rparr>"

abbreviation ctx_of :: "'w smsd \<Rightarrow> nat option" where "ctx_of s \<equiv> db_ctx (csp s)"

definition sms_db_find_ctx :: "'w ops \<Rightarrow> nat \<Rightarrow> 'w smsd \<Rightarrow> nat \<times> 'w smsd" where
  "sms_db_find_ctx ops db s =
     (let (h, w) = x_find_ctx (x_db ops) db (world s) in (h, log_call (FindCtx db h) (s\<lparr>world := w\<rparr>)))"

definition sms_db_release_ctx :: "'w ops \<Rightarrow> nat option \<Rightarrow> 'w smsd \<Rightarrow> 'w smsd" where
  "sms_db_release_ctx ops c s = log_call (ReleaseCtx c) (s\<lparr>world := x_release_ctx (x_db ops) c (world s)\<rparr>)"

definition HA_SMSSQL_AllocateContext :: "'w ops \<Rightarrow> nat \<Rightarrow> nat \<Rightarrow> 'w smsd \<Rightarrow> 'w smsd" where
  "HA_SMSSQL_AllocateContext ops c db s =
     log_call (ReallocCtx c db) (s\<lparr>world := x_AllocateContext (x_db ops) c db (world s)\<rparr>)"

text \<open>The macro \<^verbatim>\<open>RELEASE_BD_CTX\<close> of \<^verbatim>\<open>bd.h\<close>.\<close>

definition RELEASE_BD_CTX :: "'w ops \<Rightarrow> 'w smsd \<Rightarrow> 'w smsd" where
  "RELEASE_BD_CTX ops s = set_db_ctx None (sms_db_release_ctx ops (ctx_of s) s)"

text \<open>\<^verbatim>\<open>if (csp->db_ctx == NULL) { csp->db_ctx = sms_db_find_ctx(...); release_db_ctx = 1; }\<close>\<close>

definition need_ctx :: "'w ops \<Rightarrow> 'w smsd \<Rightarrow> bool \<times> 'w smsd" where
  "need_ctx ops s = (if ctx_of s = None
     then let (h, s) = sms_db_find_ctx ops DB_SMS s in (True, set_db_ctx (Some h) s)
     else (False, s))"

text \<open>\<^verbatim>\<open>if (release_db_ctx) sms_db_release_ctx(csp->db_ctx);\<close> (the pointer keeps its value)\<close>

definition drop_ctx :: "'w ops \<Rightarrow> bool \<Rightarrow> 'w smsd \<Rightarrow> 'w smsd" where
  "drop_ctx ops release_db_ctx s = (if release_db_ctx then sms_db_release_ctx ops (ctx_of s) s else s)"

text \<open>A call of a database function on context \<open>c\<close>: its code is recorded.\<close>

definition sql_call :: "string \<Rightarrow> nat \<Rightarrow> ('w \<Rightarrow> (int \<times> 'a) \<times> 'w) \<Rightarrow> 'w smsd \<Rightarrow> (int \<times> 'a) \<times> 'w smsd" where
  "sql_call name c f s =
     (let ((r, y), w) = f (world s) in ((r, y), log_call (Sql name c r) (s\<lparr>world := w\<rparr>)))"

definition no_out :: "('w \<Rightarrow> int \<times> 'w) \<Rightarrow> 'w \<Rightarrow> (int \<times> unit) \<times> 'w" where
  "no_out f w = (let (r, w) = f w in ((r, ()), w))"

definition socketWrite :: "'w ops \<Rightarrow> int \<Rightarrow> string \<Rightarrow> 'w smsd \<Rightarrow> int \<times> 'w smsd" where
  "socketWrite ops fd bytes s =
     (let (r, w) = x_socketWrite ops fd bytes (world s) in (r, log_call (SockWrite fd bytes r) (s\<lparr>world := w\<rparr>)))"

definition socketReadLine :: "'w ops \<Rightarrow> int \<Rightarrow> nat \<Rightarrow> nat \<Rightarrow> 'w smsd \<Rightarrow> (int \<times> string) \<times> 'w smsd" where
  "socketReadLine ops fd n t s =
     (let ((r, b), w) = x_socketReadLine ops fd n t (world s) in ((r, b), log_call (SockRead fd r) (s\<lparr>world := w\<rparr>)))"

definition socketClose :: "'w ops \<Rightarrow> int \<Rightarrow> 'w smsd \<Rightarrow> int \<times> 'w smsd" where
  "socketClose ops fd s =
     (let (r, w) = x_socketClose ops fd (world s) in (r, log_call (SockClose fd) (s\<lparr>world := w\<rparr>)))"

text \<open>\<^verbatim>\<open>SMS_PHP_STARTUP_THREAD\<close>, \<^verbatim>\<open>sms_mod_php_*\<close> and \<^verbatim>\<open>SMS_PHP_SHUTDOWN_THREAD\<close>.\<close>

definition php_startup :: "'w smsd \<Rightarrow> 'w smsd" where
  "php_startup s = log_call PhpStartup (s\<lparr>php_vars := []\<rparr>)"

definition php_set :: "string \<Rightarrow> php_val \<Rightarrow> 'w smsd \<Rightarrow> 'w smsd" where
  "php_set n v s = s\<lparr>php_vars := php_vars s @ [(n, v)]\<rparr>"

definition php_execute :: "'w ops \<Rightarrow> string \<Rightarrow> string \<Rightarrow> string \<Rightarrow> 'w smsd \<Rightarrow> int \<times> 'w smsd" where
  "php_execute ops sid modl script s =
     (let (r, c, w) = x_execute_script ops sid modl script (php_vars s) (csp s) (world s)
      in (r, log_call (PhpExec sid modl script r) (s\<lparr>csp := c, world := w\<rparr>)))"

definition php_get_str :: "'w ops \<Rightarrow> string \<Rightarrow> 'w smsd \<Rightarrow> string option" where
  "php_get_str ops n s = x_get_global_str ops n (world s)"

definition php_shutdown :: "'w smsd \<Rightarrow> 'w smsd" where
  "php_shutdown s = log_call PhpShutdown (s\<lparr>php_vars := []\<rparr>)"

text \<open>\<^verbatim>\<open>getSDinfo\<close> and \<^verbatim>\<open>freeSDinfo\<close> of \<^verbatim>\<open>router.c\<close> pass their arguments on to the library.\<close>

definition getSDinfo :: "'w ops \<Rightarrow> string \<Rightarrow> 'w smsd \<Rightarrow> (int \<times> sd_info) \<times> 'w smsd" where
  "getSDinfo ops sid s =
     (let ((r, i), w) = x_get_sd_info (x_db ops) (ctx_of s) sid (world s)
      in ((r, i), log_call (GetSdInfo sid r) (s\<lparr>world := w\<rparr>)))"

definition freeSDinfo :: "'w smsd \<Rightarrow> 'w smsd" where
  "freeSDinfo s = log_call FreeSdInfo s"

definition get_cust_info :: "'w ops \<Rightarrow> string \<Rightarrow> 'w smsd \<Rightarrow> (int \<times> cust_info) \<times> 'w smsd" where
  "get_cust_info ops cid s =
     (let ((r, i), w) = x_get_cust_info (x_db ops) (ctx_of s) cid (world s)
      in ((r, i), log_call (GetCustInfo cid r) (s\<lparr>world := w\<rparr>)))"

definition set_log_by_id :: "'w ops \<Rightarrow> nat option \<Rightarrow> fildelog \<Rightarrow> 'w smsd \<Rightarrow> int \<times> 'w smsd" where
  "set_log_by_id ops c l s =
     (let (r, w) = x_set_log_by_id (x_db ops) c l (world s) in (r, log_call (SetLog r) (s\<lparr>world := w\<rparr>)))"

definition set_sd_alarm :: "'w ops \<Rightarrow> string \<Rightarrow> int \<Rightarrow> int \<Rightarrow> string \<Rightarrow> string \<Rightarrow> 'w smsd \<Rightarrow> 'w smsd" where
  "set_sd_alarm ops pre seq sev ref msg s =
     log_call (SetAlarm pre seq sev ref msg)
       (s\<lparr>world := x_set_sd_alarm (x_db ops) pre seq sev ref msg (world s)\<rparr>)"

lemmas smsd_eff_defs [smsd_eff] = log_call_def set_db_ctx_def set_cfd_def sms_db_find_ctx_def
  sms_db_release_ctx_def HA_SMSSQL_AllocateContext_def RELEASE_BD_CTX_def need_ctx_def drop_ctx_def
  sql_call_def no_out_def socketWrite_def socketReadLine_def socketClose_def php_startup_def php_set_def
  php_execute_def php_shutdown_def getSDinfo_def freeSDinfo_def get_cust_info_def set_log_by_id_def
  set_sd_alarm_def

section \<open>Identifiers of site devices\<close>

text \<open>
  A device identifier is a three-character customer prefix followed by a decimal sequence
  number. \<^verbatim>\<open>SDid + PREFIXSIZE\<close> lies inside the string only when the prefix is complete.
\<close>

definition PREFIXSIZE :: nat where "PREFIXSIZE = 3"

definition split_sdid :: "string \<Rightarrow> (string \<times> int) option" where
  "split_sdid sid = (if PREFIXSIZE \<le> length sid
     then Some (take PREFIXSIZE sid, atol (drop PREFIXSIZE sid)) else None)"

text \<open>\<^verbatim>\<open>sprintf(buf, "%s%lu", SD->sd_cli_prefix, SD->sd_seqnum)\<close>\<close>

definition make_sdid :: "string \<Rightarrow> int \<Rightarrow> string" where
  "make_sdid pre seq = pre @ fmt_lu seq"

lemma split_make_sdid:
  "length pre = PREFIXSIZE \<Longrightarrow> 0 \<le> seq \<Longrightarrow> seq < 2 ^ 63 \<Longrightarrow>
   split_sdid (make_sdid pre seq) = Some (pre, seq)"
  by (simp add: split_sdid_def make_sdid_def atol_fmt_lu)

section \<open>Frame lemmas\<close>

text \<open>Which fields the primitive effects leave alone, and how they extend the list of calls.\<close>

lemma log_call_simps [simp]:
  "calls (log_call c s) = calls s @ [c]" "csp (log_call c s) = csp s"
  "currentStat (log_call c s) = currentStat s" "php_vars (log_call c s) = php_vars s"
  "world (log_call c s) = world s"
  by (simp_all add: log_call_def)

lemma set_db_ctx_simps [simp]:
  "calls (set_db_ctx c s) = calls s" "csp (set_db_ctx c s) = (csp s)\<lparr>db_ctx := c\<rparr>"
  "currentStat (set_db_ctx c s) = currentStat s" "world (set_db_ctx c s) = world s"
  "php_vars (set_db_ctx c s) = php_vars s"
  by (simp_all add: set_db_ctx_def)

lemma set_cfd_simps [simp]:
  "calls (set_cfd c s) = calls s" "csp (set_cfd c s) = (csp s)\<lparr>cfd := c\<rparr>"
  "currentStat (set_cfd c s) = currentStat s" "world (set_cfd c s) = world s"
  by (simp_all add: set_cfd_def)

lemma RELEASE_BD_CTX_simps [simp]:
  "csp (RELEASE_BD_CTX ops s) = (csp s)\<lparr>db_ctx := None\<rparr>"
  "calls (RELEASE_BD_CTX ops s) = calls s @ [ReleaseCtx (ctx_of s)]"
  "currentStat (RELEASE_BD_CTX ops s) = currentStat s"
  by (simp_all add: RELEASE_BD_CTX_def sms_db_release_ctx_def)

lemma sms_db_release_ctx_simps [simp]:
  "csp (sms_db_release_ctx ops c s) = csp s"
  "calls (sms_db_release_ctx ops c s) = calls s @ [ReleaseCtx c]"
  "currentStat (sms_db_release_ctx ops c s) = currentStat s"
  by (simp_all add: sms_db_release_ctx_def)

lemma sms_db_find_ctx_D:
  "sms_db_find_ctx ops db s = (h, s') \<Longrightarrow>
   csp s' = csp s \<and> currentStat s' = currentStat s \<and> calls s' = calls s @ [FindCtx db h]"
  by (auto simp: sms_db_find_ctx_def split: prod.splits)

lemma need_ctx_D:
  "need_ctx ops s = (acq, s') \<Longrightarrow>
   currentStat s' = currentStat s \<and> cfd (csp s') = cfd (csp s) \<and> (\<exists>h. ctx_of s' = Some h) \<and>
   (acq \<longleftrightarrow> ctx_of s = None) \<and>
   calls s' = calls s @ (if acq then [FindCtx DB_SMS (the (ctx_of s'))] else [])"
  by (auto simp: need_ctx_def Let_def dest!: sms_db_find_ctx_D split: prod.splits if_splits)

lemma sql_call_D:
  "sql_call n c f s = ((r, y), s') \<Longrightarrow>
   csp s' = csp s \<and> currentStat s' = currentStat s \<and> calls s' = calls s @ [Sql n c r]"
  by (auto simp: sql_call_def split: prod.splits)

lemma socketWrite_D:
  "socketWrite ops fd b s = (r, s') \<Longrightarrow>
   csp s' = csp s \<and> currentStat s' = currentStat s \<and> php_vars s' = php_vars s \<and>
   calls s' = calls s @ [SockWrite fd b r]"
  by (auto simp: socketWrite_def split: prod.splits)

lemma socketClose_D:
  "socketClose ops fd s = (r, s') \<Longrightarrow>
   csp s' = csp s \<and> currentStat s' = currentStat s \<and> calls s' = calls s @ [SockClose fd]"
  by (auto simp: socketClose_def split: prod.splits)

lemma getSDinfo_D:
  "getSDinfo ops sid s = ((r, i), s') \<Longrightarrow>
   csp s' = csp s \<and> currentStat s' = currentStat s \<and> calls s' = calls s @ [GetSdInfo sid r]"
  by (auto simp: getSDinfo_def split: prod.splits)

lemma set_log_by_id_D:
  "set_log_by_id ops c l s = (r, s') \<Longrightarrow>
   csp s' = csp s \<and> currentStat s' = currentStat s \<and> calls s' = calls s @ [SetLog r]"
  by (auto simp: set_log_by_id_def split: prod.splits)

lemma php_execute_D:
  "php_execute ops sid m sc s = (r, s') \<Longrightarrow>
   currentStat s' = currentStat s \<and> calls s' = calls s @ [PhpExec sid m sc r]"
  by (auto simp: php_execute_def split: prod.splits)

lemma php_simps [simp]:
  "calls (php_startup s) = calls s @ [PhpStartup]" "calls (php_shutdown s) = calls s @ [PhpShutdown]"
  "calls (php_set n v s) = calls s" "csp (php_startup s) = csp s" "csp (php_shutdown s) = csp s"
  "csp (php_set n v s) = csp s" "currentStat (php_startup s) = currentStat s"
  "currentStat (php_shutdown s) = currentStat s" "currentStat (php_set n v s) = currentStat s"
  "world (php_startup s) = world s" "world (php_shutdown s) = world s" "world (php_set n v s) = world s"
  "php_vars (php_startup s) = []" "php_vars (php_set n v s) = php_vars s @ [(n, v)]"
  by (simp_all add: php_startup_def php_shutdown_def php_set_def)

lemma freeSDinfo_simps [simp]:
  "calls (freeSDinfo s) = calls s @ [FreeSdInfo]" "csp (freeSDinfo s) = csp s"
  "currentStat (freeSDinfo s) = currentStat s"
  by (simp_all add: freeSDinfo_def)

section \<open>Ownership of database contexts\<close>

text \<open>
  The context handles a task holds, read off its calls: \<open>FindCtx\<close> takes a handle,
  \<open>ReleaseCtx (Some h)\<close> gives it back. \<open>None\<close> marks the release of a handle the task does not
  hold: by then the pool may have given it to another task.
\<close>

fun ctx_run :: "nat list \<Rightarrow> ext_call list \<Rightarrow> nat list option" where
  "ctx_run held [] = Some held"
| "ctx_run held (FindCtx db h # cs) = ctx_run (h # held) cs"
| "ctx_run held (ReleaseCtx (Some h) # cs) = (if h \<in> set held then ctx_run (remove1 h held) cs else None)"
| "ctx_run held (_ # cs) = ctx_run held cs"

lemma ctx_run_append:
  "ctx_run held (cs @ ds) = (case ctx_run held cs of None \<Rightarrow> None | Some held' \<Rightarrow> ctx_run held' ds)"
  by (induction held cs rule: ctx_run.induct) auto

text \<open>Calls of the PHP engine, and the discipline they follow: a script runs between the start and the
  end of a session, and sessions are not nested. \<open>None\<close> marks a violation.\<close>

fun is_php :: "ext_call \<Rightarrow> bool" where
  "is_php PhpStartup = True"
| "is_php PhpShutdown = True"
| "is_php (PhpExec sid m sc r) = True"
| "is_php _ = False"

fun php_run :: "bool \<Rightarrow> ext_call list \<Rightarrow> bool option" where
  "php_run active [] = Some active"
| "php_run active (PhpStartup # cs) = (if active then None else php_run True cs)"
| "php_run active (PhpShutdown # cs) = (if active then php_run False cs else None)"
| "php_run active (PhpExec sid m sc r # cs) = (if active then php_run True cs else None)"
| "php_run active (_ # cs) = php_run active cs"

lemma php_run_append:
  "php_run active (cs @ ds) = (case php_run active cs of None \<Rightarrow> None | Some active' \<Rightarrow> php_run active' ds)"
  by (induction active cs rule: php_run.induct) auto

lemma php_run_no_php: "list_all (\<lambda>d. \<not> is_php d) cs \<Longrightarrow> php_run active cs = Some active"
  by (induction active cs rule: php_run.induct) auto

text \<open>Calls that neither take nor give back a context.\<close>

fun ctx_neutral :: "ext_call \<Rightarrow> bool" where
  "ctx_neutral (FindCtx db h) = False"
| "ctx_neutral (ReleaseCtx (Some h)) = False"
| "ctx_neutral _ = True"

lemma ctx_run_neutral: "list_all ctx_neutral cs \<Longrightarrow> ctx_run held cs = Some held"
  by (induction held cs rule: ctx_run.induct) auto

lemma ctx_run_append_neutral [simp]:
  "list_all ctx_neutral ds \<Longrightarrow> ctx_run held (cs @ ds) = ctx_run held cs"
  by (simp add: ctx_run_append ctx_run_neutral split: option.splits)

text \<open>A step that keeps the client state and the counters and takes and gives back no context.\<close>

definition quiet :: "'w smsd \<Rightarrow> 'w smsd \<Rightarrow> bool" where
  "quiet s s' \<longleftrightarrow> csp s' = csp s \<and> currentStat s' = currentStat s \<and>
     (\<exists>ds. calls s' = calls s @ ds \<and> list_all ctx_neutral ds)"

lemma quietI:
  "csp s' = csp s \<Longrightarrow> currentStat s' = currentStat s \<Longrightarrow> calls s' = calls s @ ds \<Longrightarrow> list_all ctx_neutral ds \<Longrightarrow> quiet s s'"
  unfolding quiet_def by blast

lemma quiet_refl [simp]: "quiet s s"
  by (auto simp: quiet_def)

lemma quiet_trans [trans]: "quiet s s' \<Longrightarrow> quiet s' s'' \<Longrightarrow> quiet s s''"
  unfolding quiet_def by auto

lemma quiet_csp: "quiet s s' \<Longrightarrow> csp s' = csp s"
  by (simp add: quiet_def)

lemma quiet_sql_call: "sql_call n c f s = (ry, s') \<Longrightarrow> quiet s s'"
  by (cases ry) (auto intro!: quietI dest: sql_call_D)

lemma quiet_getSDinfo: "getSDinfo ops sid s = (ri, s') \<Longrightarrow> quiet s s'"
  by (cases ri) (auto intro!: quietI dest: getSDinfo_D)

lemma quiet_set_log_by_id: "set_log_by_id ops c l s = (r, s') \<Longrightarrow> quiet s s'"
  by (auto intro!: quietI dest: set_log_by_id_D)

lemma quiet_socketWrite: "socketWrite ops fd b s = (r, s') \<Longrightarrow> quiet s s'"
  by (auto intro!: quietI dest: socketWrite_D)

text \<open>
  A step that borrows a context: it takes one if the task has none, gives back exactly what it took,
  and keeps the context the task had.
\<close>

definition ctx_balanced :: "'w smsd \<Rightarrow> 'w smsd \<Rightarrow> bool" where
  "ctx_balanced s s' \<longleftrightarrow> (\<exists>ds. calls s' = calls s @ ds \<and> (\<forall>held. ctx_run held ds = Some held))"

definition borrowed :: "'w smsd \<Rightarrow> 'w smsd \<Rightarrow> bool" where
  "borrowed s s' \<longleftrightarrow> ctx_balanced s s' \<and> currentStat s' = currentStat s \<and> cfd (csp s') = cfd (csp s) \<and>
     (\<exists>h. ctx_of s' = Some h) \<and> (ctx_of s \<noteq> None \<longrightarrow> ctx_of s' = ctx_of s)"

lemma borrow_ctx:
  assumes n: "need_ctx ops s = (acq, s1)" and q: "quiet s1 s2"
  shows "borrowed s (drop_ctx ops acq s2)"
proof -
  note s1 = need_ctx_D [OF n]
  from q obtain ds where ds: "calls s2 = calls s1 @ ds" "list_all ctx_neutral ds" and c: "csp s2 = csp s1"
    "currentStat s2 = currentStat s1" by (auto simp: quiet_def)
  show ?thesis
  proof (cases acq)
    case True
    with s1 obtain h where h: "ctx_of s1 = Some h" "calls s1 = calls s @ [FindCtx DB_SMS h]" by auto
    have "ctx_run (h # held) (ds @ [ReleaseCtx (Some h)]) = Some held" for held
      using ds by (simp add: ctx_run_append ctx_run_neutral)
    moreover have "calls (drop_ctx ops acq s2) = calls s @ (FindCtx DB_SMS h # ds @ [ReleaseCtx (Some h)])"
      using True h c ds by (simp add: drop_ctx_def)
    ultimately have "ctx_balanced s (drop_ctx ops acq s2)" 
      unfolding ctx_balanced_def by (intro exI [of _ "FindCtx DB_SMS h # ds @ [ReleaseCtx (Some h)]"]) simp
    moreover have "currentStat s1 = currentStat s" "cfd (csp s1) = cfd (csp s)" "ctx_of s = None"
      using s1 True by auto
    ultimately show ?thesis using True h(1) c by (simp add: borrowed_def drop_ctx_def)
  next
    case False
    with n have "s1 = s" by (auto simp: need_ctx_def split: if_splits prod.splits)
    with False s1 c ds show ?thesis by (auto simp: borrowed_def ctx_balanced_def drop_ctx_def ctx_run_neutral)
  qed
qed

end
