(* ===== verification/Smsd_Instance.thy ===== *)
theory Smsd_Instance
  imports Smsd_State
begin

text \<open>
  One instance of the parameters: a database in memory, a client whose input lines are given, PHP
  scripts that succeed. It is used only to evaluate the model on concrete inputs and to show that the
  hypotheses on the parameters can be met together.
\<close>

record mem =
  m_prov :: "string \<times> int \<Rightarrow> int"
  m_lock :: "string \<times> int \<Rightarrow> bool"
  m_lost :: nat
  m_ctx :: nat
  m_stop :: bool
  m_input :: "string list"
  m_script :: int

definition mem_sd :: sd_like where
  "mem_sd = \<lparr>sd_cli_prefix = ''ABC'', sd_seqnum = 12, sd_sdid = ''ABC12'', sd_login_entry = ''adm'',
     sd_passwd_entry = ''pw'', sd_passwd_adm = ''pwa'', sd_type = ''R'', sd_ip_config = ''10.0.0.1'', sd_connected = 1,
     sd_prov_lock = 0, sd_config_step = 0, man_id = 1, mod_id = 1\<rparr>"

definition mem_info :: sd_info where
  "mem_info = \<lparr>SD = mem_sd, sd_ext_interface = Some \<lparr>int_ip_type = ''D'', int_ip_addr = ''10.0.0.1''\<rparr>,
     info_sdid = ''ABC12'', router_path = ''cisco''\<rparr>"

definition mem_sql :: "mem sql_ops" where
  "mem_sql = \<lparr>
     x_SetSDIPConfig = (\<lambda>c p n ip f w. (0, w)),
     x_SetSDUpdated = (\<lambda>c p n f w. if m_lost w = 0 then (0, w) else (5, w\<lparr>m_lost := m_lost w - 1\<rparr>)),
     x_SetSDprovlock = (\<lambda>c p n v w. (0, w\<lparr>m_prov := (m_prov w)((p, n) := v)\<rparr>)),
     x_GetSDprovlock = (\<lambda>c p n y w. ((0, m_prov w (p, n)), w)),
     x_SetLock = (\<lambda>c p n y w. if m_lock w (p, n) then ((0, 0), w)
        else ((0, 1), w\<lparr>m_lock := (m_lock w)((p, n) := True)\<rparr>)),
     x_UnLock = (\<lambda>c p n w. (0, w\<lparr>m_lock := (m_lock w)((p, n) := False)\<rparr>)),
     x_UnLockAll = (\<lambda>c m w. (0, w\<lparr>m_lock := (\<lambda>_. False)\<rparr>)),
     x_SetProvDate = (\<lambda>c p n w. (0, w)),
     x_SetSDConfigStep = (\<lambda>c p n v w. (0, w)),
     x_SetSDConnected = (\<lambda>c p n v w. (0, w)),
     x_GetAsset = (\<lambda>c a w. ((0, a), w)),
     x_GetSDToUpdateFirst = (\<lambda>c sd w. ((0, Some mem_sd), w)),
     x_GetSDToUpdateNext = (\<lambda>c sd w. ((4, sd), w)),
     x_InitProvStatus = (\<lambda>c p n k l w. (0, w)),
     x_SetProvStatus = (\<lambda>c p n k a b e m w. (0, w)),
     x_GetProvStatus = (\<lambda>c p w. ((0, p), w)),
     x_SetPollMode = (\<lambda>c p n v w. (0, w)),
     x_SetSDPing = (\<lambda>c p n a b d w. (0, w))\<rparr>"

definition mem_db :: "mem db_ops" where
  "mem_db = \<lparr>
     x_sql = mem_sql,
     x_find_ctx = (\<lambda>db w. (m_ctx w, w\<lparr>m_ctx := Suc (m_ctx w)\<rparr>)),
     x_release_ctx = (\<lambda>c w. w),
     x_AllocateContext = (\<lambda>c db w. w),
     x_get_sd_info = (\<lambda>c sid w. if sid = ''ABC12'' then ((0, mem_info), w) else ((4, mem_info), w)),
     x_get_cust_info = (\<lambda>c cid w. ((0, \<lparr>custid = cid\<rparr>), w)),
     x_SetSDAssetUpdate = (\<lambda>c p n v w. (0, w)),
     x_GetUpdateStatus = (\<lambda>c u w. ((0, u\<lparr>upd_lastdate := ''02-03-2020 10:00:00'', upd_status := ''ENDED''\<rparr>), w)),
     x_SetUpdateStatus = (\<lambda>c u w. (0, w)),
     x_ResetSDCrudObjects = (\<lambda>c u w. (0, w)),
     x_SetSDCrudObjects = (\<lambda>c u w. (0, w)),
     x_DeleteSDCrudObjects = (\<lambda>c u w. (0, w)),
     x_GetSDconnectedFirst = (\<lambda>c w. ((4, mem_sd), w)),
     x_GetSDconnectedNext = (\<lambda>c w. ((4, mem_sd), w)),
     x_set_log_by_id = (\<lambda>c l w. (0, w)),
     x_set_sd_alarm = (\<lambda>p n sv r m w. w)\<rparr>"

definition mem_ops :: "mem ops" where
  "mem_ops = \<lparr>
     x_db = mem_db,
     x_shutdownRequired = m_stop,
     x_socketWrite = (\<lambda>fd b w. (int (length b), w)),
     x_socketReadLine = (\<lambda>fd n t w. case m_input w of [] \<Rightarrow> ((0, []), w)
        | l # ls \<Rightarrow> ((int (length l), l), w\<lparr>m_input := ls\<rparr>)),
     x_socketClose = (\<lambda>fd w. (0, w)),
     x_execute_script = (\<lambda>sid m sc vars c w. (m_script w, c, w)),
     x_get_global_str = (\<lambda>n w. Some ''result''),
     x_get_error_message = (\<lambda>e. Some ''error''),
     x_get_error_code_str = (\<lambda>e. Some ''0x1''),
     x_get_error_code_num = (\<lambda>e. 1),
     x_backslashify = (\<lambda>t. t),
     x_get_router_config_type = (\<lambda>m n. Some ''cisco''),
     x_sched_new_task = (\<lambda>n a b w. (True, w)),
     x_sched_stats = (\<lambda>w. ''stats''),
     x_now = (\<lambda>w. (0, \<lparr>tm_year = 120, tm_mon = 1, tm_mday = 3, tm_hour = 4, tm_min = 5, tm_sec = 6\<rparr>)),
     x_log_reinit = (\<lambda>w. w),
     x_LogSetLevel = (\<lambda>l w. w),
     x_DbgSetLevel = (\<lambda>l w. w),
     x_doSnmpGet = (\<lambda>oid fd w. (0, w)),
     x_doSnmpGetNext = (\<lambda>oid fd w. (0, w))\<rparr>"

definition mem_world :: mem where
  "mem_world = \<lparr>m_prov = (\<lambda>_. 0), m_lock = (\<lambda>_. False), m_lost = 0, m_ctx = 1, m_stop = False, m_input = [],
     m_script = 0\<rparr>"

definition zero_stat :: sms_stat where
  "zero_stat = \<lparr>activeThreads = 0, totalThreads = 0, totalupdate = 0, totalerrorupdate = 0, totalgetreport = 0,
     totalerrorgetreport = 0, totalgetconf = 0, totalerrorgetconf = 0, totalgetvpnreport = 0,
     totalerrorgetvpnreport = 0, totalgetrouterip = 0, totalerrorgetrouterip = 0, totalcheckupdate = 0,
     totalerrorcheckupdate = 0, totalipdown = 0, totalerroripdown = 0, totalpppipup = 0, totalerrorpppipup = 0\<rparr>"

text \<open>A task that serves descriptor 7 and holds no database context.\<close>

definition mem_task :: "mem \<Rightarrow> mem smsd" where
  "mem_task w = \<lparr>csp = \<lparr>cfd = 7, ip_addr_str = None, ip_addr_long = 0, db_ctx = None\<rparr>,
     currentStat = zero_stat, php_vars = [], calls = [], world = w\<rparr>"

lemmas mem_defs = mem_ops_def mem_db_def mem_sql_def mem_world_def mem_task_def mem_info_def mem_sd_def zero_stat_def

end
