(* ===== verification/Smsd_Bd.thy ===== *)
theory Smsd_Bd
  imports Smsd_Instance
begin

text \<open>
  The high-availability database layer, \<^verbatim>\<open>src/sms/smsd/source/bd.c\<close>: every function repeats its
  \<^verbatim>\<open>SMSSQL_*\<close> call for as long as the connection is lost, and gives up with
  \<^verbatim>\<open>ERR_DB_FAILED\<close> when the daemon is shutting down.

  \<open>ha_loop\<close> is the loop of these functions: it need not end, so it is a partial function whose
  value \<open>None\<close> is the endless loop. The inductive relation \<open>ha_run\<close> says what the loop means
  one attempt at a time, the locale \<open>ha_operation\<close> is the contract of a function of this layer
  over it, and each function is shown to satisfy the contract. Out-parameters are passed in with the
  value the caller's variable holds and returned with the code.
\<close>

section \<open>The retry loop\<close>

partial_function (option) ha_loop ::
  "'w ops \<Rightarrow> string \<Rightarrow> nat \<Rightarrow> nat \<Rightarrow> ('a \<Rightarrow> 'w \<Rightarrow> (int \<times> 'a) \<times> 'w) \<Rightarrow> 'a \<Rightarrow> 'w smsd \<Rightarrow> ((int \<times> 'a) \<times> 'w smsd) option"
where
  "ha_loop ops name c db f y s =
     (let (ry, s1) = sql_call name c (f y) s
      in if fst ry = ERR_DB_CONNECTION_LOST
         then let s2 = HA_SMSSQL_AllocateContext ops c db s1
              in if shutdownRequired ops s2 then Some ((ERR_DB_FAILED, snd ry), s2)
                 else ha_loop ops name c db f (snd ry) s2
         else Some (ry, s1))"

declare ha_loop.simps [code]

definition ha_call ::
  "'w ops \<Rightarrow> string \<Rightarrow> nat \<Rightarrow> nat \<Rightarrow> ('a \<Rightarrow> 'w \<Rightarrow> (int \<times> 'a) \<times> 'w) \<Rightarrow> 'a \<Rightarrow> 'w smsd \<Rightarrow> ((int \<times> 'a) \<times> 'w smsd) option"
where
  "ha_call ops name c db f y s =
     (if shutdownRequired ops s then Some ((ERR_DB_FAILED, y), s) else ha_loop ops name c db f y s)"

text \<open>One attempt that finds the connection lost, and \<open>n\<close> of them in a row: the out-parameter and
  the state after them, \<open>None\<close> when the loop was left before.\<close>

definition lost_attempt ::
  "'w ops \<Rightarrow> string \<Rightarrow> nat \<Rightarrow> nat \<Rightarrow> ('a \<Rightarrow> 'w \<Rightarrow> (int \<times> 'a) \<times> 'w) \<Rightarrow> 'a \<times> 'w smsd \<Rightarrow> ('a \<times> 'w smsd) option"
where
  "lost_attempt ops name c db f = (\<lambda>(y, s).
     let (ry, s1) = sql_call name c (f y) s; s2 = HA_SMSSQL_AllocateContext ops c db s1
     in if fst ry = ERR_DB_CONNECTION_LOST \<and> \<not> shutdownRequired ops s2 then Some (snd ry, s2) else None)"

primrec lost_attempts ::
  "'w ops \<Rightarrow> string \<Rightarrow> nat \<Rightarrow> nat \<Rightarrow> ('a \<Rightarrow> 'w \<Rightarrow> (int \<times> 'a) \<times> 'w) \<Rightarrow> nat \<Rightarrow> 'a \<times> 'w smsd \<Rightarrow> ('a \<times> 'w smsd) option"
where
  "lost_attempts ops name c db f 0 ys = Some ys"
| "lost_attempts ops name c db f (Suc n) ys =
     (case lost_attempt ops name c db f ys of None \<Rightarrow> None | Some ys' \<Rightarrow> lost_attempts ops name c db f n ys')"

text \<open>The meaning of the loop.\<close>

inductive ha_run ::
  "'w ops \<Rightarrow> string \<Rightarrow> nat \<Rightarrow> nat \<Rightarrow> ('a \<Rightarrow> 'w \<Rightarrow> (int \<times> 'a) \<times> 'w) \<Rightarrow> 'a \<Rightarrow> 'w smsd \<Rightarrow> (int \<times> 'a) \<times> 'w smsd \<Rightarrow> bool"
  for ops name c db f
where
  answered: "sql_call name c (f y) s = ((r, y'), s') \<Longrightarrow> r \<noteq> ERR_DB_CONNECTION_LOST \<Longrightarrow>
     ha_run ops name c db f y s ((r, y'), s')"
| given_up: "sql_call name c (f y) s = ((ERR_DB_CONNECTION_LOST, y'), s1) \<Longrightarrow>
     s2 = HA_SMSSQL_AllocateContext ops c db s1 \<Longrightarrow> shutdownRequired ops s2 \<Longrightarrow>
     ha_run ops name c db f y s ((ERR_DB_FAILED, y'), s2)"
| again: "sql_call name c (f y) s = ((ERR_DB_CONNECTION_LOST, y'), s1) \<Longrightarrow>
     s2 = HA_SMSSQL_AllocateContext ops c db s1 \<Longrightarrow> \<not> shutdownRequired ops s2 \<Longrightarrow>
     ha_run ops name c db f y' s2 v \<Longrightarrow> ha_run ops name c db f y s v"

section \<open>The loop implements its meaning\<close>

lemma lost_not_failed [simp]: "ERR_DB_FAILED \<noteq> ERR_DB_CONNECTION_LOST"
  by (simp add: return_code_defs)

lemma ha_loop_run: "ha_loop ops name c db f y s = Some v \<Longrightarrow> ha_run ops name c db f y s v"
  by (erule ha_loop.raw_induct [where P = ha_run, rotated])
    (auto simp: Let_def split: prod.splits if_splits intro: ha_run.intros)

lemma ha_run_loop: "ha_run ops name c db f y s v \<Longrightarrow> ha_loop ops name c db f y s = Some v"
proof (induction rule: ha_run.induct)
  case (answered y s r y' s')
  then show ?case by (subst ha_loop.simps) simp
next
  case (given_up y s y' s1 s2)
  then show ?case by (subst ha_loop.simps) simp
next
  case (again y s y' s1 s2 v)
  then show ?case by (subst ha_loop.simps) simp
qed

lemma ha_loop_iff: "ha_loop ops name c db f y s = Some v \<longleftrightarrow> ha_run ops name c db f y s v"
  by (blast intro: ha_loop_run ha_run_loop)

lemma lost_attempts_all:
  "\<forall>n. lost_attempts ops name c db f n (y, s) \<noteq> None \<Longrightarrow> \<not> ha_run ops name c db f y s v"
proof
  assume "ha_run ops name c db f y s v" and "\<forall>n. lost_attempts ops name c db f n (y, s) \<noteq> None"
  then show False
  proof (induction rule: ha_run.induct)
    case (answered y s r y' s')
    then show ?case by (auto simp: lost_attempt_def Let_def dest!: spec [of _ 1])
  next
    case (given_up y s y' s1 s2)
    then show ?case by (auto simp: lost_attempt_def Let_def dest!: spec [of _ 1])
  next
    case (again y s y' s1 s2 v)
    have "lost_attempts ops name c db f n (y', s2) \<noteq> None" for n
      using again.hyps again.prems [rule_format, of "Suc n"] by (simp add: lost_attempt_def)
    then show ?case using again.IH by blast
  qed
qed

lemma lost_attempts_ends:
  "lost_attempts ops name c db f n (y, s) = None \<Longrightarrow> \<exists>v. ha_run ops name c db f y s v"
proof (induction n arbitrary: y s)
  case 0
  then show ?case by simp
next
  case (Suc n)
  obtain r y' s1 where call: "sql_call name c (f y) s = ((r, y'), s1)" by (metis prod.exhaust)
  let ?s2 = "HA_SMSSQL_AllocateContext ops c db s1"
  show ?case
  proof (cases "r = ERR_DB_CONNECTION_LOST \<and> \<not> shutdownRequired ops ?s2")
    case True
    with Suc.prems call have "lost_attempts ops name c db f n (y', ?s2) = None"
      by (simp add: lost_attempt_def)
    with Suc.IH obtain v where "ha_run ops name c db f y' ?s2 v" by blast
    with call True show ?thesis by (blast intro: ha_run.again)
  next
    case False
    with call show ?thesis by (metis ha_run.answered ha_run.given_up)
  qed
qed

lemma ha_run_result:
  "ha_run ops name c db f y s v \<Longrightarrow>
   fst (fst v) \<noteq> ERR_DB_CONNECTION_LOST \<and> csp (snd v) = csp s \<and> currentStat (snd v) = currentStat s \<and>
   php_vars (snd v) = php_vars s"
  by (induction rule: ha_run.induct)
    (auto simp: sql_call_def HA_SMSSQL_AllocateContext_def split: prod.splits)

lemma ha_run_calls:
  "ha_run ops name c db f y s v \<Longrightarrow>
   \<exists>n t. calls (snd v) =
       calls s @ concat (replicate n [Sql name c ERR_DB_CONNECTION_LOST, ReallocCtx c db]) @ t \<and>
     (t = [Sql name c (fst (fst v))] \<or>
      t = [] \<and> 0 < n \<and> fst (fst v) = ERR_DB_FAILED \<and> shutdownRequired ops (snd v))"
proof (induction rule: ha_run.induct)
  case (answered y s r y' s')
  then have "calls s' = calls s @ [Sql name c r]" by (blast dest: sql_call_D)
  then show ?case by (intro exI [of _ 0]) simp
next
  case (given_up y s y' s1 s2)
  then have "calls s2 = calls s @ [Sql name c ERR_DB_CONNECTION_LOST, ReallocCtx c db]"
    by (auto simp: HA_SMSSQL_AllocateContext_def dest: sql_call_D)
  with given_up show ?case by (intro exI [of _ 1]) simp
next
  case (again y s y' s1 s2 v)
  then obtain n t where n: "calls (snd v) = calls s2
      @ concat (replicate n [Sql name c ERR_DB_CONNECTION_LOST, ReallocCtx c db]) @ t"
    and t: "t = [Sql name c (fst (fst v))] \<or>
      t = [] \<and> 0 < n \<and> fst (fst v) = ERR_DB_FAILED \<and> shutdownRequired ops (snd v)" by blast
  have s2: "calls s2 = calls s @ [Sql name c ERR_DB_CONNECTION_LOST, ReallocCtx c db]"
    using again.hyps by (auto simp: HA_SMSSQL_AllocateContext_def dest: sql_call_D)
  show ?case
    using n s2 t by (intro exI [of _ "Suc n"] exI [of _ t]) auto
qed

text \<open>
  The effect on an observation \<open>A\<close> of the world that lost attempts and reconnections do not
  change: the one of the answered attempt, or none.
\<close>

lemma ha_run_effect:
  assumes "ha_run ops name c db f y s v"
    and lost: "\<And>y w y' w'. f y w = ((ERR_DB_CONNECTION_LOST, y'), w') \<Longrightarrow> A w' = A w"
    and conn: "\<And>w. A (x_AllocateContext (x_db ops) c db w) = A w"
  shows "(\<exists>y0 w0 w'. f y0 w0 = (fst v, w') \<and> A w0 = A (world s) \<and> A (world (snd v)) = A w') \<or>
    fst (fst v) = ERR_DB_FAILED \<and> A (world (snd v)) = A (world s)"
  using assms(1)
proof (induction rule: ha_run.induct)
  case (answered y s r y' s')
  then obtain w' where "f y (world s) = ((r, y'), w')" "world s' = w'"
    by (auto simp: sql_call_def split: prod.splits)
  then show ?case by auto
next
  case (given_up y s y' s1 s2)
  then have "A (world s1) = A (world s)"
    by (auto simp: sql_call_def dest!: lost split: prod.splits)
  with given_up conn show ?case by (simp add: HA_SMSSQL_AllocateContext_def)
next
  case (again y s y' s1 s2 v)
  then have "A (world s1) = A (world s)"
    by (auto simp: sql_call_def dest!: lost split: prod.splits)
  with again.hyps conn have "A (world s2) = A (world s)" by (simp add: HA_SMSSQL_AllocateContext_def)
  with again.IH show ?case by simp
qed

section \<open>The contract of the layer\<close>

locale ha_operation =
  fixes ops :: "'w ops" and name :: string and c db :: nat
    and f :: "'a \<Rightarrow> 'w \<Rightarrow> (int \<times> 'a) \<times> 'w"
    and ha :: "'a \<Rightarrow> 'w smsd \<Rightarrow> ((int \<times> 'a) \<times> 'w smsd) option"
  assumes at_shutdown: "shutdownRequired ops s \<Longrightarrow> ha y s = Some ((ERR_DB_FAILED, y), s)"
    and runs: "\<not> shutdownRequired ops s \<Longrightarrow> ha y s = Some v \<longleftrightarrow> ha_run ops name c db f y s v"
begin

lemma frame:
  assumes "ha y s = Some ((r, y'), s')"
  shows "r \<noteq> ERR_DB_CONNECTION_LOST \<and> csp s' = csp s \<and> currentStat s' = currentStat s \<and> php_vars s' = php_vars s"
proof (cases "shutdownRequired ops s")
  case True
  with assms at_shutdown [OF True, of y] show ?thesis by auto
next
  case False
  with assms runs [OF False] have "ha_run ops name c db f y s ((r, y'), s')" by blast
  from ha_run_result [OF this] show ?thesis by simp
qed

lemma trace:
  assumes "ha y s = Some ((r, y'), s')"
  shows "\<exists>n t. calls s' = calls s @ concat (replicate n [Sql name c ERR_DB_CONNECTION_LOST, ReallocCtx c db]) @ t \<and>
    (t = [Sql name c r] \<or> t = [] \<and> r = ERR_DB_FAILED \<and> shutdownRequired ops s')"
proof (cases "shutdownRequired ops s")
  case True
  with assms at_shutdown [OF True, of y] show ?thesis by (intro exI [of _ 0] exI [of _ "[]"]) auto
next
  case False
  with assms runs [OF False] have "ha_run ops name c db f y s ((r, y'), s')" by blast
  from ha_run_calls [OF this] show ?thesis by auto
qed

lemma effect:
  assumes "ha y s = Some ((r, y'), s')"
    and "\<And>y w y' w'. f y w = ((ERR_DB_CONNECTION_LOST, y'), w') \<Longrightarrow> A w' = A w"
    and "\<And>w. A (x_AllocateContext (x_db ops) c db w) = A w"
  shows "(\<exists>y0 w0 w'. f y0 w0 = ((r, y'), w') \<and> A w0 = A (world s) \<and> A (world s') = A w') \<or>
    r = ERR_DB_FAILED \<and> A (world s') = A (world s)"
proof (cases "shutdownRequired ops s")
  case True
  with assms(1) at_shutdown [OF True, of y] show ?thesis by auto
next
  case False
  with assms(1) runs [OF False] have "ha_run ops name c db f y s ((r, y'), s')" by blast
  from ha_run_effect [OF this, of A] assms(2,3) show ?thesis by simp
qed

lemma returns_iff:
  "(\<exists>v. ha y s = Some v) \<longleftrightarrow>
   shutdownRequired ops s \<or> (\<exists>n. lost_attempts ops name c db f n (y, s) = None)"
proof (cases "shutdownRequired ops s")
  case True
  then show ?thesis using at_shutdown by blast
next
  case False
  show ?thesis
  proof
    assume "\<exists>v. ha y s = Some v"
    then obtain v where "ha_run ops name c db f y s v" using runs [OF False] by blast
    then have "\<exists>n. lost_attempts ops name c db f n (y, s) = None"
      using lost_attempts_all by metis
    then show "shutdownRequired ops s \<or> (\<exists>n. lost_attempts ops name c db f n (y, s) = None)" ..
  next
    assume "shutdownRequired ops s \<or> (\<exists>n. lost_attempts ops name c db f n (y, s) = None)"
    then obtain v where "ha_run ops name c db f y s v" using False lost_attempts_ends by metis
    then show "\<exists>v. ha y s = Some v" using runs [OF False] by blast
  qed
qed

lemma ctx_neutral_trace:
  assumes "ha y s = Some ((r, y'), s')"
  shows "\<exists>ds. calls s' = calls s @ ds \<and> list_all ctx_neutral ds"
proof -
  obtain n t where "calls s' = calls s @ concat (replicate n [Sql name c ERR_DB_CONNECTION_LOST, ReallocCtx c db]) @ t"
    and "t = [Sql name c r] \<or> t = []" using trace [OF assms] by blast
  moreover have "list_all ctx_neutral (concat (replicate n [Sql name c ERR_DB_CONNECTION_LOST, ReallocCtx c db]))"
    by (induction n) auto
  ultimately show ?thesis by auto
qed

lemma no_php:
  assumes "ha y s = Some (ry, s')"
  shows "\<exists>ds. calls s' = calls s @ ds \<and> list_all (\<lambda>d. \<not> is_php d) ds"
proof -
  obtain n t where "calls s' = calls s @ concat (replicate n [Sql name c ERR_DB_CONNECTION_LOST, ReallocCtx c db]) @ t"
    and "t = [Sql name c (fst ry)] \<or> t = []" using trace [of y s "fst ry" "snd ry" s'] assms by auto
  moreover have "list_all (\<lambda>d. \<not> is_php d) (concat (replicate n [Sql name c ERR_DB_CONNECTION_LOST, ReallocCtx c db]))"
    by (induction n) auto
  ultimately show ?thesis by auto
qed

lemma quiet: "ha y s = Some (ry, s') \<Longrightarrow> quiet s s'"
  unfolding quiet_def using frame ctx_neutral_trace by (cases ry) blast

end

section \<open>The functions of the layer\<close>

text \<open>The C argument \<^verbatim>\<open>sql_context *ctx\<close> is the handle \<open>ctx\<close> of the context.\<close>

definition HA_SMSSQL_SetSDIPConfig :: "'w ops \<Rightarrow> nat \<Rightarrow> string \<Rightarrow> int \<Rightarrow> string \<Rightarrow> int \<Rightarrow> 'w smsd \<Rightarrow> ((int \<times> unit) \<times> 'w smsd) option" where
  "HA_SMSSQL_SetSDIPConfig ops ctx prefix seqnum sd_ipconf connected_flag s =
     ha_call ops ''SetSDIPConfig'' ctx DB_SMS (\<lambda>_. no_out (x_SetSDIPConfig (x_sql (x_db ops)) ctx prefix seqnum sd_ipconf connected_flag)) () s"

definition HA_SMSSQL_SetSDUpdated :: "'w ops \<Rightarrow> nat \<Rightarrow> string \<Rightarrow> int \<Rightarrow> int \<Rightarrow> 'w smsd \<Rightarrow> ((int \<times> unit) \<times> 'w smsd) option" where
  "HA_SMSSQL_SetSDUpdated ops ctx Pprefix Pseqnum updated_flag s =
     ha_call ops ''SetSDUpdated'' ctx DB_SMS (\<lambda>_. no_out (x_SetSDUpdated (x_sql (x_db ops)) ctx Pprefix Pseqnum updated_flag)) () s"

definition HA_SMSSQL_SetSDprovlock :: "'w ops \<Rightarrow> nat \<Rightarrow> string \<Rightarrow> int \<Rightarrow> int \<Rightarrow> 'w smsd \<Rightarrow> ((int \<times> unit) \<times> 'w smsd) option" where
  "HA_SMSSQL_SetSDprovlock ops ctx prefix seqnum provlock s =
     ha_call ops ''SetSDprovlock'' ctx DB_SMS (\<lambda>_. no_out (x_SetSDprovlock (x_sql (x_db ops)) ctx prefix seqnum provlock)) () s"

definition HA_SMSSQL_GetSDprovlock :: "'w ops \<Rightarrow> nat \<Rightarrow> string \<Rightarrow> int \<Rightarrow> int \<Rightarrow> 'w smsd \<Rightarrow> ((int \<times> int) \<times> 'w smsd) option" where
  "HA_SMSSQL_GetSDprovlock ops ctx prefix seqnum provlock s =
     ha_call ops ''GetSDprovlock'' ctx DB_SMS (x_GetSDprovlock (x_sql (x_db ops)) ctx prefix seqnum) provlock s"

text \<open>The values of \<^verbatim>\<open>lock_state\<close>, from \<^verbatim>\<open>smssql.h\<close>.\<close>

definition ALREADY_LOCKED :: int where "ALREADY_LOCKED = 0"
definition OK_LOCKED :: int where "OK_LOCKED = 1"
definition OK_LOCKED_BY_TIMEOUT :: int where "OK_LOCKED_BY_TIMEOUT = 2"
definition ALREADY_PROVLOCKED :: int where "ALREADY_PROVLOCKED = 3"

lemmas lock_state_defs = ALREADY_LOCKED_def OK_LOCKED_def OK_LOCKED_BY_TIMEOUT_def ALREADY_PROVLOCKED_def

text \<open>\<^verbatim>\<open>provlock\<close> is uninitialised before \<^verbatim>\<open>HA_SMSSQL_GetSDprovlock\<close> fills it; \<open>0\<close> stands for its value there.\<close>

definition HA_SMSSQL_SetLock :: "'w ops \<Rightarrow> nat \<Rightarrow> string \<Rightarrow> int \<Rightarrow> int \<Rightarrow> 'w smsd \<Rightarrow> ((int \<times> int) \<times> 'w smsd) option" where
  "HA_SMSSQL_SetLock ops ctx prefix seqnum lock_state s =
     (if shutdownRequired ops s then Some ((ERR_DB_FAILED, lock_state), s)
      else do {
        ((ret, provlock), s) \<leftarrow> HA_SMSSQL_GetSDprovlock ops ctx prefix seqnum 0 s;
        if ret \<noteq> 0 then Some ((ret, lock_state), s)
        else if provlock \<noteq> 0 then Some ((ret, ALREADY_PROVLOCKED), s)
        else ha_loop ops ''SetLock'' ctx DB_SMS (x_SetLock (x_sql (x_db ops)) ctx prefix seqnum) lock_state s
      })"

definition HA_SMSSQL_UnLock :: "'w ops \<Rightarrow> nat \<Rightarrow> string \<Rightarrow> int \<Rightarrow> 'w smsd \<Rightarrow> ((int \<times> unit) \<times> 'w smsd) option" where
  "HA_SMSSQL_UnLock ops ctx prefix seqnum s =
     ha_call ops ''UnLock'' ctx DB_SMS (\<lambda>_. no_out (x_UnLock (x_sql (x_db ops)) ctx prefix seqnum)) () s"

definition HA_SMSSQL_UnLockAll :: "'w ops \<Rightarrow> nat \<Rightarrow> string option \<Rightarrow> 'w smsd \<Rightarrow> ((int \<times> unit) \<times> 'w smsd) option" where
  "HA_SMSSQL_UnLockAll ops ctx error_mesg s =
     ha_call ops ''UnLockAll'' ctx DB_SMS (\<lambda>_. no_out (x_UnLockAll (x_sql (x_db ops)) ctx error_mesg)) () s"

definition HA_SMSSQL_SetProvDate :: "'w ops \<Rightarrow> nat \<Rightarrow> string \<Rightarrow> int \<Rightarrow> 'w smsd \<Rightarrow> ((int \<times> unit) \<times> 'w smsd) option" where
  "HA_SMSSQL_SetProvDate ops ctx prefix seqnum s =
     ha_call ops ''SetProvDate'' ctx DB_CUST (\<lambda>_. no_out (x_SetProvDate (x_sql (x_db ops)) ctx prefix seqnum)) () s"

definition HA_SMSSQL_SetSDConfigStep :: "'w ops \<Rightarrow> nat \<Rightarrow> string \<Rightarrow> int \<Rightarrow> int \<Rightarrow> 'w smsd \<Rightarrow> ((int \<times> unit) \<times> 'w smsd) option" where
  "HA_SMSSQL_SetSDConfigStep ops ctx Pcli_prefix Pseqnum Pcfg_step s =
     ha_call ops ''SetSDConfigStep'' ctx DB_SMS (\<lambda>_. no_out (x_SetSDConfigStep (x_sql (x_db ops)) ctx Pcli_prefix Pseqnum Pcfg_step)) () s"

definition HA_SMSSQL_SetSDConnected :: "'w ops \<Rightarrow> nat \<Rightarrow> string \<Rightarrow> int \<Rightarrow> int \<Rightarrow> 'w smsd \<Rightarrow> ((int \<times> unit) \<times> 'w smsd) option" where
  "HA_SMSSQL_SetSDConnected ops ctx Pcli_prefix Pseqnum connected_flag s =
     ha_call ops ''SetSDConnected'' ctx DB_SMS (\<lambda>_. no_out (x_SetSDConnected (x_sql (x_db ops)) ctx Pcli_prefix Pseqnum connected_flag)) () s"

definition HA_SMSSQL_GetAsset :: "'w ops \<Rightarrow> nat \<Rightarrow> sd_asset \<Rightarrow> 'w smsd \<Rightarrow> ((int \<times> sd_asset) \<times> 'w smsd) option" where
  "HA_SMSSQL_GetAsset ops ctx sd_asset s =
     ha_call ops ''GetAsset'' ctx DB_SMS (x_GetAsset (x_sql (x_db ops)) ctx) sd_asset s"

definition HA_SMSSQL_GetSDToUpdateFirst :: "'w ops \<Rightarrow> nat \<Rightarrow> sd_like option \<Rightarrow> 'w smsd \<Rightarrow> ((int \<times> sd_like option) \<times> 'w smsd) option" where
  "HA_SMSSQL_GetSDToUpdateFirst ops ctx sd s =
     ha_call ops ''GetSDToUpdateFirst'' ctx DB_SMS (x_GetSDToUpdateFirst (x_sql (x_db ops)) ctx) sd s"

text \<open>No retry here: a lost connection is reported to the caller.\<close>

definition HA_SMSSQL_GetSDToUpdateNext :: "'w ops \<Rightarrow> nat \<Rightarrow> sd_like option \<Rightarrow> 'w smsd \<Rightarrow> (int \<times> sd_like option) \<times> 'w smsd" where
  "HA_SMSSQL_GetSDToUpdateNext ops ctx sd s =
     (if shutdownRequired ops s then ((ERR_DB_FAILED, sd), s)
      else let ((ret, sd), s) = sql_call ''GetSDToUpdateNext'' ctx (x_GetSDToUpdateNext (x_sql (x_db ops)) ctx sd) s
           in if ret = ERR_DB_CONNECTION_LOST \<and> shutdownRequired ops s then ((ERR_DB_FAILED, sd), s)
              else ((ret, sd), s))"

definition HA_SMSSQL_InitProvStatus :: "'w ops \<Rightarrow> nat \<Rightarrow> string \<Rightarrow> int \<Rightarrow> int \<Rightarrow> string list \<Rightarrow> 'w smsd \<Rightarrow> ((int \<times> unit) \<times> 'w smsd) option" where
  "HA_SMSSQL_InitProvStatus ops ctx Pprefix Pseqnum num_stages stage_names s =
     ha_call ops ''InitProvStatus'' ctx DB_SMS (\<lambda>_. no_out (x_InitProvStatus (x_sql (x_db ops)) ctx Pprefix Pseqnum num_stages stage_names)) () s"

definition HA_SMSSQL_SetProvStatus :: "'w ops \<Rightarrow> nat \<Rightarrow> string \<Rightarrow> int \<Rightarrow> int \<Rightarrow> string option \<Rightarrow> string option \<Rightarrow> 32 word \<Rightarrow> string \<Rightarrow> 'w smsd \<Rightarrow> ((int \<times> unit) \<times> 'w smsd) option" where
  "HA_SMSSQL_SetProvStatus ops ctx Pprefix Pseqnum stage_index status next_status error_code error_message s =
     ha_call ops ''SetProvStatus'' ctx DB_SMS (\<lambda>_. no_out (x_SetProvStatus (x_sql (x_db ops)) ctx Pprefix Pseqnum stage_index status next_status error_code error_message)) () s"

definition HA_SMSSQL_GetProvStatus :: "'w ops \<Rightarrow> nat \<Rightarrow> sd_provstatus \<Rightarrow> 'w smsd \<Rightarrow> ((int \<times> sd_provstatus) \<times> 'w smsd) option" where
  "HA_SMSSQL_GetProvStatus ops ctx provstatus s =
     ha_call ops ''GetProvStatus'' ctx DB_SMS (x_GetProvStatus (x_sql (x_db ops)) ctx) provstatus s"

definition HA_SMSSQL_SetPollMode :: "'w ops \<Rightarrow> nat \<Rightarrow> string \<Rightarrow> int \<Rightarrow> int \<Rightarrow> 'w smsd \<Rightarrow> ((int \<times> unit) \<times> 'w smsd) option" where
  "HA_SMSSQL_SetPollMode ops ctx prefix seqnum sd_poll_mode s =
     ha_call ops ''SetPollMode'' ctx DB_SMS (\<lambda>_. no_out (x_SetPollMode (x_sql (x_db ops)) ctx prefix seqnum sd_poll_mode)) () s"

definition HA_SMSSQL_SetSdDown :: "'w ops \<Rightarrow> nat \<Rightarrow> string \<Rightarrow> int \<Rightarrow> 'w smsd \<Rightarrow> ((int \<times> unit) \<times> 'w smsd) option" where
  "HA_SMSSQL_SetSdDown ops ctx prefix seqnum s =
     ha_call ops ''SetSDPing'' ctx DB_SMS (\<lambda>_. no_out (x_SetSDPing (x_sql (x_db ops)) ctx prefix seqnum 0 0 0)) () s"

lemmas HA_defs = HA_SMSSQL_SetSDIPConfig_def HA_SMSSQL_SetSDUpdated_def HA_SMSSQL_SetSDprovlock_def HA_SMSSQL_GetSDprovlock_def HA_SMSSQL_SetLock_def HA_SMSSQL_UnLock_def HA_SMSSQL_UnLockAll_def HA_SMSSQL_SetProvDate_def HA_SMSSQL_SetSDConfigStep_def HA_SMSSQL_SetSDConnected_def HA_SMSSQL_GetAsset_def HA_SMSSQL_GetSDToUpdateFirst_def HA_SMSSQL_GetSDToUpdateNext_def HA_SMSSQL_InitProvStatus_def HA_SMSSQL_SetProvStatus_def HA_SMSSQL_GetProvStatus_def HA_SMSSQL_SetPollMode_def HA_SMSSQL_SetSdDown_def

section \<open>Every retrying function satisfies the contract\<close>

interpretation SetSDIPConfig: ha_operation ops "''SetSDIPConfig''" ctx DB_SMS
    "\<lambda>_. no_out (x_SetSDIPConfig (x_sql (x_db ops)) ctx prefix seqnum sd_ipconf connected_flag)"
    "\<lambda>_. HA_SMSSQL_SetSDIPConfig ops ctx prefix seqnum sd_ipconf connected_flag"
  for ops ctx prefix seqnum sd_ipconf connected_flag
  by unfold_locales (simp_all add: HA_SMSSQL_SetSDIPConfig_def ha_call_def ha_loop_iff)

interpretation SetSDUpdated: ha_operation ops "''SetSDUpdated''" ctx DB_SMS
    "\<lambda>_. no_out (x_SetSDUpdated (x_sql (x_db ops)) ctx Pprefix Pseqnum updated_flag)"
    "\<lambda>_. HA_SMSSQL_SetSDUpdated ops ctx Pprefix Pseqnum updated_flag"
  for ops ctx Pprefix Pseqnum updated_flag
  by unfold_locales (simp_all add: HA_SMSSQL_SetSDUpdated_def ha_call_def ha_loop_iff)

interpretation SetSDprovlock: ha_operation ops "''SetSDprovlock''" ctx DB_SMS
    "\<lambda>_. no_out (x_SetSDprovlock (x_sql (x_db ops)) ctx prefix seqnum provlock)"
    "\<lambda>_. HA_SMSSQL_SetSDprovlock ops ctx prefix seqnum provlock"
  for ops ctx prefix seqnum provlock
  by unfold_locales (simp_all add: HA_SMSSQL_SetSDprovlock_def ha_call_def ha_loop_iff)

interpretation GetSDprovlock: ha_operation ops "''GetSDprovlock''" ctx DB_SMS
    "x_GetSDprovlock (x_sql (x_db ops)) ctx prefix seqnum"
    "HA_SMSSQL_GetSDprovlock ops ctx prefix seqnum"
  for ops ctx prefix seqnum
  by unfold_locales (simp_all add: HA_SMSSQL_GetSDprovlock_def ha_call_def ha_loop_iff)

interpretation UnLock: ha_operation ops "''UnLock''" ctx DB_SMS
    "\<lambda>_. no_out (x_UnLock (x_sql (x_db ops)) ctx prefix seqnum)"
    "\<lambda>_. HA_SMSSQL_UnLock ops ctx prefix seqnum"
  for ops ctx prefix seqnum
  by unfold_locales (simp_all add: HA_SMSSQL_UnLock_def ha_call_def ha_loop_iff)

interpretation UnLockAll: ha_operation ops "''UnLockAll''" ctx DB_SMS
    "\<lambda>_. no_out (x_UnLockAll (x_sql (x_db ops)) ctx error_mesg)"
    "\<lambda>_. HA_SMSSQL_UnLockAll ops ctx error_mesg"
  for ops ctx error_mesg
  by unfold_locales (simp_all add: HA_SMSSQL_UnLockAll_def ha_call_def ha_loop_iff)

interpretation SetProvDate: ha_operation ops "''SetProvDate''" ctx DB_CUST
    "\<lambda>_. no_out (x_SetProvDate (x_sql (x_db ops)) ctx prefix seqnum)"
    "\<lambda>_. HA_SMSSQL_SetProvDate ops ctx prefix seqnum"
  for ops ctx prefix seqnum
  by unfold_locales (simp_all add: HA_SMSSQL_SetProvDate_def ha_call_def ha_loop_iff)

interpretation SetSDConfigStep: ha_operation ops "''SetSDConfigStep''" ctx DB_SMS
    "\<lambda>_. no_out (x_SetSDConfigStep (x_sql (x_db ops)) ctx Pcli_prefix Pseqnum Pcfg_step)"
    "\<lambda>_. HA_SMSSQL_SetSDConfigStep ops ctx Pcli_prefix Pseqnum Pcfg_step"
  for ops ctx Pcli_prefix Pseqnum Pcfg_step
  by unfold_locales (simp_all add: HA_SMSSQL_SetSDConfigStep_def ha_call_def ha_loop_iff)

interpretation SetSDConnected: ha_operation ops "''SetSDConnected''" ctx DB_SMS
    "\<lambda>_. no_out (x_SetSDConnected (x_sql (x_db ops)) ctx Pcli_prefix Pseqnum connected_flag)"
    "\<lambda>_. HA_SMSSQL_SetSDConnected ops ctx Pcli_prefix Pseqnum connected_flag"
  for ops ctx Pcli_prefix Pseqnum connected_flag
  by unfold_locales (simp_all add: HA_SMSSQL_SetSDConnected_def ha_call_def ha_loop_iff)

interpretation GetAsset: ha_operation ops "''GetAsset''" ctx DB_SMS
    "x_GetAsset (x_sql (x_db ops)) ctx"
    "HA_SMSSQL_GetAsset ops ctx"
  for ops ctx
  by unfold_locales (simp_all add: HA_SMSSQL_GetAsset_def ha_call_def ha_loop_iff)

interpretation GetSDToUpdateFirst: ha_operation ops "''GetSDToUpdateFirst''" ctx DB_SMS
    "x_GetSDToUpdateFirst (x_sql (x_db ops)) ctx"
    "HA_SMSSQL_GetSDToUpdateFirst ops ctx"
  for ops ctx
  by unfold_locales (simp_all add: HA_SMSSQL_GetSDToUpdateFirst_def ha_call_def ha_loop_iff)

interpretation InitProvStatus: ha_operation ops "''InitProvStatus''" ctx DB_SMS
    "\<lambda>_. no_out (x_InitProvStatus (x_sql (x_db ops)) ctx Pprefix Pseqnum num_stages stage_names)"
    "\<lambda>_. HA_SMSSQL_InitProvStatus ops ctx Pprefix Pseqnum num_stages stage_names"
  for ops ctx Pprefix Pseqnum num_stages stage_names
  by unfold_locales (simp_all add: HA_SMSSQL_InitProvStatus_def ha_call_def ha_loop_iff)

interpretation SetProvStatus: ha_operation ops "''SetProvStatus''" ctx DB_SMS
    "\<lambda>_. no_out (x_SetProvStatus (x_sql (x_db ops)) ctx Pprefix Pseqnum stage_index status next_status error_code error_message)"
    "\<lambda>_. HA_SMSSQL_SetProvStatus ops ctx Pprefix Pseqnum stage_index status next_status error_code error_message"
  for ops ctx Pprefix Pseqnum stage_index status next_status error_code error_message
  by unfold_locales (simp_all add: HA_SMSSQL_SetProvStatus_def ha_call_def ha_loop_iff)

interpretation GetProvStatus: ha_operation ops "''GetProvStatus''" ctx DB_SMS
    "x_GetProvStatus (x_sql (x_db ops)) ctx"
    "HA_SMSSQL_GetProvStatus ops ctx"
  for ops ctx
  by unfold_locales (simp_all add: HA_SMSSQL_GetProvStatus_def ha_call_def ha_loop_iff)

interpretation SetPollMode: ha_operation ops "''SetPollMode''" ctx DB_SMS
    "\<lambda>_. no_out (x_SetPollMode (x_sql (x_db ops)) ctx prefix seqnum sd_poll_mode)"
    "\<lambda>_. HA_SMSSQL_SetPollMode ops ctx prefix seqnum sd_poll_mode"
  for ops ctx prefix seqnum sd_poll_mode
  by unfold_locales (simp_all add: HA_SMSSQL_SetPollMode_def ha_call_def ha_loop_iff)

interpretation SetSdDown: ha_operation ops "''SetSDPing''" ctx DB_SMS
    "\<lambda>_. no_out (x_SetSDPing (x_sql (x_db ops)) ctx prefix seqnum 0 0 0)"
    "\<lambda>_. HA_SMSSQL_SetSdDown ops ctx prefix seqnum"
  for ops ctx prefix seqnum
  by unfold_locales (simp_all add: HA_SMSSQL_SetSdDown_def ha_call_def ha_loop_iff)

section \<open>SetLock\<close>

lemma ha_run_neutral:
  assumes "ha_run ops name c db f y s v"
  shows "\<exists>ds. calls (snd v) = calls s @ ds \<and> list_all ctx_neutral ds"
proof -
  have "list_all ctx_neutral (concat (replicate n [Sql name c ERR_DB_CONNECTION_LOST, ReallocCtx c db]))" for n
    by (induction n) auto
  with ha_run_calls [OF assms] show ?thesis by fastforce
qed

text \<open>The three ways through \<^verbatim>\<open>HA_SMSSQL_SetLock\<close> after its provisioning lock was read.\<close>

lemma SetLock_cases:
  assumes "HA_SMSSQL_SetLock ops c pre seq st s = Some ((r, st'), s')"
  obtains (stopping) "shutdownRequired ops s" "r = ERR_DB_FAILED" "st' = st" "s' = s"
  | (unread) p where "HA_SMSSQL_GetSDprovlock ops c pre seq 0 s = Some ((r, p), s')" "r \<noteq> 0" "st' = st"
  | (provlocked) p where "HA_SMSSQL_GetSDprovlock ops c pre seq 0 s = Some ((0, p), s')" "p \<noteq> 0" "r = 0"
      "st' = ALREADY_PROVLOCKED"
  | (locking) s1 where "HA_SMSSQL_GetSDprovlock ops c pre seq 0 s = Some ((0, 0), s1)"
      "ha_run ops ''SetLock'' c DB_SMS (x_SetLock (x_sql (x_db ops)) c pre seq) st s1 ((r, st'), s')"
  using assms unfolding HA_SMSSQL_SetLock_def
  by (auto simp: bind_eq_Some_conv ha_loop_iff split: if_splits)

lemma SetLock_frame:
  assumes "HA_SMSSQL_SetLock ops c pre seq st s = Some ((r, st'), s')"
  shows "r \<noteq> ERR_DB_CONNECTION_LOST \<and> csp s' = csp s \<and> currentStat s' = currentStat s \<and> php_vars s' = php_vars s"
  using assms
proof (cases rule: SetLock_cases)
  case (locking s1)
  from GetSDprovlock.frame [OF locking(1)] ha_run_result [OF locking(2)] show ?thesis by simp
qed (auto dest: GetSDprovlock.frame)

lemma SetLock_neutral:
  assumes "HA_SMSSQL_SetLock ops c pre seq st s = Some ((r, st'), s')"
  shows "\<exists>ds. calls s' = calls s @ ds \<and> list_all ctx_neutral ds"
  using assms
proof (cases rule: SetLock_cases)
  case (locking s1)
  obtain d1 where "calls s1 = calls s @ d1" "list_all ctx_neutral d1"
    using GetSDprovlock.ctx_neutral_trace [OF locking(1)] by blast
  moreover obtain d2 where "calls s' = calls s1 @ d2" "list_all ctx_neutral d2"
    using ha_run_neutral [OF locking(2)] by auto
  ultimately show ?thesis by auto
qed (auto dest: GetSDprovlock.ctx_neutral_trace)

lemma quiet_SetLock: "HA_SMSSQL_SetLock ops c pre seq st s = Some (ry, s') \<Longrightarrow> quiet s s'"
  unfolding quiet_def using SetLock_frame SetLock_neutral by (cases ry) blast

lemma quiet_GetSDToUpdateNext: "HA_SMSSQL_GetSDToUpdateNext ops c sd s = (ry, s') \<Longrightarrow> quiet s s'"
  unfolding HA_SMSSQL_GetSDToUpdateNext_def
  by (auto simp: Let_def dest: quiet_sql_call split: if_splits prod.splits)

lemmas HA_quiet = quiet_SetLock quiet_GetSDToUpdateNext SetSDIPConfig.quiet SetSDUpdated.quiet SetSDprovlock.quiet GetSDprovlock.quiet UnLock.quiet UnLockAll.quiet SetProvDate.quiet SetSDConfigStep.quiet SetSDConnected.quiet GetAsset.quiet GetSDToUpdateFirst.quiet InitProvStatus.quiet SetProvStatus.quiet GetProvStatus.quiet SetPollMode.quiet SetSdDown.quiet

section \<open>Properties\<close>


text \<open>
  C5. A retrying database function returns exactly when the daemon is shutting down or some attempt is
  not a lost connection followed by a reconnection without shutdown: it loops for as long as the database
  is lost and nobody stops the daemon.
\<close>

theorem SetSDUpdated_returns_iff:
  "(\<exists>v. HA_SMSSQL_SetSDUpdated ops ctx pre seq flag s = Some v) \<longleftrightarrow>
   shutdownRequired ops s \<or>
   (\<exists>n. lost_attempts ops ''SetSDUpdated'' ctx DB_SMS
      (\<lambda>_. no_out (x_SetSDUpdated (x_sql (x_db ops)) ctx pre seq flag)) n ((), s) = None)"
  by (rule SetSDUpdated.returns_iff)

text \<open>
  What a retrying function does before it returns: it never reports a lost connection, it leaves the
  client state and the counters alone, and its calls are lost attempts, each followed by a reconnection of
  the same context, and at the end the attempt that was answered, unless the daemon is shutting down.
\<close>

theorem SetSDUpdated_trace:
  assumes "HA_SMSSQL_SetSDUpdated ops ctx pre seq flag s = Some ((r, ()), s')"
  shows "r \<noteq> ERR_DB_CONNECTION_LOST \<and> csp s' = csp s \<and> currentStat s' = currentStat s \<and>
    (\<exists>n t. calls s' = calls s
        @ concat (replicate n [Sql ''SetSDUpdated'' ctx ERR_DB_CONNECTION_LOST, ReallocCtx ctx DB_SMS]) @ t \<and>
      (t = [Sql ''SetSDUpdated'' ctx r] \<or> t = [] \<and> r = ERR_DB_FAILED \<and> shutdownRequired ops s'))"
  using SetSDUpdated.frame [OF assms] SetSDUpdated.trace [OF assms] by blast

theorem SetSDUpdated_trace_witness:
  "case HA_SMSSQL_SetSDUpdated mem_ops 3 ''ABC'' 12 1 (mem_task (mem_world\<lparr>m_lost := 2\<rparr>)) of
     None \<Rightarrow> False
   | Some ((r, _), s') \<Rightarrow> r = 0 \<and>
       (\<exists>n t. calls s' = concat (replicate n [Sql ''SetSDUpdated'' 3 ERR_DB_CONNECTION_LOST, ReallocCtx 3 DB_SMS]) @ t)"
proof -
  let ?s = "mem_task (mem_world\<lparr>m_lost := 2\<rparr>)"
  have "map_option (\<lambda>v. fst (fst v)) (HA_SMSSQL_SetSDUpdated mem_ops 3 ''ABC'' 12 1 ?s) = Some 0" by code_simp
  then obtain s' where s': "HA_SMSSQL_SetSDUpdated mem_ops 3 ''ABC'' 12 1 ?s = Some ((0, ()), s')" by auto
  have "calls ?s = []" by (simp add: mem_task_def)
  with SetSDUpdated_trace [OF s'] s' show ?thesis by auto
qed

end
