(* ===== verification/Smsd_Locks.thy ===== *)
theory Smsd_Locks
  imports Smsd_Bd Smsd_Instance
begin

text \<open>
  Locks and status records of a device: the provisioning lock and the low-level update lock of
  \<^verbatim>\<open>update.c\<close>, the functions of \<^verbatim>\<open>php_db.c\<close> and \<^verbatim>\<open>php_misc.c\<close> that give them and the
  status tables to the PHP scripts.

  The provisioning lock of a device is \<open>-1\<close> when the device is created, \<open>1\<close> while it is
  provisioned or when that failed, \<open>0\<close> once it is provisioned. The update lock is held during an
  operation on the device. What the database functions do to them is the predicate
  \<open>lock_contract\<close>, from their comments in \<^verbatim>\<open>smssql.h\<close>.
\<close>

section \<open>Locks (update.c)\<close>

definition set_sd_updated :: "'w ops \<Rightarrow> string \<Rightarrow> int \<Rightarrow> 'w smsd \<Rightarrow> (int \<times> 'w smsd) option" where
  "set_sd_updated ops SDid sd_updated_flag s = do {
     (pre, seq) \<leftarrow> split_sdid SDid;
     let (_, s) = need_ctx ops s;
     c \<leftarrow> ctx_of s;
     ((ret, _), s) \<leftarrow> HA_SMSSQL_SetSDUpdated ops c pre seq sd_updated_flag s;
     Some (ret, s)
   }"

text \<open>\<open>0\<close> stands for the value of the uninitialised \<^verbatim>\<open>provlock\<close>.\<close>

definition lockProv :: "'w ops \<Rightarrow> string \<Rightarrow> int \<Rightarrow> 'w smsd \<Rightarrow> (int \<times> 'w smsd) option" where
  "lockProv ops pre seq s = do {
     let (release_db_ctx, s) = need_ctx ops s;
     c \<leftarrow> ctx_of s;
     ((ret, provlock), s) \<leftarrow> HA_SMSSQL_GetSDprovlock ops c pre seq 0 s;
     if ret \<noteq> 0 then Some (ret, drop_ctx ops release_db_ctx s)
     else do {
       ((ret2, _), s) \<leftarrow> HA_SMSSQL_SetSdDown ops c pre seq s;
       if provlock = 1 then Some (ret, drop_ctx ops release_db_ctx s)
       else do {
         ((ret, update_lock_state), s) \<leftarrow> HA_SMSSQL_SetLock ops c pre seq 0 s;
         if ret \<noteq> 0 then Some (ret, drop_ctx ops release_db_ctx s)
         else if update_lock_state = ALREADY_LOCKED then Some (ERR_SD_LOCK, drop_ctx ops release_db_ctx s)
         else do {
           ((ret, _), s) \<leftarrow> HA_SMSSQL_SetSDprovlock ops c pre seq 1 s;
           if ret \<noteq> 0 then Some (ret, drop_ctx ops release_db_ctx s)
           else do {
             ((ret2, _), s) \<leftarrow> HA_SMSSQL_UnLock ops c pre seq s;
             Some (ret, drop_ctx ops release_db_ctx s)
           }
         }
       }
     }
   }"

definition lockProvisioning :: "'w ops \<Rightarrow> string \<Rightarrow> 'w smsd \<Rightarrow> (int \<times> 'w smsd) option" where
  "lockProvisioning ops SDid s = do { (pre, seq) \<leftarrow> split_sdid SDid; lockProv ops pre seq s }"

definition unlockProv :: "'w ops \<Rightarrow> string \<Rightarrow> int \<Rightarrow> 'w smsd \<Rightarrow> (int \<times> 'w smsd) option" where
  "unlockProv ops pre seq s = do {
     let (release_db_ctx, s) = need_ctx ops s;
     let (db_cust, s) = sms_db_find_ctx ops DB_CUST s;
     c \<leftarrow> ctx_of s;
     ((_, _), s) \<leftarrow> HA_SMSSQL_SetSDprovlock ops c pre seq 0 s;
     ((ret, _), s) \<leftarrow> HA_SMSSQL_SetProvDate ops db_cust pre seq s;
     let s = drop_ctx ops release_db_ctx s;
     Some (ret, sms_db_release_ctx ops (Some db_cust) s)
   }"

definition unlockProvisioning :: "'w ops \<Rightarrow> string \<Rightarrow> 'w smsd \<Rightarrow> (int \<times> 'w smsd) option" where
  "unlockProvisioning ops SDid s = do { (pre, seq) \<leftarrow> split_sdid SDid; unlockProv ops pre seq s }"

definition lockSD :: "'w ops \<Rightarrow> string \<Rightarrow> int \<Rightarrow> 'w smsd \<Rightarrow> (int \<times> 'w smsd) option" where
  "lockSD ops pre seq s = do {
     let (release_db_ctx, s) = need_ctx ops s;
     c \<leftarrow> ctx_of s;
     ((ret, update_lock_state), s) \<leftarrow> HA_SMSSQL_SetLock ops c pre seq 0 s;
     let s = drop_ctx ops release_db_ctx s;
     Some (if ret \<noteq> 0 then ret
           else if update_lock_state = ALREADY_LOCKED then ERR_SD_LOCK
           else if update_lock_state = ALREADY_PROVLOCKED then ERR_SD_PROVLOCK
           else 0, s)
   }"

definition unlockSD :: "'w ops \<Rightarrow> string \<Rightarrow> int \<Rightarrow> 'w smsd \<Rightarrow> (int \<times> 'w smsd) option" where
  "unlockSD ops pre seq s = do {
     let (release_db_ctx, s) = need_ctx ops s;
     c \<leftarrow> ctx_of s;
     ((ret, _), s) \<leftarrow> HA_SMSSQL_UnLock ops c pre seq s;
     Some (ret, drop_ctx ops release_db_ctx s)
   }"

definition unlockUpdate :: "'w ops \<Rightarrow> string \<Rightarrow> 'w smsd \<Rightarrow> (int \<times> 'w smsd) option" where
  "unlockUpdate ops SDid s = do { (pre, seq) \<leftarrow> split_sdid SDid; unlockSD ops pre seq s }"

text \<open>The macro \<^verbatim>\<open>UNLOCK_SD\<close> with \<^verbatim>\<open>UPDATE_LOCK_CHECK_REQUIRED\<close>.\<close>

definition UNLOCK_SD :: "'w ops \<Rightarrow> sd_like \<Rightarrow> 'w smsd \<Rightarrow> 'w smsd option" where
  "UNLOCK_SD ops sd s = do {
     let (_, s) = need_ctx ops s;
     c \<leftarrow> ctx_of s;
     (_, s) \<leftarrow> HA_SMSSQL_UnLock ops c (sd_cli_prefix sd) (sd_seqnum sd) s;
     Some s
   }"

section \<open>Update status (update.c)\<close>

definition UPD_TYPE_LEN :: nat where "UPD_TYPE_LEN = 50"
definition UPD_STATUS_LEN :: nat where "UPD_STATUS_LEN = 20"
definition FAILURE_MESSAGE_LEN :: nat where "FAILURE_MESSAGE_LEN = 4000"

definition HA_SMSSQL_SetUpdateStatus :: "'w ops \<Rightarrow> nat \<Rightarrow> sd_updatestatus \<Rightarrow> 'w smsd \<Rightarrow> int \<times> 'w smsd" where
  "HA_SMSSQL_SetUpdateStatus ops c u s =
     (let ((r, _), s) = sql_call ''SetUpdateStatus'' c (no_out (x_SetUpdateStatus (x_db ops) c u)) s in (r, s))"

definition HA_SMSSQL_GetUpdateStatus ::
  "'w ops \<Rightarrow> nat \<Rightarrow> sd_updatestatus \<Rightarrow> 'w smsd \<Rightarrow> (int \<times> sd_updatestatus) \<times> 'w smsd" where
  "HA_SMSSQL_GetUpdateStatus ops c u s = sql_call ''GetUpdateStatus'' c (x_GetUpdateStatus (x_db ops) c u) s"

definition setUpdateStatus :: "'w ops \<Rightarrow> string \<Rightarrow> string \<Rightarrow> string \<Rightarrow> string \<Rightarrow> 'w smsd \<Rightarrow> (int \<times> 'w smsd) option" where
  "setUpdateStatus ops SDid type status failure_mag s = do {
     (pre, seq) \<leftarrow> split_sdid SDid;
     let sd_updatestatus = \<lparr>upd_cli_prefix = pre, upd_seqnum = seq, upd_type = take UPD_TYPE_LEN type,
       upd_status = take UPD_STATUS_LEN status, upd_lastdate = [],
       upd_failure_message = take FAILURE_MESSAGE_LEN failure_mag\<rparr>;
     let (_, s) = need_ctx ops s;
     c \<leftarrow> ctx_of s;
     let (ret, s) = HA_SMSSQL_SetUpdateStatus ops c sd_updatestatus s;
     Some (if ret = ERR_DB_FAILED \<or> ret = ERR_DB_NOTFOUND then ret else 0, s)
   }"

text \<open>
  \<^verbatim>\<open>%c\<close> of the first character of an empty status writes a NUL byte, where the string ends
  for its readers.
\<close>

definition update_status_text :: "sd_updatestatus \<Rightarrow> string" where
  "update_status_text u = upd_lastdate u @ crlf @
     (case upd_status u of [] \<Rightarrow> [] | c # _ \<Rightarrow> [c] @ crlf @ upd_failure_message u)"

definition getUpdateStatus :: "'w ops \<Rightarrow> string \<Rightarrow> string \<Rightarrow> 'w smsd \<Rightarrow> ((int \<times> string option) \<times> 'w smsd) option" where
  "getUpdateStatus ops SDid type s = do {
     (pre, seq) \<leftarrow> split_sdid SDid;
     let sd_updatestatus = \<lparr>upd_cli_prefix = pre, upd_seqnum = seq, upd_type = take UPD_TYPE_LEN type,
       upd_status = [], upd_lastdate = [], upd_failure_message = []\<rparr>;
     let (_, s) = need_ctx ops s;
     c \<leftarrow> ctx_of s;
     let ((ret, u), s) = HA_SMSSQL_GetUpdateStatus ops c sd_updatestatus s;
     if ret \<noteq> 0 \<and> ret \<noteq> ERR_DB_NOTFOUND then Some ((ret, None), s)
     else let u = (if ret \<noteq> 0
                   then u\<lparr>upd_lastdate := ''01-01-1970 00:00:00'', upd_status := ''NOTPROCESSED''\<rparr> else u)
          in Some ((0, Some (update_status_text u)), s)
   }"

definition checkUpdate :: "'w ops \<Rightarrow> string \<Rightarrow> 'w smsd \<Rightarrow> ((int \<times> string option) \<times> 'w smsd) option" where
  "checkUpdate ops SDid s = do {
     ((ret, check), s) \<leftarrow> getUpdateStatus ops SDid ''UPDATE'' s;
     Some (if ret \<noteq> 0 then (ret, None) else (SMS_OK, check), s)
   }"

definition events :: "(string \<times> string) list" where
  "events =
   [(''UPDATE'', ''CHECKUPDATE''), (''FIRMWARE'', ''CHECKUPDATEFIRMWARE''), (''RESTORE'', ''CHECKRESTORE''),
    (''SENDDATAFILES'', ''CHECKSENDDATAFILES''), (''BACKUP'', ''CHECKBACKUP''), (''SCRIPT'', ''CHECKEXECSCRIPT''),
    (''PUSHCONFIG'', ''CHECKPUSHCONFIG''), (''PUSHCONFIGIBA'', ''CHECKPUSHCONFIGIBA''),
    (''PUSHCONFIGSTARTUP'', ''CHECKPUSHCONFIGSTARTUP''), (''LICENSE'', ''CHECKUPDATELICENSE''),
    (''NODEMIGRATION'', ''CHECKNODEMIGRATION''), (''OBMFAPPLYCONF'', ''CHECKOBMFAPPLYCONF'')]"

text \<open>The section of one event in the answer to \<^verbatim>\<open>CHECKALLUPDATE\<close>, and the loop over the events.\<close>

definition event_section :: "string \<Rightarrow> string \<Rightarrow> string" where
  "event_section verb check =
     crlf @ ''#begin '' @ verb @ crlf @ check @ crlf @ ''#end '' @ verb @ crlf"

fun check_events ::
  "'w ops \<Rightarrow> string \<Rightarrow> (string \<times> string) list \<Rightarrow> string \<Rightarrow> 'w smsd \<Rightarrow> ((int \<times> string option) \<times> 'w smsd) option" where
  "check_events ops SDid [] updateString s = Some ((SMS_OK, Some updateString), s)"
| "check_events ops SDid ((ty, verb) # evs) updateString s = do {
     ((result, check), s) \<leftarrow> getUpdateStatus ops SDid ty s;
     if result \<noteq> 0 then Some ((result, None), s)
     else do {
       check \<leftarrow> check;
       check_events ops SDid evs (updateString @ event_section verb check) s
     }
   }"

definition checkAllUpdate :: "'w ops \<Rightarrow> string \<Rightarrow> 'w smsd \<Rightarrow> ((int \<times> string option) \<times> 'w smsd) option" where
  "checkAllUpdate ops SDid s = check_events ops SDid events [] s"

text \<open>
  \<^verbatim>\<open>sms_set_update_status\<close> of \<^verbatim>\<open>php_misc.c\<close>; \<open>alarm_fail\<close> and \<open>alarm_ok\<close> are the severities
  \<^verbatim>\<open>alarm_update_fail\<close> and \<^verbatim>\<open>alarm_update_ok\<close> of the configuration. The identifier is cut
  with \<^verbatim>\<open>memcpy\<close> and read with \<^verbatim>\<open>strtol\<close> in base 0.
\<close>

definition sms_set_update_status ::
  "'w ops \<Rightarrow> int \<Rightarrow> int \<Rightarrow> string \<Rightarrow> int \<Rightarrow> string \<Rightarrow> string \<Rightarrow> string \<Rightarrow> 'w smsd \<Rightarrow> (int \<times> 'w smsd) option" where
  "sms_set_update_status ops alarm_fail alarm_ok sdid error_code type status error_msg s =
     (if strncmp_eq status ''WORKING'' \<or> strncmp_eq status ''NOTPROCESSED'' then do {
        (ret, s) \<leftarrow> set_sd_updated ops sdid 0 s;
        if ret \<noteq> 0 then Some (ret, s) else setUpdateStatus ops sdid type status error_msg s
      }
      else if strncmp_eq status ''ENDED'' \<or> strncmp_eq status ''FAILED'' then do {
        error_msg \<leftarrow> (if error_msg = [] then x_get_error_message ops error_code else Some error_msg);
        let sev = (if hd status = CHR ''F'' then alarm_fail else alarm_ok);
        s \<leftarrow> (if PREFIXSIZE \<le> length sdid
              then Some (if sev > 0
                         then set_sd_alarm ops (take PREFIXSIZE sdid) (strtol0 (drop PREFIXSIZE sdid)) sev type error_msg s
                         else s)
              else None);
        setUpdateStatus ops sdid type status error_msg s
      }
      else setUpdateStatus ops sdid type status error_msg s)"

section \<open>What the database functions do to the locks\<close>

text \<open>
  \<open>plock\<close> and \<open>llock\<close> read the provisioning and the update lock of a device in the database.
  The contract is what \<^verbatim>\<open>smssql.h\<close> documents: a call that answers \<^verbatim>\<open>SMS_OK\<close> sets or reads
  the lock it names, \<^verbatim>\<open>SMSSQL_SetLock\<close> sets the lock if it is not set already (or was left
  for too long), and no other call touches the locks.
\<close>

definition SetSDprovlock_law ::
  "'w ops \<Rightarrow> ('w \<Rightarrow> string \<times> int \<Rightarrow> int) \<Rightarrow> ('w \<Rightarrow> string \<times> int \<Rightarrow> bool) \<Rightarrow> bool" where
  "SetSDprovlock_law ops plock llock \<longleftrightarrow>
     (\<forall>c pre seq v w r w'. x_SetSDprovlock (x_sql (x_db ops)) c pre seq v w = (r, w') \<longrightarrow>
        llock w' = llock w \<and> plock w' = (if r = SMS_OK then (plock w)((pre, seq) := v) else plock w))"

definition GetSDprovlock_law ::
  "'w ops \<Rightarrow> ('w \<Rightarrow> string \<times> int \<Rightarrow> int) \<Rightarrow> ('w \<Rightarrow> string \<times> int \<Rightarrow> bool) \<Rightarrow> bool" where
  "GetSDprovlock_law ops plock llock \<longleftrightarrow>
     (\<forall>c pre seq y w r v w'. x_GetSDprovlock (x_sql (x_db ops)) c pre seq y w = ((r, v), w') \<longrightarrow>
        llock w' = llock w \<and> plock w' = plock w \<and> (r = SMS_OK \<longrightarrow> v = plock w (pre, seq)))"

definition SetLock_law ::
  "'w ops \<Rightarrow> ('w \<Rightarrow> string \<times> int \<Rightarrow> int) \<Rightarrow> ('w \<Rightarrow> string \<times> int \<Rightarrow> bool) \<Rightarrow> bool" where
  "SetLock_law ops plock llock \<longleftrightarrow>
     (\<forall>c pre seq y w r st w'. x_SetLock (x_sql (x_db ops)) c pre seq y w = ((r, st), w') \<longrightarrow>
        plock w' = plock w \<and>
        llock w' = (if r = SMS_OK \<and> st \<in> {OK_LOCKED, OK_LOCKED_BY_TIMEOUT}
                    then (llock w)((pre, seq) := True) else llock w) \<and>
        (r = SMS_OK \<longrightarrow> st \<in> {ALREADY_LOCKED, OK_LOCKED, OK_LOCKED_BY_TIMEOUT} \<and>
           (st = OK_LOCKED \<longleftrightarrow> \<not> llock w (pre, seq))))"

definition UnLock_law ::
  "'w ops \<Rightarrow> ('w \<Rightarrow> string \<times> int \<Rightarrow> int) \<Rightarrow> ('w \<Rightarrow> string \<times> int \<Rightarrow> bool) \<Rightarrow> bool" where
  "UnLock_law ops plock llock \<longleftrightarrow>
     (\<forall>c pre seq w r w'. x_UnLock (x_sql (x_db ops)) c pre seq w = (r, w') \<longrightarrow>
        plock w' = plock w \<and> llock w' = (if r = SMS_OK then (llock w)((pre, seq) := False) else llock w))"

definition SetSDPing_law ::
  "'w ops \<Rightarrow> ('w \<Rightarrow> string \<times> int \<Rightarrow> int) \<Rightarrow> ('w \<Rightarrow> string \<times> int \<Rightarrow> bool) \<Rightarrow> bool" where
  "SetSDPing_law ops plock llock \<longleftrightarrow>
     (\<forall>c pre seq a b d w r w'. x_SetSDPing (x_sql (x_db ops)) c pre seq a b d w = (r, w') \<longrightarrow>
        plock w' = plock w \<and> llock w' = llock w)"

definition find_ctx_law ::
  "'w ops \<Rightarrow> ('w \<Rightarrow> string \<times> int \<Rightarrow> int) \<Rightarrow> ('w \<Rightarrow> string \<times> int \<Rightarrow> bool) \<Rightarrow> bool" where
  "find_ctx_law ops plock llock \<longleftrightarrow>
     (\<forall>db w h w'. x_find_ctx (x_db ops) db w = (h, w') \<longrightarrow>
        plock w' = plock w \<and> llock w' = llock w)"

definition connect_law ::
  "'w ops \<Rightarrow> ('w \<Rightarrow> string \<times> int \<Rightarrow> int) \<Rightarrow> ('w \<Rightarrow> string \<times> int \<Rightarrow> bool) \<Rightarrow> bool" where
  "connect_law ops plock llock \<longleftrightarrow>
     (\<forall>c db w. plock (x_AllocateContext (x_db ops) c db w) = plock w \<and>
        llock (x_AllocateContext (x_db ops) c db w) = llock w) \<and>
     (\<forall>c w. plock (x_release_ctx (x_db ops) c w) = plock w \<and> llock (x_release_ctx (x_db ops) c w) = llock w)"

definition lock_contract ::
  "'w ops \<Rightarrow> ('w \<Rightarrow> string \<times> int \<Rightarrow> int) \<Rightarrow> ('w \<Rightarrow> string \<times> int \<Rightarrow> bool) \<Rightarrow> bool" where
  "lock_contract ops plock llock \<longleftrightarrow>
     SetSDprovlock_law ops plock llock \<and> GetSDprovlock_law ops plock llock \<and> SetLock_law ops plock llock \<and>
     UnLock_law ops plock llock \<and> SetSDPing_law ops plock llock \<and> find_ctx_law ops plock llock \<and>
     connect_law ops plock llock"

lemma connect_lawD:
  assumes "lock_contract ops plock llock"
  shows "plock (x_AllocateContext (x_db ops) c db w) = plock w"
    "llock (x_AllocateContext (x_db ops) c db w) = llock w"
    "plock (x_release_ctx (x_db ops) h w) = plock w"
    "llock (x_release_ctx (x_db ops) h w) = llock w"
  using assms by (simp_all add: lock_contract_def connect_law_def)

lemma SetSDprovlock_lawD:
  "lock_contract ops plock llock \<Longrightarrow> x_SetSDprovlock (x_sql (x_db ops)) c pre seq v w = (r, w') \<Longrightarrow>
   llock w' = llock w \<and> plock w' = (if r = SMS_OK then (plock w)((pre, seq) := v) else plock w)"
  unfolding lock_contract_def SetSDprovlock_law_def by blast

lemma GetSDprovlock_lawD:
  "lock_contract ops plock llock \<Longrightarrow> x_GetSDprovlock (x_sql (x_db ops)) c pre seq y w = ((r, v), w') \<Longrightarrow>
   llock w' = llock w \<and> plock w' = plock w \<and> (r = SMS_OK \<longrightarrow> v = plock w (pre, seq))"
  unfolding lock_contract_def GetSDprovlock_law_def by blast

lemma SetLock_lawD:
  "lock_contract ops plock llock \<Longrightarrow> x_SetLock (x_sql (x_db ops)) c pre seq y w = ((r, st), w') \<Longrightarrow>
   plock w' = plock w \<and>
        llock w' = (if r = SMS_OK \<and> st \<in> {OK_LOCKED, OK_LOCKED_BY_TIMEOUT}
                    then (llock w)((pre, seq) := True) else llock w) \<and>
        (r = SMS_OK \<longrightarrow> st \<in> {ALREADY_LOCKED, OK_LOCKED, OK_LOCKED_BY_TIMEOUT} \<and>
           (st = OK_LOCKED \<longleftrightarrow> \<not> llock w (pre, seq)))"
  unfolding lock_contract_def SetLock_law_def by blast

lemma UnLock_lawD:
  "lock_contract ops plock llock \<Longrightarrow> x_UnLock (x_sql (x_db ops)) c pre seq w = (r, w') \<Longrightarrow>
   plock w' = plock w \<and> llock w' = (if r = SMS_OK then (llock w)((pre, seq) := False) else llock w)"
  unfolding lock_contract_def UnLock_law_def by blast

lemma SetSDPing_lawD:
  "lock_contract ops plock llock \<Longrightarrow> x_SetSDPing (x_sql (x_db ops)) c pre seq a b d w = (r, w') \<Longrightarrow>
   plock w' = plock w \<and> llock w' = llock w"
  unfolding lock_contract_def SetSDPing_law_def by blast

lemma find_ctx_lawD:
  "lock_contract ops plock llock \<Longrightarrow> x_find_ctx (x_db ops) db w = (h, w') \<Longrightarrow>
   plock w' = plock w \<and> llock w' = llock w"
  unfolding lock_contract_def find_ctx_law_def by blast

section \<open>The effect of the retrying functions on the locks\<close>

lemma code_facts [simp]:
  "SMS_OK = 0" "ERR_DB_FAILED \<noteq> 0" "ERR_DB_CONNECTION_LOST \<noteq> 0" "ERR_SD_LOCK \<noteq> 0" "ERR_SD_PROVLOCK \<noteq> 0"
  by (simp_all add: return_code_defs)

lemma HA_GetSDprovlock_effect:
  assumes "lock_contract ops plock llock"
    and "HA_SMSSQL_GetSDprovlock ops c pre seq y s = Some ((r, v), s')"
  shows "plock (world s') = plock (world s) \<and> llock (world s') = llock (world s) \<and>
    (r = 0 \<longrightarrow> v = plock (world s) (pre, seq))"
  using GetSDprovlock.effect [OF assms(2), of "\<lambda>w. (plock w, llock w)"]
    GetSDprovlock_lawD [OF assms(1)] connect_lawD [OF assms(1)] by fastforce

lemma HA_SetSdDown_effect:
  assumes "lock_contract ops plock llock"
    and "HA_SMSSQL_SetSdDown ops c pre seq s = Some ((r, u), s')"
  shows "plock (world s') = plock (world s) \<and> llock (world s') = llock (world s)"
  using SetSdDown.effect [OF assms(2), of "\<lambda>w. (plock w, llock w)"]
    SetSDPing_lawD [OF assms(1)] connect_lawD [OF assms(1)]
  by (fastforce simp: no_out_def split: prod.splits)

lemma HA_SetSDprovlock_effect:
  assumes "lock_contract ops plock llock"
    and "HA_SMSSQL_SetSDprovlock ops c pre seq v s = Some ((r, u), s')"
  shows "llock (world s') = llock (world s) \<and>
    plock (world s') = (if r = 0 then (plock (world s))((pre, seq) := v) else plock (world s))"
  using SetSDprovlock.effect [OF assms(2), of "\<lambda>w. (plock w, llock w)"]
    SetSDprovlock_lawD [OF assms(1)] connect_lawD [OF assms(1)]
  by (fastforce simp: no_out_def split: prod.splits)

lemma HA_UnLock_effect:
  assumes "lock_contract ops plock llock"
    and "HA_SMSSQL_UnLock ops c pre seq s = Some ((r, u), s')"
  shows "plock (world s') = plock (world s) \<and>
    llock (world s') = (if r = 0 then (llock (world s))((pre, seq) := False) else llock (world s))"
  using UnLock.effect [OF assms(2), of "\<lambda>w. (plock w, llock w)"]
    UnLock_lawD [OF assms(1)] connect_lawD [OF assms(1)]
  by (fastforce simp: no_out_def split: prod.splits)

text \<open>What \<^verbatim>\<open>HA_SMSSQL_SetLock\<close> answers and does, by the locks it finds.\<close>

definition SetLock_outcome :: "int \<Rightarrow> bool \<Rightarrow> int \<Rightarrow> int \<Rightarrow> bool \<Rightarrow> bool" where
  "SetLock_outcome prov locked r st locked' \<longleftrightarrow>
     (if r \<noteq> 0 then locked' = locked
      else if prov \<noteq> 0 then st = ALREADY_PROVLOCKED \<and> locked' = locked
      else if st = ALREADY_LOCKED then locked \<and> locked'
      else (st = OK_LOCKED \<and> \<not> locked \<or> st = OK_LOCKED_BY_TIMEOUT \<and> locked) \<and> locked')"

lemma SetLock_run_effect:
  assumes contract: "lock_contract ops plock llock"
    and run: "ha_run ops ''SetLock'' c DB_SMS (x_SetLock (x_sql (x_db ops)) c pre seq) st s ((r, st'), s')"
  shows "plock (world s') = plock (world s) \<and> (\<forall>k. k \<noteq> (pre, seq) \<longrightarrow> llock (world s') k = llock (world s) k) \<and>
    SetLock_outcome 0 (llock (world s) (pre, seq)) r st' (llock (world s') (pre, seq))"
proof -
  have lost: "(plock w', llock w') = (plock w, llock w)"
    if "x_SetLock (x_sql (x_db ops)) c pre seq y w = ((ERR_DB_CONNECTION_LOST, y'), w')" for y w y' w'
    using SetLock_lawD [OF contract that] by simp
  have "(\<exists>y0 w0 w'. x_SetLock (x_sql (x_db ops)) c pre seq y0 w0 = ((r, st'), w') \<and>
      (plock w0, llock w0) = (plock (world s), llock (world s)) \<and>
      (plock (world s'), llock (world s')) = (plock w', llock w')) \<or>
    r = ERR_DB_FAILED \<and> (plock (world s'), llock (world s')) = (plock (world s), llock (world s))"
    using ha_run_effect [OF run, of "\<lambda>w. (plock w, llock w)", OF lost] connect_lawD [OF contract] by simp
  then show ?thesis
  proof (elim disjE exE conjE)
    fix y0 w0 w'
    assume call: "x_SetLock (x_sql (x_db ops)) c pre seq y0 w0 = ((r, st'), w')"
      and "(plock w0, llock w0) = (plock (world s), llock (world s))"
        "(plock (world s'), llock (world s')) = (plock w', llock w')"
    then have eqs: "plock w0 = plock (world s)" "llock w0 = llock (world s)"
      "plock (world s') = plock w'" "llock (world s') = llock w'" by auto
    show ?thesis
      using SetLock_lawD [OF contract call] unfolding eqs SetLock_outcome_def
      by (auto simp: lock_state_defs eqs split: if_splits)
  qed (simp add: SetLock_outcome_def)
qed

lemma HA_SetLock_effect:
  assumes contract: "lock_contract ops plock llock"
    and "HA_SMSSQL_SetLock ops c pre seq st s = Some ((r, st'), s')"
  shows "plock (world s') = plock (world s) \<and> (\<forall>k. k \<noteq> (pre, seq) \<longrightarrow> llock (world s') k = llock (world s) k) \<and>
    SetLock_outcome (plock (world s) (pre, seq)) (llock (world s) (pre, seq)) r st' (llock (world s') (pre, seq))"
  using assms(2)
proof (cases rule: SetLock_cases)
  case stopping
  then show ?thesis by (simp add: SetLock_outcome_def)
next
  case (unread p)
  with HA_GetSDprovlock_effect [OF contract unread(1)] show ?thesis by (simp add: SetLock_outcome_def)
next
  case (provlocked p)
  with HA_GetSDprovlock_effect [OF contract provlocked(1)] show ?thesis by (simp add: SetLock_outcome_def)
next
  case (locking s1)
  with HA_GetSDprovlock_effect [OF contract locking(1)] SetLock_run_effect [OF contract locking(2)] show ?thesis by auto
qed

text \<open>Taking and giving back the task's context leaves the locks alone.\<close>

lemma need_ctx_effect:
  assumes "lock_contract ops plock llock" "need_ctx ops s = (acq, s')"
  shows "plock (world s') = plock (world s) \<and> llock (world s') = llock (world s)"
  using assms(2) find_ctx_lawD [OF assms(1)]
  by (auto simp: need_ctx_def sms_db_find_ctx_def split: prod.splits if_splits)

lemma drop_ctx_effect:
  assumes "lock_contract ops plock llock"
  shows "plock (world (drop_ctx ops acq s)) = plock (world s)" "llock (world (drop_ctx ops acq s)) = llock (world s)"
  using connect_lawD [OF assms] by (auto simp: drop_ctx_def sms_db_release_ctx_def)

section \<open>The lock operations\<close>

text \<open>The two ways \<^verbatim>\<open>lockProv\<close> succeeds.\<close>

lemma lockProv_ok_cases:
  assumes "lockProv ops pre seq s = Some (0, s')" "need_ctx ops s = (acq, s1)"
  obtains (held) c d s2 s3 where "HA_SMSSQL_GetSDprovlock ops c pre seq 0 s1 = Some ((0, 1), s2)"
      "HA_SMSSQL_SetSdDown ops c pre seq s2 = Some ((d, ()), s3)" "s' = drop_ctx ops acq s3"
  | (taken) c p d st u s2 s3 s4 s5 s6 where "HA_SMSSQL_GetSDprovlock ops c pre seq 0 s1 = Some ((0, p), s2)" "p \<noteq> 1"
      "HA_SMSSQL_SetSdDown ops c pre seq s2 = Some ((d, ()), s3)"
      "HA_SMSSQL_SetLock ops c pre seq 0 s3 = Some ((0, st), s4)" "st \<noteq> ALREADY_LOCKED"
      "HA_SMSSQL_SetSDprovlock ops c pre seq 1 s4 = Some ((0, ()), s5)"
      "HA_SMSSQL_UnLock ops c pre seq s5 = Some ((u, ()), s6)" "s' = drop_ctx ops acq s6"
  using assms unfolding lockProv_def
  by (auto simp: returned)

lemma lockProv_effect:
  assumes c: "lock_contract ops plock llock" and run: "lockProv ops pre seq s = Some (0, s')"
  shows "plock (world s') (pre, seq) = 1 \<and> (\<forall>k. k \<noteq> (pre, seq) \<longrightarrow> plock (world s') k = plock (world s) k)"
proof -
  obtain acq s1 where n: "need_ctx ops s = (acq, s1)" by (cases "need_ctx ops s")
  note s1 = need_ctx_effect [OF c n]
  from run n show ?thesis
  proof (cases rule: lockProv_ok_cases)
    case (held h d s2 s3)
    from HA_GetSDprovlock_effect [OF c held(1)] HA_SetSdDown_effect [OF c held(2)] s1 show ?thesis
      by (simp add: held(3) drop_ctx_effect [OF c])
  next
    case (taken h p d st u s2 s3 s4 s5 s6)
    from HA_GetSDprovlock_effect [OF c taken(1)] HA_SetSdDown_effect [OF c taken(3)]
      HA_SetLock_effect [OF c taken(4)] HA_SetSDprovlock_effect [OF c taken(6)] HA_UnLock_effect [OF c taken(7)] s1
    show ?thesis by (simp add: taken(8) drop_ctx_effect [OF c])
  qed
qed

text \<open>
  A device that was never provisioned has the lock \<open>-1\<close>: \<^verbatim>\<open>HA_SMSSQL_SetLock\<close> answers
  \<^verbatim>\<open>ALREADY_PROVLOCKED\<close> without taking the update lock, and \<^verbatim>\<open>lockProv\<close> goes on to release it.
\<close>

lemma lockProv_new_device:
  assumes c: "lock_contract ops plock llock" and run: "lockProv ops pre seq s = Some (0, s')"
    and new: "plock (world s) (pre, seq) = -1"
  shows "\<exists>h r s5 s6. HA_SMSSQL_UnLock ops h pre seq s5 = Some ((r, ()), s6) \<and>
    llock (world s5) = llock (world s) \<and> llock (world s') = llock (world s6)"
proof -
  obtain acq s1 where n: "need_ctx ops s = (acq, s1)" by (cases "need_ctx ops s")
  note s1 = need_ctx_effect [OF c n]
  from run n show ?thesis
  proof (cases rule: lockProv_ok_cases)
    case (held h d s2 s3)
    with HA_GetSDprovlock_effect [OF c held(1)] s1 new show ?thesis by simp
  next
    case (taken h p d st u s2 s3 s4 s5 s6)
    note e = HA_GetSDprovlock_effect [OF c taken(1)] HA_SetSdDown_effect [OF c taken(3)]
      HA_SetLock_effect [OF c taken(4)] HA_SetSDprovlock_effect [OF c taken(6)]
    have "llock (world s5) k = llock (world s) k" for k
      using e s1 new by (cases k; cases "k = (pre, seq)") (auto simp: SetLock_outcome_def)
    with taken(7,8) show ?thesis
      by (intro exI [of _ h] exI [of _ u] exI [of _ s5] exI [of _ s6]) (auto simp: drop_ctx_effect [OF c])
  qed
qed

lemma lockSD_effect:
  assumes c: "lock_contract ops plock llock" and run: "lockSD ops pre seq s = Some (r, s')"
  shows "plock (world s') = plock (world s) \<and> (\<forall>k. k \<noteq> (pre, seq) \<longrightarrow> llock (world s') k = llock (world s) k) \<and>
    (r = 0 \<longrightarrow> plock (world s) (pre, seq) = 0 \<and> llock (world s') (pre, seq)) \<and>
    (r \<noteq> 0 \<longrightarrow> llock (world s') = llock (world s))"
proof -
  obtain acq s1 where n: "need_ctx ops s = (acq, s1)" by (cases "need_ctx ops s")
  then obtain h s2 r2 st where h: "HA_SMSSQL_SetLock ops h pre seq 0 s1 = Some ((r2, st), s2)"
    and s': "s' = drop_ctx ops acq s2"
    and r: "r = (if r2 \<noteq> 0 then r2 else if st = ALREADY_LOCKED then ERR_SD_LOCK
        else if st = ALREADY_PROVLOCKED then ERR_SD_PROVLOCK else 0)"
    using run unfolding lockSD_def by (auto simp: bind_eq_Some_conv Let_def)
  have st: "OK_LOCKED \<noteq> ALREADY_LOCKED" "OK_LOCKED_BY_TIMEOUT \<noteq> ALREADY_LOCKED" "OK_LOCKED \<noteq> ALREADY_PROVLOCKED"
    "OK_LOCKED_BY_TIMEOUT \<noteq> ALREADY_PROVLOCKED" "ALREADY_PROVLOCKED \<noteq> ALREADY_LOCKED" by (simp_all add: lock_state_defs)
  from HA_SetLock_effect [OF c h] need_ctx_effect [OF c n] st show ?thesis
    unfolding s' r SetLock_outcome_def drop_ctx_effect [OF c] by (auto simp: fun_eq_iff split: if_splits)
qed

lemma mem_contract: "lock_contract mem_ops m_prov m_lock"
  by (auto simp: lock_contract_def SetSDprovlock_law_def GetSDprovlock_law_def SetLock_law_def UnLock_law_def
      SetSDPing_law_def find_ctx_law_def connect_law_def mem_ops_def mem_db_def mem_sql_def lock_state_defs
      split: if_splits)

section \<open>Borrowing the context of the task\<close>

text \<open>
  The contract of the functions that take a context when the task has none and release it before they
  return. A task that had a context still has it afterwards. A task that had none is left with a pointer
  to a context it has given back: using or releasing it is an error its caller has to avoid.
\<close>

locale ctx_borrower =
  fixes ops :: "'w ops" and op :: "'w smsd \<Rightarrow> ('r \<times> 'w smsd) option"
  assumes borrows: "op s = Some (r, s') \<Longrightarrow> borrowed s s'"
begin

lemma balanced: "op s = Some (r, s') \<Longrightarrow> \<exists>ds. calls s' = calls s @ ds \<and> (\<forall>held. ctx_run held ds = Some held)"
  using borrows by (simp add: borrowed_def ctx_balanced_def)

lemma keeps_ctx: "op s = Some (r, s') \<Longrightarrow> ctx_of s = Some h \<Longrightarrow> ctx_of s' = Some h"
  using borrows by (fastforce simp: borrowed_def)

lemma keeps_stat: "op s = Some (r, s') \<Longrightarrow> currentStat s' = currentStat s \<and> cfd (csp s') = cfd (csp s)"
  using borrows by (simp add: borrowed_def)

lemma dangling:
  assumes "op s = Some (r, s')"
  shows "\<exists>ds. calls (RELEASE_BD_CTX ops s') = calls s @ ds \<and> ctx_run [] ds = None"
proof -
  from borrows [OF assms] obtain h ds where "ctx_of s' = Some h" "calls s' = calls s @ ds" "ctx_run [] ds = Some []"
    by (auto simp: borrowed_def ctx_balanced_def)
  then show ?thesis by (simp add: ctx_run_append)
qed

end

interpretation lockSD: ctx_borrower ops "lockSD ops pre seq" for ops pre seq
proof
  fix s r and s' :: "'a smsd"
  assume "lockSD ops pre seq s = Some (r, s')"
  then obtain acq s1 h ry s2 where "need_ctx ops s = (acq, s1)" "HA_SMSSQL_SetLock ops h pre seq 0 s1 = Some (ry, s2)"
    "s' = drop_ctx ops acq s2"
    unfolding lockSD_def by (cases "need_ctx ops s") (auto simp: returned Let_def)
  then show "borrowed s s'" using borrow_ctx HA_quiet(1) by blast
qed

interpretation unlockSD: ctx_borrower ops "unlockSD ops pre seq" for ops pre seq
proof
  fix s r and s' :: "'a smsd"
  assume "unlockSD ops pre seq s = Some (r, s')"
  then obtain acq s1 h ry s2 where "need_ctx ops s = (acq, s1)" "HA_SMSSQL_UnLock ops h pre seq s1 = Some (ry, s2)"
    "s' = drop_ctx ops acq s2"
    unfolding unlockSD_def by (cases "need_ctx ops s") (auto simp: returned Let_def)
  then show "borrowed s s'" using borrow_ctx UnLock.quiet by blast
qed

interpretation lockProv: ctx_borrower ops "lockProv ops pre seq" for ops pre seq
proof
  fix s r and s' :: "'a smsd"
  assume run: "lockProv ops pre seq s = Some (r, s')"
  obtain acq s1 where n: "need_ctx ops s = (acq, s1)" by (cases "need_ctx ops s")
  have "\<exists>s2. quiet s1 s2 \<and> s' = drop_ctx ops acq s2"
    using run unfolding lockProv_def n
    by (auto simp: returned dest!: HA_quiet) (metis quiet_trans)+
  then show "borrowed s s'" using borrow_ctx [OF n] by blast
qed

text \<open>\<^verbatim>\<open>unlockProv\<close> takes a second context, on the customer database.\<close>

lemma borrow_two:
  assumes n: "need_ctx ops s = (acq, s1)" and f: "sms_db_find_ctx ops DB_CUST s1 = (h, s2)" and q: "quiet s2 s3"
  shows "borrowed s (sms_db_release_ctx ops (Some h) (drop_ctx ops acq s3))"
proof -
  note s1 = need_ctx_D [OF n] and s2 = sms_db_find_ctx_D [OF f]
  obtain k where k: "ctx_of s1 = Some k" using s1 by blast
  obtain ds where ds: "calls s3 = calls s2 @ ds" "list_all ctx_neutral ds" and c: "csp s3 = csp s1"
    "currentStat s3 = currentStat s1" using q s2 by (auto simp: quiet_def)
  let ?s = "sms_db_release_ctx ops (Some h) (drop_ctx ops acq s3)"
  let ?ds = "(if acq then [FindCtx DB_SMS k] else []) @ [FindCtx DB_CUST h] @ ds @
    (if acq then [ReleaseCtx (Some k)] else []) @ [ReleaseCtx (Some h)]"
  have "calls s1 = calls s @ (if acq then [FindCtx DB_SMS k] else [])" using s1 k by (metis option.sel)
  moreover have "calls s2 = calls s1 @ [FindCtx DB_CUST h]" using s2 by blast
  moreover have "ctx_of s3 = Some k" using c k by simp
  ultimately have "calls ?s = calls s @ ?ds" using ds(1) by (cases acq) (simp_all add: drop_ctx_def)
  moreover have "ctx_run held ?ds = Some held" for held
    using ds by (cases acq) (auto simp: ctx_run_append ctx_run_neutral)
  ultimately have "ctx_balanced s ?s" unfolding ctx_balanced_def by blast
  moreover have "ctx_of s \<noteq> None \<longrightarrow> k = the (ctx_of s)"
    using n k by (auto simp: need_ctx_def split: if_splits prod.splits)
  moreover have "currentStat s1 = currentStat s" "cfd (csp s1) = cfd (csp s)" using s1 by auto
  ultimately show ?thesis using c k by (auto simp: borrowed_def drop_ctx_def)
qed

interpretation unlockProv: ctx_borrower ops "unlockProv ops pre seq" for ops pre seq
proof
  fix s r and s' :: "'a smsd"
  assume run: "unlockProv ops pre seq s = Some (r, s')"
  obtain acq s1 where n: "need_ctx ops s = (acq, s1)" by (cases "need_ctx ops s")
  obtain h s2 where f: "sms_db_find_ctx ops DB_CUST s1 = (h, s2)" by (cases "sms_db_find_ctx ops DB_CUST s1")
  obtain c ry ry' s3 s4 where "HA_SMSSQL_SetSDprovlock ops c pre seq 0 s2 = Some (ry, s3)"
      "HA_SMSSQL_SetProvDate ops h pre seq s3 = Some (ry', s4)"
      and s': "s' = sms_db_release_ctx ops (Some h) (drop_ctx ops acq s4)"
    using run n f unfolding unlockProv_def by (auto simp: returned)
  then have "quiet s2 s4" using SetSDprovlock.quiet SetProvDate.quiet quiet_trans by blast
  then show "borrowed s s'" unfolding s' by (rule borrow_two [OF n f])
qed

lemma unlockSD_no_php:
  assumes "unlockSD ops pre seq s = Some (r, s')"
  shows "\<exists>ds. calls s' = calls s @ ds \<and> list_all (\<lambda>d. \<not> is_php d) ds"
proof -
  obtain acq s1 where n: "need_ctx ops s = (acq, s1)" by (cases "need_ctx ops s")
  obtain h ry s2 where u: "HA_SMSSQL_UnLock ops h pre seq s1 = Some (ry, s2)" and s': "s' = drop_ctx ops acq s2"
    using assms n unfolding unlockSD_def by (auto simp: returned)
  obtain ds where "calls s2 = calls s1 @ ds" "list_all (\<lambda>d. \<not> is_php d) ds" using UnLock.no_php [OF u] by blast
  moreover have "\<exists>d. calls s1 = calls s @ d \<and> list_all (\<lambda>d. \<not> is_php d) d"
    using need_ctx_D [OF n] by (cases acq) auto
  ultimately show ?thesis unfolding s' by (cases acq) (auto simp: drop_ctx_def)
qed

section \<open>Properties\<close>

text \<open>
  C7. A successful \<^verbatim>\<open>lockProv\<close> leaves the provisioning lock of the device set to 1 and the
  provisioning locks of all other devices as they were.
\<close>

theorem lockProv_locks:
  assumes "lock_contract ops plock llock" "lockProv ops pre seq s = Some (0, s')"
  shows "plock (world s') (pre, seq) = 1 \<and> (\<forall>k. k \<noteq> (pre, seq) \<longrightarrow> plock (world s') k = plock (world s) k)"
  using assms by (rule lockProv_effect)

theorem lockProv_locks_witness:
  "case lockProv mem_ops ''ABC'' 12 (mem_task mem_world) of
     None \<Rightarrow> False | Some (r, s') \<Rightarrow> r = 0 \<and> m_prov (world s') (''ABC'', 12) = 1"
proof -
  have "map_option fst (lockProv mem_ops ''ABC'' 12 (mem_task mem_world)) = Some 0" by code_simp
  then obtain s' where s': "lockProv mem_ops ''ABC'' 12 (mem_task mem_world) = Some (0, s')" by auto
  from lockProv_locks [OF mem_contract s'] s' show ?thesis by simp
qed

text \<open>
  C8. The outcome of \<^verbatim>\<open>lockSD\<close>: success means that the device was provisioned and that its update
  lock is now held, any other code means that no lock changed; the provisioning locks and the update locks
  of other devices never change.
\<close>

theorem lockSD_outcome:
  assumes "lock_contract ops plock llock" "lockSD ops pre seq s = Some (r, s')"
  shows "plock (world s') = plock (world s) \<and> (\<forall>k. k \<noteq> (pre, seq) \<longrightarrow> llock (world s') k = llock (world s) k) \<and>
    (r = 0 \<longrightarrow> plock (world s) (pre, seq) = 0 \<and> llock (world s') (pre, seq)) \<and>
    (r \<noteq> 0 \<longrightarrow> llock (world s') = llock (world s))"
  using assms by (rule lockSD_effect)

theorem lockSD_outcome_witness:
  "case lockSD mem_ops ''ABC'' 12 (mem_task mem_world) of
     None \<Rightarrow> False | Some (r, s') \<Rightarrow> r = 0 \<and> m_lock (world s') (''ABC'', 12)"
proof -
  have "map_option fst (lockSD mem_ops ''ABC'' 12 (mem_task mem_world)) = Some 0" by code_simp
  then obtain s' where s': "lockSD mem_ops ''ABC'' 12 (mem_task mem_world) = Some (0, s')" by auto
  from lockSD_outcome [OF mem_contract s'] s' show ?thesis by simp
qed

text \<open>
  C9. The provisioning lock excludes updates: after a task has locked the provisioning of a device, the
  update lock of that device is refused to every task, with no lock changed.
\<close>

theorem provlock_excludes_update:
  assumes contract: "lock_contract ops plock llock" and lock: "lockProv ops pre seq s = Some (0, s1)"
    and other: "world s2 = world s1" and run: "lockSD ops pre seq s2 = Some (r, s')"
  shows "r \<noteq> 0 \<and> llock (world s') = llock (world s1) \<and> plock (world s') = plock (world s1)"
proof -
  have "plock (world s2) (pre, seq) = 1" using lockProv_effect [OF contract lock] other by simp
  with lockSD_effect [OF contract run] other show ?thesis by auto
qed

theorem provlock_excludes_update_witness:
  "case lockProv mem_ops ''ABC'' 12 (mem_task mem_world) of None \<Rightarrow> False
   | Some (_, s1) \<Rightarrow> (case lockSD mem_ops ''ABC'' 12 (mem_task (world s1)) of None \<Rightarrow> False
     | Some (r, s') \<Rightarrow> r \<noteq> 0 \<and> m_lock (world s') = m_lock (world s1))"
proof -
  have "map_option (\<lambda>v. (fst v, lockSD mem_ops ''ABC'' 12 (mem_task (world (snd v))) \<noteq> None))
      (lockProv mem_ops ''ABC'' 12 (mem_task mem_world)) = Some (0, True)" by code_simp
  then obtain s1 where s1: "lockProv mem_ops ''ABC'' 12 (mem_task mem_world) = Some (0, s1)"
    and "lockSD mem_ops ''ABC'' 12 (mem_task (world s1)) \<noteq> None" by auto
  then obtain r s' where s': "lockSD mem_ops ''ABC'' 12 (mem_task (world s1)) = Some (r, s')" by auto
  have "world (mem_task (world s1)) = world s1" by (simp add: mem_task_def)
  from provlock_excludes_update [OF mem_contract s1 this s'] s1 s' show ?thesis by simp
qed

text \<open>
  C10. \<^verbatim>\<open>lockProv\<close> on a device that was never provisioned (provisioning lock \<open>-1\<close>) succeeds without
  taking the update lock, and then releases it: an update lock that another task holds on the device is
  still held when \<^verbatim>\<open>HA_SMSSQL_UnLock\<close> is called, and free after it when that call succeeds.
\<close>

theorem lockProv_unlocks_foreign_lock:
  assumes "lock_contract ops plock llock" "lockProv ops pre seq s = Some (0, s')"
    and "plock (world s) (pre, seq) = -1" "llock (world s) (pre, seq)"
  shows "\<exists>h r s5 s6. HA_SMSSQL_UnLock ops h pre seq s5 = Some ((r, ()), s6) \<and> llock (world s5) (pre, seq) \<and>
    llock (world s') = llock (world s6) \<and> (r = 0 \<longrightarrow> \<not> llock (world s') (pre, seq))"
proof -
  obtain h r s5 s6 where u: "HA_SMSSQL_UnLock ops h pre seq s5 = Some ((r, ()), s6)"
    "llock (world s5) = llock (world s)" "llock (world s') = llock (world s6)"
    using lockProv_new_device [OF assms(1-3)] by blast
  with HA_UnLock_effect [OF assms(1) u(1)] assms(4) show ?thesis
    by (intro exI [of _ h] exI [of _ r] exI [of _ s5] exI [of _ s6]) auto
qed

theorem lockProv_unlocks_foreign_lock_witness:
  "case lockProv mem_ops ''ABC'' 12 (mem_task (mem_world\<lparr>m_prov := (\<lambda>_. -1), m_lock := (\<lambda>_. True)\<rparr>)) of
     None \<Rightarrow> False
   | Some (r, s') \<Rightarrow> r = 0 \<and> (\<exists>h r s5 s6. HA_SMSSQL_UnLock mem_ops h ''ABC'' 12 s5 = Some ((r, ()), s6) \<and>
       m_lock (world s5) (''ABC'', 12)) \<and> \<not> m_lock (world s') (''ABC'', 12)"
proof -
  let ?s = "mem_task (mem_world\<lparr>m_prov := (\<lambda>_. -1), m_lock := (\<lambda>_. True)\<rparr>)"
  have "map_option (\<lambda>v. (fst v, m_lock (world (snd v)) (''ABC'', 12))) (lockProv mem_ops ''ABC'' 12 ?s) = Some (0, False)"
    by code_simp
  then obtain s' where s': "lockProv mem_ops ''ABC'' 12 ?s = Some (0, s')" and l: "\<not> m_lock (world s') (''ABC'', 12)" by auto
  have p: "m_prov (world ?s) (''ABC'', 12) = -1" "m_lock (world ?s) (''ABC'', 12)" by (simp_all add: mem_task_def)
  from lockProv_unlocks_foreign_lock [OF mem_contract s' p] s' l show ?thesis by auto
qed

section \<open>Properties of the update status\<close>

lemma check_events_text:
  assumes "check_events ops sid evs acc s = Some ((r, m), s')"
  shows "r = SMS_OK \<longrightarrow> (\<exists>cs. length cs = length evs \<and>
      m = Some (acc @ concat (map (\<lambda>(e, c). event_section (snd e) c) (zip evs cs))) \<and>
      (\<forall>(e, c)\<in>set (zip evs cs). \<exists>s1 s2. getUpdateStatus ops sid (fst e) s1 = Some ((0, Some c), s2)))"
    and "r \<noteq> SMS_OK \<longrightarrow> m = None"
proof -
  have "(r = SMS_OK \<longrightarrow> (\<exists>cs. length cs = length evs \<and>
      m = Some (acc @ concat (map (\<lambda>(e, c). event_section (snd e) c) (zip evs cs))) \<and>
      (\<forall>(e, c)\<in>set (zip evs cs). \<exists>s1 s2. getUpdateStatus ops sid (fst e) s1 = Some ((0, Some c), s2)))) \<and>
    (r \<noteq> SMS_OK \<longrightarrow> m = None)"
    using assms
  proof (induction evs arbitrary: acc s)
    case Nil
    then show ?case by simp
  next
    case (Cons ev evs)
    obtain ty v where ev: "ev = (ty, v)" by (cases ev)
    from Cons.prems ev obtain r1 c1 u where u: "getUpdateStatus ops sid ty s = Some ((r1, c1), u)"
      and alt: "r1 \<noteq> 0 \<and> r = r1 \<and> m = None \<or> (\<exists>c. r1 = 0 \<and> c1 = Some c \<and>
        check_events ops sid evs (acc @ event_section v c) u = Some ((r, m), s'))"
      by (auto simp: returned)
    from alt show ?case
    proof (elim disjE exE conjE)
      assume "r1 \<noteq> 0" "r = r1" "m = None"
      then show ?thesis by (simp add: SMS_OK_def)
    next
      fix c assume c: "r1 = 0" "c1 = Some c"
        and run: "check_events ops sid evs (acc @ event_section v c) u = Some ((r, m), s')"
      show ?thesis
      proof (intro conjI impI)
        assume "r = SMS_OK"
        with Cons.IH [OF run] obtain cs where cs: "length cs = length evs"
          "m = Some ((acc @ event_section v c) @ concat (map (\<lambda>(e, c). event_section (snd e) c) (zip evs cs)))"
          "\<forall>(e, c)\<in>set (zip evs cs). \<exists>s1 s2. getUpdateStatus ops sid (fst e) s1 = Some ((0, Some c), s2)" by blast
        then show "\<exists>cs. length cs = length (ev # evs) \<and>
            m = Some (acc @ concat (map (\<lambda>(e, c). event_section (snd e) c) (zip (ev # evs) cs))) \<and>
            (\<forall>(e, c)\<in>set (zip (ev # evs) cs). \<exists>s1 s2. getUpdateStatus ops sid (fst e) s1 = Some ((0, Some c), s2))"
          using u c ev by (intro exI [of _ "c # cs"]) auto
      next
        assume "r \<noteq> SMS_OK"
        with Cons.IH [OF run] show "m = None" by blast
      qed
    qed
  qed
  then show "r = SMS_OK \<longrightarrow> (\<exists>cs. length cs = length evs \<and>
      m = Some (acc @ concat (map (\<lambda>(e, c). event_section (snd e) c) (zip evs cs))) \<and>
      (\<forall>(e, c)\<in>set (zip evs cs). \<exists>s1 s2. getUpdateStatus ops sid (fst e) s1 = Some ((0, Some c), s2)))"
    and "r \<noteq> SMS_OK \<longrightarrow> m = None" by blast+
qed

text \<open>
  The answer to \<^verbatim>\<open>CHECKALLUPDATE\<close>: on success one section per event, in the order of the table,
  each with the text that \<^verbatim>\<open>getUpdateStatus\<close> gave for the type of the event; on failure no text.
\<close>

theorem checkAllUpdate_sections:
  assumes "checkAllUpdate ops SDid s = Some ((r, m), s')"
  shows "if r = SMS_OK
    then \<exists>cs. length cs = length events \<and>
      m = Some (concat (map (\<lambda>(e, c). event_section (snd e) c) (zip events cs))) \<and>
      (\<forall>(e, c)\<in>set (zip events cs). \<exists>s1 s2. getUpdateStatus ops SDid (fst e) s1 = Some ((0, Some c), s2))
    else m = None"
  using check_events_text [OF assms [unfolded checkAllUpdate_def]] by auto

theorem checkAllUpdate_sections_witness:
  "case checkAllUpdate mem_ops ''ABC12'' (mem_task mem_world) of None \<Rightarrow> False
   | Some ((r, m), s') \<Rightarrow> r = SMS_OK \<and> (\<exists>cs. length cs = 12 \<and>
       m = Some (concat (map (\<lambda>(e, c). event_section (snd e) c) (zip events cs))))"
proof -
  have "map_option (\<lambda>v. fst (fst v)) (checkAllUpdate mem_ops ''ABC12'' (mem_task mem_world)) = Some SMS_OK" by code_simp
  then obtain m s' where s': "checkAllUpdate mem_ops ''ABC12'' (mem_task mem_world) = Some ((SMS_OK, m), s')" by auto
  have "length events = 12" by (simp add: events_def)
  with checkAllUpdate_sections [OF s'] s' show ?thesis by auto
qed

definition status_fits :: "sd_updatestatus \<Rightarrow> bool" where
  "status_fits u \<longleftrightarrow> length (upd_cli_prefix u) = PREFIXSIZE \<and> length (upd_type u) \<le> 50 \<and> length (upd_status u) \<le> 20 \<and>
     length (upd_failure_message u) \<le> 4000"

text \<open>
  What reaches the status table fits its columns: \<^verbatim>\<open>setUpdateStatus\<close> passes one record to the
  database, with a three character prefix, at most 50 characters of type, 20 of status and 4000 of message,
  for the sequence number of the device; of the codes of the database it reports a failed and an unknown
  device, every other one as success.
\<close>

theorem setUpdateStatus_fits:
  assumes "setUpdateStatus ops SDid type status msg s = Some (r, s')"
  shows "\<exists>u c code w. x_SetUpdateStatus (x_db ops) c u w = (code, world s') \<and>
    last (calls s') = Sql ''SetUpdateStatus'' c code \<and> status_fits u \<and>
    upd_cli_prefix u = take PREFIXSIZE SDid \<and> upd_seqnum u = atol (drop PREFIXSIZE SDid) \<and>
    upd_type u = take 50 type \<and> upd_status u = take 20 status \<and> upd_failure_message u = take 4000 msg \<and>
    (code = ERR_DB_FAILED \<or> code = ERR_DB_NOTFOUND \<longrightarrow> r = code) \<and>
    (code \<noteq> ERR_DB_FAILED \<and> code \<noteq> ERR_DB_NOTFOUND \<longrightarrow> r = 0)"
proof -
  obtain pre seq c s1 code where sid: "split_sdid SDid = Some (pre, seq)"
    and call: "HA_SMSSQL_SetUpdateStatus ops c \<lparr>upd_cli_prefix = pre, upd_seqnum = seq, upd_type = take UPD_TYPE_LEN type,
       upd_status = take UPD_STATUS_LEN status, upd_lastdate = [],
       upd_failure_message = take FAILURE_MESSAGE_LEN msg\<rparr> s1 = (code, s')"
    and r: "r = (if code = ERR_DB_FAILED \<or> code = ERR_DB_NOTFOUND then code else 0)"
    using assms unfolding setUpdateStatus_def by (auto simp: returned)
  let ?u = "\<lparr>upd_cli_prefix = pre, upd_seqnum = seq, upd_type = take UPD_TYPE_LEN type,
       upd_status = take UPD_STATUS_LEN status, upd_lastdate = [],
       upd_failure_message = take FAILURE_MESSAGE_LEN msg\<rparr>"
  have "x_SetUpdateStatus (x_db ops) c ?u (world s1) = (code, world s')"
    using call by (auto simp: HA_SMSSQL_SetUpdateStatus_def sql_call_def no_out_def split: prod.splits)
  moreover have "last (calls s') = Sql ''SetUpdateStatus'' c code"
    using call by (auto simp: HA_SMSSQL_SetUpdateStatus_def sql_call_def no_out_def log_call_def split: prod.splits)
  moreover have "status_fits ?u" "upd_cli_prefix ?u = take PREFIXSIZE SDid" "upd_seqnum ?u = atol (drop PREFIXSIZE SDid)"
    "upd_type ?u = take 50 type" "upd_status ?u = take 20 status" "upd_failure_message ?u = take 4000 msg"
    using sid by (auto simp: status_fits_def split_sdid_def UPD_TYPE_LEN_def UPD_STATUS_LEN_def FAILURE_MESSAGE_LEN_def
        split: if_splits)
  ultimately show ?thesis using r by (intro exI [of _ ?u] exI [of _ c] exI [of _ code] exI [of _ "world s1"]) simp
qed

theorem setUpdateStatus_fits_witness:
  "case setUpdateStatus mem_ops ''ABC12'' ''UPDATE'' ''ENDED'' [] (mem_task mem_world) of None \<Rightarrow> False
   | Some (r, s') \<Rightarrow> \<exists>u c code w. x_SetUpdateStatus (x_db mem_ops) c u w = (code, world s') \<and> status_fits u"
proof -
  have "setUpdateStatus mem_ops ''ABC12'' ''UPDATE'' ''ENDED'' [] (mem_task mem_world) \<noteq> None" by code_simp
  then obtain r s' where s': "setUpdateStatus mem_ops ''ABC12'' ''UPDATE'' ''ENDED'' [] (mem_task mem_world) = Some (r, s')" by auto
  from setUpdateStatus_fits [OF s'] s' show ?thesis by auto
qed

text \<open>
  The identifier a client sends is the one the daemon prints: for a device with a three character
  prefix and a sequence number of a positive \<^verbatim>\<open>long\<close>, the requests with the printed identifier act on
  that device.
\<close>

theorem lock_requests_by_identifier:
  assumes "length pre = PREFIXSIZE" "0 \<le> seq" "seq < 2 ^ 63"
  shows "lockProvisioning ops (make_sdid pre seq) s = lockProv ops pre seq s \<and>
    unlockProvisioning ops (make_sdid pre seq) s = unlockProv ops pre seq s \<and>
    unlockUpdate ops (make_sdid pre seq) s = unlockSD ops pre seq s"
  by (simp add: lockProvisioning_def unlockProvisioning_def unlockUpdate_def split_make_sdid [OF assms])

theorem lock_requests_by_identifier_witness:
  "lockProvisioning mem_ops ''ABC12'' (mem_task mem_world) = lockProv mem_ops ''ABC'' 12 (mem_task mem_world)"
proof -
  have "make_sdid ''ABC'' 12 = ''ABC12''" by code_simp
  with lock_requests_by_identifier [of "''ABC''" 12 mem_ops "mem_task mem_world"] show ?thesis by (simp add: PREFIXSIZE_def)
qed

end
