(* ===== verification/Smsd_Reply.thy ===== *)
theory Smsd_Reply
  imports Smsd_Instance
begin

text \<open>
  What the daemon writes back to its client: the line protocol of \<^verbatim>\<open>send_ok\<close> and
  \<^verbatim>\<open>send_error\<close> (\<^verbatim>\<open>verb.c\<close>) and the JSON replies of \<^verbatim>\<open>php_misc.c\<close> that the PHP
  scripts and the verbs use. A C pair of a pointer and a length is the list of the bytes it
  designates; arguments that are only logged (the device and the verb) are left out.

  The lemmas determine the bytes of every reply, that a failed write stops the reply and is
  reported, and that a closed connection receives nothing.
\<close>

section \<open>The line protocol\<close>

definition SMSD_OK_STRING :: string where "SMSD_OK_STRING = ''OK'' @ crlf"
definition SMSD_OK_ALONE_STRING :: string where "SMSD_OK_ALONE_STRING = ''OK'' @ crlf @ crlf @ crlf"
definition SMSD_ERROR_STRING :: string where "SMSD_ERROR_STRING = ''ERROR'' @ crlf"
definition SMSD_MSG_EOL :: string where "SMSD_MSG_EOL = crlf"
definition SMSD_MSG_END :: string where "SMSD_MSG_END = crlf @ crlf"

lemmas reply_string_defs = SMSD_OK_STRING_def SMSD_OK_ALONE_STRING_def SMSD_ERROR_STRING_def
  SMSD_MSG_EOL_def SMSD_MSG_END_def

text \<open>Successive writes, each one checked: the first short write ends the sequence with \<open>-1\<close>.\<close>

fun write_seq :: "'w ops \<Rightarrow> string list \<Rightarrow> 'w smsd \<Rightarrow> int \<times> 'w smsd" where
  "write_seq ops [] s = (0, s)"
| "write_seq ops (b # bs) s =
     (let (ret, s) = socketWrite ops (cfd (csp s)) b s
      in if ret \<noteq> int (length b) then (-1, s) else write_seq ops bs s)"

definition send_ok :: "'w ops \<Rightarrow> string option \<Rightarrow> 'w smsd \<Rightarrow> int \<times> 'w smsd" where
  "send_ok ops msg s =
     (if cfd (csp s) > 0
      then (case msg of
              Some m \<Rightarrow> write_seq ops [SMSD_OK_STRING, m, SMSD_MSG_END] s
            | None \<Rightarrow> write_seq ops [SMSD_OK_ALONE_STRING] s)
      else (0, s))"

definition send_error :: "'w ops \<Rightarrow> string option \<Rightarrow> int \<Rightarrow> 'w smsd \<Rightarrow> int \<times> 'w smsd" where
  "send_error ops msg error s =
     (if cfd (csp s) < 1 then (0, s)
      else write_seq ops
        ([SMSD_ERROR_STRING, fmt_0d 4 error @ '': '']
         @ (case x_get_error_message ops error of Some buf \<Rightarrow> [buf] | None \<Rightarrow> [])
         @ (case msg of Some m \<Rightarrow> [SMSD_MSG_EOL, m] | None \<Rightarrow> [])
         @ [SMSD_MSG_END]) s)"

section \<open>JSON replies\<close>

definition WRITE :: "'w ops \<Rightarrow> string \<Rightarrow> 'w smsd \<Rightarrow> 'w smsd" where
  "WRITE ops str s = snd (socketWrite ops (cfd (csp s)) str s)"

definition WRITE_FIRST_NAME :: "string \<Rightarrow> string" where
  "WRITE_FIRST_NAME str = [DQ] @ str @ [DQ] @ '' : ''"

definition WRITE_NAME :: "string \<Rightarrow> string" where
  "WRITE_NAME str = '','' @ [LF] @ [DQ] @ str @ [DQ] @ '' : ''"

definition WRITE_VALUE :: "string \<Rightarrow> string" where
  "WRITE_VALUE str = [DQ] @ str @ [DQ]"

text \<open>A pointer that is NULL or points to an empty string.\<close>

definition no_str :: "string option \<Rightarrow> bool" where
  "no_str p = (case p of None \<Rightarrow> True | Some t \<Rightarrow> t = [])"

text \<open>The text \<^verbatim>\<open>result_str\<close> the function \<^verbatim>\<open>internal_send_user_message\<close> builds.\<close>

definition user_message_text ::
  "'w ops \<Rightarrow> string option \<Rightarrow> string \<Rightarrow> string option \<Rightarrow> string option \<Rightarrow> string" where
  "user_message_text ops result status message code =
     ''{'' @ [LF] @ WRITE_FIRST_NAME ''sms_status'' @ WRITE_VALUE status
     @ (case result of None \<Rightarrow> [] | Some r \<Rightarrow>
          if r = [] then []
          else if hd r = CHR ''{'' \<or> hd r = CHR ''['' then WRITE_NAME ''sms_result'' @ r
          else WRITE_NAME ''sms_result'' @ WRITE_VALUE (x_backslashify ops r))
     @ (case message of None \<Rightarrow> [] | Some m \<Rightarrow>
          if m = [] then [] else WRITE_NAME ''sms_message'' @ WRITE_VALUE (x_backslashify ops m))
     @ (if status \<noteq> ''OK''
        then (case code of None \<Rightarrow> [] | Some c \<Rightarrow>
                if c = [] then [] else WRITE_NAME ''sms_code'' @ WRITE_VALUE c)
        else [])
     @ [LF] @ ''}'' @ [LF]"

definition internal_send_user_message ::
  "'w ops \<Rightarrow> string option \<Rightarrow> string \<Rightarrow> string option \<Rightarrow> string option \<Rightarrow> 'w smsd \<Rightarrow> 'w smsd" where
  "internal_send_user_message ops result status message code s =
     (if cfd (csp s) < 1 then s else WRITE ops (user_message_text ops result status message code) s)"

definition sms_send_user_ok_ex :: "'w ops \<Rightarrow> string option \<Rightarrow> string option \<Rightarrow> 'w smsd \<Rightarrow> 'w smsd" where
  "sms_send_user_ok_ex ops result message s =
     internal_send_user_message ops result ''OK'' message (Some ''0x00000000'') s"

definition sms_send_user_ok :: "'w ops \<Rightarrow> string option \<Rightarrow> 'w smsd \<Rightarrow> 'w smsd" where
  "sms_send_user_ok ops result s =
     internal_send_user_message ops result ''OK'' (Some []) (Some ''0x00000000'') s"

definition sms_send_user_error :: "'w ops \<Rightarrow> string option \<Rightarrow> int \<Rightarrow> 'w smsd \<Rightarrow> 'w smsd" where
  "sms_send_user_error ops result error s =
     internal_send_user_message ops result ''FAIL'' (x_get_error_message ops error)
       (x_get_error_code_str ops error) s"

text \<open>\<^verbatim>\<open>strdup(get_error_message(error))\<close> needs a message.\<close>

definition sms_send_user_error_ex :: "'w ops \<Rightarrow> string option \<Rightarrow> int \<Rightarrow> 'w smsd \<Rightarrow> 'w smsd option" where
  "sms_send_user_error_ex ops result error s = do {
     msg \<leftarrow> x_get_error_message ops error;
     let result_str = msg @ (case result of None \<Rightarrow> [] | Some r \<Rightarrow> ''. '' @ r);
     Some (internal_send_user_message ops result ''FAIL'' (Some result_str) (x_get_error_code_str ops error) s)
   }"

definition sms_reply_to_user :: "'w ops \<Rightarrow> string option \<Rightarrow> 'w smsd \<Rightarrow> 'w smsd" where
  "sms_reply_to_user ops user_message s =
     (if cfd (csp s) < 1 \<or> no_str user_message then s else WRITE ops (the user_message) s)"

definition sms_send_user_message :: "'w ops \<Rightarrow> string \<Rightarrow> 'w smsd \<Rightarrow> 'w smsd" where
  "sms_send_user_message ops user_message s =
     (if cfd (csp s) < 1 then s
      else WRITE ops (''{'' @ [LF] @ user_message @ [LF] @ ''}'' @ [LF]) s)"

text \<open>The builders below take the empty string for a NULL first argument: the code treats both alike.\<close>

definition msg_sep :: "string \<Rightarrow> string" where
  "msg_sep message = (if message = [] then [] else message @ '','' @ [LF])"

definition sms_user_message_add :: "'w ops \<Rightarrow> string \<Rightarrow> string \<Rightarrow> string \<Rightarrow> string" where
  "sms_user_message_add ops message name val =
     msg_sep message @ [DQ] @ name @ [DQ] @ '' : '' @ [DQ] @ x_backslashify ops val @ [DQ]"

definition sms_user_message_add_json :: "string \<Rightarrow> string \<Rightarrow> string \<Rightarrow> string" where
  "sms_user_message_add_json message name val =
     msg_sep message @ [DQ] @ name @ [DQ] @ '' : {'' @ [LF] @ val @ [LF] @ ''}''"

definition sms_user_message_add_array :: "string \<Rightarrow> string \<Rightarrow> string \<Rightarrow> string" where
  "sms_user_message_add_array message name arr =
     msg_sep message @ [DQ] @ name @ [DQ] @ '' : ['' @ [LF] @ arr @ [LF] @ '']''"

definition sms_user_message_array_add :: "string \<Rightarrow> string \<Rightarrow> string" where
  "sms_user_message_array_add arr row = msg_sep arr @ ''{'' @ [LF] @ row @ [LF] @ ''}''"

definition sms_close_user_socket :: "'w ops \<Rightarrow> 'w smsd \<Rightarrow> 'w smsd" where
  "sms_close_user_socket ops s = set_cfd (-1) (snd (socketClose ops (cfd (csp s)) s))"

section \<open>The bytes of a reply\<close>

text \<open>The writes on a descriptor among a list of calls, and the ones that wrote everything.\<close>

fun writes_on :: "int \<Rightarrow> ext_call list \<Rightarrow> string list" where
  "writes_on fd [] = []"
| "writes_on fd (SockWrite fd' b r # cs) = (if fd' = fd then b # writes_on fd cs else writes_on fd cs)"
| "writes_on fd (_ # cs) = writes_on fd cs"

lemma writes_on_append [simp]: "writes_on fd (cs @ ds) = writes_on fd cs @ writes_on fd ds"
  by (induction fd cs rule: writes_on.induct) auto

text \<open>The calls of a write sequence: all of it when it succeeds, up to the short write otherwise.\<close>

lemma write_seq_calls:
  "write_seq ops bs s = (r, s') \<Longrightarrow>
   \<exists>ws. calls s' = calls s @ ws \<and> csp s' = csp s \<and> currentStat s' = currentStat s \<and> php_vars s' = php_vars s \<and>
     ((r = 0 \<and> ws = map (\<lambda>b. SockWrite (cfd (csp s)) b (int (length b))) bs) \<or>
      (r = -1 \<and> (\<exists>pre b post n. bs = pre @ b # post \<and> n \<noteq> int (length b) \<and>
         ws = map (\<lambda>b. SockWrite (cfd (csp s)) b (int (length b))) pre @ [SockWrite (cfd (csp s)) b n])))"
proof (induction bs arbitrary: s)
  case Nil
  then show ?case by auto
next
  case (Cons b bs)
  obtain n s1 where w: "socketWrite ops (cfd (csp s)) b s = (n, s1)" by (cases "socketWrite ops (cfd (csp s)) b s")
  note s1 = socketWrite_D [OF w]
  show ?case
  proof (cases "n = int (length b)")
    case True
    with Cons.prems w have "write_seq ops bs s1 = (r, s')" by simp
    from Cons.IH [OF this] obtain ws where ws: "calls s' = calls s1 @ ws"
      and fr: "csp s' = csp s1 \<and> currentStat s' = currentStat s1 \<and> php_vars s' = php_vars s1"
      and alt: "(r = 0 \<and> ws = map (\<lambda>b. SockWrite (cfd (csp s1)) b (int (length b))) bs) \<or>
        (r = -1 \<and> (\<exists>pre b post n. bs = pre @ b # post \<and> n \<noteq> int (length b) \<and>
           ws = map (\<lambda>b. SockWrite (cfd (csp s1)) b (int (length b))) pre @ [SockWrite (cfd (csp s1)) b n]))"
      by blast
    let ?ws = "SockWrite (cfd (csp s)) b (int (length b)) # ws"
    have c: "calls s' = calls s @ ?ws" using ws s1 True by simp
    from alt show ?thesis
    proof (elim disjE conjE exE)
      assume "r = 0" "ws = map (\<lambda>b. SockWrite (cfd (csp s1)) b (int (length b))) bs"
      then show ?thesis using c fr s1 by auto
    next
      fix pre b' post m
      assume "r = -1" "bs = pre @ b' # post" "m \<noteq> int (length b')"
        "ws = map (\<lambda>b. SockWrite (cfd (csp s1)) b (int (length b))) pre @ [SockWrite (cfd (csp s1)) b' m]"
      then have "r = -1 \<and> b # bs = (b # pre) @ b' # post \<and> m \<noteq> int (length b') \<and>
        ?ws = map (\<lambda>b. SockWrite (cfd (csp s)) b (int (length b))) (b # pre) @ [SockWrite (cfd (csp s)) b' m]"
        using s1 by simp
      with c fr s1 show ?thesis
        by (intro exI [of _ ?ws] conjI disjI2 exI [of _ "b # pre"] exI [of _ b'] exI [of _ post] exI [of _ m]) auto
    qed
  next
    case False
    with Cons.prems w s1 show ?thesis
      by (intro exI [of _ "[SockWrite (cfd (csp s)) b n]"]) fastforce
  qed
qed

declare write_seq.simps [simp del]

lemma writes_on_map [simp]: "writes_on fd (map (\<lambda>b. SockWrite fd b (f b)) bs) = bs"
  by (induction bs) auto

text \<open>What a step from \<open>s\<close> to \<open>s'\<close> wrote to the client of \<open>s\<close>.\<close>

definition reply_bytes :: "'w smsd \<Rightarrow> 'w smsd \<Rightarrow> string" where
  "reply_bytes s s' = concat (writes_on (cfd (csp s)) (drop (length (calls s)) (calls s')))"

lemma write_seq_ok:
  "write_seq ops bs s = (0, s') \<Longrightarrow> reply_bytes s s' = concat bs"
  by (auto simp: reply_bytes_def dest!: write_seq_calls)

lemma write_seq_frame:
  "write_seq ops bs s = (r, s') \<Longrightarrow>
   csp s' = csp s \<and> currentStat s' = currentStat s \<and> php_vars s' = php_vars s \<and> (r = 0 \<or> r = -1)"
  by (auto dest!: write_seq_calls)

lemma write_seq_neutral:
  "write_seq ops bs s = (r, s') \<Longrightarrow> \<exists>ds. calls s' = calls s @ ds \<and> list_all ctx_neutral ds"
  by (auto dest!: write_seq_calls simp: list_all_iff)

lemma send_ok_frame:
  "send_ok ops msg s = (r, s') \<Longrightarrow>
   csp s' = csp s \<and> currentStat s' = currentStat s \<and> php_vars s' = php_vars s \<and> (r = 0 \<or> r = -1)"
  unfolding send_ok_def by (auto dest: write_seq_frame split: if_splits option.splits)

lemma send_error_frame:
  "send_error ops msg e s = (r, s') \<Longrightarrow>
   csp s' = csp s \<and> currentStat s' = currentStat s \<and> php_vars s' = php_vars s \<and> (r = 0 \<or> r = -1)"
  unfolding send_error_def by (auto dest: write_seq_frame split: if_splits)

lemma send_ok_neutral:
  "send_ok ops msg s = (r, s') \<Longrightarrow> \<exists>ds. calls s' = calls s @ ds \<and> list_all ctx_neutral ds"
  unfolding send_ok_def by (auto dest: write_seq_neutral split: if_splits option.splits)

lemma send_error_neutral:
  "send_error ops msg e s = (r, s') \<Longrightarrow> \<exists>ds. calls s' = calls s @ ds \<and> list_all ctx_neutral ds"
  unfolding send_error_def by (auto dest: write_seq_neutral split: if_splits)

lemma user_message_frame [simp]:
  "csp (WRITE ops t s) = csp s" "currentStat (WRITE ops t s) = currentStat s"
  "csp (internal_send_user_message ops res st m c s) = csp s"
  "currentStat (internal_send_user_message ops res st m c s) = currentStat s"
  by (simp_all add: WRITE_def internal_send_user_message_def socketWrite_def split: prod.splits)

text \<open>The status a client reads off a reply: \<open>0\<close> after \<^verbatim>\<open>OK\<close>, the code after \<^verbatim>\<open>ERROR\<close>.\<close>

definition reply_status :: "string \<Rightarrow> int option" where
  "reply_status t =
     (if take 4 t = SMSD_OK_STRING then Some 0
      else if take 7 t = SMSD_ERROR_STRING then Some (atol (drop 7 t)) else None)"

lemma foldl_zeros: "foldl (\<lambda>n c. 10 * n + digit_val c) 0 (replicate k (CHR ''0'')) = 0"
  by (induction k) (auto simp: digit_val_def Let_def)

lemma pad0_digits: "c \<in> set (pad0 w (dec_nat n)) \<Longrightarrow> c_isdigit c"
  by (auto simp: pad0_def dec_nat_digits) (simp add: c_isdigit_def)

lemma num_val_pad0:
  "num_val 10 (pad0 w (dec_nat n) @ CHR '':'' # t) = n"
proof -
  have "takeWhile (\<lambda>c. digit_val c < 10) (pad0 w (dec_nat n) @ CHR '':'' # t) = pad0 w (dec_nat n)"
    using pad0_digits digit_val_less_10 by (subst takeWhile_append2) (auto simp: digit_val_def Let_def)
  then show ?thesis by (simp only: num_val_def) (simp add: pad0_def foldl_zeros foldl_dec_nat)
qed

lemma atol_fmt_0d:
  assumes "0 \<le> e" "e < 2 ^ 63"
  shows "atol (fmt_0d 4 e @ CHR '':'' # t) = e"
proof -
  let ?d = "pad0 4 (dec_nat (nat e))"
  obtain c d where cd: "?d = c # d" by (cases ?d) (auto simp: pad0_def)
  then have "c_isdigit c" using pad0_digits [of c 4 "nat e"] by simp
  then have sp: "dropWhile c_isspace (?d @ CHR '':'' # t) = ?d @ CHR '':'' # t"
    and sg: "split_sign (?d @ CHR '':'' # t) = (False, ?d @ CHR '':'' # t)"
    using cd c_isdigit_facts [of c] by (auto simp: split_sign_def)
  from assms have "fmt_0d 4 e = ?d" by (simp add: fmt_0d_def)
  with sp sg assms show ?thesis
    by (simp only: atol_def num_val_pad0 prod.case)
      (simp add: num_val_pad0 signed_val_def long_clamp_def)
qed

lemma reply_status_ok: "reply_status (SMSD_OK_STRING @ t) = Some 0"
  by (simp add: reply_status_def reply_string_defs)

lemma reply_status_error:
  "0 \<le> e \<Longrightarrow> e < 2 ^ 63 \<Longrightarrow> reply_status (SMSD_ERROR_STRING @ (fmt_0d 4 e @ '': '') @ t) = Some e"
  by (simp add: reply_status_def reply_string_defs atol_fmt_0d)

lemma send_error_bytes:
  assumes "send_error ops msg e s = (0, s')" "0 < cfd (csp s)"
  shows "\<exists>t. reply_bytes s s' = SMSD_ERROR_STRING @ (fmt_0d 4 e @ '': '') @ t"
proof -
  from assms have "reply_bytes s s' = concat ([SMSD_ERROR_STRING, fmt_0d 4 e @ '': '']
       @ (case x_get_error_message ops e of Some buf \<Rightarrow> [buf] | None \<Rightarrow> [])
       @ (case msg of Some m \<Rightarrow> [SMSD_MSG_EOL, m] | None \<Rightarrow> []) @ [SMSD_MSG_END])"
    unfolding send_error_def by (intro write_seq_ok) (auto split: if_splits)
  then show ?thesis by auto
qed

lemma user_error_calls:
  "\<exists>ds. calls (sms_send_user_error ops res e s) = calls s @ ds \<and>
     list_all (\<lambda>d. \<not> is_php d) ds \<and> list_all ctx_neutral ds"
  by (auto simp: sms_send_user_error_def internal_send_user_message_def WRITE_def socketWrite_def split: prod.splits)

lemma user_error_frame [simp]:
  "csp (sms_send_user_error ops res e s) = csp s" "currentStat (sms_send_user_error ops res e s) = currentStat s"
  by (simp_all add: sms_send_user_error_def)

section \<open>Properties\<close>

text \<open>A write that wrote all its bytes.\<close>

fun full_write :: "ext_call \<Rightarrow> bool" where
  "full_write (SockWrite fd b n) \<longleftrightarrow> n = int (length b)"
| "full_write _ \<longleftrightarrow> False"

lemma write_seq_verdict:
  assumes "write_seq ops bs s = (r, s')"
  shows "r = (if list_all full_write (drop (length (calls s)) (calls s')) then 0 else -1) \<and>
    list_all full_write (butlast (drop (length (calls s)) (calls s')))"
proof -
  obtain ws where ws: "calls s' = calls s @ ws"
    and alt: "(r = 0 \<and> ws = map (\<lambda>b. SockWrite (cfd (csp s)) b (int (length b))) bs) \<or>
      (r = -1 \<and> (\<exists>pre b post n. bs = pre @ b # post \<and> n \<noteq> int (length b) \<and>
         ws = map (\<lambda>b. SockWrite (cfd (csp s)) b (int (length b))) pre @ [SockWrite (cfd (csp s)) b n]))"
    using write_seq_calls [OF assms] by blast
  have full: "list_all full_write (map (\<lambda>b. SockWrite fd b (int (length b))) cs)" for fd cs
    by (simp add: list_all_iff)
  have bl: "list_all full_write ws \<Longrightarrow> list_all full_write (butlast ws)" for ws
    by (auto simp: list_all_iff dest: in_set_butlastD)
  from alt ws full bl show ?thesis by auto
qed

text \<open>
  C12. The status of an error reply: when \<^verbatim>\<open>send_error\<close> reports success on an open connection, the
  bytes the client received are an error reply from which it reads back the error code.
\<close>

theorem send_error_status:
  assumes "send_error ops msg e s = (0, s')" "0 < cfd (csp s)" "0 \<le> e" "e < 2 ^ 63"
  shows "reply_status (reply_bytes s s') = Some e"
  using send_error_bytes [OF assms(1,2)] reply_status_error [OF assms(3,4)] by auto

theorem send_error_status_witness:
  "reply_status (reply_bytes (mem_task mem_world) (snd (send_error mem_ops (Some ''x'') 41 (mem_task mem_world)))) = Some 41"
proof -
  have "fst (send_error mem_ops (Some ''x'') 41 (mem_task mem_world)) = 0" by code_simp
  then have s: "send_error mem_ops (Some ''x'') 41 (mem_task mem_world) =
      (0, snd (send_error mem_ops (Some ''x'') 41 (mem_task mem_world)))" by (metis prod.collapse)
  have "0 < cfd (csp (mem_task mem_world))" by (simp add: mem_task_def)
  from send_error_status [OF s this] show ?thesis by simp
qed

text \<open>
  The bytes of a success reply: \<^verbatim>\<open>OK\<close>, the message and the end mark, or the fixed reply without
  a message; the client reads status 0 off both.
\<close>

theorem send_ok_bytes:
  assumes "send_ok ops msg s = (0, s')" "0 < cfd (csp s)"
  shows "reply_bytes s s' = (case msg of Some m \<Rightarrow> SMSD_OK_STRING @ m @ SMSD_MSG_END | None \<Rightarrow> SMSD_OK_ALONE_STRING) \<and>
    reply_status (reply_bytes s s') = Some 0"
proof (cases msg)
  case None
  with assms have "reply_bytes s s' = concat [SMSD_OK_ALONE_STRING]"
    unfolding send_ok_def by (intro write_seq_ok) auto
  with None reply_status_ok [of "crlf @ crlf"] show ?thesis by (simp add: SMSD_OK_ALONE_STRING_def SMSD_OK_STRING_def)
next
  case (Some m)
  with assms have "reply_bytes s s' = concat [SMSD_OK_STRING, m, SMSD_MSG_END]"
    unfolding send_ok_def by (intro write_seq_ok) auto
  with Some reply_status_ok show ?thesis by simp
qed

theorem send_ok_bytes_witness:
  "reply_bytes (mem_task mem_world) (snd (send_ok mem_ops (Some ''up'') (mem_task mem_world))) =
   ''OK'' @ crlf @ ''up'' @ crlf @ crlf"
proof -
  have "fst (send_ok mem_ops (Some ''up'') (mem_task mem_world)) = 0" by code_simp
  then have s: "send_ok mem_ops (Some ''up'') (mem_task mem_world) =
      (0, snd (send_ok mem_ops (Some ''up'') (mem_task mem_world)))" by (metis prod.collapse)
  have "0 < cfd (csp (mem_task mem_world))" by (simp add: mem_task_def)
  from send_ok_bytes [OF s this] show ?thesis by (simp add: reply_string_defs)
qed

text \<open>
  A short write ends a reply and is reported: \<^verbatim>\<open>send_ok\<close> and \<^verbatim>\<open>send_error\<close> return 0
  exactly when every write wrote all its bytes, and no write follows a short one.
\<close>

theorem replies_stop_at_short_write:
  assumes "send_ok ops msg s = (r, s') \<or> send_error ops msg e s = (r, s')" "0 < cfd (csp s)"
  shows "r = (if list_all full_write (drop (length (calls s)) (calls s')) then 0 else -1) \<and>
    list_all full_write (butlast (drop (length (calls s)) (calls s')))"
proof -
  from assms obtain bs where "write_seq ops bs s = (r, s')"
    by (auto simp: send_ok_def send_error_def split: if_splits option.splits)
  then show ?thesis by (rule write_seq_verdict)
qed

text \<open>An instance whose socket accepts three bytes only.\<close>

definition short_ops :: "mem ops" where
  "short_ops = mem_ops\<lparr>x_socketWrite := (\<lambda>fd b w. (min 3 (int (length b)), w))\<rparr>"

theorem replies_stop_at_short_write_witness:
  "fst (send_ok short_ops (Some ''hello'') (mem_task mem_world)) = -1 \<and>
   \<not> list_all full_write (calls (snd (send_ok short_ops (Some ''hello'') (mem_task mem_world))))"
proof -
  let ?v = "send_ok short_ops (Some ''hello'') (mem_task mem_world)"
  have r: "fst ?v = -1" by code_simp
  have "send_ok short_ops (Some ''hello'') (mem_task mem_world) = (fst ?v, snd ?v) \<or>
      send_error short_ops (Some ''hello'') 0 (mem_task mem_world) = (fst ?v, snd ?v)" by simp
  moreover have "0 < cfd (csp (mem_task mem_world))" by (simp add: mem_task_def)
  ultimately have "fst ?v = (if list_all full_write (drop (length (calls (mem_task mem_world))) (calls (snd ?v))) then 0 else -1)"
    using replies_stop_at_short_write by blast
  with r show ?thesis by (simp add: mem_task_def split: if_splits)
qed

text \<open>
  A task without a client (its socket closed by \<^verbatim>\<open>sms_close_user_socket\<close>, or never opened) writes
  nothing: every reply function leaves the task as it is and reports success.
\<close>

theorem closed_socket_silent:
  "let t = sms_close_user_socket ops s in
     send_ok ops msg t = (0, t) \<and> send_error ops msg e t = (0, t) \<and> sms_send_user_error ops msg e t = t \<and>
     sms_send_user_ok ops msg t = t \<and> sms_reply_to_user ops msg t = t \<and> sms_send_user_message ops m t = t"
  by (simp add: sms_close_user_socket_def Let_def send_ok_def send_error_def sms_send_user_error_def
      internal_send_user_message_def sms_send_user_ok_def sms_reply_to_user_def sms_send_user_message_def)

end
