(* ===== verification/Smsd_Generic.thy ===== *)
theory Smsd_Generic
  imports Smsd_Locks Smsd_Reply
begin

text \<open>
  Operations that run a PHP script: \<^verbatim>\<open>generic_router.c\<close>, \<^verbatim>\<open>pattern.c\<close> and
  \<^verbatim>\<open>report.c\<close>. Each one opens a PHP session, sets the variables of the script, runs it, deals
  with its failure and closes the session. A function that cannot block returns a pair, one that
  calls \<^verbatim>\<open>unlockSD\<close> an option, because the database may be lost.

  The locale \<open>php_runner\<close> is the contract of a function that runs one script; every such function
  is shown to satisfy it.
\<close>

section \<open>Operations\<close>

text \<open>\<^verbatim>\<open>get_router_config_type(SDinfo->SD.man_id, SDinfo->SD.mod_id)\<close>\<close>

definition config_type :: "'w ops \<Rightarrow> sd_info \<Rightarrow> string option" where
  "config_type ops SDinfo = x_get_router_config_type ops (man_id (SD SDinfo)) (mod_id (SD SDinfo))"

text \<open>
  The comma separated list of commands that \<^verbatim>\<open>genericSmsexecCmd\<close> and
  \<^verbatim>\<open>genericSmsAddonExecCmd\<close> build, NULL for no command. \<open>first\<close> is the flag of the loop.
\<close>

fun csv_loop :: "bool \<Rightarrow> string list \<Rightarrow> string option \<Rightarrow> string option" where
  "csv_loop first [] csv = csv"
| "csv_loop first (cmd # cmds) csv =
     (let csv = (if first then csv else Some ((case csv of None \<Rightarrow> [] | Some c \<Rightarrow> c) @ '',''))
      in csv_loop False cmds (Some ((case csv of None \<Rightarrow> [] | Some c \<Rightarrow> c) @ cmd)))"

definition cmd_csv :: "string list \<Rightarrow> string option" where
  "cmd_csv router_cmd_list = csv_loop True router_cmd_list None"

definition genericStaging :: "'w ops \<Rightarrow> sd_info \<Rightarrow> 'w smsd \<Rightarrow> int \<times> 'w smsd" where
  "genericStaging ops SDinfo s =
     (let s = php_startup s;
       s = php_set ''sms_csp'' PCsp s;
       s = php_set ''sms_sd_info'' (PSdinfo SDinfo) s;
       (ret, s) = php_execute ops (info_sdid SDinfo) (router_path SDinfo) ''do_staging.php'' s;
       s = (if ret \<noteq> 0 then sms_send_user_error ops (Some []) ret s else s)
      in (ret, php_shutdown s))"

definition genericStagingMap :: "'w ops \<Rightarrow> sd_info \<Rightarrow> 'w smsd \<Rightarrow> int \<times> 'w smsd" where
  "genericStagingMap ops SDinfo s =
     (let s = php_startup s;
       s = php_set ''sms_csp'' PCsp s;
       s = php_set ''sms_sd_info'' (PSdinfo SDinfo) s;
       (ret, s) = php_execute ops (info_sdid SDinfo) (router_path SDinfo) ''do_stagingmap.php'' s;
       s = (if ret \<noteq> 0 then sms_send_user_error ops (Some []) ret s else s)
      in (ret, php_shutdown s))"

definition genericInitialProvisioning :: "'w ops \<Rightarrow> sd_info \<Rightarrow> string \<Rightarrow> string \<Rightarrow> string \<Rightarrow> string \<Rightarrow> 'w smsd \<Rightarrow> (int \<times> 'w smsd) option" where
  "genericInitialProvisioning ops SDinfo ipaddr login passwd adminpasswd s = do {
     let s = php_startup s;
     let s = php_set ''sms_csp'' PCsp s;
     let s = php_set ''ipaddr'' (PStr (Some ipaddr)) s;
     let s = php_set ''login'' (PStr (Some login)) s;
     let s = php_set ''passwd'' (PStr (Some passwd)) s;
     let s = php_set ''adminpasswd'' (PStr (Some adminpasswd)) s;
     let s = php_set ''sms_sd_info'' (PSdinfo SDinfo) s;
     let (ret, s) = php_execute ops (info_sdid SDinfo) (router_path SDinfo) ''do_provisioning.php'' s;
     let s = (if ret \<noteq> 0 then sms_send_user_error ops (Some []) ret s else s);
     s \<leftarrow> (if ret \<noteq> 0
          then do { (_, s) \<leftarrow> unlockSD ops (sd_cli_prefix (SD SDinfo)) (sd_seqnum (SD SDinfo)) s; Some s }
          else Some s);
     Some (ret, php_shutdown s)
   }"

definition genericCheckProvisioning :: "'w ops \<Rightarrow> sd_info \<Rightarrow> 'w smsd \<Rightarrow> int \<times> 'w smsd" where
  "genericCheckProvisioning ops SDinfo s =
     (let s = php_startup s;
       s = php_set ''sms_csp'' PCsp s;
       s = php_set ''sms_sd_info'' (PSdinfo SDinfo) s;
       (ret, s) = php_execute ops (info_sdid SDinfo) (router_path SDinfo) ''do_checkprovisioning.php'' s;
       s = (if ret \<noteq> 0 then sms_send_user_error ops (Some []) ret s else s)
      in (ret, php_shutdown s))"

definition genericGetRunningConf :: "'w ops \<Rightarrow> sd_info \<Rightarrow> 'w smsd \<Rightarrow> int \<times> 'w smsd" where
  "genericGetRunningConf ops SDinfo s =
     (let s = php_startup s;
       s = php_set ''sms_csp'' PCsp s;
       s = php_set ''sms_sd_info'' (PSdinfo SDinfo) s;
       (ret, s) = php_execute ops (info_sdid SDinfo) (router_path SDinfo) ''do_get_running_conf.php'' s;
       s = (if ret \<noteq> 0 then sms_send_user_error ops (Some []) ret s else s)
      in (ret, php_shutdown s))"

definition genericGetConfig :: "'w ops \<Rightarrow> sd_info \<Rightarrow> 'w smsd \<Rightarrow> int \<times> 'w smsd" where
  "genericGetConfig ops SDinfo s =
     (let s = php_startup s;
       s = php_set ''sms_csp'' PCsp s;
       s = php_set ''sms_sd_info'' (PSdinfo SDinfo) s;
       (ret, s) = php_execute ops (info_sdid SDinfo) (router_path SDinfo) ''do_get_config.php'' s;
       s = (if ret \<noteq> 0 then sms_send_user_error ops (Some []) ret s else s)
      in (ret, php_shutdown s))"

definition genericGetActivityReport :: "'w ops \<Rightarrow> sd_info \<Rightarrow> 'w smsd \<Rightarrow> int \<times> 'w smsd" where
  "genericGetActivityReport ops SDinfo s =
     (let s = php_startup s;
       s = php_set ''sms_csp'' PCsp s;
       s = php_set ''sms_sd_info'' (PSdinfo SDinfo) s;
       (ret, s) = php_execute ops (info_sdid SDinfo) (router_path SDinfo) ''do_get_activity_report.php'' s;
       s = (if ret \<noteq> 0 then sms_send_user_error ops (Some []) ret s else s)
      in (ret, php_shutdown s))"

definition genericGetBotnetReport :: "'w ops \<Rightarrow> sd_info \<Rightarrow> 'w smsd \<Rightarrow> int \<times> 'w smsd" where
  "genericGetBotnetReport ops SDinfo s =
     (let s = php_startup s;
       s = php_set ''sms_csp'' PCsp s;
       s = php_set ''sms_sd_info'' (PSdinfo SDinfo) s;
       (ret, s) = php_execute ops (info_sdid SDinfo) (router_path SDinfo) ''do_get_botnet_report.php'' s;
       s = (if ret \<noteq> 0 then sms_send_user_error ops (Some []) ret s else s)
      in (ret, php_shutdown s))"

definition genericRestoreConf :: "'w ops \<Rightarrow> sd_info \<Rightarrow> string \<Rightarrow> string \<Rightarrow> 'w smsd \<Rightarrow> (int \<times> 'w smsd) option" where
  "genericRestoreConf ops SDinfo revision_id msg s = do {
     let s = php_startup s;
     let s = php_set ''revision_id'' (PStr (Some revision_id)) s;
     let s = php_set ''sms_csp'' PCsp s;
     let s = php_set ''config_type'' (PStr (config_type ops SDinfo)) s;
     let s = php_set ''sms_msg'' (PStr (Some msg)) s;
     let s = php_set ''sms_sd_info'' (PSdinfo SDinfo) s;
     let (ret, s) = php_execute ops (info_sdid SDinfo) (router_path SDinfo) ''do_restore_conf.php'' s;
     let s = (if ret \<noteq> 0 then sms_send_user_error ops (Some []) ret s else s);
     s \<leftarrow> (if ret \<noteq> 0
          then do { (_, s) \<leftarrow> unlockSD ops (sd_cli_prefix (SD SDinfo)) (sd_seqnum (SD SDinfo)) s; Some s }
          else Some s);
     Some (ret, php_shutdown s)
   }"

definition genericBackupConf :: "'w ops \<Rightarrow> sd_info \<Rightarrow> string \<Rightarrow> string \<Rightarrow> 'w smsd \<Rightarrow> int \<times> 'w smsd" where
  "genericBackupConf ops SDinfo backup_module msg s =
     (let s = php_startup s;
       s = php_set ''sms_csp'' PCsp s;
       s = php_set ''backup_module'' (PStr (Some backup_module)) s;
       s = php_set ''config_type'' (PStr (config_type ops SDinfo)) s;
       s = php_set ''sms_msg'' (PStr (Some msg)) s;
       s = php_set ''sms_sd_info'' (PSdinfo SDinfo) s;
       (ret, s) = php_execute ops (info_sdid SDinfo) (router_path SDinfo) ''do_backup_conf.php'' s;
       s = (if ret \<noteq> 0 then sms_send_user_error ops (Some []) ret s else s)
      in (ret, php_shutdown s))"

definition genericPushConfig :: "'w ops \<Rightarrow> sd_info \<Rightarrow> string \<Rightarrow> string \<Rightarrow> string \<Rightarrow> string option \<Rightarrow> 'w smsd \<Rightarrow> int \<times> 'w smsd" where
  "genericPushConfig ops SDinfo addon ts_ip ts_port configuration s =
     (let s = php_startup s;
       s = php_set ''sms_csp'' PCsp s;
       s = php_set ''addon'' (PStr (Some addon)) s;
       s = php_set ''ts_ip'' (PStr (Some ts_ip)) s;
       s = php_set ''ts_port'' (PStr (Some ts_port)) s;
       s = php_set ''configuration'' (PStr configuration) s;
       s = php_set ''config_type'' (PStr (config_type ops SDinfo)) s;
       s = php_set ''sms_sd_info'' (PSdinfo SDinfo) s;
       (ret, s) = php_execute ops (info_sdid SDinfo) ''smsd'' ''do_push_config.php'' s;
       s = (if ret \<noteq> 0 then sms_send_user_error ops (Some []) ret s else s)
      in (ret, php_shutdown s))"

definition genericUpdateConf :: "'w ops \<Rightarrow> sd_info \<Rightarrow> 'w smsd \<Rightarrow> (int \<times> 'w smsd) option" where
  "genericUpdateConf ops SDinfo s = do {
     let s = php_startup s;
     let s = php_set ''sms_csp'' PCsp s;
     let s = php_set ''sms_sd_info'' (PSdinfo SDinfo) s;
     let (ret, s) = php_execute ops (info_sdid SDinfo) (router_path SDinfo) ''do_update_conf.php'' s;
     let s = (if ret \<noteq> 0 then sms_send_user_error ops (Some []) ret s else s);
     s \<leftarrow> (if ret \<noteq> 0
          then do { (_, s) \<leftarrow> unlockSD ops (sd_cli_prefix (SD SDinfo)) (sd_seqnum (SD SDinfo)) s; Some s }
          else Some s);
     Some (ret, php_shutdown s)
   }"

definition genericSmsexecCmd :: "'w ops \<Rightarrow> sd_info \<Rightarrow> string list \<Rightarrow> 'w smsd \<Rightarrow> int \<times> 'w smsd" where
  "genericSmsexecCmd ops SDinfo router_cmd_list s =
     (let s = php_startup s;
       s = php_set ''smsexec_list'' (PStr (cmd_csv router_cmd_list)) s;
       s = php_set ''sms_csp'' PCsp s;
       s = php_set ''sms_sd_info'' (PSdinfo SDinfo) s;
       (ret, s) = php_execute ops (info_sdid SDinfo) (router_path SDinfo) ''do_smsexec.php'' s;
       s = (if ret \<noteq> 0 then sms_send_user_error ops (Some []) ret s else s)
      in (ret, php_shutdown s))"

definition genericSmsAddonExecCmd :: "'w ops \<Rightarrow> sd_info \<Rightarrow> string \<Rightarrow> string list \<Rightarrow> 'w smsd \<Rightarrow> int \<times> 'w smsd" where
  "genericSmsAddonExecCmd ops SDinfo addon router_cmd_list s =
     (let s = php_startup s;
       s = php_set ''addon'' (PStr (Some addon)) s;
       s = php_set ''smsexec_list'' (PStr (cmd_csv router_cmd_list)) s;
       s = php_set ''sms_csp'' PCsp s;
       s = php_set ''sms_sd_info'' (PSdinfo SDinfo) s;
       (ret, s) = php_execute ops (info_sdid SDinfo) (router_path SDinfo) ''do_sms_addon_exec.php'' s;
       s = (if ret \<noteq> 0 then sms_send_user_error ops (Some []) ret s else s)
      in (ret, php_shutdown s))"

definition genericUnarchiveConfiguration :: "'w ops \<Rightarrow> sd_info \<Rightarrow> string \<Rightarrow> string \<Rightarrow> 'w smsd \<Rightarrow> int \<times> 'w smsd" where
  "genericUnarchiveConfiguration ops SDinfo archive folder s =
     (let s = php_startup s;
       s = php_set ''sms_csp'' PCsp s;
       s = php_set ''archive'' (PStr (Some archive)) s;
       s = php_set ''folder'' (PStr (Some folder)) s;
       s = php_set ''sms_sd_info'' (PSdinfo SDinfo) s;
       (ret, s) = php_execute ops (info_sdid SDinfo) (router_path SDinfo) ''do_unarchive_conf.php'' s
      in (ret, php_shutdown s))"

definition genericGetArchiveConfiguration :: "'w ops \<Rightarrow> sd_info \<Rightarrow> string \<Rightarrow> 'w smsd \<Rightarrow> int \<times> 'w smsd" where
  "genericGetArchiveConfiguration ops SDinfo folder s =
     (let s = php_startup s;
       s = php_set ''sms_csp'' PCsp s;
       s = php_set ''folder'' (PStr (Some folder)) s;
       s = php_set ''sms_sd_info'' (PSdinfo SDinfo) s;
       (ret, s) = php_execute ops (info_sdid SDinfo) (router_path SDinfo) ''do_get_archive_conf.php'' s
      in (ret, php_shutdown s))"

definition genericUpdateLicense :: "'w ops \<Rightarrow> sd_info \<Rightarrow> 'w smsd \<Rightarrow> int \<times> 'w smsd" where
  "genericUpdateLicense ops SDinfo s =
     (let s = php_startup s;
       s = php_set ''sms_csp'' PCsp s;
       s = php_set ''sms_sd_info'' (PSdinfo SDinfo) s;
       (ret, s) = php_execute ops (info_sdid SDinfo) (router_path SDinfo) ''do_update_license.php'' s
      in (ret, php_shutdown s))"

definition genericUpdateFirmware :: "'w ops \<Rightarrow> sd_info \<Rightarrow> string \<Rightarrow> string \<Rightarrow> 'w smsd \<Rightarrow> int \<times> 'w smsd" where
  "genericUpdateFirmware ops SDinfo param server_addr s =
     (let s = php_startup s;
       s = php_set ''sms_csp'' PCsp s;
       s = php_set ''param1'' (PStr (Some param)) s;
       s = php_set ''param2'' (PStr (Some server_addr)) s;
       s = php_set ''sms_sd_info'' (PSdinfo SDinfo) s;
       (ret, s) = php_execute ops (info_sdid SDinfo) (router_path SDinfo) ''do_update_firmware.php'' s
      in (ret, php_shutdown s))"

definition genericExecScript :: "'w ops \<Rightarrow> sd_info \<Rightarrow> string \<Rightarrow> bool \<Rightarrow> 'w smsd \<Rightarrow> (int \<times> 'w smsd) option" where
  "genericExecScript ops SDinfo script synchronous s = do {
     let s = php_startup s;
     let s = php_set ''sms_csp'' PCsp s;
     let s = php_set ''exec_script_name'' (PStr (Some script)) s;
     let s = php_set ''synchronous'' (PBool synchronous) s;
     let s = php_set ''sms_sd_info'' (PSdinfo SDinfo) s;
     let (ret, s) = php_execute ops (info_sdid SDinfo) (router_path SDinfo) ''do_exec_script.php'' s;
     s \<leftarrow> (if ret \<noteq> 0
          then do { (_, s) \<leftarrow> unlockSD ops (sd_cli_prefix (SD SDinfo)) (sd_seqnum (SD SDinfo)) s; Some s }
          else Some s);
     Some (ret, php_shutdown s)
   }"

definition genericHaSwap :: "'w ops \<Rightarrow> sd_info \<Rightarrow> 'w smsd \<Rightarrow> int \<times> 'w smsd" where
  "genericHaSwap ops SDinfo s =
     (let s = php_startup s;
       s = php_set ''sms_csp'' PCsp s;
       s = php_set ''sms_sd_info'' (PSdinfo SDinfo) s;
       (ret, s) = php_execute ops (info_sdid SDinfo) (router_path SDinfo) ''do_ha_swap.php'' s
      in (ret, php_shutdown s))"

definition genericSendDataFiles :: "'w ops \<Rightarrow> sd_info \<Rightarrow> string \<Rightarrow> string \<Rightarrow> string \<Rightarrow> string \<Rightarrow> 'w smsd \<Rightarrow> int \<times> 'w smsd" where
  "genericSendDataFiles ops SDinfo addon server_addr server_ftp_login server_ftp_passwd s =
     (let s = php_startup s;
       s = php_set ''sms_csp'' PCsp s;
       s = php_set ''param1'' (PStr (Some addon)) s;
       s = php_set ''param2'' (PStr (Some server_addr)) s;
       s = php_set ''param3'' (PStr (Some server_ftp_login)) s;
       s = php_set ''param4'' (PStr (Some server_ftp_passwd)) s;
       s = php_set ''sms_sd_info'' (PSdinfo SDinfo) s;
       (ret, s) = php_execute ops (info_sdid SDinfo) (router_path SDinfo) ''do_send_data_files.php'' s
      in (ret, php_shutdown s))"

definition generic_gen_template :: "'w ops \<Rightarrow> sd_info \<Rightarrow> string \<Rightarrow> string \<Rightarrow> string \<Rightarrow> 'w smsd \<Rightarrow> int \<times> 'w smsd" where
  "generic_gen_template ops SDinfo revision1 revision2 addon s =
     (let s = php_startup s;
       s = php_set ''revision1'' (PStr (Some revision1)) s;
       s = php_set ''revision2'' (PStr (Some revision2)) s;
       s = php_set ''addon'' (PStr (Some addon)) s;
       s = php_set ''sms_csp'' PCsp s;
       s = php_set ''sms_sd_info'' (PSdinfo SDinfo) s;
       (ret, s) = php_execute ops (info_sdid SDinfo) (router_path SDinfo) ''do_gen_template.php'' s;
       s = (if ret \<noteq> 0 then sms_send_user_error ops (Some []) ret s else s)
      in (ret, php_shutdown s))"

definition genericSnmpTest ::
  "'w ops \<Rightarrow> string \<Rightarrow> string \<Rightarrow> string \<Rightarrow> string \<Rightarrow> 'w smsd \<Rightarrow> int \<times> 'w smsd" where
  "genericSnmpTest ops cmd address community oid s =
     (let s = php_startup s
      in if cmd = [] \<or> address = [] \<or> community = [] \<or> oid = [] \<or> (cmd \<noteq> ''get'' \<and> cmd \<noteq> ''walk'')
         then (-1, php_shutdown (sms_send_user_error ops (Some []) ERR_VERB_BAD_PARAM s))
         else let s = php_set ''snmp_cmd'' (PStr (Some cmd)) s;
                  s = php_set ''ip_address'' (PStr (Some address)) s;
                  s = php_set ''snmp_community'' (PStr (Some community)) s;
                  s = php_set ''oid'' (PStr (Some oid)) s;
                  s = php_set ''sdid'' (PStr (Some [])) s;
                  s = php_set ''sms_csp'' PCsp s;
                  (ret, s) = php_execute ops [] ''mon_generic'' ''snmp_test.php'' s;
                  s = (if ret \<noteq> 0 then sms_send_user_error ops (Some []) ret s else s)
              in (ret, php_shutdown s))"

text \<open>\<^verbatim>\<open>str = sms_mod_php_get_global_str(...); if (!str) str = "";\<close>\<close>

definition php_result :: "'w ops \<Rightarrow> string \<Rightarrow> 'w smsd \<Rightarrow> string" where
  "php_result ops n s = (case php_get_str ops n s of None \<Rightarrow> [] | Some t \<Rightarrow> t)"

definition genericGetConfiguration :: "'w ops \<Rightarrow> sd_info \<Rightarrow> 'w smsd \<Rightarrow> (int \<times> string option) \<times> 'w smsd" where
  "genericGetConfiguration ops SDinfo s =
     (let s = php_startup s;
          s = php_set ''sms_sd_info'' (PSdinfo SDinfo) s;
          (ret, s) = php_execute ops (info_sdid SDinfo) (router_path SDinfo) ''do_get_sd_conf.php'' s
      in ((ret, if ret \<noteq> 0 then None else Some (php_result ops ''SMS_RETURN_BUF'' s)), php_shutdown s))"

text \<open>The dates of the report are not passed on to the script.\<close>

definition genericGetReport ::
  "'w ops \<Rightarrow> sd_info \<Rightarrow> bool \<Rightarrow> int \<Rightarrow> int \<Rightarrow> 'w smsd \<Rightarrow> (int \<times> string option) \<times> 'w smsd" where
  "genericGetReport ops SDinfo fullReport startDate endDate s =
     (let s = php_startup s;
          s = php_set ''fullReport'' (PBool fullReport) s;
          s = php_set ''sms_sd_info'' (PSdinfo SDinfo) s;
          (ret, s) = php_execute ops (info_sdid SDinfo) (router_path SDinfo) ''do_get_report.php'' s
      in ((ret, if ret \<noteq> 0 then None else Some (php_result ops ''SMS_RETURN_BUF'' s)), php_shutdown s))"

definition NETASQ :: int where "NETASQ = 23"

definition genericCheckSerialNumber :: "'w ops \<Rightarrow> sd_info \<Rightarrow> string \<Rightarrow> 'w smsd \<Rightarrow> int \<times> 'w smsd" where
  "genericCheckSerialNumber ops SDinfo ipaddr s =
     (let s = php_startup s
      in if man_id (SD SDinfo) \<noteq> NETASQ then (SMS_OK, php_shutdown s)
         else let s = php_set ''sms_sd_info'' (PSdinfo SDinfo) s;
                  s = php_set ''ipaddr'' (PStr (Some ipaddr)) s;
                  (ret, s) = php_execute ops (info_sdid SDinfo) (router_path SDinfo) ''do_check_serial_number.php'' s
              in (ret, php_shutdown s))"

definition genericCallCommand ::
  "'w ops \<Rightarrow> sd_info \<Rightarrow> string \<Rightarrow> int \<Rightarrow> string option \<Rightarrow> 'w smsd \<Rightarrow> (int \<times> string \<times> string) \<times> 'w smsd" where
  "genericCallCommand ops SDinfo command apply_conf params s =
     (let s = php_startup s;
          s = php_set ''sms_csp'' PCsp s;
          s = php_set ''sms_sd_info'' (PSdinfo SDinfo) s;
          s = php_set ''commandName'' (PStr (Some command)) s;
          s = php_set ''commandParams'' (PStr params) s;
          s = php_set ''apply_conf'' (PLong apply_conf) s;
          (ret, s) = php_execute ops (info_sdid SDinfo) ''smsd'' ''do_call_command.php'' s
      in ((ret, php_result ops ''SMS_RETURN_BUF'' s, php_result ops ''SMS_OUTPUT_BUF'' s), php_shutdown s))"

text \<open>
  The script of a command: \<^verbatim>\<open>sprintf(buf, "do_cmd_%s.php", cmd)\<close> into \<^verbatim>\<open>char buf[BUFSIZ]\<close>,
  then \<^verbatim>\<open>tolower\<close> on every character. \<open>None\<close> is the overflow of the buffer.
\<close>

definition cmd_script :: "string \<Rightarrow> string \<Rightarrow> string option" where
  "cmd_script pre cmd =
     (let buf = pre @ cmd @ ''.php'' in if length buf < BUFSIZ then Some (map c_tolower buf) else None)"

definition generic_sms_cmd ::
  "'w ops \<Rightarrow> sd_info \<Rightarrow> string \<Rightarrow> string option \<Rightarrow> 'w smsd \<Rightarrow> (int \<times> 'w smsd) option" where
  "generic_sms_cmd ops SDinfo cmd optional_params s = do {
     let s = php_startup s;
     buf \<leftarrow> cmd_script ''do_cmd_'' cmd;
     let s = php_set ''cmd'' (PStr (Some cmd)) s;
     let s = php_set ''optional_params'' (PStr optional_params) s;
     let s = php_set ''sms_csp'' PCsp s;
     let s = php_set ''sms_sd_info'' (PSdinfo SDinfo) s;
     let (ret, s) = php_execute ops (info_sdid SDinfo) (router_path SDinfo) buf s;
     let s = (if ret \<noteq> 0 then sms_send_user_error ops (Some []) ret s else s);
     s \<leftarrow> (if ret \<noteq> 0
          then do { (_, s) \<leftarrow> unlockSD ops (sd_cli_prefix (SD SDinfo)) (sd_seqnum (SD SDinfo)) s; Some s }
          else Some s);
     Some (ret, php_shutdown s)
   }"

definition generic_smsd_cmd :: "'w ops \<Rightarrow> string \<Rightarrow> string option \<Rightarrow> 'w smsd \<Rightarrow> (int \<times> 'w smsd) option" where
  "generic_smsd_cmd ops cmd optional_params s = do {
     let s = php_startup s;
     buf \<leftarrow> cmd_script ''do_cmd_'' cmd;
     let s = php_set ''cmd'' (PStr (Some cmd)) s;
     let s = php_set ''optional_params'' (PStr optional_params) s;
     let s = php_set ''sms_csp'' PCsp s;
     let (ret, s) = php_execute ops ''debug'' ''smsd'' buf s;
     let s = (if ret \<noteq> 0 then sms_send_user_error ops (Some []) ret s else s);
     Some (ret, php_shutdown s)
   }"

definition generic_sms_cust_cmd ::
  "'w ops \<Rightarrow> cust_info \<Rightarrow> string \<Rightarrow> string option \<Rightarrow> 'w smsd \<Rightarrow> (int \<times> 'w smsd) option" where
  "generic_sms_cust_cmd ops cust cmd optional_params s = do {
     let s = php_startup s;
     buf \<leftarrow> cmd_script ''do_cust_cmd_'' cmd;
     let s = php_set ''cmd'' (PStr (Some cmd)) s;
     let s = php_set ''optional_params'' (PStr optional_params) s;
     let s = php_set ''sms_csp'' PCsp s;
     let s = php_set ''cust_info'' (PCust cust) s;
     let (ret, s) = php_execute ops (custid cust) ''smsd'' buf s;
     let s = (if ret \<noteq> 0 then sms_send_user_error ops (Some []) ret s else s);
     Some (ret, php_shutdown s)
   }"

section \<open>Templates (pattern.c) and reports (report.c)\<close>

text \<open>
  A template is resolved by the device's script or, when that fails, by the one of \<^verbatim>\<open>smsd\<close>. The
  device information is released even when it could not be read.
\<close>

definition resolve_with :: "'w ops \<Rightarrow> string \<Rightarrow> string \<Rightarrow> string \<Rightarrow> 'w smsd \<Rightarrow> int \<times> 'w smsd" where
  "resolve_with ops var SDid val s =
     (let s = php_startup s;
          ((ret, SDinfo), s) = getSDinfo ops SDid s
      in if ret \<noteq> 0 then (ret, freeSDinfo (php_shutdown s))
         else let s = php_set ''sms_csp'' PCsp s;
                  s = php_set var (PStr (Some val)) s;
                  s = php_set ''sms_sd_info'' (PSdinfo SDinfo) s;
                  (ret, s) = php_execute ops (info_sdid SDinfo) (router_path SDinfo) ''do_resolve_template.php'' s;
                  (ret, s) = (if ret \<noteq> 0
                    then php_execute ops (info_sdid SDinfo) ''smsd'' ''do_resolve_template.php'' s else (ret, s))
              in (ret, freeSDinfo (php_shutdown s)))"

definition resolve_template :: "'w ops \<Rightarrow> string \<Rightarrow> string \<Rightarrow> 'w smsd \<Rightarrow> int \<times> 'w smsd" where
  "resolve_template ops SDid template_path s = resolve_with ops ''template_path'' SDid template_path s"

definition resolve_template_buffer :: "'w ops \<Rightarrow> string \<Rightarrow> string \<Rightarrow> 'w smsd \<Rightarrow> int \<times> 'w smsd" where
  "resolve_template_buffer ops SDid template_buffer s = resolve_with ops ''template_buffer'' SDid template_buffer s"

text \<open>\<^verbatim>\<open>sscanf(p, "%d %d", &startDate, &endDate)\<close> with both dates 0 before.\<close>

definition scan_dates :: "string \<Rightarrow> int \<times> int" where
  "scan_dates p = (case scan_int p of None \<Rightarrow> (0, 0)
     | Some (a, t) \<Rightarrow> (case scan_int t of None \<Rightarrow> (a, 0) | Some (b, _) \<Rightarrow> (a, b)))"

definition getReport :: "'w ops \<Rightarrow> string \<Rightarrow> 'w smsd \<Rightarrow> (int \<times> string option) \<times> 'w smsd" where
  "getReport ops params s =
     (let (SDid, dates) = (case strchr_split SP params of None \<Rightarrow> (params, (0, 0))
            | Some (a, p) \<Rightarrow> (a, if p = [] then (0, 0) else scan_dates p));
          ((ret, sd_info), s) = getSDinfo ops SDid s
      in if ret \<noteq> 0 then ((ret, None), s)
         else let s = RELEASE_BD_CTX ops s;
                  (rc, s) = genericGetReport ops sd_info True (fst dates) (snd dates) s
              in (rc, freeSDinfo s))"

definition getVPNReport :: "'w ops \<Rightarrow> string \<Rightarrow> 'w smsd \<Rightarrow> (int \<times> string option) \<times> 'w smsd" where
  "getVPNReport ops SDid s =
     (let ((ret, sd_info), s) = getSDinfo ops SDid s
      in if ret \<noteq> 0 then ((ret, None), s)
         else let s = RELEASE_BD_CTX ops s;
                  (rc, s) = genericGetReport ops sd_info False 0 0 s
              in (rc, freeSDinfo s))"

section \<open>The contract of a function that runs one script\<close>

text \<open>The calls of a session in which one script ran and returned \<open>r\<close>.\<close>

definition php_session :: "string \<Rightarrow> string \<Rightarrow> string \<Rightarrow> int \<Rightarrow> 'w smsd \<Rightarrow> 'w smsd \<Rightarrow> bool" where
  "php_session sid modl script r s s' \<longleftrightarrow> currentStat s' = currentStat s \<and>
     (\<exists>mid. calls s' = calls s @ [PhpStartup, PhpExec sid modl script r] @ mid @ [PhpShutdown] \<and>
        list_all (\<lambda>d. \<not> is_php d) mid \<and> (r = 0 \<longrightarrow> mid = []))"

lemma php_session_ok:
  "php_execute ops sid m sc s0 = (r, s1) \<Longrightarrow> calls s0 = calls s @ [PhpStartup] \<Longrightarrow> currentStat s0 = currentStat s \<Longrightarrow>
   php_session sid m sc r s (php_shutdown s1)"
  by (auto simp: php_session_def dest: php_execute_D)

lemma php_session_err:
  assumes "php_execute ops sid m sc s0 = (r, s1)" "calls s0 = calls s @ [PhpStartup]" "currentStat s0 = currentStat s"
  shows "php_session sid m sc r s (php_shutdown (if r \<noteq> 0 then sms_send_user_error ops res e s1 else s1))"
proof -
  obtain ds where "calls (sms_send_user_error ops res e s1) = calls s1 @ ds" "list_all (\<lambda>d. \<not> is_php d) ds"
    using user_error_calls by blast
  with assms show ?thesis by (auto simp: php_session_def dest: php_execute_D)
qed

lemma php_session_mid:
  assumes "php_execute ops sid m sc s0 = (r, s1)" "calls s0 = calls s @ [PhpStartup]" "currentStat s0 = currentStat s"
    and "calls s2 = calls s1 @ ds" "list_all (\<lambda>d. \<not> is_php d) ds" "currentStat s2 = currentStat s1" "r \<noteq> 0"
  shows "php_session sid m sc r s (php_shutdown s2)"
  using assms by (auto simp: php_session_def dest: php_execute_D)

lemma php_session_unlock:
  assumes "php_execute ops sid m sc s0 = (r, s1)" "calls s0 = calls s @ [PhpStartup]" "currentStat s0 = currentStat s"
    and u: "unlockSD ops pre seq s1 = Some (u, s2)" and "r \<noteq> 0"
  shows "php_session sid m sc r s (php_shutdown s2)"
  using unlockSD_no_php [OF u] unlockSD.keeps_stat [OF u] assms by (blast intro: php_session_mid)

lemma php_session_err_unlock:
  assumes "php_execute ops sid m sc s0 = (r, s1)" "calls s0 = calls s @ [PhpStartup]" "currentStat s0 = currentStat s"
    and u: "unlockSD ops pre seq (sms_send_user_error ops res e s1) = Some (u, s2)" and "r \<noteq> 0"
  shows "php_session sid m sc r s (php_shutdown s2)"
proof -
  obtain d1 where "calls (sms_send_user_error ops res e s1) = calls s1 @ d1" "list_all (\<lambda>d. \<not> is_php d) d1"
    using user_error_calls by blast
  moreover obtain d2 where "calls s2 = calls (sms_send_user_error ops res e s1) @ d2" "list_all (\<lambda>d. \<not> is_php d) d2"
    using unlockSD_no_php [OF u] by blast
  ultimately show ?thesis
    using unlockSD.keeps_stat [OF u] assms(5) by (intro php_session_mid [OF assms(1-3), of s2 "d1 @ d2"]) auto
qed

lemmas php_session_intros = php_session_ok php_session_err php_session_unlock php_session_err_unlock

locale php_runner =
  fixes op :: "'w smsd \<Rightarrow> (int \<times> 'w smsd) option" and sid modl script :: string
  assumes session: "op s = Some (r, s') \<Longrightarrow> php_session sid modl script r s s'"
begin

lemma returns_script_code:
  "op s = Some (r, s') \<Longrightarrow> PhpExec sid modl script r \<in> set (drop (length (calls s)) (calls s'))"
  using session by (fastforce simp: php_session_def)

lemma closes_session:
  assumes "op s = Some (r, s')" "php_run False (calls s) = Some False"
  shows "php_run False (calls s') = Some False"
proof -
  from session [OF assms(1)] obtain mid where
    "calls s' = calls s @ [PhpStartup, PhpExec sid modl script r] @ mid @ [PhpShutdown]"
    "list_all (\<lambda>d. \<not> is_php d) mid" by (auto simp: php_session_def)
  with assms(2) show ?thesis by (simp add: php_run_append php_run_no_php)
qed

lemma silent_success:
  "op s = Some (0, s') \<Longrightarrow> calls s' = calls s @ [PhpStartup, PhpExec sid modl script 0, PhpShutdown]"
  using session by (fastforce simp: php_session_def)

lemma keeps_counters: "op s = Some (r, s') \<Longrightarrow> currentStat s' = currentStat s"
  using session by (simp add: php_session_def)

end

section \<open>Every function that runs one script satisfies the contract\<close>

interpretation genericStaging: php_runner "\<lambda>s. Some (genericStaging ops SDinfo s)" "info_sdid SDinfo" "router_path SDinfo" "''do_staging.php''"
  for ops SDinfo
  by unfold_locales
    (auto simp: genericStaging_def returned intro: php_session_intros)

interpretation genericStagingMap: php_runner "\<lambda>s. Some (genericStagingMap ops SDinfo s)" "info_sdid SDinfo" "router_path SDinfo" "''do_stagingmap.php''"
  for ops SDinfo
  by unfold_locales
    (auto simp: genericStagingMap_def returned intro: php_session_intros)

interpretation genericInitialProvisioning: php_runner "genericInitialProvisioning ops SDinfo ipaddr login passwd adminpasswd" "info_sdid SDinfo" "router_path SDinfo" "''do_provisioning.php''"
  for ops SDinfo ipaddr login passwd adminpasswd
  by unfold_locales
    (auto simp: genericInitialProvisioning_def returned intro: php_session_intros)

interpretation genericCheckProvisioning: php_runner "\<lambda>s. Some (genericCheckProvisioning ops SDinfo s)" "info_sdid SDinfo" "router_path SDinfo" "''do_checkprovisioning.php''"
  for ops SDinfo
  by unfold_locales
    (auto simp: genericCheckProvisioning_def returned intro: php_session_intros)

interpretation genericGetRunningConf: php_runner "\<lambda>s. Some (genericGetRunningConf ops SDinfo s)" "info_sdid SDinfo" "router_path SDinfo" "''do_get_running_conf.php''"
  for ops SDinfo
  by unfold_locales
    (auto simp: genericGetRunningConf_def returned intro: php_session_intros)

interpretation genericGetConfig: php_runner "\<lambda>s. Some (genericGetConfig ops SDinfo s)" "info_sdid SDinfo" "router_path SDinfo" "''do_get_config.php''"
  for ops SDinfo
  by unfold_locales
    (auto simp: genericGetConfig_def returned intro: php_session_intros)

interpretation genericGetActivityReport: php_runner "\<lambda>s. Some (genericGetActivityReport ops SDinfo s)" "info_sdid SDinfo" "router_path SDinfo" "''do_get_activity_report.php''"
  for ops SDinfo
  by unfold_locales
    (auto simp: genericGetActivityReport_def returned intro: php_session_intros)

interpretation genericGetBotnetReport: php_runner "\<lambda>s. Some (genericGetBotnetReport ops SDinfo s)" "info_sdid SDinfo" "router_path SDinfo" "''do_get_botnet_report.php''"
  for ops SDinfo
  by unfold_locales
    (auto simp: genericGetBotnetReport_def returned intro: php_session_intros)

interpretation genericRestoreConf: php_runner "genericRestoreConf ops SDinfo revision_id msg" "info_sdid SDinfo" "router_path SDinfo" "''do_restore_conf.php''"
  for ops SDinfo revision_id msg
  by unfold_locales
    (auto simp: genericRestoreConf_def returned intro: php_session_intros)

interpretation genericBackupConf: php_runner "\<lambda>s. Some (genericBackupConf ops SDinfo backup_module msg s)" "info_sdid SDinfo" "router_path SDinfo" "''do_backup_conf.php''"
  for ops SDinfo backup_module msg
  by unfold_locales
    (auto simp: genericBackupConf_def returned intro: php_session_intros)

interpretation genericPushConfig: php_runner "\<lambda>s. Some (genericPushConfig ops SDinfo addon ts_ip ts_port configuration s)" "info_sdid SDinfo" "''smsd''" "''do_push_config.php''"
  for ops SDinfo addon ts_ip ts_port configuration
  by unfold_locales
    (auto simp: genericPushConfig_def returned intro: php_session_intros)

interpretation genericUpdateConf: php_runner "genericUpdateConf ops SDinfo" "info_sdid SDinfo" "router_path SDinfo" "''do_update_conf.php''"
  for ops SDinfo
  by unfold_locales
    (auto simp: genericUpdateConf_def returned intro: php_session_intros)

interpretation genericSmsexecCmd: php_runner "\<lambda>s. Some (genericSmsexecCmd ops SDinfo router_cmd_list s)" "info_sdid SDinfo" "router_path SDinfo" "''do_smsexec.php''"
  for ops SDinfo router_cmd_list
  by unfold_locales
    (auto simp: genericSmsexecCmd_def returned intro: php_session_intros)

interpretation genericSmsAddonExecCmd: php_runner "\<lambda>s. Some (genericSmsAddonExecCmd ops SDinfo addon router_cmd_list s)" "info_sdid SDinfo" "router_path SDinfo" "''do_sms_addon_exec.php''"
  for ops SDinfo addon router_cmd_list
  by unfold_locales
    (auto simp: genericSmsAddonExecCmd_def returned intro: php_session_intros)

interpretation genericUnarchiveConfiguration: php_runner "\<lambda>s. Some (genericUnarchiveConfiguration ops SDinfo archive folder s)" "info_sdid SDinfo" "router_path SDinfo" "''do_unarchive_conf.php''"
  for ops SDinfo archive folder
  by unfold_locales
    (auto simp: genericUnarchiveConfiguration_def returned intro: php_session_intros)

interpretation genericGetArchiveConfiguration: php_runner "\<lambda>s. Some (genericGetArchiveConfiguration ops SDinfo folder s)" "info_sdid SDinfo" "router_path SDinfo" "''do_get_archive_conf.php''"
  for ops SDinfo folder
  by unfold_locales
    (auto simp: genericGetArchiveConfiguration_def returned intro: php_session_intros)

interpretation genericUpdateLicense: php_runner "\<lambda>s. Some (genericUpdateLicense ops SDinfo s)" "info_sdid SDinfo" "router_path SDinfo" "''do_update_license.php''"
  for ops SDinfo
  by unfold_locales
    (auto simp: genericUpdateLicense_def returned intro: php_session_intros)

interpretation genericUpdateFirmware: php_runner "\<lambda>s. Some (genericUpdateFirmware ops SDinfo param server_addr s)" "info_sdid SDinfo" "router_path SDinfo" "''do_update_firmware.php''"
  for ops SDinfo param server_addr
  by unfold_locales
    (auto simp: genericUpdateFirmware_def returned intro: php_session_intros)

interpretation genericExecScript: php_runner "genericExecScript ops SDinfo script synchronous" "info_sdid SDinfo" "router_path SDinfo" "''do_exec_script.php''"
  for ops SDinfo script synchronous
  by unfold_locales
    (auto simp: genericExecScript_def returned intro: php_session_intros)

interpretation genericHaSwap: php_runner "\<lambda>s. Some (genericHaSwap ops SDinfo s)" "info_sdid SDinfo" "router_path SDinfo" "''do_ha_swap.php''"
  for ops SDinfo
  by unfold_locales
    (auto simp: genericHaSwap_def returned intro: php_session_intros)

interpretation genericSendDataFiles: php_runner "\<lambda>s. Some (genericSendDataFiles ops SDinfo addon server_addr server_ftp_login server_ftp_passwd s)" "info_sdid SDinfo" "router_path SDinfo" "''do_send_data_files.php''"
  for ops SDinfo addon server_addr server_ftp_login server_ftp_passwd
  by unfold_locales
    (auto simp: genericSendDataFiles_def returned intro: php_session_intros)

interpretation generic_gen_template: php_runner "\<lambda>s. Some (generic_gen_template ops SDinfo revision1 revision2 addon s)" "info_sdid SDinfo" "router_path SDinfo" "''do_gen_template.php''"
  for ops SDinfo revision1 revision2 addon
  by unfold_locales
    (auto simp: generic_gen_template_def returned intro: php_session_intros)

interpretation generic_sms_cmd: php_runner "generic_sms_cmd ops SDinfo cmd optional_params" "info_sdid SDinfo" "router_path SDinfo"
    "map c_tolower (''do_cmd_'' @ cmd @ ''.php'')"
  for ops SDinfo cmd optional_params
  by unfold_locales (auto simp: generic_sms_cmd_def cmd_script_def returned intro: php_session_intros)

interpretation generic_smsd_cmd: php_runner "generic_smsd_cmd ops cmd optional_params" "''debug''" "''smsd''"
    "map c_tolower (''do_cmd_'' @ cmd @ ''.php'')"
  for ops cmd optional_params
  by unfold_locales (auto simp: generic_smsd_cmd_def cmd_script_def returned intro: php_session_intros)

interpretation generic_sms_cust_cmd: php_runner "generic_sms_cust_cmd ops cust cmd optional_params" "custid cust" "''smsd''"
    "map c_tolower (''do_cust_cmd_'' @ cmd @ ''.php'')"
  for ops cust cmd optional_params
  by unfold_locales (auto simp: generic_sms_cust_cmd_def cmd_script_def returned intro: php_session_intros)


section \<open>The list of commands\<close>

fun join_with :: "string \<Rightarrow> string list \<Rightarrow> string" where
  "join_with sep [] = []"
| "join_with sep [x] = x"
| "join_with sep (x # y # xs) = x @ sep @ join_with sep (y # xs)"

lemma csv_loop_False:
  "csv_loop False cmds (Some acc) = Some (acc @ concat (map (\<lambda>c. '','' @ c) cmds))"
  by (induction cmds arbitrary: acc) auto

lemma join_with_concat: "join_with sep (x # xs) = x @ concat (map (\<lambda>c. sep @ c) xs)"
  by (induction xs arbitrary: x) auto

lemma cmd_csv_join: "cmd_csv cmds = (if cmds = [] then None else Some (join_with '','' cmds))"
  by (cases cmds) (simp_all add: cmd_csv_def csv_loop_False join_with_concat)

section \<open>Properties\<close>

text \<open>
  Updating the configuration of a device runs \<^verbatim>\<open>do_update_conf.php\<close> in a PHP session of its own,
  closes the session on every path, returns the code of the script, and makes no other call when the script
  succeeds (nothing is written to the client, the device is not unlocked).
\<close>

theorem genericUpdateConf_session:
  assumes "genericUpdateConf ops SDinfo s = Some (r, s')" "php_run False (calls s) = Some False"
  shows "php_run False (calls s') = Some False \<and>
    PhpExec (info_sdid SDinfo) (router_path SDinfo) ''do_update_conf.php'' r \<in> set (drop (length (calls s)) (calls s')) \<and>
    (r = 0 \<longrightarrow> drop (length (calls s)) (calls s') =
       [PhpStartup, PhpExec (info_sdid SDinfo) (router_path SDinfo) ''do_update_conf.php'' 0, PhpShutdown])"
  using genericUpdateConf.closes_session [OF assms] genericUpdateConf.returns_script_code [OF assms(1)]
    genericUpdateConf.silent_success [of ops SDinfo s s'] assms(1) by auto

theorem genericUpdateConf_session_witness:
  "case genericUpdateConf mem_ops mem_info (mem_task (mem_world\<lparr>m_script := 33\<rparr>)) of
     None \<Rightarrow> False | Some (r, s') \<Rightarrow> r = 33 \<and> php_run False (calls s') = Some False"
proof -
  let ?s = "mem_task (mem_world\<lparr>m_script := 33\<rparr>)"
  have "map_option fst (genericUpdateConf mem_ops mem_info ?s) = Some 33" by code_simp
  then obtain s' where s': "genericUpdateConf mem_ops mem_info ?s = Some (33, s')" by auto
  have "php_run False (calls ?s) = Some False" by (simp add: mem_task_def)
  from genericUpdateConf_session [OF s' this] s' show ?thesis by simp
qed

text \<open>
  A failing script of a command unlocks the device: after \<^verbatim>\<open>generic_sms_cmd\<close> returned an error,
  the last thing done to the world is the unlocking of the device, and its update lock is free when that
  succeeded.
\<close>

theorem generic_sms_cmd_unlocks:
  assumes "lock_contract ops plock llock" "generic_sms_cmd ops SDinfo cmd params s = Some (r, s')" "r \<noteq> 0"
  shows "\<exists>u s1 s2. unlockSD ops (sd_cli_prefix (SD SDinfo)) (sd_seqnum (SD SDinfo)) s1 = Some (u, s2) \<and> world s' = world s2 \<and>
    (u = 0 \<longrightarrow> \<not> llock (world s') (sd_cli_prefix (SD SDinfo), sd_seqnum (SD SDinfo)))"
proof -
  obtain u s1 s2 where u: "unlockSD ops (sd_cli_prefix (SD SDinfo)) (sd_seqnum (SD SDinfo)) s1 = Some (u, s2)"
    and w: "world s' = world s2"
    using assms(2,3) unfolding generic_sms_cmd_def by (auto simp: returned)
  obtain acq s1' where n: "need_ctx ops s1 = (acq, s1')" by (cases "need_ctx ops s1")
  obtain h s3 where h: "HA_SMSSQL_UnLock ops h (sd_cli_prefix (SD SDinfo)) (sd_seqnum (SD SDinfo)) s1' = Some ((u, ()), s3)"
    and s2: "s2 = drop_ctx ops acq s3"
    using u n unfolding unlockSD_def by (auto simp: returned)
  from HA_UnLock_effect [OF assms(1) h] have "u = 0 \<longrightarrow> \<not> llock (world s2) (sd_cli_prefix (SD SDinfo), sd_seqnum (SD SDinfo))"
    by (auto simp: s2 drop_ctx_effect [OF assms(1)])
  with u w show ?thesis by auto
qed

theorem generic_sms_cmd_unlocks_witness:
  "case generic_sms_cmd mem_ops mem_info ''REBOOT'' None (mem_task (mem_world\<lparr>m_script := 33, m_lock := (\<lambda>_. True)\<rparr>)) of
     None \<Rightarrow> False
   | Some (r, s') \<Rightarrow> r = 33 \<and> (\<exists>u s1 s2. unlockSD mem_ops ''ABC'' 12 s1 = Some (u, s2) \<and> world s' = world s2)"
proof -
  let ?s = "mem_task (mem_world\<lparr>m_script := 33, m_lock := (\<lambda>_. True)\<rparr>)"
  have "map_option fst (generic_sms_cmd mem_ops mem_info ''REBOOT'' None ?s) = Some 33" by code_simp
  then obtain s' where s': "generic_sms_cmd mem_ops mem_info ''REBOOT'' None ?s = Some (33, s')" by auto
  have "sd_cli_prefix (SD mem_info) = ''ABC''" "sd_seqnum (SD mem_info) = 12" by (simp_all add: mem_info_def mem_sd_def)
  with generic_sms_cmd_unlocks [OF mem_contract s'] s' show ?thesis by auto
qed

end
