(* ===== verification/Smsd_Router.thy ===== *)
theory Smsd_Router
  imports Smsd_Generic
begin

text \<open>
  \<^verbatim>\<open>router.c\<close>: the address and the asset of a device, its configurations and archives, the commands
  sent to it, and the daily backup of the configurations of all connected devices. The functions that
  parse their parameters cut them with \<^verbatim>\<open>sscanf\<close> into buffers of \<^verbatim>\<open>BUFSIZ\<close> bytes, after
  checking that the whole line is shorter.
\<close>

section \<open>Address, asset and configuration mode\<close>

definition routerGetIPaddress :: "sd_like \<Rightarrow> sd_interface option \<Rightarrow> int \<times> string" where
  "routerGetIPaddress sd ext =
     (let ip = (if sd_ip_config sd \<noteq> [] then sd_ip_config sd
                else case ext of Some i \<Rightarrow> int_ip_addr i | None \<Rightarrow> [])
      in (if ip = [] \<or> ip = ''0.0.0.0'' then ERR_SD_NOIP else 0, ip))"

definition asset_labels :: "string list" where
  "asset_labels = [''model          '', ''firmware       '', ''serial number  '', ''license        '',
     ''cpu            '', ''memory         '', ''ips version    '', ''ips_expiration '', ''av_version     '',
     ''av_expiration  '', ''as_version     '', ''as_expiration  '', ''url_version    '', ''url_expiration '']"

text \<open>
  The text of an asset: the identifier and one line per label and field. The fourteen fields are in the
  order of the labels.
\<close>

definition asset_text :: "sd_asset \<Rightarrow> string" where
  "asset_text a = as_cli_prefix a @ fmt_lu (as_seqnum a) @ [LF] @
     concat (map (\<lambda>(l, f). ''      '' @ l @ ''['' @ f @ '']'' @ [LF]) (zip asset_labels (as_fields a)))"

definition sdGetAsset :: "'w ops \<Rightarrow> string \<Rightarrow> 'w smsd \<Rightarrow> ((int \<times> string option) \<times> 'w smsd) option" where
  "sdGetAsset ops SDid s = do {
     (pre, seq) \<leftarrow> split_sdid SDid;
     c \<leftarrow> ctx_of s;
     ((ret, a), s) \<leftarrow> HA_SMSSQL_GetAsset ops c \<lparr>as_cli_prefix = pre, as_seqnum = seq, as_fields = replicate 14 []\<rparr> s;
     Some (if ret \<noteq> 0 then (ret, None) else (0, Some (asset_text a)), s)
   }"

definition sdForceAsset :: "'w ops \<Rightarrow> string \<Rightarrow> 'w smsd \<Rightarrow> (int \<times> 'w smsd) option" where
  "sdForceAsset ops SDid s = do {
     (pre, seq) \<leftarrow> split_sdid SDid;
     let (release_db_ctx, s) = need_ctx ops s;
     c \<leftarrow> ctx_of s;
     let ((ret, _), s) = sql_call ''SetSDAssetUpdate'' c (no_out (x_SetSDAssetUpdate (x_db ops) c pre seq 1)) s;
     Some (ret, drop_ctx ops release_db_ctx s)
   }"

definition sms_sd_forceasset :: "'w ops \<Rightarrow> sd_info option \<Rightarrow> 'w smsd \<Rightarrow> (int \<times> 'w smsd) option" where
  "sms_sd_forceasset ops lsd_info s = (case lsd_info of None \<Rightarrow> Some (ERR_SD_FAILED, s)
     | Some i \<Rightarrow> sdForceAsset ops (info_sdid i) s)"

definition sdSetConfigMode :: "'w ops \<Rightarrow> string \<Rightarrow> int \<Rightarrow> 'w smsd \<Rightarrow> (int \<times> 'w smsd) option" where
  "sdSetConfigMode ops SDid cfg_mode s = do {
     (pre, seq) \<leftarrow> split_sdid SDid;
     c \<leftarrow> ctx_of s;
     ((ret, _), s) \<leftarrow> HA_SMSSQL_SetSDConfigStep ops c pre seq cfg_mode s;
     Some (ret, s)
   }"

text \<open>\<^verbatim>\<open>sms_sd_get_config_mode_from_sdinfo\<close> of \<^verbatim>\<open>php_sdinfo.c\<close>\<close>

definition sms_sd_get_config_mode_from_sdinfo :: "sd_info option \<Rightarrow> int" where
  "sms_sd_get_config_mode_from_sdinfo lsdinfo = (case lsdinfo of None \<Rightarrow> 0 | Some i \<Rightarrow> sd_config_step (SD i))"

section \<open>Running a script on a device\<close>

text \<open>
  The common frame of \<^verbatim>\<open>getRunningConf\<close>, \<^verbatim>\<open>getConfig\<close>, \<^verbatim>\<open>getActivityReport\<close>: read the
  device, answer the client when it cannot be read, run the script, release the device.
\<close>

definition with_sdinfo ::
  "'w ops \<Rightarrow> string \<Rightarrow> (sd_info \<Rightarrow> 'w smsd \<Rightarrow> int \<times> 'w smsd) \<Rightarrow> 'w smsd \<Rightarrow> int \<times> 'w smsd" where
  "with_sdinfo ops SDid f s =
     (let ((ret, sd_info), s) = getSDinfo ops SDid s
      in if ret \<noteq> 0 then (ret, sms_send_user_error ops (Some []) ret s)
         else let (ret, s) = f sd_info s in (ret, freeSDinfo s))"

definition getRunningConf :: "'w ops \<Rightarrow> string \<Rightarrow> 'w smsd \<Rightarrow> int \<times> 'w smsd" where
  "getRunningConf ops SDid s = with_sdinfo ops SDid (genericGetRunningConf ops) s"

definition getConfig :: "'w ops \<Rightarrow> string \<Rightarrow> 'w smsd \<Rightarrow> int \<times> 'w smsd" where
  "getConfig ops SDid s = with_sdinfo ops SDid (genericGetConfig ops) s"

definition getActivityReport :: "'w ops \<Rightarrow> string \<Rightarrow> 'w smsd \<Rightarrow> int \<times> 'w smsd" where
  "getActivityReport ops SDid s = with_sdinfo ops SDid (genericGetActivityReport ops) s"

text \<open>
  \<open>version_changed\<close> is \<open>None\<close> for a null pointer; a failing script leaves the variable as it is.
\<close>

definition save_running_conf ::
  "'w ops \<Rightarrow> sd_like \<Rightarrow> string \<Rightarrow> int option \<Rightarrow> 'w smsd \<Rightarrow> (int \<times> int option) \<times> 'w smsd" where
  "save_running_conf ops sd str_flag_update version_changed s =
     (let s = php_startup s;
          s = php_set ''flag_update'' (PStr (Some str_flag_update)) s;
          s = php_set ''config_type'' (PStr (x_get_router_config_type ops (man_id sd) (mod_id sd))) s;
          s = php_set ''sdid'' (PStr (Some (sd_sdid sd))) s;
          (ret, s) = php_execute ops (sd_sdid sd) ''smsd'' ''save_router_conf.php'' s;
          changed = (if ret \<noteq> 0 then version_changed
            else map_option (\<lambda>_. if no_str (php_get_str ops ''SMS_RETURN_BUF'' s) then 0 else 1) version_changed)
      in ((ret, changed), php_shutdown s))"

definition bad_param :: "'w ops \<Rightarrow> 'w smsd \<Rightarrow> int \<times> 'w smsd" where
  "bad_param ops s = (ERR_VERB_BAD_PARAM, sms_send_user_error ops (Some []) ERR_VERB_BAD_PARAM s)"

definition unarchive_conf :: "'w ops \<Rightarrow> string \<Rightarrow> 'w smsd \<Rightarrow> int \<times> 'w smsd" where
  "unarchive_conf ops params s =
     (let ws = sscanf_s 3 params
      in if length params \<ge> BUFSIZ then bad_param ops s
         else if sscanf_count ws \<noteq> 3 then bad_param ops s
         else let ((ret, sd_info), s) = getSDinfo ops (ws ! 0) s
              in if ret \<noteq> 0 then (ret, sms_send_user_error ops (Some []) ret s)
                 else let (ret, s) = genericUnarchiveConfiguration ops sd_info (ws ! 1) (ws ! 2) s;
                          s = freeSDinfo s
                      in if ret \<noteq> 0 then (ret, sms_send_user_error ops (Some []) ret s)
                         else (SMS_OK, sms_send_user_ok ops (Some []) s))"

definition get_archive_conf :: "'w ops \<Rightarrow> string \<Rightarrow> 'w smsd \<Rightarrow> int \<times> 'w smsd" where
  "get_archive_conf ops params s =
     (let ws = sscanf_s 2 params
      in if length params \<ge> BUFSIZ then bad_param ops s
         else if sscanf_count ws \<noteq> 2 then bad_param ops s
         else let ((ret, sd_info), s) = getSDinfo ops (ws ! 0) s
              in if ret \<noteq> 0 then (ret, sms_send_user_error ops (Some []) ret s)
                 else let (ret, s) = genericGetArchiveConfiguration ops sd_info (ws ! 1) s;
                          s = freeSDinfo s
                      in if ret \<noteq> 0 then (ret, sms_send_user_error ops (Some []) ret s)
                         else (SMS_OK, sms_send_user_ok ops (Some []) s))"

definition SELECTTIMEOUT :: nat where "SELECTTIMEOUT = 60"

text \<open>
  The loop of \<^verbatim>\<open>call_command\<close> that reads the JSON parameters up to an empty line:
  \<open>Inl ret\<close> when the read fails, \<open>Inr buf\<close> with what was read. It goes on for as long as the
  client sends lines.
\<close>

partial_function (option) read_json ::
  "'w ops \<Rightarrow> int \<Rightarrow> string \<Rightarrow> 'w smsd \<Rightarrow> ((int + string) \<times> 'w smsd) option" where
  "read_json ops fd buf s =
     (let (rt, s) = socketReadLine ops fd (BUFSIZ * 8) SELECTTIMEOUT s
      in if fst rt < 0 then Some (Inl (fst rt), s)
         else let buf = buf @ snd rt @ (if fst rt \<noteq> int (BUFSIZ * 8) - 1 then [LF] else [])
              in if snd rt = [] then Some (Inr buf, s) else read_json ops fd buf s)"

declare read_json.simps [code]

definition call_command :: "'w ops \<Rightarrow> string \<Rightarrow> 'w smsd \<Rightarrow> (int \<times> 'w smsd) option" where
  "call_command ops params s =
     (let ws = sscanf_s 3 params
      in if length params \<ge> BUFSIZ then Some (bad_param ops s)
         else if sscanf_count ws \<noteq> 3 then Some (bad_param ops s)
         else do {
           (rd, s) \<leftarrow> read_json ops (cfd (csp s)) [] s;
           case rd of
             Inl ret \<Rightarrow> Some (ret, sms_send_user_error ops (Some []) ret s)
           | Inr buf \<Rightarrow> (let ((ret, sd_info), s) = getSDinfo ops (ws ! 0) s
               in if ret \<noteq> 0 then Some (ret, sms_send_user_error ops (Some []) ret s)
                  else let apply_conf_num = sint (word_of_int (strtol0 (ws ! 2)) :: 32 word);
                           ((ret, result, output), s) = genericCallCommand ops sd_info (ws ! 1) apply_conf_num (Some buf) s;
                           s = freeSDinfo s
                       in Some (ret, if ret \<noteq> 0 then sms_send_user_error ops (Some output) ret s
                                     else sms_send_user_ok_ex ops (Some result) (Some output) s))
         })"

definition send_data_files :: "'w ops \<Rightarrow> string \<Rightarrow> 'w smsd \<Rightarrow> int \<times> 'w smsd" where
  "send_data_files ops params s =
     (let ws = sscanf_s 5 params
      in if length params \<ge> BUFSIZ then bad_param ops s
         else if sscanf_count ws < 1 then bad_param ops s
         else with_sdinfo ops (ws ! 0)
                (\<lambda>i. genericSendDataFiles ops i (word_or [] ws 1) (word_or [] ws 2) (word_or [] ws 3) (word_or [] ws 4)) s)"

definition check_serial :: "'w ops \<Rightarrow> string \<Rightarrow> 'w smsd \<Rightarrow> int \<times> 'w smsd" where
  "check_serial ops params s =
     (let ws = sscanf_s 2 params
      in if length params \<ge> BUFSIZ then bad_param ops s
         else if sscanf_count ws \<noteq> 2 then bad_param ops s
         else let ((ret, sd_info), s) = getSDinfo ops (ws ! 0) s
              in if ret \<noteq> 0 then (ret, sms_send_user_error ops (Some []) ret s)
                 else let (ret, s) = genericCheckSerialNumber ops sd_info (ws ! 1) s;
                          s = freeSDinfo s
                      in if ret \<noteq> 0 then (ret, sms_send_user_error ops (Some []) ret s)
                         else (SMS_OK, sms_send_user_ok ops (Some []) s))"

section \<open>The daily backup\<close>

definition sched_new_task :: "'w ops \<Rightarrow> string \<Rightarrow> int \<Rightarrow> int \<Rightarrow> 'w smsd \<Rightarrow> 'w smsd" where
  "sched_new_task ops name delay period s =
     (let (ok, w) = x_sched_new_task ops name delay period (world s)
      in log_call (NewTask name delay period ok) (s\<lparr>world := w\<rparr>))"

text \<open>\<open>junk\<close> is the value of the uninitialised \<^verbatim>\<open>version_changed\<close>, read when the script fails.\<close>

definition save_conf_task :: "'w ops \<Rightarrow> int \<Rightarrow> int \<Rightarrow> sd_like \<Rightarrow> 'w smsd \<Rightarrow> int \<times> 'w smsd" where
  "save_conf_task ops alarm_sev_conf_changed junk sd s =
     (let ((_, vc), s) = save_running_conf ops sd ''daily config'' (Some junk) s;
          s = (if vc \<noteq> Some 0 \<and> alarm_sev_conf_changed > 0
               then set_sd_alarm ops (sd_cli_prefix sd) (sd_seqnum sd) alarm_sev_conf_changed ''CONF''
                      ''Configuration has been changed'' s
               else s)
      in (SMS_OK, s))"

text \<open>
  The two nested loops of \<^verbatim>\<open>save_all_conf\<close>: \<open>None\<close> is the head of the outer one, \<open>Some (i, ret,
  SD)\<close> the head of the inner one. A lost connection starts over with the first device.
\<close>

partial_function (option) save_all_loop ::
  "'w ops \<Rightarrow> nat \<Rightarrow> (int \<times> int \<times> sd_like) option \<Rightarrow> 'w smsd \<Rightarrow> 'w smsd option" where
  "save_all_loop ops h cur s =
     (case cur of
        None \<Rightarrow>
          (let (rsd, s) = sql_call ''GetSDconnectedFirst'' h (x_GetSDconnectedFirst (x_db ops) h) s
           in if fst rsd = ERR_DB_FAILED \<or> fst rsd = ERR_DB_NOTFOUND then Some s
              else save_all_loop ops h (Some (0, rsd)) s)
      | Some (i, ret, sd) \<Rightarrow>
          if ret = ERR_DB_NOTFOUND then Some s
          else let i = (if sd_connected sd \<noteq> 0 then i + 1 else i);
                   s = (if sd_connected sd \<noteq> 0
                        then sched_new_task ops (''save conf '' @ make_sdid (sd_cli_prefix sd) (sd_seqnum sd)) (i * 1000) 0 s
                        else s);
                   (rsd, s) = sql_call ''GetSDconnectedNext'' h (x_GetSDconnectedNext (x_db ops) h) s
               in if fst rsd = ERR_DB_FAILED then Some s
                  else if fst rsd = ERR_DB_CONNECTION_LOST then save_all_loop ops h None s
                  else save_all_loop ops h (Some (i, rsd)) s)"

declare save_all_loop.simps [code]

definition save_all_conf :: "'w ops \<Rightarrow> 'w smsd \<Rightarrow> (int \<times> 'w smsd) option" where
  "save_all_conf ops s = do {
     let (dbctx, s) = sms_db_find_ctx ops DB_SMS s;
     s \<leftarrow> save_all_loop ops dbctx None s;
     Some (SMS_OK, sms_db_release_ctx ops (Some dbctx) s)
   }"

section \<open>Asking for the asset borrows a context\<close>

interpretation sdForceAsset: ctx_borrower ops "sdForceAsset ops SDid" for ops SDid
proof
  fix s r and s' :: "'a smsd"
  assume run: "sdForceAsset ops SDid s = Some (r, s')"
  obtain acq s1 where n: "need_ctx ops s = (acq, s1)" by (cases "need_ctx ops s")
  obtain pre seq c ry s2 where "sql_call ''SetSDAssetUpdate'' c (no_out (x_SetSDAssetUpdate (x_db ops) c pre seq 1)) s1 = (ry, s2)"
      "s' = drop_ctx ops acq s2"
    using run n unfolding sdForceAsset_def by (auto simp: returned)
  then show "borrowed s s'" using borrow_ctx [OF n] quiet_sql_call by metis
qed

end
