(* ===== verification/Smsd_Update.thy ===== *)
theory Smsd_Update
  imports Smsd_Router
begin

text \<open>
  The rest of \<^verbatim>\<open>update.c\<close>: commands and scripts run on a device, provisioning, backup and update
  of its configuration, and the scan of the devices to update. \<open>None\<close> stands for a client that never
  stops sending, a lost database, a dereference of NULL and the overflow of a fixed buffer.
\<close>

section \<open>Reading the lines of a request\<close>

text \<open>
  \<^verbatim>\<open>while (ret > 0)\<close> (or \<^verbatim>\<open>ret >= 0\<close>, with \<open>lo = 0\<close>) over \<^verbatim>\<open>socketReadLine(csp->cfd, buf, n, t)\<close>:
  every line is appended, with an end of line \<open>eol\<close> for the one that the read removed unless the line filled the buffer.
\<close>

partial_function (option) read_lines ::
  "'w ops \<Rightarrow> string \<Rightarrow> int \<Rightarrow> int \<Rightarrow> nat \<Rightarrow> nat \<Rightarrow> string option \<Rightarrow> 'w smsd \<Rightarrow> (string option \<times> 'w smsd) option" where
  "read_lines ops eol lo fd n t acc s =
     (let (rb, s) = socketReadLine ops fd n t s
      in if fst rb \<ge> lo
         then read_lines ops eol lo fd n t
                (Some ((case acc of None \<Rightarrow> [] | Some a \<Rightarrow> a) @ snd rb @ (if fst rb \<noteq> int n - 1 then eol else []))) s
         else Some (acc, s))"

declare read_lines.simps [code]

section \<open>Configurations and DNS\<close>

definition getRouterFullConfiguration :: "'w ops \<Rightarrow> string \<Rightarrow> 'w smsd \<Rightarrow> (int \<times> string option) \<times> 'w smsd" where
  "getRouterFullConfiguration ops SDid s =
     (let ((ret, sd_info), s) = getSDinfo ops SDid s
      in if ret \<noteq> 0 then ((ret, None), s)
         else let s = RELEASE_BD_CTX ops s
              in if sd_prov_lock (SD sd_info) \<noteq> 0 then ((ERR_SD_PROVLOCK, None), freeSDinfo s)
                 else if sd_connected (SD sd_info) = 0 then ((ERR_SD_TIMEOUTCONNECT, None), freeSDinfo s)
                 else let ((result, config), s) = genericGetConfiguration ops sd_info s
                      in if result \<noteq> 0 then ((result, None), freeSDinfo s)
                         else ((result, config), freeSDinfo s))"

definition dnsUpdate :: "'w ops \<Rightarrow> string \<Rightarrow> string \<Rightarrow> 'w smsd \<Rightarrow> int \<times> 'w smsd" where
  "dnsUpdate ops SDid ip s =
     (let s = php_startup s;
          s = php_set ''sdid'' (PStr (Some SDid)) s;
          s = php_set ''ip'' (PStr (Some ip)) s;
          (ret, s) = php_execute ops SDid ''smsd'' ''dns_update.php'' s
      in (ret, php_shutdown s))"

section \<open>Commands and scripts\<close>

text \<open>
  \<open>Some (id, rest)\<close> for \<open><id> <rest>\<close>: the identifier up to the first space, the rest after all
  the spaces, which must not be empty.
\<close>

definition split_request :: "string \<Rightarrow> (string \<times> string) option" where
  "split_request params = (case strchr_split SP params of None \<Rightarrow> None
     | Some (sdid, t) \<Rightarrow> (let p = dropWhile (\<lambda>c. c = SP) t in if p = [] then None else Some (sdid, p)))"

definition run_commands ::
  "'w ops \<Rightarrow> sd_info \<Rightarrow> string option \<Rightarrow> string list \<Rightarrow> 'w smsd \<Rightarrow> int \<times> 'w smsd" where
  "run_commands ops sd_info addon cmds s = (case addon of
       Some a \<Rightarrow> genericSmsAddonExecCmd ops sd_info a cmds s
     | None \<Rightarrow> genericSmsexecCmd ops sd_info cmds s)"

definition report_error :: "'w ops \<Rightarrow> int \<Rightarrow> 'w smsd \<Rightarrow> int \<times> 'w smsd" where
  "report_error ops ret s = (ret, if ret \<noteq> 0 then sms_send_user_error ops (Some []) ret s else s)"

definition smsexec :: "'w ops \<Rightarrow> string \<Rightarrow> string option \<Rightarrow> 'w smsd \<Rightarrow> int \<times> 'w smsd" where
  "smsexec ops SDid addon s = (case split_request SDid of
       None \<Rightarrow> report_error ops ERR_VERB_BAD_PARAM s
     | Some (sdid, p) \<Rightarrow>
         let ((ret, sd_info), s) = getSDinfo ops sdid s
         in if ret \<noteq> 0 then report_error ops ret s
            else let s = RELEASE_BD_CTX ops s;
                     (ret, s) = run_commands ops sd_info addon [p] s;
                     s = freeSDinfo s
                 in report_error ops ret s)"

text \<open>\<^verbatim>\<open>strstr(p, "\r\n")\<close> and the loop that cuts the text into commands. What follows the last end of
  line is dropped.\<close>

fun strstr_crlf :: "string \<Rightarrow> (string \<times> string) option" where
  "strstr_crlf (a # b # t) =
     (if a = CR \<and> b = LF then Some ([], t)
      else (case strstr_crlf (b # t) of None \<Rightarrow> None | Some (x, y) \<Rightarrow> Some (a # x, y)))"
| "strstr_crlf _ = None"

lemma strstr_crlf_shorter: "strstr_crlf p = Some (x, y) \<Longrightarrow> length y < length p"
  by (induction p arbitrary: x y rule: strstr_crlf.induct) (fastforce split: if_splits option.splits)+

function split_crlf :: "string \<Rightarrow> string list" where
  "split_crlf p = (case strstr_crlf p of None \<Rightarrow> [] | Some (cmd, rest) \<Rightarrow> cmd # split_crlf rest)"
  by auto
termination by (relation "measure length") (auto dest: strstr_crlf_shorter)

declare split_crlf.simps [simp del]

definition smsexecn :: "'w ops \<Rightarrow> string \<Rightarrow> string option \<Rightarrow> 'w smsd \<Rightarrow> (int \<times> 'w smsd) option" where
  "smsexecn ops SDid addon s = do {
     (commands, s) \<leftarrow> read_lines ops crlf 1 (cfd (csp s)) (BUFSIZ + 1) 3 None s;
     let ((ret, sd_info), s) = getSDinfo ops SDid s;
     if ret \<noteq> 0 then Some (report_error ops ret s)
     else do {
       let s = RELEASE_BD_CTX ops s;
       p \<leftarrow> commands;
       let (ret, s) = run_commands ops sd_info addon (split_crlf p) s;
       Some (report_error ops ret (freeSDinfo s))
     }
   }"

definition exec_script :: "'w ops \<Rightarrow> string \<Rightarrow> bool \<Rightarrow> 'w smsd \<Rightarrow> (int \<times> 'w smsd) option" where
  "exec_script ops params synchronous s = (case split_request params of
       None \<Rightarrow> Some (ERR_VERB_BAD_PARAM, sms_send_user_error ops (Some []) ERR_VERB_BAD_PARAM s)
     | Some (sdid, script) \<Rightarrow>
         let ((ret, sd_info), s) = getSDinfo ops sdid s
         in if ret \<noteq> 0 then Some (ret, sms_send_user_error ops (Some []) ret s)
            else do {
              let s = RELEASE_BD_CTX ops s;
              (ret, s) \<leftarrow> genericExecScript ops sd_info script synchronous s;
              Some (ret, freeSDinfo s)
            })"

definition push_config :: "'w ops \<Rightarrow> string \<Rightarrow> 'w smsd \<Rightarrow> (int \<times> 'w smsd) option" where
  "push_config ops params s =
     (let ws = sscanf_s 4 params
      in if length params \<ge> BUFSIZ then Some (bad_param ops s)
         else if sscanf_count ws < 1 then Some (bad_param ops s)
         else do {
           (configuration, s) \<leftarrow> read_lines ops crlf 0 (cfd (csp s)) BUFSIZ 2 None s;
           if no_str configuration then Some (bad_param ops s)
           else Some (with_sdinfo ops (ws ! 0)
             (\<lambda>i. genericPushConfig ops i (word_or [] ws 1) (word_or [] ws 2) (word_or [] ws 3) configuration) s)
         })"

section \<open>Provisioning\<close>

text \<open>
  The arguments on the second line of the request go into buffers of 256 bytes, missing ones are taken
  from the device. A word that does not fit is an overflow.
\<close>

definition provisioning_args :: "sd_like \<Rightarrow> string list \<Rightarrow> string list" where
  "provisioning_args sd ws =
     map (\<lambda>(i, d). if word_or [] ws i = [] then d else word_or [] ws i)
       [(0, sd_ip_config sd), (1, sd_login_entry sd), (2, sd_passwd_entry sd), (3, sd_passwd_adm sd)]"

definition provisioning :: "'w ops \<Rightarrow> string \<Rightarrow> 'w smsd \<Rightarrow> (int \<times> 'w smsd) option" where
  "provisioning ops SDid s = do {
     let ((ret, buf), s) = socketReadLine ops (cfd (csp s)) BUFSIZ 2 s;
     let ws = (if ret > 0 then sscanf_s 4 buf else []);
     if list_all (\<lambda>w. length w < 256) ws
     then do {
       let ((ret, sd_info), s) = getSDinfo ops SDid s;
       if ret \<noteq> 0 then Some (ret, sms_send_user_error ops (Some []) ret s)
       else do {
         let args = provisioning_args (SD sd_info) ws;
         (ret, s) \<leftarrow> (if list_all (\<lambda>w. length w < 256) args
           then genericInitialProvisioning ops sd_info (args ! 0) (args ! 1) (args ! 2) (args ! 3) s else None);
         Some (ret, freeSDinfo s)
       }
     }
     else None
   }"

definition checkProvisioning :: "'w ops \<Rightarrow> string \<Rightarrow> 'w smsd \<Rightarrow> int \<times> 'w smsd" where
  "checkProvisioning ops SDid s = with_sdinfo ops SDid (genericCheckProvisioning ops) s"

section \<open>Backup, restore and update\<close>

definition backupRouterFullConfiguration :: "'w ops \<Rightarrow> string \<Rightarrow> 'w smsd \<Rightarrow> int \<times> 'w smsd" where
  "backupRouterFullConfiguration ops params s =
     (let ws = sscanf_s 2 params
      in if length params \<ge> BUFSIZ then bad_param ops s
         else if sscanf_count ws < 1 then bad_param ops s
         else let ((ret, sd_info), s) = getSDinfo ops (ws ! 0) s
              in if ret \<noteq> 0 then (ret, sms_send_user_error ops (Some ''Cannot get sd info'') ret s)
                 else let (ret, s) = genericBackupConf ops sd_info (word_or [] ws 1) ''update BACKUP'' s
                      in (ret, freeSDinfo s))"

definition restoreConf :: "'w ops \<Rightarrow> string \<Rightarrow> 'w smsd \<Rightarrow> (int \<times> 'w smsd) option" where
  "restoreConf ops params s =
     (let ws = sscanf_s 2 params
      in if length params \<ge> BUFSIZ then Some (bad_param ops s)
         else if sscanf_count ws \<noteq> 2 then Some (bad_param ops s)
         else let ((ret, sd_info), s) = getSDinfo ops (ws ! 0) s
              in if ret \<noteq> 0 then Some (ret, sms_send_user_error ops (Some ''Cannot get sd info'') ret s)
                 else do {
                   let msg = ''RESTORE (revision: '' @ (ws ! 1) @ '')'';
                   (ret, s) \<leftarrow> (if length msg < BUFSIZ then genericRestoreConf ops sd_info (ws ! 1) msg s else None);
                   Some (ret, freeSDinfo s)
                 })"

definition updateConfig :: "'w ops \<Rightarrow> sd_info \<Rightarrow> 'w smsd \<Rightarrow> (int \<times> 'w smsd) option" where
  "updateConfig ops sd_info s = do {
     let s = RELEASE_BD_CTX ops s;
     (ret, s) \<leftarrow> genericUpdateConf ops sd_info s;
     (_, s) \<leftarrow> sdForceAsset ops (sd_sdid (SD sd_info)) s;
     let s = RELEASE_BD_CTX ops s;
     let (_, s) = save_running_conf ops (SD sd_info) ''update'' None s;
     Some (ret, s)
   }"

definition staging :: "'w ops \<Rightarrow> string \<Rightarrow> bool \<Rightarrow> 'w smsd \<Rightarrow> int \<times> 'w smsd" where
  "staging ops SDid map_flag s =
     with_sdinfo ops SDid (\<lambda>i. if map_flag then genericStagingMap ops i else genericStaging ops i) s"

definition SDID_LEN :: nat where "SDID_LEN = 11"

text \<open>
  The task of one device to update: it has a client state of its own, with no user.
\<close>

definition update_task :: "'w ops \<Rightarrow> int \<Rightarrow> int \<Rightarrow> sd_info \<Rightarrow> 'w smsd \<Rightarrow> (int \<times> 'w smsd) option" where
  "update_task ops alarm_fail alarm_ok sd_info s = do {
     let SDid = take SDID_LEN (sd_sdid (SD sd_info));
     let (h, s) = sms_db_find_ctx ops DB_SMS s;
     let s = s\<lparr>csp := \<lparr>cfd = -1, ip_addr_str = None, ip_addr_long = 0, db_ctx = Some h\<rparr>\<rparr>;
     let ((ret, sd_info), s) = getSDinfo ops SDid s;
     (ret, s) \<leftarrow> (if ret \<noteq> 0 then Some (ret, s)
       else do {
         (ret, s) \<leftarrow> (if sd_type (SD sd_info) \<noteq> [] \<and> hd (sd_type (SD sd_info)) = CHR ''H''
           then updateConfig ops sd_info s else Some (ERR_SD_NOT_SUPPORTED, s));
         let (_, s) = need_ctx ops s;
         Some (ret, s)
       });
     s \<leftarrow> (if ret = 0 then Some s
       else if ret \<noteq> ERR_SD_NOT_SUPPORTED \<and> ret \<noteq> ERR_SD_LOCK \<and> ret \<noteq> ERR_SD_PROVLOCK
       then do { (_, s) \<leftarrow> sms_set_update_status ops alarm_fail alarm_ok SDid ret ''scan_updated'' ''FAILED'' [] s; Some s }
       else if ret = ERR_SD_NOT_SUPPORTED
       then do {
         (_, s) \<leftarrow> sms_set_update_status ops alarm_fail alarm_ok SDid SMS_OK ''scan_updated'' ''ENDED'' [] s;
         (_, s) \<leftarrow> set_sd_updated ops SDid 0 s;
         Some s
       }
       else Some s);
     Some (0, freeSDinfo (RELEASE_BD_CTX ops s))
   }"

text \<open>
  \<^verbatim>\<open>scan_updated\<close>: one task per device to update. \<open>None\<close> is the head of the outer loop, \<open>Some (ret,
  sd)\<close> of the inner one; a device the database did not fill in is a zeroed structure.
\<close>

definition sd_name :: "sd_like option \<Rightarrow> string" where
  "sd_name sd = (case sd of None \<Rightarrow> make_sdid [] 0 | Some d \<Rightarrow> make_sdid (sd_cli_prefix d) (sd_seqnum d))"

partial_function (option) scan_loop ::
  "'w ops \<Rightarrow> nat \<Rightarrow> (int \<times> sd_like option) option \<Rightarrow> 'w smsd \<Rightarrow> 'w smsd option" where
  "scan_loop ops h cur s =
     (case cur of
        None \<Rightarrow> Option.bind (HA_SMSSQL_GetSDToUpdateFirst ops h None s) (\<lambda>(rsd, s).
          if fst rsd = ERR_DB_FAILED \<or> fst rsd = ERR_DB_NOTFOUND then Some s
          else scan_loop ops h (Some rsd) s)
      | Some (ret, sd) \<Rightarrow>
          if ret = ERR_DB_NOTFOUND then Some s
          else let s = sched_new_task ops (''update '' @ sd_name sd) 0 0 s;
                   (rsd, s) = HA_SMSSQL_GetSDToUpdateNext ops h None s
               in if fst rsd = ERR_DB_FAILED then Some s
                  else if fst rsd = ERR_DB_CONNECTION_LOST then scan_loop ops h None s
                  else scan_loop ops h (Some rsd) s)"

declare scan_loop.simps [code]

definition scan_updated :: "'w ops \<Rightarrow> 'w smsd \<Rightarrow> (int \<times> 'w smsd) option" where
  "scan_updated ops s = do {
     let (dbctx, s) = sms_db_find_ctx ops DB_SMS s;
     s \<leftarrow> scan_loop ops dbctx None s;
     Some (0, sms_db_release_ctx ops (Some dbctx) s)
   }"

section \<open>License, firmware, high availability, commands\<close>

definition updateLicense :: "'w ops \<Rightarrow> string \<Rightarrow> 'w smsd \<Rightarrow> int \<times> 'w smsd" where
  "updateLicense ops SDid s =
     (let ((ret, sd_info), s) = getSDinfo ops SDid s
      in if ret \<noteq> 0 then (ret, s)
         else let (ret, s) = genericUpdateLicense ops sd_info s in (ret, freeSDinfo s))"

definition updateFirmware :: "'w ops \<Rightarrow> string \<Rightarrow> 'w smsd \<Rightarrow> int \<times> 'w smsd" where
  "updateFirmware ops params s =
     (let ws = sscanf_s 3 params
      in if length params \<ge> BUFSIZ then bad_param ops s
         else if sscanf_count ws < 1 then bad_param ops s
         else let ((ret, sd_info), s) = getSDinfo ops (ws ! 0) s
              in if ret \<noteq> 0 then (ret, s)
                 else let (ret, s) = genericUpdateFirmware ops sd_info (word_or [] ws 1) (word_or [] ws 2) s
                      in (ret, freeSDinfo s))"

definition ha_swap :: "'w ops \<Rightarrow> string \<Rightarrow> 'w smsd \<Rightarrow> int \<times> 'w smsd" where
  "ha_swap ops SDid s = with_sdinfo ops SDid (genericHaSwap ops) s"

definition getPingStatus :: "'w ops \<Rightarrow> string \<Rightarrow> 'w smsd \<Rightarrow> int \<times> 'w smsd" where
  "getPingStatus ops params s =
     (let s = php_startup s;
          s = php_set ''sms_csp'' PCsp s;
          s = php_set ''HOST'' (PStr (Some params)) s;
          (ret, s) = php_execute ops ''debug'' ''smsd'' ''do_getPingStatus.php'' s;
          s = (if ret \<noteq> 0 then sms_send_user_error ops (Some (php_result ops ''SMS_RETURN_BUF'' s)) ret s else s)
      in (ret, php_shutdown s))"

definition smsCmd :: "'w ops \<Rightarrow> string \<Rightarrow> 'w smsd \<Rightarrow> (int \<times> 'w smsd) option" where
  "smsCmd ops params s =
     (let ws = sscanf_s 2 params
      in if length params \<ge> BUFSIZ then Some (bad_param ops s)
         else if sscanf_count ws < 1 then Some (bad_param ops s)
         else do {
           (optional_params, s) \<leftarrow> read_lines ops crlf 1 (cfd (csp s)) BUFSIZ 2 None s;
           if ws ! 0 \<noteq> ''NONE'' then do {
             let ((ret, sd_info), s) = getSDinfo ops (ws ! 0) s;
             if ret \<noteq> 0 then Some (ret, sms_send_user_error ops (Some []) ret s)
             else do {
               (ret, s) \<leftarrow> generic_sms_cmd ops sd_info (word_or [] ws 1) optional_params s;
               Some (ret, freeSDinfo s)
             }
           }
           else generic_smsd_cmd ops (word_or [] ws 1) optional_params s
         })"

definition smsCustCmd :: "'w ops \<Rightarrow> string \<Rightarrow> 'w smsd \<Rightarrow> (int \<times> 'w smsd) option" where
  "smsCustCmd ops params s =
     (let ws = sscanf_s 2 params
      in if length params \<ge> BUFSIZ then Some (bad_param ops s)
         else if sscanf_count ws < 1 then Some (bad_param ops s)
         else do {
           (optional_params, s) \<leftarrow> read_lines ops crlf 1 (cfd (csp s)) BUFSIZ 2 None s;
           let ((ret, cust), s) = get_cust_info ops (ws ! 0) s;
           if ret \<noteq> 0 then Some (ret, sms_send_user_error ops (Some []) ret s)
           else do {
             (ret, s) \<leftarrow> generic_sms_cust_cmd ops cust (word_or [] ws 1) optional_params s;
             Some (ret, log_call FreeCust s)
           }
         })"

definition genTemplate :: "'w ops \<Rightarrow> string \<Rightarrow> 'w smsd \<Rightarrow> int \<times> 'w smsd" where
  "genTemplate ops params s =
     (let ws = sscanf_s 4 params
      in if length params \<ge> BUFSIZ then bad_param ops s
         else if sscanf_count ws < 3 then bad_param ops s
         else let ((ret, sd_info), s) = getSDinfo ops (ws ! 0) s
              in if ret \<noteq> 0 then (ret, sms_send_user_error ops (Some ''Cannot get sd info'') ret s)
                 else let (ret, s) = generic_gen_template ops sd_info (ws ! 1) (ws ! 2) (word_or [] ws 3) s
                      in (ret, freeSDinfo s))"

section \<open>Properties\<close>

text \<open>A command that can be sent on a line of its own: no end of line inside, and it does not end with \<^verbatim>\<open>CR\<close>.\<close>

definition one_line :: "string \<Rightarrow> bool" where
  "one_line c \<longleftrightarrow> strstr_crlf c = None \<and> (c \<noteq> [] \<longrightarrow> last c \<noteq> CR)"

lemma strstr_crlf_line: "one_line c \<Longrightarrow> strstr_crlf (c @ crlf @ t) = Some (c, t)"
proof (induction c rule: strstr_crlf.induct)
  case (1 a b s)
  then have "\<not> (a = CR \<and> b = LF)" "one_line (b # s)"
    by (auto simp: one_line_def split: if_splits option.splits)
  with "1.IH" show ?case by simp
qed (simp_all add: one_line_def)



section \<open>The scan of the devices to update\<close>

fun device_found :: "ext_call \<Rightarrow> bool" where
  "device_found (Sql name c r) \<longleftrightarrow> name \<in> {''GetSDToUpdateFirst'', ''GetSDToUpdateNext''} \<and>
     r \<notin> {ERR_DB_FAILED, ERR_DB_NOTFOUND, ERR_DB_CONNECTION_LOST}"
| "device_found _ \<longleftrightarrow> False"

fun task_started :: "ext_call \<Rightarrow> bool" where
  "task_started (NewTask name delay period ok) \<longleftrightarrow> True"
| "task_started _ \<longleftrightarrow> False"

definition pending :: "(int \<times> sd_like option) option \<Rightarrow> nat" where
  "pending cur = (case cur of None \<Rightarrow> 0 | Some (ret, sd) \<Rightarrow> if ret = ERR_DB_NOTFOUND then 0 else 1)"

text \<open>What a part of the scan does when \<open>p\<close> devices wait for their task and \<open>q\<close> wait after it.\<close>

definition scanned :: "nat \<Rightarrow> nat \<Rightarrow> 'w smsd \<Rightarrow> 'w smsd \<Rightarrow> bool" where
  "scanned p q s t \<longleftrightarrow> csp t = csp s \<and> (\<exists>ds. calls t = calls s @ ds \<and> list_all ctx_neutral ds \<and>
     length (filter task_started ds) + q = length (filter device_found ds) + p)"

lemma scanned_refl [simp]: "scanned p p s s"
  by (simp add: scanned_def)

lemma scanned_trans: "scanned p q s t \<Longrightarrow> scanned q r t u \<Longrightarrow> scanned p r s u"
  by (fastforce simp: scanned_def)

lemma scanned_task: "scanned (Suc 0) 0 s (sched_new_task ops nm i j s)"
  by (auto simp: scanned_def sched_new_task_def log_call_def split: prod.splits)

lemma scanned_next:
  assumes "HA_SMSSQL_GetSDToUpdateNext ops h sd s = ((ret, sd'), t)"
  shows "scanned 0 (if ret \<in> {ERR_DB_FAILED, ERR_DB_CONNECTION_LOST} then 0 else pending (Some (ret, sd'))) s t"
  using assms by (auto simp: HA_SMSSQL_GetSDToUpdateNext_def sql_call_def log_call_def scanned_def pending_def return_code_defs
      split: if_splits prod.splits)

lemma scanned_first:
  assumes "HA_SMSSQL_GetSDToUpdateFirst ops h sd s = Some ((ret, sd'), t)"
  shows "scanned 0 (if ret = ERR_DB_FAILED then 0 else pending (Some (ret, sd'))) s t"
proof -
  obtain n ds where ds: "calls t = calls s @ concat (replicate n [Sql ''GetSDToUpdateFirst'' h ERR_DB_CONNECTION_LOST, ReallocCtx h DB_SMS]) @ ds"
    and alt: "ds = [Sql ''GetSDToUpdateFirst'' h ret] \<or> ds = [] \<and> ret = ERR_DB_FAILED"
    using GetSDToUpdateFirst.trace [OF assms] by blast
  let ?lost = "concat (replicate n [Sql ''GetSDToUpdateFirst'' h ERR_DB_CONNECTION_LOST, ReallocCtx h DB_SMS])"
  have "filter task_started ?lost = []" "filter device_found ?lost = []" "list_all ctx_neutral ?lost"
    by (induction n) (auto simp: return_code_defs)
  with ds alt GetSDToUpdateFirst.frame [OF assms] show ?thesis
    by (auto simp: scanned_def pending_def return_code_defs intro!: exI [of _ "?lost @ ds"])
qed

lemma scan_loop_scanned: "scan_loop ops h cur s = Some t \<Longrightarrow> scanned (pending cur) 0 s t"
proof (erule scan_loop.raw_induct [where P = "\<lambda>ops h cur s t. scanned (pending cur) 0 s t", rotated], goal_cases)
  case (1 f ops h cur s t)
  note IH = "1"(1)
  show ?case
  proof (cases cur)
    case None
    with "1"(2) obtain ret sd u where u: "HA_SMSSQL_GetSDToUpdateFirst ops h None s = Some ((ret, sd), u)"
      and alt: "if ret = ERR_DB_FAILED \<or> ret = ERR_DB_NOTFOUND then Some u = Some t else f ops h (Some (ret, sd)) u = Some t"
      by (auto simp: bind_eq_Some_conv split: if_splits)
    show ?thesis
    proof (cases "ret = ERR_DB_FAILED \<or> ret = ERR_DB_NOTFOUND")
      case True
      with alt u None scanned_first [OF u] show ?thesis by (auto simp: pending_def split: if_splits)
    next
      case False
      with alt IH have "scanned (pending (Some (ret, sd))) 0 u t" by simp
      with False None scanned_trans [OF scanned_first [OF u]] show ?thesis by (simp add: pending_def)
    qed
  next
    case (Some c)
    obtain ret sd where c: "c = (ret, sd)" by (cases c)
    show ?thesis
    proof (cases "ret = ERR_DB_NOTFOUND")
      case True
      with "1"(2) Some c show ?thesis by (simp add: pending_def)
    next
      case False
      let ?u = "sched_new_task ops (''update '' @ sd_name sd) 0 0 s"
      obtain ret' sd' v where v: "HA_SMSSQL_GetSDToUpdateNext ops h None ?u = ((ret', sd'), v)" by (metis prod.collapse)
      let ?q = "if ret' \<in> {ERR_DB_FAILED, ERR_DB_CONNECTION_LOST} then 0 else pending (Some (ret', sd'))"
      have sv: "scanned (pending cur) ?q s v"
        using scanned_trans [OF scanned_task scanned_next [OF v]] False Some c by (simp add: pending_def)
      have "scanned ?q 0 v t"
        using "1"(2) Some c False v IH [of ops h None v t] IH [of ops h "Some (ret', sd')" v t]
        by (auto simp: pending_def split: if_splits)
      with sv show ?thesis by (rule scanned_trans)
    qed
  qed
qed

text \<open>
  The scan of the devices to update: when it returns, it has started one task for each device that the
  database returned, it gives back the database context it took, and it leaves the client state alone.
\<close>

theorem scan_updated_tasks:
  assumes "scan_updated ops s = Some (r, t)"
  shows "r = 0 \<and> csp t = csp s \<and> ctx_run hs (drop (length (calls s)) (calls t)) = Some hs \<and>
    length (filter task_started (drop (length (calls s)) (calls t))) =
    length (filter device_found (drop (length (calls s)) (calls t)))"
proof -
  obtain h u v where u: "sms_db_find_ctx ops DB_SMS s = (h, u)" and v: "scan_loop ops h None u = Some v"
    and t: "t = sms_db_release_ctx ops (Some h) v" "r = 0"
    using assms by (auto simp: scan_updated_def bind_eq_Some_conv split: prod.splits)
  obtain ds where ds: "csp v = csp u" "calls v = calls u @ ds" "list_all ctx_neutral ds"
    "length (filter task_started ds) = length (filter device_found ds)"
    using scan_loop_scanned [OF v] by (auto simp: scanned_def pending_def)
  from sms_db_find_ctx_D [OF u] have fu: "calls u = calls s @ [FindCtx DB_SMS h]" "csp u = csp s" by auto
  with ds t have "calls t = calls s @ [FindCtx DB_SMS h] @ ds @ [ReleaseCtx (Some h)]" "csp t = csp s" by simp_all
  with ds(3,4) t(2) show ?thesis by (simp add: ctx_run_append ctx_run_neutral)
qed

theorem scan_updated_tasks_witness:
  "case scan_updated mem_ops (mem_task mem_world) of None \<Rightarrow> False
   | Some (r, t) \<Rightarrow> r = 0 \<and> ctx_run [] (calls t) = Some [] \<and>
       length (filter device_found (calls t)) = 1 \<and> length (filter task_started (calls t)) = 1"
proof -
  have "map_option (\<lambda>(r, t). length (filter device_found (calls t))) (scan_updated mem_ops (mem_task mem_world)) = Some 1"
    by code_simp
  then obtain r t where t: "scan_updated mem_ops (mem_task mem_world) = Some (r, t)"
    "length (filter device_found (calls t)) = 1" by auto
  have "calls (mem_task mem_world) = []" by (simp add: mem_task_def)
  with scan_updated_tasks [OF t(1), of "[]"] t show ?thesis by simp
qed

end
