(* ===== verification/Smsd_Config.thy ===== *)
theory Smsd_Config
  imports Smsd_Prelude
begin

text \<open>
  The configuration file, \<^verbatim>\<open>smsconfig.c\<close>: reading it line by line, one directive per line, and
  the checks of the mandatory fields. The indices \<^verbatim>\<open>sms_master\<close>, \<^verbatim>\<open>sms_disaster\<close>,
  \<^verbatim>\<open>syslog_master\<close> and \<^verbatim>\<open>syslog_disaster\<close>, global variables of the C file, are fields of the record.

  The sections \<^verbatim>\<open>[sms]\<close> and \<^verbatim>\<open>[syslog]\<close> extend an array with \<^verbatim>\<open>realloc\<close>, which does not
  initialise the new element. A field of such an element is \<open>None\<close> until a directive assigns it; the
  argument \<open>zeroed\<close> of the checks says whether unassigned memory happens to compare equal to NULL.
\<close>

section \<open>Data\<close>

record sms =
  sms_address_ip :: "string option"
  sms_address_ipv6 :: "string option"
  sms_network_ip :: "string option"
  sms_mask_ip :: "string option"
  sms_inverted_mask_ip :: "string option"

record smsConf =
  db_conf_file :: "string option"
  router_conf_file :: "string option"
  domain :: "string option"
  logfile :: "string option"
  haddr :: "string option"
  ntpserver :: "string option"
  ntpbackupserver :: "string option"
  dns_default :: "string option"
  ubi_vsoc_name :: "string option"
  ubi_centralized_node_name :: "string option"
  tftp_base :: "string option"
  fmc_repository :: "string option"
  fmc_entities2files :: "string option"
  save_all_conf_time :: "string option"
  save_all_conf_freq :: "string option"
  smtp_server_address :: "string option"
  notif_mail_address :: "string option"
  scp_user :: "string option"
  scp_pass :: "string option"
  node_name :: "string option"
  port :: int
  loglevel :: int
  debug :: int
  SMSnumContext :: int
  CUSTnumContext :: int
  numSimultaneous :: int
  numSimultaneousIngetVPNstatus :: int
  local_server_synchro_timeout :: int
  nightly_save_conf :: int
  alarm_sev_conf_changed :: int
  alarm_update_ok :: int
  alarm_update_fail :: int
  list_router_to_update_from_base_at_start :: int
  heart_beat :: int
  smsArray :: "sms list"
  syslogArray :: "string option list"
  jsacmd_list :: "string list"
  jsacustcmd_list :: "string list"
  sms_disaster :: nat
  sms_master :: nat
  syslog_disaster :: nat
  syslog_master :: nat

text \<open>The structure after \<^verbatim>\<open>calloc\<close> and the assignment of the default values.\<close>

definition default_config :: smsConf where
  "default_config = \<lparr>db_conf_file = None, router_conf_file = None, domain = None, logfile = None, haddr = None,
     ntpserver = None, ntpbackupserver = None, dns_default = None, ubi_vsoc_name = None, ubi_centralized_node_name =
     None, tftp_base = None, fmc_repository = None, fmc_entities2files = None, save_all_conf_time = None,
     save_all_conf_freq = None, smtp_server_address = None, notif_mail_address = None, scp_user = None, scp_pass =
     None, node_name = None,
     port = 28169, loglevel = 15, debug = 15, SMSnumContext = 5, CUSTnumContext = 1, numSimultaneous = 10,
     numSimultaneousIngetVPNstatus = 0, local_server_synchro_timeout = 300, nightly_save_conf = 0,
     alarm_sev_conf_changed = 0, alarm_update_ok = 6, alarm_update_fail = 1, list_router_to_update_from_base_at_start
     = 0, heart_beat = 0,
     smsArray = [], syslogArray = [], jsacmd_list = [], jsacustcmd_list = [],
     sms_disaster = 0, sms_master = 0, syslog_disaster = 0, syslog_master = 0\<rparr>"

definition fresh_sms :: sms where
  "fresh_sms = \<lparr>sms_address_ip = None, sms_address_ipv6 = None, sms_network_ip = None, sms_mask_ip = None,
     sms_inverted_mask_ip = None\<rparr>"

section \<open>Lines\<close>

text \<open>\<^verbatim>\<open>fgets(buf, n, fp)\<close>: up to \<open>n - 1\<close> characters, through the end of the line.\<close>

fun fgets :: "nat \<Rightarrow> string \<Rightarrow> string \<times> string" where
  "fgets (Suc (Suc n)) (c # s) =
     (if c = LF then ([c], s) else let (l, rest) = fgets (Suc n) s in (c # l, rest))"
| "fgets _ s = ([], s)"

lemma fgets_length: "fgets n s = (l, rest) \<Longrightarrow> s = l @ rest"
  by (induction n s arbitrary: l rule: fgets.induct) (auto split: if_splits prod.splits)

lemma fgets_progress: "1 < n \<Longrightarrow> s \<noteq> [] \<Longrightarrow> fgets n s = (l, rest) \<Longrightarrow> l \<noteq> []"
  by (cases "(n, s)" rule: fgets.cases) (auto split: if_splits prod.splits)

lemma fgets_bound: "0 < n \<Longrightarrow> fgets n s = (l, rest) \<Longrightarrow> length l < n"
  by (induction n s arbitrary: l rule: fgets.induct) (fastforce split: if_splits prod.splits)+

function file_lines :: "string \<Rightarrow> string list" where
  "file_lines s = (if s = [] then [] else let (l, rest) = fgets BUFSIZ s in l # file_lines rest)"
  by auto
termination
proof (relation "measure length")
  fix s x l rest
  assume "s \<noteq> []" "x = fgets BUFSIZ s" "(l, rest) = x"
  then have "s = l @ rest" "l \<noteq> []"
    using fgets_length [of BUFSIZ s l rest] fgets_progress [of BUFSIZ s l rest] by (auto simp: BUFSIZ_def)
  then show "(rest, s) \<in> measure length" by simp
qed simp

declare file_lines.simps [simp del]

text \<open>The command, in lower case, and the argument of a line; no command for a blank line or a comment.\<close>

definition parse_line :: "string \<Rightarrow> string \<times> string" where
  "parse_line buf =
     (let p = skip_blanks (cut_pbrk [CHR ''#'', CR, LF] buf);
          cmd = takeWhile (\<lambda>c. \<not> is_blank c) p;
          arg = rtrim_blanks (skip_blanks (dropWhile (\<lambda>c. \<not> is_blank c) p))
      in (map c_tolower cmd, arg))"

section \<open>Directives\<close>

text \<open>\<^verbatim>\<open>inet_pton\<close>, exclusive or with \<^verbatim>\<open>0xFFFFFFFF\<close>, \<^verbatim>\<open>inet_ntop\<close>: the complement of every
  octet. For text that is no IPv4 address the C code converts an uninitialised value: \<open>None\<close>.\<close>

definition octet :: "string \<Rightarrow> nat option" where
  "octet t = (if t \<noteq> [] \<and> length t \<le> 3 \<and> list_all c_isdigit t \<and> (hd t = CHR ''0'' \<longrightarrow> t = ''0'') \<and> num_val 10 t \<le> 255
     then Some (num_val 10 t) else None)"

fun split_dots :: "string \<Rightarrow> string list" where
  "split_dots [] = [[]]"
| "split_dots (c # s) = (if c = CHR ''.'' then [] # split_dots s
     else case split_dots s of [] \<Rightarrow> [[c]] | t # ts \<Rightarrow> (c # t) # ts)"

definition invert_mask :: "string \<Rightarrow> string option" where
  "invert_mask m = (case those (map octet (split_dots m)) of
       Some [a, b, c, d] \<Rightarrow> Some (dec_nat (255 - a) @ ''.'' @ dec_nat (255 - b) @ ''.'' @ dec_nat (255 - c) @ ''.'' @
         dec_nat (255 - d))
     | _ \<Rightarrow> None)"

text \<open>\<^verbatim>\<open>config->smsArray[config->smsNumber - 1]\<close>: outside the array before the first section.\<close>

definition set_last_sms :: "(sms \<Rightarrow> sms) \<Rightarrow> smsConf \<Rightarrow> (bool \<times> smsConf) option" where
  "set_last_sms f config = (if smsArray config = [] then None
     else Some (True, config\<lparr>smsArray := (smsArray config)[length (smsArray config) - 1 := f (last (smsArray config))]\<rparr>))"

definition strip_slash :: "string \<Rightarrow> string" where
  "strip_slash t = (if last t = CHR ''/'' then butlast t else t)"

text \<open>
  One directive: whether it is recognised, and the new configuration. \<open>None\<close> is an access outside an
  array or before the start of a string.
\<close>

definition directive :: "string \<Rightarrow> string \<Rightarrow> smsConf \<Rightarrow> (bool \<times> smsConf) option" where
  "directive cmd arg config =
     (if cmd = ''[sms]'' \<or> cmd = ''[sms-disaster]'' then
        Some (True, config\<lparr>smsArray := smsArray config @ [fresh_sms],
          sms_disaster := (if cmd = ''[sms-disaster]'' then length (smsArray config) else sms_disaster config),
          sms_master := (if cmd = ''[sms-disaster]'' then sms_master config else length (smsArray config))\<rparr>)
      else if cmd = ''db-conf-file'' then
        Some (True, config\<lparr>db_conf_file := Some arg\<rparr>)
      else if cmd = ''router-conf-file'' then
        Some (True, config\<lparr>router_conf_file := Some arg\<rparr>)
      else if cmd = ''[syslog]'' \<or> cmd = ''[syslog-disaster]'' then
        Some (True, config\<lparr>syslogArray := syslogArray config @ [None],
          syslog_disaster := (if cmd = ''[syslog-disaster]'' then length (syslogArray config) else syslog_disaster config),
          syslog_master := (if cmd = ''[syslog-disaster]'' then syslog_master config else length (syslogArray config))\<rparr>)
      else if cmd = ''domain'' then
        Some (True, config\<lparr>domain := Some arg\<rparr>)
      else if cmd = ''port'' then
        Some (True, config\<lparr>port := atoi arg\<rparr>)
      else if cmd = ''loglevel'' then
        Some (True, config\<lparr>loglevel := atoi arg\<rparr>)
      else if cmd = ''debug'' then
        Some (True, config\<lparr>debug := atoi arg\<rparr>)
      else if cmd = ''sms-num-context'' then
        Some (True, config\<lparr>SMSnumContext := atoi arg\<rparr>)
      else if cmd = ''cust-num-context'' then
        Some (True, config\<lparr>CUSTnumContext := atoi arg\<rparr>)
      else if cmd = ''numsimultaneous'' then
        Some (True, config\<lparr>numSimultaneous := atoi arg\<rparr>)
      else if cmd = ''numsimultaneousingetvpnstatus'' then
        Some (True, config\<lparr>numSimultaneousIngetVPNstatus := atoi arg\<rparr>)
      else if cmd = ''logfile'' then
        Some (True, config\<lparr>logfile := Some arg\<rparr>)
      else if cmd = ''listen-address'' then
        Some (True, config\<lparr>haddr := Some arg\<rparr>)
      else if cmd = ''sms-address-ip'' then
        set_last_sms (\<lambda>m. m\<lparr>sms_address_ip := Some arg\<rparr>) config
      else if cmd = ''sms-address-ipv6'' then
        set_last_sms (\<lambda>m. m\<lparr>sms_address_ipv6 := Some arg\<rparr>) config
      else if cmd = ''sms-server-network'' then
        set_last_sms (\<lambda>m. m\<lparr>sms_network_ip := Some arg\<rparr>) config
      else if cmd = ''local-server-synchro-timeout'' then
        Some (True, config\<lparr>local_server_synchro_timeout := atoi arg\<rparr>)
      else if cmd = ''sms-server-mask'' then
        set_last_sms (\<lambda>m. m\<lparr>sms_mask_ip := Some arg, sms_inverted_mask_ip := invert_mask arg\<rparr>) config
      else if cmd = ''ntp-ip-address'' then
        Some (True, config\<lparr>ntpserver := Some arg\<rparr>)
      else if cmd = ''ntp-backup-ip-address'' then
        Some (True, config\<lparr>ntpbackupserver := Some arg\<rparr>)
      else if cmd = ''syslog-server'' then
        (if syslogArray config = [] then None
           else Some (True, config\<lparr>syslogArray := (syslogArray config)[length (syslogArray config) - 1 := Some arg]\<rparr>))
      else if cmd = ''dns-default'' then
        Some (True, config\<lparr>dns_default := Some arg\<rparr>)
      else if cmd = ''ubi-vsoc-name'' then
        Some (True, config\<lparr>ubi_vsoc_name := Some arg\<rparr>)
      else if cmd = ''ubi-centralized-node-name'' then
        Some (True, config\<lparr>ubi_centralized_node_name := Some arg\<rparr>)
      else if cmd = ''tftp-base'' then
        Some (True, config\<lparr>tftp_base := Some arg\<rparr>)
      else if cmd = ''fmc-repository'' then
        (if arg = [] then None else Some (True, config\<lparr>fmc_repository := Some (strip_slash arg)\<rparr>))
      else if cmd = ''fmc-entities2files'' then
        (if arg = [] then None else Some (True, config\<lparr>fmc_entities2files := Some (strip_slash arg)\<rparr>))
      else if cmd = ''nightly-save-conf'' then
        Some (True, config\<lparr>nightly_save_conf := atoi arg\<rparr>)
      else if cmd = ''save-all-conf-time'' then
        Some (True, config\<lparr>save_all_conf_time := Some arg\<rparr>)
      else if cmd = ''save-all-conf-freq'' then
        Some (True, config\<lparr>save_all_conf_freq := Some arg\<rparr>)
      else if cmd = ''alarm-sev-conf-changed'' then
        Some (True, config\<lparr>alarm_sev_conf_changed := atoi arg\<rparr>)
      else if cmd = ''alarm-sev-update-ok'' then
        Some (True, config\<lparr>alarm_update_ok := atoi arg\<rparr>)
      else if cmd = ''alarm-sev-update-failed'' then
        Some (True, config\<lparr>alarm_update_fail := atoi arg\<rparr>)
      else if cmd = ''list-router-to-update-from-base-at-start'' then
        Some (True, config\<lparr>list_router_to_update_from_base_at_start := atoi arg\<rparr>)
      else if cmd = ''heart-beat'' then
        Some (True, config\<lparr>heart_beat := atoi arg\<rparr>)
      else if cmd = ''smtp-server-address'' then
        Some (True, config\<lparr>smtp_server_address := Some arg\<rparr>)
      else if cmd = ''notif-mail-address'' then
        Some (True, config\<lparr>notif_mail_address := Some arg\<rparr>)
      else if cmd = ''scp-username'' then
        Some (True, config\<lparr>scp_user := Some arg\<rparr>)
      else if cmd = ''scp-password'' then
        Some (True, config\<lparr>scp_pass := Some arg\<rparr>)
      else if cmd = ''node-name'' then
        Some (True, config\<lparr>node_name := Some arg\<rparr>)
      else if cmd = ''[jsacmd]'' then
        Some (True, config)
      else if strncmp_eq cmd ''cmd-'' then
        Some (True, config\<lparr>jsacmd_list := jsacmd_list config @ [arg]\<rparr>)
      else if cmd = ''[jsacustcmd]'' then
        Some (True, config)
      else if strncmp_eq cmd ''cust-cmd-'' then
        Some (True, config\<lparr>jsacustcmd_list := jsacustcmd_list config @ [arg]\<rparr>)
      else Some (False, config))"

text \<open>The loop over the lines; \<open>err\<close> is set by an unrecognised directive and reading goes on.\<close>

fun config_lines :: "string list \<Rightarrow> bool \<times> smsConf \<Rightarrow> (bool \<times> smsConf) option" where
  "config_lines [] ec = Some ec"
| "config_lines (buf # bufs) (err, config) =
     (let (cmd, arg) = parse_line buf
      in if cmd = [] then config_lines bufs (err, config)
         else do {
           (known, config) \<leftarrow> directive cmd arg config;
           config_lines bufs (err \<or> \<not> known, config)
         })"

section \<open>Checks\<close>

definition is_null :: "bool \<Rightarrow> string option \<Rightarrow> bool" where
  "is_null zeroed field \<longleftrightarrow> field = None \<and> zeroed"

definition sms_missing :: "bool \<Rightarrow> sms \<Rightarrow> bool" where
  "sms_missing zeroed m \<longleftrightarrow> is_null zeroed (sms_address_ip m) \<or> is_null zeroed (sms_network_ip m) \<or>
     is_null zeroed (sms_mask_ip m)"

definition mandatory_ok :: "bool \<Rightarrow> smsConf \<Rightarrow> bool" where
  "mandatory_ok zeroed config \<longleftrightarrow>
     syslogArray config \<noteq> [] \<and> \<not> is_null zeroed (syslogArray config ! 0) \<and>
     length (syslogArray config) = 2 \<and> \<not> is_null zeroed (syslogArray config ! 1) \<and>
     smsArray config \<noteq> [] \<and> \<not> sms_missing zeroed (smsArray config ! 0) \<and>
     length (smsArray config) = 2 \<and> \<not> sms_missing zeroed (smsArray config ! 1) \<and>
     numSimultaneousIngetVPNstatus config \<noteq> 0 \<and>
     dns_default config \<noteq> None \<and> ubi_vsoc_name config \<noteq> None \<and> ubi_centralized_node_name config \<noteq> None"

definition DEFAULT_ROUTER_DOMAIN :: string where "DEFAULT_ROUTER_DOMAIN = ''ubiqube.net''"

text \<open>
  \<^verbatim>\<open>createConfig\<close> on the content of the file: \<open>Some None\<close> is the NULL it returns for a bad file.
\<close>

definition createConfig :: "bool \<Rightarrow> string \<Rightarrow> smsConf option option" where
  "createConfig zeroed content = do {
     (err, config) \<leftarrow> config_lines (file_lines content) (False, default_config);
     if err \<or> \<not> mandatory_ok zeroed config then Some None
     else Some (Some (if domain config = None then config\<lparr>domain := Some DEFAULT_ROUTER_DOMAIN\<rparr> else config))
   }"

section \<open>Lines\<close>

lemma file_lines_spec: "concat (file_lines s) = s \<and> list_all (\<lambda>l. l \<noteq> [] \<and> length l < BUFSIZ) (file_lines s)"
proof (induction s rule: file_lines.induct)
  case (1 s)
  show ?case
  proof (cases "s = []")
    case False
    obtain l rest where l: "fgets BUFSIZ s = (l, rest)" by (metis prod.collapse)
    with fgets_length fgets_progress [OF _ False l] fgets_bound [OF _ l]
    have "s = l @ rest" "l \<noteq> []" "length l < BUFSIZ" by (auto simp: BUFSIZ_def)
    with 1 [OF False] l False show ?thesis by (subst (1 2) file_lines.simps) simp
  qed (simp add: file_lines.simps)
qed

lemma fgets_line: "LF \<notin> set l \<Longrightarrow> Suc (length l) < n \<Longrightarrow> fgets n (l @ LF # rest) = (l @ [LF], rest)"
proof (induction l arbitrary: n)
  case Nil
  then obtain m where "n = Suc (Suc m)" by (auto dest!: less_imp_Suc_add)
  then show ?case by simp
next
  case (Cons c l)
  then obtain m where "n = Suc (Suc m)" "Suc (length l) < Suc m" by (auto dest!: less_imp_Suc_add)
  with Cons.IH [of "Suc m"] Cons.prems(1) show ?case by auto
qed

definition text_lines :: "string list \<Rightarrow> string" where
  "text_lines ls = concat (map (\<lambda>l. l @ [LF]) ls)"

lemma file_lines_text:
  "list_all (\<lambda>l. LF \<notin> set l \<and> length l < 8000) ls \<Longrightarrow> file_lines (text_lines ls) = map (\<lambda>l. l @ [LF]) ls"
proof (induction ls)
  case Nil
  then show ?case by (simp add: text_lines_def file_lines.simps)
next
  case (Cons l ls)
  then have "fgets BUFSIZ (l @ LF # text_lines ls) = (l @ [LF], text_lines ls)"
    by (intro fgets_line) (auto simp: BUFSIZ_def)
  with Cons show ?case by (subst file_lines.simps) (simp add: text_lines_def)
qed

lemma length_parse_line:
  assumes "parse_line buf = (cmd, arg)"
  shows "length cmd \<le> length buf" "length arg \<le> length buf"
proof -
  let ?p = "skip_blanks (cut_pbrk [CHR ''#'', CR, LF] buf)"
  have "length ?p \<le> length buf" using length_skip_blanks_le length_cut_pbrk_le le_trans by blast
  moreover have "length (takeWhile (\<lambda>c. \<not> is_blank c) ?p) \<le> length ?p" by (rule length_takeWhile_le)
  moreover have "length (rtrim_blanks (skip_blanks (dropWhile (\<lambda>c. \<not> is_blank c) ?p))) \<le> length ?p"
    using length_rtrim_blanks_le length_skip_blanks_le length_dropWhile_le le_trans by meson
  ultimately show "length cmd \<le> length buf" "length arg \<le> length buf"
    using assms by (auto simp: parse_line_def Let_def)
qed

text \<open>
  No line of a configuration file overflows the buffers it is parsed in: the lines read are the file cut
  into non-empty pieces, and the command and the argument of every one fit into \<^verbatim>\<open>BUFSIZ\<close> bytes with
  their terminating NUL.
\<close>

theorem config_lines_fit:
  "concat (file_lines content) = content \<and>
   list_all (\<lambda>l. l \<noteq> [] \<and> length (fst (parse_line l)) < BUFSIZ \<and> length (snd (parse_line l)) < BUFSIZ) (file_lines content)"
proof -
  have "length (fst (parse_line l)) < BUFSIZ \<and> length (snd (parse_line l)) < BUFSIZ" if "length l < BUFSIZ" for l
    using length_parse_line [of l "fst (parse_line l)" "snd (parse_line l)"] that by auto
  with file_lines_spec [of content] show ?thesis by (auto simp: list_all_iff)
qed

lemma takeWhile_append_stop: "\<forall>x\<in>set xs. P x \<Longrightarrow> \<not> P y \<Longrightarrow> takeWhile P (xs @ y # ys) = xs"
  by (induction xs) auto

text \<open>
  A directive is read back as it was written: for a command in lower case without blanks and an
  argument that neither starts nor ends with a blank, both without comment signs and ends of line, parsing
  the line gives back the command and the argument, whatever blanks surround and separate them.
\<close>

theorem parse_line_round_trip:
  assumes "list_all (\<lambda>c. \<not> is_blank c \<and> c_tolower c = c) cmd" "cmd \<noteq> []"
    and "arg \<noteq> [] \<longrightarrow> \<not> is_blank (hd arg) \<and> \<not> is_blank (last arg)"
    and "set (cmd @ arg) \<inter> {CHR ''#'', CR, LF} = {}"
    and "list_all is_blank b1" "list_all is_blank b2" "b2 \<noteq> []" "list_all is_blank b3"
  shows "parse_line (b1 @ cmd @ b2 @ arg @ b3 @ [LF]) = (cmd, arg)"
proof -
  have blank: "set b \<inter> {CHR ''#'', CR, LF} = {}" if "list_all is_blank b" for b
    using that by (induction b) (auto simp: is_blank_def)
  have "cut_pbrk [CHR ''#'', CR, LF] ((b1 @ cmd @ b2 @ arg @ b3) @ LF # []) = b1 @ cmd @ b2 @ arg @ b3"
    using assms(4) blank [OF assms(5)] blank [OF assms(6)] blank [OF assms(8)] by (intro cut_pbrk_append) auto
  moreover have "skip_blanks (b1 @ cmd @ b2 @ arg @ b3) = cmd @ b2 @ arg @ b3"
    using assms(1,2,5) unfolding skip_blanks_def by (cases cmd) (auto simp: list_all_iff dropWhile_append2)
  moreover have "takeWhile (\<lambda>c. \<not> is_blank c) (cmd @ b2 @ arg @ b3) = cmd"
    "dropWhile (\<lambda>c. \<not> is_blank c) (cmd @ b2 @ arg @ b3) = b2 @ arg @ b3"
    using assms(1,6,7) by (cases b2; auto simp: list_all_iff takeWhile_append_stop dropWhile_append2)+
  moreover have "rtrim_blanks (skip_blanks (b2 @ arg @ b3)) = arg"
  proof (cases "arg = []")
    case True
    with assms(6,8) show ?thesis by (simp add: skip_blanks_def list_all_iff rtrim_blanks_id)
  next
    case False
    with assms(3,6) have "skip_blanks (b2 @ arg @ b3) = arg @ b3"
      by (subst skip_blanks_append) (auto simp: list_all_iff intro!: skip_blanks_id)
    with assms(3,8) False show ?thesis by (simp add: rtrim_blanks_append rtrim_blanks_id list_all_iff)
  qed
  moreover have "map c_tolower cmd = cmd" using assms(1) by (simp add: list_all_iff map_idI)
  ultimately show ?thesis by (simp add: parse_line_def Let_def)
qed

theorem parse_line_round_trip_witness: "parse_line ('' '' @ ''port'' @ [TAB] @ ''28169'' @ '' '' @ [LF]) = (''port'', ''28169'')"
  by (rule parse_line_round_trip) (simp_all add: is_blank_def c_tolower_def)

section \<open>Accepted and refused files\<close>

lemma createConfig_accepted:
  assumes "createConfig zeroed content = Some (Some c)"
  obtains config where "config_lines (file_lines content) (False, default_config) = Some (False, config)"
    "mandatory_ok zeroed config" "c = (if domain config = None then config\<lparr>domain := Some DEFAULT_ROUTER_DOMAIN\<rparr> else config)"
proof -
  obtain err config where run: "config_lines (file_lines content) (False, default_config) = Some (err, config)"
    using assms by (auto simp: createConfig_def bind_eq_Some_conv)
  with assms have "\<not> err" "mandatory_ok zeroed config"
    "c = (if domain config = None then config\<lparr>domain := Some DEFAULT_ROUTER_DOMAIN\<rparr> else config)"
    by (auto simp: createConfig_def split: if_split_asm)
  with run that show thesis by simp
qed

text \<open>The lines of a complete configuration file.\<close>

definition sample_config :: "string list" where
  "sample_config =
     [''# sample'', ''[sms]'', ''sms-address-ip 10.0.0.1'', ''sms-server-network 10.0.0.0'', ''sms-server-mask 255.255.255.0'',
      ''[sms-disaster]'', ''sms-address-ip 10.0.1.1'', ''sms-server-network 10.0.1.0'', ''sms-server-mask 255.255.255.0'',
      ''[syslog]'', ''syslog-server 10.0.0.2'', ''[syslog-disaster]'', ''syslog-server 10.0.1.2'',
      ''numSimultaneousIngetVPNstatus 4'', ''dns-default 10.0.0.3'', ''ubi-vsoc-name v1'', ''ubi-centralized-node-name n1'']"

lemma createConfig_text:
  assumes "list_all (\<lambda>l. LF \<notin> set l \<and> length l < 8000) ls"
  shows "createConfig zeroed (text_lines ls) = do {
     (err, config) \<leftarrow> config_lines (map (\<lambda>l. l @ [LF]) ls) (False, default_config);
     if err \<or> \<not> mandatory_ok zeroed config then Some None
     else Some (Some (if domain config = None then config\<lparr>domain := Some DEFAULT_ROUTER_DOMAIN\<rparr> else config))
   }"
  by (simp add: createConfig_def file_lines_text [OF assms])

lemma sample_config_accepted:
  "\<exists>c. createConfig True (text_lines sample_config) = Some (Some c) \<and> logfile c = None \<and> haddr c = None \<and>
     port c = 28169 \<and> nightly_save_conf c = 0"
proof -
  have "list_all (\<lambda>l. LF \<notin> set l \<and> length l < 8000) sample_config" by code_simp
  note eq = createConfig_text [OF this, of True]
  have "map_option (map_option (\<lambda>c. (logfile c, haddr c, port c, nightly_save_conf c)))
      (createConfig True (text_lines sample_config)) = Some (Some (None, None, 28169, 0))"
    unfolding eq by code_simp
  then show ?thesis by auto
qed



text \<open>
  The checks of the mandatory fields of a section do not hold when the memory of the section is not
  zero: a file in which no directive gives the address, the network and the mask of the daemon is accepted.
\<close>

theorem createConfig_accepts_unset_section:
  "\<exists>content c. createConfig False content = Some (Some c) \<and> createConfig True content = Some None \<and>
     list_all (\<lambda>m. m = fresh_sms) (smsArray c)"
proof -
  let ?ls = "[''[sms]'', ''[sms-disaster]'', ''[syslog]'', ''[syslog-disaster]'', ''numSimultaneousIngetVPNstatus 4'',
    ''dns-default 10.0.0.3'', ''ubi-vsoc-name v1'', ''ubi-centralized-node-name n1'']"
  have "list_all (\<lambda>l. LF \<notin> set l \<and> length l < 8000) ?ls" by code_simp
  note t = createConfig_text [OF this]
  have "map_option (map_option smsArray) (createConfig False (text_lines ?ls)) = Some (Some [fresh_sms, fresh_sms])"
    "createConfig True (text_lines ?ls) = Some None" unfolding t by code_simp+
  then show ?thesis by (intro exI [of _ "text_lines ?ls"]) auto
qed

lemma config_lines_unknown:
  assumes "l \<in> set bufs" "parse_line l = (cmd, arg)" "cmd \<noteq> []" "\<And>c. directive cmd arg c = Some (False, c)"
    and "config_lines bufs (e, config) = Some (err, config')"
  shows err
proof -
  have keep: "err'" if "config_lines ls (True, c) = Some (err', c')" for ls c err' c'
    using that by (induction ls arbitrary: c) (auto simp: bind_eq_Some_conv Let_def split: prod.splits if_splits)
  show ?thesis
    using assms(1,5)
  proof (induction bufs arbitrary: e config)
    case (Cons b bufs)
    show ?case
    proof (cases "b = l")
      case True
      with Cons.prems(2) assms(2-4) have "config_lines bufs (True, config) = Some (err, config')" by simp
      then show ?thesis by (rule keep)
    next
      case False
      with Cons.prems(1) have "l \<in> set bufs" by simp
      with Cons.prems(2) Cons.IH show ?thesis
        by (auto simp: bind_eq_Some_conv Let_def split: prod.splits if_splits)
    qed
  qed simp
qed

text \<open>
  A file with a directive that is not recognised is never accepted, wherever the line stands and
  whatever else the file holds.
\<close>

theorem createConfig_unknown_directive:
  assumes "l \<in> set (file_lines content)" "parse_line l = (cmd, arg)" "cmd \<noteq> []"
    and "\<And>c. directive cmd arg c = Some (False, c)"
  shows "createConfig zeroed content \<noteq> Some (Some c)"
proof
  assume "createConfig zeroed content = Some (Some c)"
  then obtain config where "config_lines (file_lines content) (False, default_config) = Some (False, config)"
    by (rule createConfig_accepted)
  from config_lines_unknown [OF assms this] show False .
qed

theorem createConfig_unknown_directive_witness:
  "\<forall>c. createConfig False (text_lines (sample_config @ [''sms_address_ip 10.0.0.1''])) \<noteq> Some (Some c)"
proof (intro allI createConfig_unknown_directive)
  have "list_all (\<lambda>l. LF \<notin> set l \<and> length l < 8000) (sample_config @ [''sms_address_ip 10.0.0.1''])" by code_simp
  from file_lines_text [OF this]
  show "''sms_address_ip 10.0.0.1'' @ [LF] \<in> set (file_lines (text_lines (sample_config @ [''sms_address_ip 10.0.0.1''])))" by simp
  show "parse_line (''sms_address_ip 10.0.0.1'' @ [LF]) = (''sms_address_ip'', ''10.0.0.1'')" by code_simp
qed (simp_all add: directive_def strncmp_eq_def)

end
