(* ===== verification/Smsd_Handlers.thy ===== *)
theory Smsd_Handlers
  imports Smsd_Update Smsd_Config
begin

text \<open>
  The handlers of the verbs, \<^verbatim>\<open>do*\<close> of \<^verbatim>\<open>verb.c\<close>, with the counters of \<^verbatim>\<open>STAT\<close>
  they keep and the answer they give. A handler takes the argument of the verb and returns the value
  \<^verbatim>\<open>CheckVerb\<close> logs; \<open>None\<close> stands for an execution that does not come back in a defined way (a
  lost database, an endless request, a use of an uninitialised buffer or an overflow). Messages to the log
  file and pauses are left out.
\<close>

section \<open>Answers and counters\<close>

text \<open>The globals a handler reads: the current configuration and the time of the start.\<close>

record smsd_env =
  currentConfig :: smsConf
  bufstartTime :: string
  startTime :: int

text \<open>\<^verbatim>\<open>if (send_ok(...)) return -1; ... return 0;\<close> and the same with \<^verbatim>\<open>send_error\<close>\<close>

definition answer_ok :: "'w ops \<Rightarrow> string option \<Rightarrow> 'w smsd \<Rightarrow> int \<times> 'w smsd" where
  "answer_ok ops msg s = (let (r, s) = send_ok ops msg s in (if r \<noteq> 0 then -1 else 0, s))"

definition answer_error :: "'w ops \<Rightarrow> string option \<Rightarrow> int \<Rightarrow> 'w smsd \<Rightarrow> int \<times> 'w smsd" where
  "answer_error ops msg e s = (let (r, s) = send_error ops msg e s in (if r \<noteq> 0 then -1 else 0, s))"

text \<open>The end of a handler that answers a text or an error code: \<^verbatim>\<open>strlen\<close> needs a text.\<close>

definition answer_text :: "'w ops \<Rightarrow> int \<Rightarrow> string option \<Rightarrow> 'w smsd \<Rightarrow> (int \<times> 'w smsd) option" where
  "answer_text ops result text s =
     (if result = 0 then do { t \<leftarrow> text; Some (answer_ok ops (Some t) s) } else Some (answer_error ops None result s))"

text \<open>The end of a handler that answers success or an error code.\<close>

definition answer_code :: "'w ops \<Rightarrow> int \<Rightarrow> 'w smsd \<Rightarrow> int \<times> 'w smsd" where
  "answer_code ops result s = (if result = 0 then answer_ok ops None s else answer_error ops None result s)"

definition upd_stat :: "(sms_stat \<Rightarrow> sms_stat) \<Rightarrow> 'w smsd \<Rightarrow> 'w smsd" where
  "upd_stat f s = s\<lparr>currentStat := f (currentStat s)\<rparr>"

section \<open>Reports and configurations\<close>

definition doReinitLogs :: "'w ops \<Rightarrow> string \<Rightarrow> 'w smsd \<Rightarrow> (int \<times> 'w smsd) option" where
  "doReinitLogs ops dummy s =
     (let s = log_call LogReinit (s\<lparr>world := x_log_reinit ops (world s)\<rparr>);
          (_, s) = send_ok ops None s
      in Some (0, s))"

definition doGetReport :: "'w ops \<Rightarrow> string \<Rightarrow> 'w smsd \<Rightarrow> (int \<times> 'w smsd) option" where
  "doGetReport ops params s =
     (let s = upd_stat (totalgetreport_update (\<lambda>n. n + 1)) s;
          ((result, configuration), s) = getReport ops params s
      in if result = 0 then Some (answer_ok ops configuration s)
         else Some (answer_error ops None result (upd_stat (totalerrorgetreport_update (\<lambda>n. n + 1)) s)))"

text \<open>The error counter of \<^verbatim>\<open>GETREPORT\<close> is the one that is incremented here.\<close>

definition doGetVPNReport :: "'w ops \<Rightarrow> string \<Rightarrow> 'w smsd \<Rightarrow> (int \<times> 'w smsd) option" where
  "doGetVPNReport ops params s =
     (let s = upd_stat (totalgetvpnreport_update (\<lambda>n. n + 1)) s;
          ((result, configuration), s) = getVPNReport ops params s
      in if result = 0 then Some (answer_ok ops configuration s)
         else Some (answer_error ops None result (upd_stat (totalerrorgetreport_update (\<lambda>n. n + 1)) s)))"

definition doGetSDConf :: "'w ops \<Rightarrow> string \<Rightarrow> 'w smsd \<Rightarrow> (int \<times> 'w smsd) option" where
  "doGetSDConf ops params s =
     (let ((result, configuration), s) = getRouterFullConfiguration ops params s
      in answer_text ops result configuration s)"

section \<open>Address changes\<close>

definition IPUPDOWN_LOG_LEVEL :: int where "IPUPDOWN_LOG_LEVEL = 1"

definition IPUP_LOG :: "string \<Rightarrow> sd_like \<Rightarrow> string \<Rightarrow> string" where
  "IPUP_LOG kind sd ip = ''%VNOC-'' @ fmt_d IPUPDOWN_LOG_LEVEL @ ''-IPUP: IPUP for '' @ kind @ '' router '' @
     make_sdid (sd_cli_prefix sd) (sd_seqnum sd) @ ''. The address is '' @ ip @ [LF]"

definition IPUP_IP_DYN_LOG :: "sd_like \<Rightarrow> string \<Rightarrow> string" where
  "IPUP_IP_DYN_LOG sd ip = ''%VNOC-'' @ fmt_d IPUPDOWN_LOG_LEVEL @ ''-IPUP: IPUP for router '' @
     make_sdid (sd_cli_prefix sd) (sd_seqnum sd) @ '' with dynamic ip address. Old address '' @ sd_ip_config sd @
     '', new address '' @ ip @ [LF]"

definition IPDOWN_LOG :: "sd_like \<Rightarrow> string" where
  "IPDOWN_LOG sd = ''%VNOC-'' @ fmt_d IPUPDOWN_LOG_LEVEL @ ''-IPDOWN: IPDOWN for router '' @
     make_sdid (sd_cli_prefix sd) (sd_seqnum sd) @ ''.'' @ [LF]"

definition IPUP_LOG_REFERENCE :: string where
  "IPUP_LOG_REFERENCE = ''VNOC-'' @ fmt_d IPUPDOWN_LOG_LEVEL @ ''-IPUP''"

definition IPDOWN_LOG_REFERENCE :: string where
  "IPDOWN_LOG_REFERENCE = ''VNOC-'' @ fmt_d IPUPDOWN_LOG_LEVEL @ ''-IPDOWN''"

definition db_error :: "int \<Rightarrow> bool" where
  "db_error ret \<longleftrightarrow> ret = ERR_DB_FAILED \<or> ret = ERR_DB_NOTFOUND"

text \<open>The record of an event: the message is printed into \<^verbatim>\<open>char log_msg[LOG_MESG_LEN + 1]\<close>.\<close>

definition log_event :: "'w ops \<Rightarrow> sd_like \<Rightarrow> string \<Rightarrow> string \<Rightarrow> 'w smsd \<Rightarrow> (int \<times> 'w smsd) option" where
  "log_event ops sd msg ref s =
     (if length msg \<le> LOG_MESG_LEN
      then Some (set_log_by_id ops (ctx_of s) \<lparr>log_cli_prefix = take PREFIXSIZE (sd_cli_prefix sd), log_seqnum = sd_seqnum sd,
             log_msg = msg, log_level = IPUPDOWN_LOG_LEVEL, log_reference = ref\<rparr> s)
      else None)"

text \<open>
  The two branches of \<^verbatim>\<open>updateIP\<close> and \<^verbatim>\<open>updateRouterIP\<close>: a new address is stored and the device
  marked connected, a device that comes back with its address is marked connected; both are logged. A
  failure of the first call skips the log.
\<close>

definition store_ip :: "'w ops \<Rightarrow> sd_like \<Rightarrow> string \<Rightarrow> 'w smsd \<Rightarrow> (int \<times> 'w smsd) option" where
  "store_ip ops sd ip s = do {
     c \<leftarrow> ctx_of s;
     ((ret, _), s) \<leftarrow> HA_SMSSQL_SetSDIPConfig ops c (sd_cli_prefix sd) (sd_seqnum sd) ip 1 s;
     if db_error ret then Some (ret, s) else log_event ops sd (IPUP_IP_DYN_LOG sd ip) IPUP_LOG_REFERENCE s
   }"

definition mark_up :: "'w ops \<Rightarrow> sd_like \<Rightarrow> string \<Rightarrow> string \<Rightarrow> 'w smsd \<Rightarrow> (int \<times> 'w smsd) option" where
  "mark_up ops sd ip_type ip s = do {
     c \<leftarrow> ctx_of s;
     ((ret, _), s) \<leftarrow> HA_SMSSQL_SetSDConnected ops c (sd_cli_prefix sd) (sd_seqnum sd) 1 s;
     if db_error ret then Some (ret, s)
     else log_event ops sd (IPUP_LOG (if take 1 ip_type = ''S'' then ''static'' else ''dynamic'') sd ip) IPUP_LOG_REFERENCE s
   }"

definition updateIP :: "'w ops \<Rightarrow> string \<Rightarrow> string \<Rightarrow> 'w smsd \<Rightarrow> (int \<times> 'w smsd) option" where
  "updateIP ops sdid ipaddr s = do {
     let ((ret, sd_info), s) = getSDinfo ops sdid s;
     if ret \<noteq> SMS_OK then Some (ret, s)
     else do {
       let s = RELEASE_BD_CTX ops s;
       if sd_prov_lock (SD sd_info) \<noteq> 0 then Some (ret, freeSDinfo s)
       else (case sd_ext_interface sd_info of
         None \<Rightarrow> Some (ret, freeSDinfo s)
       | Some ext \<Rightarrow> do {
           let (ret, s) = genericCheckSerialNumber ops sd_info ipaddr s;
           if ret \<noteq> 0 then Some (ret, freeSDinfo s)
           else do {
             let (_, s) = need_ctx ops s;
             if ipaddr \<noteq> sd_ip_config (SD sd_info) then
               (if take 1 (int_ip_type ext) \<noteq> ''S'' then do {
                  (ret, s) \<leftarrow> store_ip ops (SD sd_info) ipaddr s;
                  if db_error ret then Some (ret, freeSDinfo s)
                  else do {
                    let (_, s) = dnsUpdate ops sdid ipaddr s;
                    Some (if ret = 0 then IPCHANGED else ret, freeSDinfo (RELEASE_BD_CTX ops s))
                  }
                }
                else Some (ret, freeSDinfo (RELEASE_BD_CTX ops s)))
             else if sd_connected (SD sd_info) = 0 then do {
               (ret, s) \<leftarrow> mark_up ops (SD sd_info) (int_ip_type ext) ipaddr s;
               if db_error ret then Some (ret, freeSDinfo s)
               else Some (ret, freeSDinfo (RELEASE_BD_CTX ops s))
             }
             else Some (ret, freeSDinfo (RELEASE_BD_CTX ops s))
           }
         })
     }
   }"

text \<open>The device is looked up with the identifier of the zeroed structure, not with the parameter.\<close>

definition updateRouterIP :: "'w ops \<Rightarrow> string \<Rightarrow> 'w smsd \<Rightarrow> (int \<times> 'w smsd) option" where
  "updateRouterIP ops params s = do {
     let ((ret, sd_info), s) = getSDinfo ops [] s;
     if ret \<noteq> SMS_OK then Some (ret, s)
     else do {
       let s = RELEASE_BD_CTX ops s;
       (case sd_ext_interface sd_info of
         None \<Rightarrow> Some (SMS_OK, freeSDinfo s)
       | Some ext \<Rightarrow> do {
           let (ret, s) = genericCheckSerialNumber ops sd_info params s;
           if ret \<noteq> 0 then Some (ret, freeSDinfo s)
           else do {
             let (_, s) = need_ctx ops s;
             if params \<noteq> sd_ip_config (SD sd_info) then
               (if take 1 (int_ip_type ext) \<noteq> ''S'' then do {
                  (ret, s) \<leftarrow> store_ip ops (SD sd_info) params s;
                  if db_error ret then Some (ret, freeSDinfo s)
                  else do {
                    let s = RELEASE_BD_CTX ops s;
                    let (_, s) = dnsUpdate ops (make_sdid (sd_cli_prefix (SD sd_info)) (sd_seqnum (SD sd_info))) params s;
                    Some (IPCHANGED, freeSDinfo s)
                  }
                }
                else Some (0, freeSDinfo (RELEASE_BD_CTX ops s)))
             else if sd_connected (SD sd_info) = 0 then do {
               (ret, s) \<leftarrow> mark_up ops (SD sd_info) (int_ip_type ext) params s;
               if db_error ret then Some (ret, freeSDinfo s)
               else Some (0, freeSDinfo (RELEASE_BD_CTX ops s))
             }
             else Some (0, freeSDinfo (RELEASE_BD_CTX ops s))
           }
         })
     }
   }"

definition handlePppIpUp :: "'w ops \<Rightarrow> string \<Rightarrow> 'w smsd \<Rightarrow> (int \<times> 'w smsd) option" where
  "handlePppIpUp ops params s = do {
     let s = upd_stat (totalpppipup_update (\<lambda>n. n + 1)) s;
     (result, s) \<leftarrow> updateRouterIP ops params s;
     Some (0, if result \<noteq> 0 then upd_stat (totalerrorpppipup_update (\<lambda>n. n + 1)) s else s)
   }"

definition doPppIpUp :: "'w ops \<Rightarrow> string \<Rightarrow> 'w smsd \<Rightarrow> (int \<times> 'w smsd) option" where
  "doPppIpUp ops params s = handlePppIpUp ops params s"

definition doSdIpUp :: "'w ops \<Rightarrow> string \<Rightarrow> 'w smsd \<Rightarrow> (int \<times> 'w smsd) option" where
  "doSdIpUp ops params s = do {
     let s = upd_stat (totalpppipup_update (\<lambda>n. n + 1)) s;
     let (_, s) = socketClose ops (cfd (csp s)) s;
     let s = set_cfd (-1) s;
     case strchr_split SP params of
       None \<Rightarrow> Some (0, s)
     | Some (sdid, ipaddr) \<Rightarrow>
         if ipaddr = [] then Some (0, s)
         else do {
           (result, s) \<leftarrow> updateIP ops sdid ipaddr s;
           Some (0, if result \<noteq> 0 then upd_stat (totalerrorpppipup_update (\<lambda>n. n + 1)) s else s)
         }
   }"

text \<open>Words that fit into the buffers \<^verbatim>\<open>sscanf\<close> writes to.\<close>

definition fits :: "nat \<Rightarrow> string list \<Rightarrow> bool" where
  "fits n ws \<longleftrightarrow> list_all (\<lambda>w. length w < n) ws"

text \<open>The database part of \<^verbatim>\<open>doIpDown\<close>: log the event, then mark the device as disconnected.\<close>

definition mark_down :: "'w ops \<Rightarrow> sd_like \<Rightarrow> 'w smsd \<Rightarrow> (int \<times> 'w smsd) option" where
  "mark_down ops sd s = do {
     (result, s) \<leftarrow> log_event ops sd (IPDOWN_LOG sd) IPDOWN_LOG_REFERENCE s;
     if db_error result then Some (result, s)
     else do {
       c \<leftarrow> ctx_of s;
       ((result, _), s) \<leftarrow> HA_SMSSQL_SetSDConnected ops c (sd_cli_prefix sd) (sd_seqnum sd) 0 s;
       Some (result, s)
     }
   }"

definition ip_down_ok :: "'w ops \<Rightarrow> 'w smsd \<Rightarrow> int \<times> 'w smsd" where
  "ip_down_ok ops s = (let (_, s) = send_ok ops None s in (0, freeSDinfo s))"

definition ip_down_error :: "'w ops \<Rightarrow> int \<Rightarrow> 'w smsd \<Rightarrow> int \<times> 'w smsd" where
  "ip_down_error ops result s =
     (let s = freeSDinfo (upd_stat (totalerroripdown_update (\<lambda>n. n + 1)) s);
          (_, s) = send_error ops None result s
      in (0, s))"

definition doIpDown :: "'w ops \<Rightarrow> string \<Rightarrow> 'w smsd \<Rightarrow> (int \<times> 'w smsd) option" where
  "doIpDown ops SDidandIP s =
     (let ws = sscanf_s 2 SDidandIP
      in if ws = [] \<or> \<not> fits 64 ws then None
         else do {
           let s = upd_stat (totalipdown_update (\<lambda>n. n + 1)) s;
           let ((ret, sd_info), s) = getSDinfo ops (ws ! 0) s;
           if ret \<noteq> 0 then Some (ip_down_error ops ERR_DB_NOTFOUND s)
           else if sd_connected (SD sd_info) = 0 then Some (ip_down_ok ops s)
           else if length ws < 2 then None
           else if ws ! 1 = sd_ip_config (SD sd_info) \<or> sd_ip_config (SD sd_info) = [] then do {
             (result, s) \<leftarrow> mark_down ops (SD sd_info) s;
             Some (if db_error result then ip_down_error ops result s else ip_down_ok ops s)
           }
           else Some (ip_down_ok ops s)
         })"

section \<open>Status of the daemon and of the updates\<close>

definition doCheckUpdate :: "'w ops \<Rightarrow> string \<Rightarrow> 'w smsd \<Rightarrow> (int \<times> 'w smsd) option" where
  "doCheckUpdate ops params s = do {
     ((result, configuration), s) \<leftarrow> checkUpdate ops params s;
     answer_text ops result configuration s
   }"

definition doCheckAllUpdate :: "'w ops \<Rightarrow> string \<Rightarrow> 'w smsd \<Rightarrow> (int \<times> 'w smsd) option" where
  "doCheckAllUpdate ops params s = do {
     ((result, configuration), s) \<leftarrow> checkAllUpdate ops params s;
     answer_text ops result configuration s
   }"

definition doIsAlive :: "'w ops \<Rightarrow> string \<Rightarrow> 'w smsd \<Rightarrow> (int \<times> 'w smsd) option" where
  "doIsAlive ops params s = Some (answer_ok ops None s)"

text \<open>\<^verbatim>\<open>snprintf(buf, 64, "%d/%02d/%02d:%02d:%02d:%02d", ...)\<close>\<close>

definition fmt_date :: "tm \<Rightarrow> string" where
  "fmt_date tc = take 63 (fmt_d (tm_year tc + 1900) @ ''/'' @ fmt_0d 2 (tm_mon tc + 1) @ ''/'' @ fmt_0d 2 (tm_mday tc) @
     '':'' @ fmt_0d 2 (tm_hour tc) @ '':'' @ fmt_0d 2 (tm_min tc) @ '':'' @ fmt_0d 2 (tm_sec tc))"

definition stat_line :: "string \<Rightarrow> string \<Rightarrow> string" where
  "stat_line name val = name @ ''='' @ val @ [LF]"

definition fmt_counter :: "64 word \<Rightarrow> string" where
  "fmt_counter n = dec_nat (unat n)"

definition stat_text :: "smsd_env \<Rightarrow> int \<Rightarrow> string \<Rightarrow> sms_stat \<Rightarrow> string" where
  "stat_text env now bufcu st =
     [LF] @ stat_line ''totalThreads'' (fmt_counter (totalThreads st))
     @ stat_line ''activeThreads'' (fmt_counter (activeThreads st))
     @ stat_line ''update'' (fmt_counter (totalupdate st))
     @ stat_line ''error_update'' (fmt_counter (totalerrorupdate st))
     @ stat_line ''getreport'' (fmt_counter (totalgetreport st))
     @ stat_line ''error_getreport'' (fmt_counter (totalerrorgetreport st))
     @ stat_line ''getconf'' (fmt_counter (totalgetconf st))
     @ stat_line ''error_getconf'' (fmt_counter (totalerrorgetconf st))
     @ stat_line ''getvpnreport'' (fmt_counter (totalgetvpnreport st))
     @ stat_line ''error_getvpnreport'' (fmt_counter (totalerrorgetvpnreport st))
     @ stat_line ''getrouterip'' (fmt_counter (totalgetrouterip st))
     @ stat_line ''error_getrouterip'' (fmt_counter (totalerrorgetrouterip st))
     @ stat_line ''checkupdate'' (fmt_counter (totalcheckupdate st))
     @ stat_line ''error_checkupdate'' (fmt_counter (totalerrorcheckupdate st))
     @ stat_line ''ipdown'' (fmt_counter (totalipdown st))
     @ stat_line ''error_ipdown'' (fmt_counter (totalerroripdown st))
     @ stat_line ''start_time'' (bufstartTime env)
     @ stat_line ''current_time'' bufcu
     @ stat_line ''start_time_seconds'' (fmt_lu (startTime env))
     @ stat_line ''current_time_second'' (fmt_lu now)"

definition doStat :: "'w ops \<Rightarrow> smsd_env \<Rightarrow> string \<Rightarrow> 'w smsd \<Rightarrow> (int \<times> 'w smsd) option" where
  "doStat ops env params s =
     (let (now, tc) = x_now ops (world s);
          buf = stat_text env now (fmt_date tc) (currentStat s)
      in if length buf < BUFSIZ then Some (answer_ok ops (Some buf) s) else None)"

definition getRouterIp :: "'w ops \<Rightarrow> string \<Rightarrow> 'w smsd \<Rightarrow> (int \<times> string) \<times> 'w smsd" where
  "getRouterIp ops params s =
     (let ((ret, sd_info), s) = getSDinfo ops params s
      in if ret \<noteq> 0 then ((ret, []), s)
         else let s = RELEASE_BD_CTX ops s;
                  rip = (if sd_ip_config (SD sd_info) \<noteq> [] then (ret, sd_ip_config (SD sd_info))
                         else case sd_ext_interface sd_info of
                                Some ext \<Rightarrow> if int_ip_addr ext \<noteq> [] then (ret, int_ip_addr ext) else (ERR_SD_NOIP, [])
                              | None \<Rightarrow> (ERR_SD_NOIP, []))
              in (rip, freeSDinfo s))"

definition doGetRouterIp :: "'w ops \<Rightarrow> string \<Rightarrow> 'w smsd \<Rightarrow> (int \<times> 'w smsd) option" where
  "doGetRouterIp ops params s =
     (let s = upd_stat (totalgetrouterip_update (\<lambda>n. n + 1)) s;
          ((result, IpString), s) = getRouterIp ops params s
      in if result = 0 then Some (answer_ok ops (Some IpString) s)
         else Some (answer_error ops None result (upd_stat (totalerrorgetrouterip_update (\<lambda>n. n + 1)) s)))"

section \<open>Locks\<close>

definition doUnlockUpdate :: "'w ops \<Rightarrow> string \<Rightarrow> 'w smsd \<Rightarrow> (int \<times> 'w smsd) option" where
  "doUnlockUpdate ops params s = do { (result, s) \<leftarrow> unlockUpdate ops params s; Some (answer_code ops result s) }"

definition doLockProvisioning :: "'w ops \<Rightarrow> string \<Rightarrow> 'w smsd \<Rightarrow> (int \<times> 'w smsd) option" where
  "doLockProvisioning ops params s = do { (result, s) \<leftarrow> lockProvisioning ops params s; Some (answer_code ops result s) }"

definition doUnLockProvisioning :: "'w ops \<Rightarrow> string \<Rightarrow> 'w smsd \<Rightarrow> (int \<times> 'w smsd) option" where
  "doUnLockProvisioning ops params s =
     do { (result, s) \<leftarrow> unlockProvisioning ops params s; Some (answer_code ops result s) }"

section \<open>Commands\<close>

text \<open>A handler that only logs the code of what it runs.\<close>

definition logs_only :: "int \<times> 'w smsd \<Rightarrow> (int \<times> 'w smsd) option" where
  "logs_only rs = Some (0, snd rs)"

definition doJsSmsAddonExec :: "'w ops \<Rightarrow> string \<Rightarrow> 'w smsd \<Rightarrow> (int \<times> 'w smsd) option" where
  "doJsSmsAddonExec ops params s =
     (let ws = sscanf_s 2 params
      in if length params \<ge> BUFSIZ then Some (bad_param ops s)
         else if sscanf_count ws < 2 then Some (bad_param ops s)
         else Option.bind (smsexecn ops (ws ! 0) (Some (ws ! 1)) s) logs_only)"

definition doJsSmsexec :: "'w ops \<Rightarrow> string \<Rightarrow> 'w smsd \<Rightarrow> (int \<times> 'w smsd) option" where
  "doJsSmsexec ops params s = logs_only (smsexec ops params None s)"

definition doJsSmsexecn :: "'w ops \<Rightarrow> string \<Rightarrow> 'w smsd \<Rightarrow> (int \<times> 'w smsd) option" where
  "doJsSmsexecn ops params s = Option.bind (smsexecn ops params None s) logs_only"

definition doCmd :: "'w ops \<Rightarrow> string \<Rightarrow> 'w smsd \<Rightarrow> (int \<times> 'w smsd) option" where
  "doCmd ops params s = Option.bind (smsCmd ops params s) logs_only"

definition doCustCmd :: "'w ops \<Rightarrow> string \<Rightarrow> 'w smsd \<Rightarrow> (int \<times> 'w smsd) option" where
  "doCustCmd ops params s = Option.bind (smsCustCmd ops params s) logs_only"

text \<open>\<^verbatim>\<open>cmd\<close> is read although a request without a command leaves it uninitialised.\<close>

definition doCheckCmd :: "'w ops \<Rightarrow> string \<Rightarrow> 'w smsd \<Rightarrow> (int \<times> 'w smsd) option" where
  "doCheckCmd ops params s =
     (let ws = sscanf_s 2 params
      in if \<not> fits BUFSIZ ws then None
         else if sscanf_count ws < 1
         then (let (_, s) = send_error ops None ERR_VERB_BAD_PARAM s in Some (ERR_VERB_BAD_PARAM, s))
         else if length ws < 2 \<or> length (''CHECKCMD '' @ ws ! 1) \<ge> BUFSIZ then None
         else do {
           ((ret, result), s) \<leftarrow> getUpdateStatus ops (ws ! 0) (ws ! 1) s;
           answer_text ops ret result s
         })"

definition js_exec_script :: "'w ops \<Rightarrow> string \<Rightarrow> bool \<Rightarrow> 'w smsd \<Rightarrow> (int \<times> 'w smsd) option" where
  "js_exec_script ops params synchronous s = Option.bind (exec_script ops params synchronous s) logs_only"

definition doJsExecScript :: "'w ops \<Rightarrow> string \<Rightarrow> 'w smsd \<Rightarrow> (int \<times> 'w smsd) option" where
  "doJsExecScript ops params s = js_exec_script ops params True s"

definition doJsAExecScript :: "'w ops \<Rightarrow> string \<Rightarrow> 'w smsd \<Rightarrow> (int \<times> 'w smsd) option" where
  "doJsAExecScript ops params s = js_exec_script ops params False s"

section \<open>Assets and configuration mode\<close>

definition doGetAsset :: "'w ops \<Rightarrow> string \<Rightarrow> 'w smsd \<Rightarrow> (int \<times> 'w smsd) option" where
  "doGetAsset ops params s = do {
     ((ret, buf), s) \<leftarrow> sdGetAsset ops params s;
     if (case buf of None \<Rightarrow> True | Some b \<Rightarrow> length b < BUFSIZ) then answer_text ops ret buf s else None
   }"

definition doForceAsset :: "'w ops \<Rightarrow> string \<Rightarrow> 'w smsd \<Rightarrow> (int \<times> 'w smsd) option" where
  "doForceAsset ops params s = do { (ret, s) \<leftarrow> sdForceAsset ops params s; Some (answer_code ops ret s) }"

definition config_mode_list :: "string list" where
  "config_mode_list = [''DEFAULT'', ''BYLINE'', ''TFTP'', ''SCP'']"

text \<open>The index of the mode in the list, \<open>0\<close> when it is not there.\<close>

fun mode_index :: "nat \<Rightarrow> string list \<Rightarrow> string \<Rightarrow> nat" where
  "mode_index i [] mode = 0"
| "mode_index i (m # ms) mode = (if mode = m then i else mode_index (Suc i) ms mode)"

definition doSetConfigMode :: "'w ops \<Rightarrow> string \<Rightarrow> 'w smsd \<Rightarrow> (int \<times> 'w smsd) option" where
  "doSetConfigMode ops params s =
     (let ws = sscanf_s 2 params;
          cfg_mode = int (mode_index 0 config_mode_list (word_or [] ws 1))
      in if ws = [] \<or> \<not> fits BUFSIZ ws then None
         else do {
           (ret, s) \<leftarrow> sdSetConfigMode ops (ws ! 0) cfg_mode s;
           Some (if ret = 0 then answer_ok ops (Some []) s else answer_error ops (Some []) ret s)
         })"

section \<open>Provisioning, configuration and templates\<close>

definition doProvisioning :: "'w ops \<Rightarrow> string \<Rightarrow> 'w smsd \<Rightarrow> (int \<times> 'w smsd) option" where
  "doProvisioning ops params s = Option.bind (provisioning ops params s) logs_only"

definition doPing :: "'w ops \<Rightarrow> string \<Rightarrow> 'w smsd \<Rightarrow> (int \<times> 'w smsd) option" where
  "doPing ops params s = (let (ret, s) = getPingStatus ops params s in Some (if ret = 0 then 0 else -1, s))"

definition doPushConfig :: "'w ops \<Rightarrow> string \<Rightarrow> 'w smsd \<Rightarrow> (int \<times> 'w smsd) option" where
  "doPushConfig ops params s = Option.bind (push_config ops params s) logs_only"

definition doCheckProvisioning :: "'w ops \<Rightarrow> string \<Rightarrow> 'w smsd \<Rightarrow> (int \<times> 'w smsd) option" where
  "doCheckProvisioning ops params s = logs_only (checkProvisioning ops params s)"

definition doStaging :: "'w ops \<Rightarrow> string \<Rightarrow> 'w smsd \<Rightarrow> (int \<times> 'w smsd) option" where
  "doStaging ops params s = logs_only (staging ops params False s)"

definition doStagingMap :: "'w ops \<Rightarrow> string \<Rightarrow> 'w smsd \<Rightarrow> (int \<times> 'w smsd) option" where
  "doStagingMap ops params s = logs_only (staging ops params True s)"

definition doUpdateConfig :: "'w ops \<Rightarrow> string \<Rightarrow> 'w smsd \<Rightarrow> (int \<times> 'w smsd) option" where
  "doUpdateConfig ops params s = do {
     let ((ret, sd_info), s) = getSDinfo ops params s;
     (_, s) \<leftarrow> (if ret \<noteq> 0 then Some (ret, sms_send_user_error ops (Some ''Cannot get sd info'') ret s)
               else updateConfig ops sd_info s);
     Some (0, freeSDinfo s)
   }"

definition doRestoreConf :: "'w ops \<Rightarrow> string \<Rightarrow> 'w smsd \<Rightarrow> (int \<times> 'w smsd) option" where
  "doRestoreConf ops params s = Option.bind (restoreConf ops params s) logs_only"

definition doGenTemplate :: "'w ops \<Rightarrow> string \<Rightarrow> 'w smsd \<Rightarrow> (int \<times> 'w smsd) option" where
  "doGenTemplate ops params s = logs_only (genTemplate ops params s)"

definition doBackupConf :: "'w ops \<Rightarrow> string \<Rightarrow> 'w smsd \<Rightarrow> (int \<times> 'w smsd) option" where
  "doBackupConf ops params s = logs_only (backupRouterFullConfiguration ops params s)"

definition doGetRunningConf :: "'w ops \<Rightarrow> string \<Rightarrow> 'w smsd \<Rightarrow> (int \<times> 'w smsd) option" where
  "doGetRunningConf ops params s = logs_only (getRunningConf ops params s)"

text \<open>\<^verbatim>\<open>path\<close> is passed on although a request without it leaves it uninitialised.\<close>

definition doResolveTemplate :: "'w ops \<Rightarrow> string \<Rightarrow> 'w smsd \<Rightarrow> (int \<times> 'w smsd) option" where
  "doResolveTemplate ops params s =
     (let ws = sscanf_s 2 params
      in if length ws < 2 \<or> \<not> fits BUFSIZ ws then None
         else let (ret, s) = resolve_template ops (ws ! 0) (ws ! 1) s
              in if ret \<noteq> 0 then Some (answer_error ops None ret s) else Some (0, s))"

text \<open>
  \<^verbatim>\<open>strlen\<close> is applied to the configuration before it is compared with NULL: a client that sends
  nothing makes the handler dereference NULL. The last end of line is removed.
\<close>

definition doResolve :: "'w ops \<Rightarrow> string \<Rightarrow> 'w smsd \<Rightarrow> (int \<times> 'w smsd) option" where
  "doResolve ops params s = do {
     let SDid = take (SDID_LEN - 1) params;
     let ((ret, sd_info), s) = getSDinfo ops SDid s;
     (ret, s) \<leftarrow> (if ret \<noteq> 0 then Some (ret, s)
       else do {
         (configuration, s) \<leftarrow> read_lines ops [LF] 0 (cfd (csp s)) BUFSIZ 2 None s;
         conf \<leftarrow> configuration;
         let (ret, s) = (if conf = [] then (ERR_VERB_BAD_PARAM, s) else resolve_template_buffer ops SDid (butlast conf) s);
         Some (ret, freeSDinfo s)
       });
     if ret \<noteq> 0 then (let (_, s) = send_error ops None ret s in Some (0, s)) else Some (0, s)
   }"

definition doGetConfig :: "'w ops \<Rightarrow> string \<Rightarrow> 'w smsd \<Rightarrow> (int \<times> 'w smsd) option" where
  "doGetConfig ops params s = logs_only (getConfig ops params s)"

definition doGetActivityReport :: "'w ops \<Rightarrow> string \<Rightarrow> 'w smsd \<Rightarrow> (int \<times> 'w smsd) option" where
  "doGetActivityReport ops params s = logs_only (getActivityReport ops params s)"

section \<open>Tests, logs and lists\<close>

text \<open>The loop that cuts the parameters of \<^verbatim>\<open>SNMPTEST\<close>: one blank ends a parameter.\<close>

fun snmp_params :: "nat \<Rightarrow> string \<Rightarrow> string list" where
  "snmp_params 0 p = []"
| "snmp_params (Suc i) p =
     takeWhile (\<lambda>c. \<not> is_blank c) p # snmp_params i (drop 1 (dropWhile (\<lambda>c. \<not> is_blank c) p))"

definition doSnmpTest :: "'w ops \<Rightarrow> string \<Rightarrow> 'w smsd \<Rightarrow> (int \<times> 'w smsd) option" where
  "doSnmpTest ops params s =
     (let param = snmp_params 4 params
      in logs_only (genericSnmpTest ops (param ! 0) (param ! 1) (param ! 2) (param ! 3) s))"

definition doPS :: "'w ops \<Rightarrow> string \<Rightarrow> 'w smsd \<Rightarrow> (int \<times> 'w smsd) option" where
  "doPS ops params s = (let (_, s) = send_ok ops (Some (x_sched_stats ops (world s))) s in Some (0, s))"

text \<open>\<^verbatim>\<open>sscanf(params, "%d %d", &log_level, &dbg_level)\<close> with both levels \<open>-1\<close> before.\<close>

definition scan_levels :: "string \<Rightarrow> int \<times> int" where
  "scan_levels params = (case scan_int params of None \<Rightarrow> (-1, -1)
     | Some (a, t) \<Rightarrow> (case scan_int t of None \<Rightarrow> (a, -1) | Some (b, _) \<Rightarrow> (a, b)))"

definition doSetLogLevel :: "'w ops \<Rightarrow> string \<Rightarrow> 'w smsd \<Rightarrow> (int \<times> 'w smsd) option" where
  "doSetLogLevel ops params s =
     (let (log_level, dbg_level) = scan_levels params;
          s = (if log_level \<noteq> -1
               then log_call (SetLogLevel log_level) (s\<lparr>world := x_LogSetLevel ops log_level (world s)\<rparr>) else s);
          s = (if dbg_level \<noteq> -1
               then log_call (SetDbgLevel dbg_level) (s\<lparr>world := x_DbgSetLevel ops dbg_level (world s)\<rparr>) else s)
      in Some (answer_ok ops None s))"

definition do_SnmpGet :: "'w ops \<Rightarrow> string \<Rightarrow> 'w smsd \<Rightarrow> (int \<times> 'w smsd) option" where
  "do_SnmpGet ops oid s =
     (let (_, w) = x_doSnmpGet ops oid (cfd (csp s)) (world s)
      in Some (0, log_call (SnmpGet oid (cfd (csp s))) (s\<lparr>world := w\<rparr>)))"

definition do_SnmpGetNext :: "'w ops \<Rightarrow> string \<Rightarrow> 'w smsd \<Rightarrow> (int \<times> 'w smsd) option" where
  "do_SnmpGetNext ops oid s =
     (let (_, w) = x_doSnmpGetNext ops oid (cfd (csp s)) (world s)
      in Some (0, log_call (SnmpGetNext oid (cfd (csp s))) (s\<lparr>world := w\<rparr>)))"

section \<open>Archives, licenses, firmware, high availability\<close>

definition doUnarchiveConf :: "'w ops \<Rightarrow> string \<Rightarrow> 'w smsd \<Rightarrow> (int \<times> 'w smsd) option" where
  "doUnarchiveConf ops params s = Some (unarchive_conf ops params s)"

definition doGetArchiveConf :: "'w ops \<Rightarrow> string \<Rightarrow> 'w smsd \<Rightarrow> (int \<times> 'w smsd) option" where
  "doGetArchiveConf ops params s = Some (get_archive_conf ops params s)"

text \<open>The update of the asset that follows a successful update; its code is ignored.\<close>

definition ask_asset :: "'w ops \<Rightarrow> string \<Rightarrow> int \<times> 'w smsd \<Rightarrow> (int \<times> 'w smsd) option" where
  "ask_asset ops params rs = (case rs of (result, s) \<Rightarrow>
     if result = 0 then do {
       let (_, s) = need_ctx ops s;
       (_, s) \<leftarrow> sdForceAsset ops params s;
       Some (0, s)
     }
     else Some (0, s))"

definition doUpdateLicense :: "'w ops \<Rightarrow> string \<Rightarrow> 'w smsd \<Rightarrow> (int \<times> 'w smsd) option" where
  "doUpdateLicense ops params s = ask_asset ops params (updateLicense ops params s)"

definition doUpdateFirmware :: "'w ops \<Rightarrow> string \<Rightarrow> 'w smsd \<Rightarrow> (int \<times> 'w smsd) option" where
  "doUpdateFirmware ops params s = ask_asset ops params (updateFirmware ops params s)"

definition doCheckUpdateLicense :: "'w ops \<Rightarrow> string \<Rightarrow> 'w smsd \<Rightarrow> (int \<times> 'w smsd) option" where
  "doCheckUpdateLicense ops params s = do {
     ((error, result), s) \<leftarrow> getUpdateStatus ops params ''LICENSE'' s;
     answer_text ops error result s
   }"

definition doCheckUpdateFirmware :: "'w ops \<Rightarrow> string \<Rightarrow> 'w smsd \<Rightarrow> (int \<times> 'w smsd) option" where
  "doCheckUpdateFirmware ops params s = do {
     ((error, result), s) \<leftarrow> getUpdateStatus ops params ''FIRMWARE'' s;
     answer_text ops error result s
   }"

definition doCheckBackup :: "'w ops \<Rightarrow> string \<Rightarrow> 'w smsd \<Rightarrow> (int \<times> 'w smsd) option" where
  "doCheckBackup ops params s = do {
     ((error, result), s) \<leftarrow> getUpdateStatus ops params ''BACKUP'' s;
     answer_text ops error result s
   }"

definition doCheckSendDataFiles :: "'w ops \<Rightarrow> string \<Rightarrow> 'w smsd \<Rightarrow> (int \<times> 'w smsd) option" where
  "doCheckSendDataFiles ops params s = do {
     ((error, result), s) \<leftarrow> getUpdateStatus ops params ''SENDDATAFILES'' s;
     answer_text ops error result s
   }"

definition doCheckRestore :: "'w ops \<Rightarrow> string \<Rightarrow> 'w smsd \<Rightarrow> (int \<times> 'w smsd) option" where
  "doCheckRestore ops params s = do {
     ((error, result), s) \<leftarrow> getUpdateStatus ops params ''RESTORE'' s;
     answer_text ops error result s
   }"

definition doHaSwap :: "'w ops \<Rightarrow> string \<Rightarrow> 'w smsd \<Rightarrow> (int \<times> 'w smsd) option" where
  "doHaSwap ops params s = logs_only (ha_swap ops params s)"

definition doCallCommand :: "'w ops \<Rightarrow> string \<Rightarrow> 'w smsd \<Rightarrow> (int \<times> 'w smsd) option" where
  "doCallCommand ops params s = Option.bind (call_command ops params s) logs_only"

definition doSendDataFiles :: "'w ops \<Rightarrow> string \<Rightarrow> 'w smsd \<Rightarrow> (int \<times> 'w smsd) option" where
  "doSendDataFiles ops params s = logs_only (send_data_files ops params s)"

definition doCheckSerial :: "'w ops \<Rightarrow> string \<Rightarrow> 'w smsd \<Rightarrow> (int \<times> 'w smsd) option" where
  "doCheckSerial ops params s = logs_only (check_serial ops params s)"

definition doImmediateSaveConf :: "'w ops \<Rightarrow> string \<Rightarrow> 'w smsd \<Rightarrow> (int \<times> 'w smsd) option" where
  "doImmediateSaveConf ops params s = do {
     (ret, s) \<leftarrow> save_all_conf ops s;
     Some (if ret = 0 then 0 else -1, s)
   }"

section \<open>The table of the verbs\<close>

text \<open>One constructor per handler; \<^verbatim>\<open>verbTab\<close> is the array without its final entry.\<close>

datatype verb_fn =
    V_doCheckAllUpdate
  | V_doCheckBackup
  | V_doCheckCmd
  | V_doCheckProvisioning
  | V_doCheckRestore
  | V_doCheckSendDataFiles
  | V_doCheckUpdate
  | V_doCheckUpdateFirmware
  | V_doCheckUpdateLicense
  | V_doForceAsset
  | V_doGetActivityReport
  | V_doGetAsset
  | V_doGetConfig
  | V_doGetReport
  | V_doGetRouterIp
  | V_doGetRunningConf
  | V_doGetSDConf
  | V_doGetVPNReport
  | V_doImmediateSaveConf
  | V_doIpDown
  | V_doIsAlive
  | V_doBackupConf
  | V_doCmd
  | V_doCustCmd
  | V_doJsAExecScript
  | V_doProvisioning
  | V_doPushConfig
  | V_doRestoreConf
  | V_doUpdateConfig
  | V_doUpdateFirmware
  | V_doUpdateLicense
  | V_doCallCommand
  | V_doCheckSerial
  | V_doPing
  | V_doJsExecScript
  | V_doGenTemplate
  | V_doGetArchiveConf
  | V_doHaSwap
  | V_doResolve
  | V_doResolveTemplate
  | V_doSendDataFiles
  | V_doJsSmsAddonExec
  | V_doJsSmsexec
  | V_doJsSmsexecn
  | V_doSnmpTest
  | V_doStaging
  | V_doStagingMap
  | V_doUnarchiveConf
  | V_doListVerb
  | V_doLockProvisioning
  | V_doPppIpUp
  | V_doPS
  | V_doReinitLogs
  | V_doSdIpUp
  | V_doSetConfigMode
  | V_doSetLogLevel
  | V_do_SnmpGet
  | V_do_SnmpGetNext
  | V_doStat
  | V_doUnLockProvisioning
  | V_doUnlockUpdate

record verbAction =
  verb :: string
  doVerb :: verb_fn
  description :: string
  hasParams :: nat
  log :: bool
  work_in_degraded_mode :: bool

definition verb_entry :: "string \<Rightarrow> verb_fn \<Rightarrow> string \<Rightarrow> nat \<Rightarrow> nat \<Rightarrow> nat \<Rightarrow> verbAction" where
  "verb_entry v f d p l w = \<lparr>verb = v, doVerb = f, description = d, hasParams = p, log = (l \<noteq> 0), work_in_degraded_mode = (w \<noteq> 0)\<rparr>"

definition verbTab :: "verbAction list" where
  "verbTab =
   [verb_entry ''CHECKALLUPDATE'' V_doCheckAllUpdate ''Check the asynchronous update of all the router configurations (configuration, certificate, network)'' 1 0 1,
    verb_entry ''CHECKBACKUP'' V_doCheckBackup ''Check asynchronous backup status (Param: SDid)'' 1 0 1,
    verb_entry ''CHECKCMD'' V_doCheckCmd ''Check asynchronous Command (Param: SDid Command)'' 1 0 1,
    verb_entry ''CHECKPROVISIONING'' V_doCheckProvisioning ''*Check initial Provisioning status'' 1 0 1,
    verb_entry ''CHECKRESTORE'' V_doCheckRestore ''Check asynchronous restore status (Param: SDid)'' 1 0 1,
    verb_entry ''CHECKSENDDATAFILES'' V_doCheckSendDataFiles ''Check asynchronous send data files status (Param: SDid)'' 1 0 1,
    verb_entry ''CHECKUPDATE'' V_doCheckUpdate ''Check the asynchronous update of the router configuration. (AUPDATECONF)'' 1 0 1,
    verb_entry ''CHECKUPDATEFIRMWARE'' V_doCheckUpdateFirmware ''Check update firmware status (Param: SDid)'' 1 0 1,
    verb_entry ''CHECKUPDATELICENSE'' V_doCheckUpdateLicense ''Check update license status (Param: SDid)'' 1 0 1,
    verb_entry ''FORCEASSET'' V_doForceAsset ''Refresh the asset information of the router'' 1 1 0,
    verb_entry ''GETACTIVITYREPORT'' V_doGetActivityReport ''*Get router activity reports'' 1 1 0,
    verb_entry ''GETASSET'' V_doGetAsset ''Get asset information from the router'' 1 1 0,
    verb_entry ''GETCONFIG'' V_doGetConfig ''*Get router generated configuration'' 1 1 0,
    verb_entry ''GETREPORT'' V_doGetReport ''Get the router logs'' 1 1 0,
    verb_entry ''GETROUTERIP'' V_doGetRouterIp ''Get the current router IP'' 1 1 0,
    verb_entry ''GETRUNNINGCONF'' V_doGetRunningConf ''*Get router running configuration'' 1 1 0,
    verb_entry ''GETSDCONF'' V_doGetSDConf ''Get the router running configuration (depuis le routeur)'' 1 1 0,
    verb_entry ''GETVPNREPORT'' V_doGetVPNReport ''Get the router VPN logs'' 1 1 0,
    verb_entry ''IMMEDIATESAVECONF'' V_doImmediateSaveConf ''backup all reachable router configuration in change management'' 0 1 0,
    verb_entry ''IPDOWN'' V_doIpDown ''IPDOWN processing (params: sdid @IP)'' 1 1 0,
    verb_entry ''ISALIVE'' V_doIsAlive ''Check if SEC engine is alive'' 0 0 1,
    verb_entry ''JSABACKUPCONF'' V_doBackupConf ''Asynchronous backup of the router running configuration from the router (Param: sdid [addon card])'' 1 1 0,
    verb_entry ''JSACMD'' V_doCmd ''Launch Asynchronous Command (params: sdid command [command params])'' 1 1 0,
    verb_entry ''JSACUSTCMD'' V_doCustCmd ''Launch Asynchronous Command for customer (params: custid command [command params])'' 1 1 0,
    verb_entry ''JSAEXECSCRIPT'' V_doJsAExecScript ''asynchronous execution of a script on the router (Param: sdid script_file_path'' 1 1 0,
    verb_entry ''JSAPROVISIONING'' V_doProvisioning (''*initial provisioning (params: SDid ['' @ [CHR 0x5C] @ ''n @IP login passwd adminpasswd])'') 1 1 0,
    verb_entry ''JSAPUSHCONFIG'' V_doPushConfig (''*push a configuration (params: SDid [addon card/PORTCONSOLE for console port update] [terminal server ip] [terminal server port] ['' @ [CHR 0x5C] @ ''n configuration])'') 1 1 0,
    verb_entry ''JSARESTORECONF'' V_doRestoreConf ''Asynchronous configuration restore (Param: SDid SVNrevisionId'' 1 1 0,
    verb_entry ''JSAUPDATECONF'' V_doUpdateConfig ''*Update configuration'' 1 1 0,
    verb_entry ''JSAUPDATEFIRMWARE'' V_doUpdateFirmware ''Update Firmware of a device based on FMC (Param: SDid [NO_VERIFY][NO_REBOOT][NO_DELETE])'' 1 1 0,
    verb_entry ''JSAUPDATELICENSE'' V_doUpdateLicense ''Update License of a device based on FMC (Param: SDid)'' 1 1 0,
    verb_entry ''JSCALLCOMMAND'' V_doCallCommand (''*Call a command associated with the device via a repository file (apply_flag is: 0=no application 1=apply to base 2=apply to device) (Param: SDid command apply_flag'' @ [CHR 0x5C] @ ''r'' @ [CHR 0x5C] @ ''nJSONParameters)'') 1 1 0,
    verb_entry ''JSCHECKPROVISIONING'' V_doCheckProvisioning ''*Check initial Provisioning status'' 1 0 0,
    verb_entry ''JSCHECKSERIAL'' V_doCheckSerial ''*Check the serial number of the device (Param: SDid ipaddr)'' 1 1 0,
    verb_entry ''JSDOPING'' V_doPing ''Check ping status on a host or ip address (params: host/ip_address)'' 1 1 0,
    verb_entry ''JSEXECSCRIPT'' V_doJsExecScript ''synchronous execution of a script on the router (Param: sdid script_file_path)'' 1 1 0,
    verb_entry ''JSGENTEMPLATE'' V_doGenTemplate ''Template generation from archived configurations (Param: SDid SVNrevisionId1 SVNrevisionId1 [addon card]'' 1 1 0,
    verb_entry ''JSGETACTIVITYREPORT'' V_doGetActivityReport ''*Get router activity reports'' 1 1 0,
    verb_entry ''JSGETARCHIVECONF'' V_doGetArchiveConf ''Retrieve a backup from a device and create a Stormshield archive (Param: SDid DestinationDirectory)'' 1 1 0,
    verb_entry ''JSGETCONF'' V_doGetConfig ''*Get router generated configuration'' 1 1 0,
    verb_entry ''JSGETSDCONF'' V_doGetRunningConf ''*Get router running configuration'' 1 1 0,
    verb_entry ''JSHASWAP'' V_doHaSwap ''*HA Swap'' 1 1 0,
    verb_entry ''JSRESOLVE'' V_doResolve (''*Resolve a template buffer for a device ((Param: SDid '' @ [CHR 0x5C] @ ''n template_buffer)'') 1 1 0,
    verb_entry ''JSRESOLVETEMPLATE'' V_doResolveTemplate ''*Resolve a template for a device ((Param: SDid template_path)'' 1 1 0,
    verb_entry ''JSSENDDATAFILES'' V_doSendDataFiles ''Send attached data files to the router (Param: sdid [addon card])'' 1 1 0,
    verb_entry ''JSSMSADDONEXEC'' V_doJsSmsAddonExec (''Run a command on the addon card (Param: sdid addon_card '' @ [CHR 0x5C] @ ''n commands_to_exec)'') 1 1 0,
    verb_entry ''JSSMSEXEC'' V_doJsSmsexec ''Run a command on the router'' 1 1 0,
    verb_entry ''JSSMSEXECN'' V_doJsSmsexecn ''Run commands on the router'' 1 1 0,
    verb_entry ''JSSNMPTEST'' V_doSnmpTest ''*Test SNMP connectivity (params: [get|walk] ip_addr community oid)'' 1 1 0,
    verb_entry ''JSSTAGING'' V_doStaging ''*Staging'' 1 1 0,
    verb_entry ''JSSTAGINGMAP'' V_doStagingMap ''*Staging'' 1 1 0,
    verb_entry ''JSUNARCHIVECONF'' V_doUnarchiveConf ''Unarchive Stormshield configuration (Param: sdid ArchiveName DestinationDirectory)'' 1 1 0,
    verb_entry ''LISTVERB'' V_doListVerb ''list the verbs'' 0 0 1,
    verb_entry ''LOCKPROVISIONING'' V_doLockProvisioning ''Lock router provisioning'' 1 1 0,
    verb_entry ''PPPIPUP'' V_doPppIpUp ''IPUP processing (Param: @IP)'' 1 1 0,
    verb_entry ''PROVISIONING'' V_doProvisioning (''*initial provisioning (params: SDid ['' @ [CHR 0x5C] @ ''n @IP login passwd adminpasswd])'') 1 1 0,
    verb_entry ''PS'' V_doPS ''Get SEC engine tasks list'' 0 0 1,
    verb_entry ''REINITLOGS'' V_doReinitLogs ''Reinit logs'' 0 1 1,
    verb_entry ''SDIPUP'' V_doSdIpUp ''IPUP processing (Param: SDid @IP)'' 1 1 0,
    verb_entry ''SETCONFIGMODE'' V_doSetConfigMode ''Set the config-step flag for the router (params: SDid mode)'' 1 1 0,
    verb_entry ''SETLOGLEVEL'' V_doSetLogLevel ''Set log level (params: log_level dbg_level)'' 1 1 1,
    verb_entry ''SNMPGET'' V_do_SnmpGet ''Get SNMP counters (get)'' 1 0 1,
    verb_entry ''SNMPGETNEXT'' V_do_SnmpGetNext ''Get next SNMP Counters (walk)'' 1 0 1,
    verb_entry ''SNMPTEST'' V_doSnmpTest ''*Test SNMP connectivity (params: [get|walk] ip_addr community oid)'' 1 1 0,
    verb_entry ''STAGING'' V_doStaging ''*Staging'' 1 1 0,
    verb_entry ''STAGINGMAP'' V_doStagingMap ''*Staging'' 1 1 0,
    verb_entry ''STAT'' V_doStat ''SEC engine statistics'' 0 0 1,
    verb_entry ''UNLOCKPROVISIONING'' V_doUnLockProvisioning ''Unlock router provisioning'' 1 1 0,
    verb_entry ''UNLOCKUPDATE'' V_doUnlockUpdate ''Unlock router update'' 1 1 0,
    verb_entry ''UPDATECONFIG'' V_doUpdateConfig ''*Update configuration'' 1 1 0]"

text \<open>
  The text of \<^verbatim>\<open>LISTVERB\<close>, printed into \<^verbatim>\<open>char buf[4 * BUFSIZ]\<close>; the commands come from the
  configuration file.
\<close>

definition pad_right :: "nat \<Rightarrow> string \<Rightarrow> string" where
  "pad_right n t = t @ replicate (n - length t) SP"

definition list_text :: "smsConf \<Rightarrow> string" where
  "list_text conf =
     [LF] @ concat (map (\<lambda>v. pad_right 24 (verb v) @ [SP] @ description v @ [LF]) verbTab)
     @ [LF] @ fmt_d (int (length verbTab)) @ '' verbs'' @ [LF]
     @ [LF] @ ''Commands parameters for JSACMD verb:'' @ [LF]
     @ concat (map (\<lambda>c. [TAB] @ ''JSACMD SDID '' @ c @ [LF]) (jsacmd_list conf))
     @ [LF] @ ''Commands parameters for JSACUSTCMD verb:'' @ [LF]
     @ concat (map (\<lambda>c. [TAB] @ ''JSACUSTCMD CUSTID '' @ c @ [LF]) (jsacustcmd_list conf))
     @ [LF, LF] @ ''Modes for SETCONFIGMODE:'' @ [LF]
     @ concat (map (\<lambda>m. m @ [SP]) config_mode_list) @ [LF]"

definition doListVerb :: "'w ops \<Rightarrow> smsd_env \<Rightarrow> string \<Rightarrow> 'w smsd \<Rightarrow> (int \<times> 'w smsd) option" where
  "doListVerb ops env params s =
     (let buf = list_text (currentConfig env)
      in if length buf < 4 * BUFSIZ then Some (answer_ok ops (Some buf) s) else None)"

text \<open>\<^verbatim>\<open>va->doVerb(arg, csp)\<close>\<close>

fun run_verb :: "'w ops \<Rightarrow> smsd_env \<Rightarrow> verb_fn \<Rightarrow> string \<Rightarrow> 'w smsd \<Rightarrow> (int \<times> 'w smsd) option" where
  "run_verb ops env V_doCheckAllUpdate arg s = doCheckAllUpdate ops arg s"
| "run_verb ops env V_doCheckBackup arg s = doCheckBackup ops arg s"
| "run_verb ops env V_doCheckCmd arg s = doCheckCmd ops arg s"
| "run_verb ops env V_doCheckProvisioning arg s = doCheckProvisioning ops arg s"
| "run_verb ops env V_doCheckRestore arg s = doCheckRestore ops arg s"
| "run_verb ops env V_doCheckSendDataFiles arg s = doCheckSendDataFiles ops arg s"
| "run_verb ops env V_doCheckUpdate arg s = doCheckUpdate ops arg s"
| "run_verb ops env V_doCheckUpdateFirmware arg s = doCheckUpdateFirmware ops arg s"
| "run_verb ops env V_doCheckUpdateLicense arg s = doCheckUpdateLicense ops arg s"
| "run_verb ops env V_doForceAsset arg s = doForceAsset ops arg s"
| "run_verb ops env V_doGetActivityReport arg s = doGetActivityReport ops arg s"
| "run_verb ops env V_doGetAsset arg s = doGetAsset ops arg s"
| "run_verb ops env V_doGetConfig arg s = doGetConfig ops arg s"
| "run_verb ops env V_doGetReport arg s = doGetReport ops arg s"
| "run_verb ops env V_doGetRouterIp arg s = doGetRouterIp ops arg s"
| "run_verb ops env V_doGetRunningConf arg s = doGetRunningConf ops arg s"
| "run_verb ops env V_doGetSDConf arg s = doGetSDConf ops arg s"
| "run_verb ops env V_doGetVPNReport arg s = doGetVPNReport ops arg s"
| "run_verb ops env V_doImmediateSaveConf arg s = doImmediateSaveConf ops arg s"
| "run_verb ops env V_doIpDown arg s = doIpDown ops arg s"
| "run_verb ops env V_doIsAlive arg s = doIsAlive ops arg s"
| "run_verb ops env V_doBackupConf arg s = doBackupConf ops arg s"
| "run_verb ops env V_doCmd arg s = doCmd ops arg s"
| "run_verb ops env V_doCustCmd arg s = doCustCmd ops arg s"
| "run_verb ops env V_doJsAExecScript arg s = doJsAExecScript ops arg s"
| "run_verb ops env V_doProvisioning arg s = doProvisioning ops arg s"
| "run_verb ops env V_doPushConfig arg s = doPushConfig ops arg s"
| "run_verb ops env V_doRestoreConf arg s = doRestoreConf ops arg s"
| "run_verb ops env V_doUpdateConfig arg s = doUpdateConfig ops arg s"
| "run_verb ops env V_doUpdateFirmware arg s = doUpdateFirmware ops arg s"
| "run_verb ops env V_doUpdateLicense arg s = doUpdateLicense ops arg s"
| "run_verb ops env V_doCallCommand arg s = doCallCommand ops arg s"
| "run_verb ops env V_doCheckSerial arg s = doCheckSerial ops arg s"
| "run_verb ops env V_doPing arg s = doPing ops arg s"
| "run_verb ops env V_doJsExecScript arg s = doJsExecScript ops arg s"
| "run_verb ops env V_doGenTemplate arg s = doGenTemplate ops arg s"
| "run_verb ops env V_doGetArchiveConf arg s = doGetArchiveConf ops arg s"
| "run_verb ops env V_doHaSwap arg s = doHaSwap ops arg s"
| "run_verb ops env V_doResolve arg s = doResolve ops arg s"
| "run_verb ops env V_doResolveTemplate arg s = doResolveTemplate ops arg s"
| "run_verb ops env V_doSendDataFiles arg s = doSendDataFiles ops arg s"
| "run_verb ops env V_doJsSmsAddonExec arg s = doJsSmsAddonExec ops arg s"
| "run_verb ops env V_doJsSmsexec arg s = doJsSmsexec ops arg s"
| "run_verb ops env V_doJsSmsexecn arg s = doJsSmsexecn ops arg s"
| "run_verb ops env V_doSnmpTest arg s = doSnmpTest ops arg s"
| "run_verb ops env V_doStaging arg s = doStaging ops arg s"
| "run_verb ops env V_doStagingMap arg s = doStagingMap ops arg s"
| "run_verb ops env V_doUnarchiveConf arg s = doUnarchiveConf ops arg s"
| "run_verb ops env V_doListVerb arg s = doListVerb ops env arg s"
| "run_verb ops env V_doLockProvisioning arg s = doLockProvisioning ops arg s"
| "run_verb ops env V_doPppIpUp arg s = doPppIpUp ops arg s"
| "run_verb ops env V_doPS arg s = doPS ops arg s"
| "run_verb ops env V_doReinitLogs arg s = doReinitLogs ops arg s"
| "run_verb ops env V_doSdIpUp arg s = doSdIpUp ops arg s"
| "run_verb ops env V_doSetConfigMode arg s = doSetConfigMode ops arg s"
| "run_verb ops env V_doSetLogLevel arg s = doSetLogLevel ops arg s"
| "run_verb ops env V_do_SnmpGet arg s = do_SnmpGet ops arg s"
| "run_verb ops env V_do_SnmpGetNext arg s = do_SnmpGetNext ops arg s"
| "run_verb ops env V_doStat arg s = doStat ops env arg s"
| "run_verb ops env V_doUnLockProvisioning arg s = doUnLockProvisioning ops arg s"
| "run_verb ops env V_doUnlockUpdate arg s = doUnlockUpdate ops arg s"

section \<open>The text of the statistics\<close>

lemma length_fmt_counter: "length (fmt_counter n) \<le> 20"
proof -
  have "unat n < 10 ^ 20" using unsigned_less [of n, where ?'a = nat] by simp
  then show ?thesis unfolding fmt_counter_def by (intro length_dec_nat_less) simp_all
qed

lemma length_fmt_lu: "length (fmt_lu x) \<le> 20"
proof -
  have "x mod 2 ^ 64 < 2 ^ 64" by simp
  then have "nat (x mod 2 ^ 64) < 10 ^ 20" by simp
  then show ?thesis unfolding fmt_lu_def by (intro length_dec_nat_less) simp_all
qed

lemma length_fmt_date: "length (fmt_date tc) \<le> 63"
  by (simp add: fmt_date_def)

lemma length_stat_line: "length (stat_line name val) = length name + length val + 2"
  by (simp add: stat_line_def)

text \<open>
  The statistics fit their buffer: with the date of the start of the daemon in its 64 bytes, the text
  of \<^verbatim>\<open>STAT\<close> never reaches \<^verbatim>\<open>BUFSIZ\<close>, whatever the counters and the clock, and the verb answers.
\<close>

theorem doStat_fits:
  assumes "length (bufstartTime env) < 64"
  shows "length (stat_text env now (fmt_date tc) st) < BUFSIZ \<and> (\<exists>r t. doStat ops env params s = Some (r, t))"
proof -
  have "length (stat_text env now (fmt_date tc) st) < BUFSIZ" for now tc st
  proof -
    have "length (stat_text env now (fmt_date tc) st) \<le> 1 + 20 * 24 + 18 * 20 + 128"
      unfolding stat_text_def length_append length_stat_line
      using assms length_fmt_date [of tc] length_fmt_lu [of now] length_fmt_lu [of "startTime env"]
        length_fmt_counter [of "totalThreads st"] length_fmt_counter [of "activeThreads st"]
        length_fmt_counter [of "totalupdate st"] length_fmt_counter [of "totalerrorupdate st"]
        length_fmt_counter [of "totalgetreport st"] length_fmt_counter [of "totalerrorgetreport st"]
        length_fmt_counter [of "totalgetconf st"] length_fmt_counter [of "totalerrorgetconf st"]
        length_fmt_counter [of "totalgetvpnreport st"] length_fmt_counter [of "totalerrorgetvpnreport st"]
        length_fmt_counter [of "totalgetrouterip st"] length_fmt_counter [of "totalerrorgetrouterip st"]
        length_fmt_counter [of "totalcheckupdate st"] length_fmt_counter [of "totalerrorcheckupdate st"]
        length_fmt_counter [of "totalipdown st"] length_fmt_counter [of "totalerroripdown st"]
      by simp
    then show ?thesis by (simp add: BUFSIZ_def)
  qed
  then show ?thesis by (simp add: doStat_def split: prod.splits)
qed

theorem doStat_fits_witness:
  "doStat mem_ops \<lparr>currentConfig = default_config, bufstartTime = ''2020/01/02:03:04:05'', startTime = 1577934245\<rparr> ''N/A''
     (mem_task mem_world) \<noteq> None"
  using doStat_fits [of "\<lparr>currentConfig = default_config, bufstartTime = ''2020/01/02:03:04:05'', startTime = 1577934245\<rparr>"
    0 undefined undefined mem_ops "''N/A''" "mem_task mem_world"] by auto

end
