(* ===== verification/Smsd_Verb.thy ===== *)
theory Smsd_Verb
  imports Smsd_Handlers
begin

text \<open>
  Parsing and dispatch of a request, \<^verbatim>\<open>VerbInit\<close>, \<^verbatim>\<open>parse_params\<close> and \<^verbatim>\<open>CheckVerb\<close> of
  \<^verbatim>\<open>verb.c\<close>. The hash table of \<^verbatim>\<open>libgpul\<close> is a parameter, the record \<open>hash_ops\<close>; what the
  dispatcher relies on is the predicate \<open>hash_contract\<close>: a new table is empty and an element that was
  added under a new key is found under that key.
\<close>

section \<open>The hash table of the verbs\<close>

record 'h hash_ops =
  h_create :: "'h option"
  h_add_str :: "'h \<Rightarrow> string \<Rightarrow> verbAction \<Rightarrow> int \<times> 'h"
  h_get_str :: "'h \<Rightarrow> string \<Rightarrow> verbAction option"

definition hash_contract :: "'h hash_ops \<Rightarrow> bool" where
  "hash_contract h \<longleftrightarrow>
     (\<forall>t. h_create h = Some t \<longrightarrow> (\<forall>k. h_get_str h t k = None)) \<and>
     (\<forall>t k v t'. h_get_str h t k = None \<longrightarrow> h_add_str h t k v = (0, t') \<longrightarrow>
        (\<forall>j. h_get_str h t' j = (if j = k then Some v else h_get_str h t j)))"

fun add_verbs :: "'h hash_ops \<Rightarrow> verbAction list \<Rightarrow> 'h \<Rightarrow> 'h option" where
  "add_verbs h [] t = Some t"
| "add_verbs h (v # vs) t =
     (let (ret, t) = h_add_str h t (verb v) v in if ret \<noteq> 0 then None else add_verbs h vs t)"

text \<open>The table that \<^verbatim>\<open>VerbInit\<close> leaves in \<^verbatim>\<open>verbHashTable\<close>; \<open>None\<close> where it returns \<open>-1\<close>.\<close>

definition VerbInit :: "'h hash_ops \<Rightarrow> 'h option" where
  "VerbInit h = do { t \<leftarrow> h_create h; add_verbs h verbTab t }"

section \<open>Parameters with quotes\<close>

text \<open>The variable \<^verbatim>\<open>state\<close> of \<^verbatim>\<open>parse_params\<close>: 0, 1 after a double and 2 after a single quote.\<close>

datatype quoting = Plain | Double | Single

text \<open>
  One character of the scan: the parameters it completes, the new state and the text since \<^verbatim>\<open>p\<close>. An
  opening quote drops what precedes it.
\<close>

definition scan_char :: "quoting \<Rightarrow> string \<Rightarrow> char \<Rightarrow> string list \<times> quoting \<times> string" where
  "scan_char state p c =
     (if c = SP \<and> state = Plain then (if p = [] then [] else [p], Plain, [])
      else if c = DQ \<and> state = Plain then ([], Double, [])
      else if c = DQ \<and> state = Double then ([p], Plain, [])
      else if c = SQ \<and> state = Plain then ([], Single, [])
      else if c = SQ \<and> state = Single then ([p], Plain, [])
      else ([], state, p @ [c]))"

fun params_loop :: "nat \<Rightarrow> nat \<Rightarrow> quoting \<Rightarrow> string \<Rightarrow> string \<Rightarrow> string list" where
  "params_loop nb found state p [] = (if p = [] then [] else [p])"
| "params_loop nb found state p (c # s) =
     (if c = CR \<or> c = LF then [p]
      else let (new, state, p) = scan_char state p c; found = found + length new
           in new @ (if c \<in> {SP, SQ, DQ} \<and> found = nb then [] else params_loop nb found state p s))"

definition parse_params :: "string \<Rightarrow> nat \<Rightarrow> string list" where
  "parse_params params nb_params = params_loop nb_params 0 Plain [] params"

section \<open>Dispatch\<close>

text \<open>
  The command, in upper case, and the argument. When only blanks follow the command the search for
  trailing blanks starts before the first element of \<^verbatim>\<open>arg\<close>: \<open>None\<close>.
\<close>

definition split_command :: "string \<Rightarrow> (string \<times> string) option" where
  "split_command buf =
     (let p = skip_blanks (cut_pbrk [CHR ''#'', CR, LF] buf);
          cmd = map c_toupper (takeWhile (\<lambda>c. \<not> is_blank c) p);
          rest = dropWhile (\<lambda>c. \<not> is_blank c) p
      in if rest = [] then Some (cmd, [])
         else if skip_blanks rest = [] then None
         else Some (cmd, rtrim_blanks (skip_blanks rest)))"

definition release_ctx :: "'w ops \<Rightarrow> 'w smsd \<Rightarrow> 'w smsd" where
  "release_ctx ops s = (if ctx_of s \<noteq> None then RELEASE_BD_CTX ops s else s)"

definition CheckVerb ::
  "'w ops \<Rightarrow> smsd_env \<Rightarrow> 'h hash_ops \<Rightarrow> 'h \<Rightarrow> string \<Rightarrow> 'w smsd \<Rightarrow> 'w smsd option" where
  "CheckVerb ops env h verbHashTable buf s = do {
     (cmd, arg) \<leftarrow> split_command buf;
     case h_get_str h verbHashTable cmd of
       None \<Rightarrow>
         Some (if cmd \<noteq> ''WAKE_UP_SMS'' then snd (send_error ops (Some [NUL]) ERR_VERB_UNKNWN s) else s)
     | Some va \<Rightarrow>
         if hasParams va \<noteq> 0 then
           (if hasParams va = 1 \<and> length arg < 4 then Some s
            else do {
              let (ctx, s) = sms_db_find_ctx ops DB_SMS s;
              (cmdResult, s) \<leftarrow> run_verb ops env (doVerb va) arg (set_db_ctx (Some ctx) s);
              Some (release_ctx ops s)
            })
         else do {
           (cmdResult, s) \<leftarrow> run_verb ops env (doVerb va) ''N/A'' s;
           Some (release_ctx ops s)
         }
   }"

section \<open>The table finds every verb\<close>

lemma verbTab_distinct: "distinct (map verb verbTab)"
  by (simp add: verbTab_def verb_entry_def)

lemma add_verbs_get:
  assumes "hash_contract h" "add_verbs h vs t = Some t'" "distinct (map verb vs)"
    "\<And>v. v \<in> set vs \<Longrightarrow> h_get_str h t (verb v) = None"
  shows "h_get_str h t' k = (case map_of (map (\<lambda>v. (verb v, v)) vs) k of Some v \<Rightarrow> Some v | None \<Rightarrow> h_get_str h t k)"
  using assms(2-)
proof (induction vs arbitrary: t)
  case Nil
  then show ?case by simp
next
  case (Cons v vs)
  obtain t1 where add: "h_add_str h t (verb v) v = (0, t1)" and rest: "add_verbs h vs t1 = Some t'"
    using Cons.prems(1) by (auto split: prod.splits if_splits)
  have get: "h_get_str h t1 j = (if j = verb v then Some v else h_get_str h t j)" for j
    using assms(1) add Cons.prems(3) [of v] unfolding hash_contract_def by auto
  have "h_get_str h t' k = (case map_of (map (\<lambda>v. (verb v, v)) vs) k of Some v \<Rightarrow> Some v | None \<Rightarrow> h_get_str h t1 k)"
  proof (intro Cons.IH rest)
    show "distinct (map verb vs)" using Cons.prems(2) by simp
    show "h_get_str h t1 (verb u) = None" if "u \<in> set vs" for u
    proof -
      have "verb u \<noteq> verb v" using that Cons.prems(2) by (metis distinct.simps(2) image_eqI list.simps(9) set_map)
      with that Cons.prems(3) [of u] get show ?thesis by simp
    qed
  qed
  moreover have "map_of (map (\<lambda>v. (verb v, v)) vs) (verb v) = None"
    using Cons.prems(2) by (auto simp: map_of_eq_None_iff)
  ultimately show ?case using get by (auto split: option.splits)
qed

lemma VerbInit_get:
  assumes "hash_contract h" "VerbInit h = Some t"
  shows "h_get_str h t cmd = map_of (map (\<lambda>v. (verb v, v)) verbTab) cmd"
proof -
  obtain t0 where t0: "h_create h = Some t0" "add_verbs h verbTab t0 = Some t"
    using assms(2) by (auto simp: VerbInit_def bind_eq_Some_conv)
  with assms(1) have "h_get_str h t0 k = None" for k by (auto simp: hash_contract_def)
  with add_verbs_get [OF assms(1) t0(2) verbTab_distinct] show ?thesis by (auto split: option.splits)
qed

text \<open>An instance of the hash table for the evaluation of concrete requests.\<close>

definition list_hash :: "(string \<times> verbAction) list hash_ops" where
  "list_hash = \<lparr>h_create = Some [], h_add_str = (\<lambda>t k v. (0, (k, v) # t)), h_get_str = map_of\<rparr>"

lemma list_hash_contract: "hash_contract list_hash"
  by (auto simp: hash_contract_def list_hash_def)

lemma list_hash_init: "VerbInit list_hash = Some (rev (map (\<lambda>v. (verb v, v)) verbTab))"
proof -
  have "add_verbs list_hash vs t = Some (rev (map (\<lambda>v. (verb v, v)) vs) @ t)" for vs t
    by (induction vs arbitrary: t) (auto simp: list_hash_def)
  then show ?thesis by (simp add: VerbInit_def list_hash_def)
qed

section \<open>Parsing\<close>

lemma scan_char_new: "length (fst (scan_char st p c)) \<le> 1"
  by (auto simp: scan_char_def)

lemma scan_char_emits: "fst (scan_char st p c) \<noteq> [] \<Longrightarrow> c \<in> {SP, SQ, DQ}"
  by (auto simp: scan_char_def split: if_splits)

lemma params_loop_bound: "found < nb \<Longrightarrow> found + length (params_loop nb found st p s) \<le> nb"
proof (induction nb found st p s rule: params_loop.induct)
  case (1 nb found st p)
  then show ?case by auto
next
  case (2 nb found st p c s)
  obtain new st' p' where sc: "scan_char st p c = (new, st', p')" by (metis prod_cases3)
  have new: "length new \<le> 1" "new \<noteq> [] \<Longrightarrow> c \<in> {SP, SQ, DQ}"
    using scan_char_new [of st p c] scan_char_emits [of st p c] sc by auto
  show ?case
  proof (cases "c = CR \<or> c = LF")
    case True
    with "2.prems" show ?thesis by auto
  next
    case False
    show ?thesis
    proof (cases "c \<in> {SP, SQ, DQ} \<and> found + length new = nb")
      case True
      with False sc "2.prems" show ?thesis by simp
    next
      case go: False
      with new "2.prems" have "found + length new < nb" by (cases new) auto
      with "2.IH" [OF False] sc go have "found + length new + length (params_loop nb (found + length new) st' p' s) \<le> nb"
        by simp
      with False sc go show ?thesis by (auto simp: Let_def)
    qed
  qed
qed

text \<open>A quoted text is scanned to its closing quote.\<close>

lemma params_loop_quoted:
  "found < nb \<Longrightarrow> DQ \<notin> set t \<Longrightarrow> CR \<notin> set t \<Longrightarrow> LF \<notin> set t \<Longrightarrow>
   params_loop nb found Double p (t @ DQ # s) =
     (p @ t) # (if Suc found = nb then [] else params_loop nb (Suc found) Plain [] s)"
  by (induction t arbitrary: p) (auto simp: scan_char_def)

definition quoted :: "string \<Rightarrow> string" where
  "quoted t = [DQ] @ t @ [DQ]"

lemma params_loop_quoted_list:
  "found < nb \<Longrightarrow> \<forall>t\<in>set ts. DQ \<notin> set t \<and> CR \<notin> set t \<and> LF \<notin> set t \<Longrightarrow>
   params_loop nb found Plain [] (join_with [SP] (map quoted ts)) = take (nb - found) ts"
proof (induction ts arbitrary: found rule: induct_list012)
  case 1
  then show ?case by simp
next
  case (2 t)
  then show ?case
    by (auto simp: quoted_def scan_char_def params_loop_quoted Let_def take_Cons' )
next
  case (3 t u ts)
  then have "params_loop nb found Plain [] (join_with [SP] (map quoted (t # u # ts))) =
      t # (if Suc found = nb then [] else params_loop nb (Suc found) Plain [] (SP # join_with [SP] (map quoted (u # ts))))"
    by (auto simp: quoted_def scan_char_def params_loop_quoted)
  moreover have "params_loop nb (Suc found) Plain [] (SP # join_with [SP] (map quoted (u # ts))) = take (nb - Suc found) (u # ts)"
    if "Suc found \<noteq> nb"
    using that "3.prems" "3.IH"(2) [of "Suc found"] by (auto simp: scan_char_def)
  moreover have "nb - found = Suc (nb - Suc found)" using "3.prems"(1) by simp
  ultimately show ?case by auto
qed

lemma split_command_arg:
  assumes "split_command buf = Some (cmd, arg)"
  shows "length cmd \<le> length buf" "length arg \<le> length buf" "arg = [] \<or> \<not> is_blank (hd arg) \<and> \<not> is_blank (last arg)"
proof -
  let ?p = "skip_blanks (cut_pbrk [CHR ''#'', CR, LF] buf)"
  let ?rest = "dropWhile (\<lambda>c. \<not> is_blank c) ?p"
  have p: "length ?p \<le> length buf"
    using length_skip_blanks_le length_cut_pbrk_le le_trans by blast
  have cmd: "length (takeWhile (\<lambda>c. \<not> is_blank c) ?p) \<le> length ?p" by (rule length_takeWhile_le)
  have "length ?rest \<le> length ?p" by (rule length_dropWhile_le)
  then have "length (rtrim_blanks (skip_blanks ?rest)) \<le> length ?p"
    using length_rtrim_blanks_le length_skip_blanks_le le_trans by blast
  with p cmd assms show "length cmd \<le> length buf" "length arg \<le> length buf"
    by (auto simp: split_command_def Let_def split: if_splits)
  have "arg = [] \<or> arg = rtrim_blanks (skip_blanks ?rest) \<and> skip_blanks ?rest \<noteq> []"
    using assms by (auto simp: split_command_def Let_def split: if_splits)
  then show "arg = [] \<or> \<not> is_blank (hd arg) \<and> \<not> is_blank (last arg)"
  proof (elim disjE conjE)
    assume a: "arg = rtrim_blanks (skip_blanks ?rest)" and ne: "skip_blanks ?rest \<noteq> []"
    obtain b where b: "skip_blanks ?rest = arg @ b" using rtrim_blanks_prefix a by metis
    show ?thesis
    proof (cases "arg = []")
      case False
      with b hd_skip_blanks [OF ne] have "\<not> is_blank (hd arg)" by simp
      with False a last_rtrim_blanks show ?thesis by blast
    qed simp
  qed simp
qed

section \<open>Properties\<close>

text \<open>The globals and the table of the verbs for the instance in memory.\<close>

definition mem_env :: smsd_env where
  "mem_env = \<lparr>currentConfig = default_config, bufstartTime = [], startTime = 0\<rparr>"

abbreviation mem_table :: "(string \<times> verbAction) list" where
  "mem_table \<equiv> rev (map (\<lambda>v. (verb v, v)) verbTab)"

text \<open>
  C22. Every verb is found: once \<^verbatim>\<open>VerbInit\<close> has filled the hash table, looking up a command gives the
  entry of \<^verbatim>\<open>verbTab\<close> with that name, and nothing for a name that is not in the table.
\<close>

theorem VerbInit_lookup:
  assumes "hash_contract h" "VerbInit h = Some t"
  shows "(\<forall>v\<in>set verbTab. h_get_str h t (verb v) = Some v) \<and> (cmd \<notin> verb ` set verbTab \<longrightarrow> h_get_str h t cmd = None)"
proof -
  have "map_of (map (\<lambda>v. (verb v, v)) verbTab) (verb v) = Some v" if "v \<in> set verbTab" for v
    using that verbTab_distinct by (intro map_of_is_SomeI) (auto simp: comp_def)
  moreover have "map_of (map (\<lambda>v. (verb v, v)) verbTab) cmd = None" if "cmd \<notin> verb ` set verbTab"
    using that by (auto simp: map_of_eq_None_iff)
  ultimately show ?thesis using VerbInit_get [OF assms] by auto
qed

theorem VerbInit_lookup_witness:
  "h_get_str list_hash (rev (map (\<lambda>v. (verb v, v)) verbTab)) ''NOSUCHVERB'' = None"
proof -
  have "''NOSUCHVERB'' \<notin> verb ` set verbTab" by code_simp
  with VerbInit_lookup [OF list_hash_contract list_hash_init, of "''NOSUCHVERB''"] show ?thesis by blast
qed

text \<open>Characters are compared through their codes.\<close>

lemma of_char_toupper:
  "(of_char (c_toupper c) :: nat) = (if (97::nat) \<le> of_char c \<and> (of_char c :: nat) \<le> 122 then of_char c - 32 else of_char c)"
  by (auto simp: c_toupper_def)

lemma char_eq_code: "c = d \<longleftrightarrow> (of_char c :: nat) = of_char d"
  by (simp only: of_char_eq_iff)

lemma c_toupper_facts [simp]:
  "is_blank (c_toupper c) = is_blank c" "c_toupper (c_toupper c) = c_toupper c"
  "c_toupper c = CHR ''#'' \<longleftrightarrow> c = CHR ''#''" "c_toupper c = CR \<longleftrightarrow> c = CR" "c_toupper c = LF \<longleftrightarrow> c = LF"
  by (auto simp: is_blank_def char_eq_code of_char_toupper simp del: of_char_eq_iff)


text \<open>A command word: no blank, no comment sign, no end of line.\<close>

definition command_word :: "string \<Rightarrow> bool" where
  "command_word v \<longleftrightarrow> list_all (\<lambda>c. \<not> is_blank c \<and> c \<notin> {CHR ''#'', CR, LF}) v"

lemma command_word_toupper [simp]: "command_word (map c_toupper v) = command_word v"
  by (simp add: command_word_def list_all_iff)

lemma split_command_word:
  assumes "command_word v"
  shows "split_command (v @ rest) =
    (let r = cut_pbrk [CHR ''#'', CR, LF] rest; r = (if v = [] then skip_blanks r else r);
         w = takeWhile (\<lambda>c. \<not> is_blank c) r; t = dropWhile (\<lambda>c. \<not> is_blank c) r
     in if t = [] then Some (map c_toupper (v @ w), [])
        else if skip_blanks t = [] then None
        else Some (map c_toupper (v @ w), rtrim_blanks (skip_blanks t)))"
proof -
  have "cut_pbrk [CHR ''#'', CR, LF] (v @ rest) = v @ cut_pbrk [CHR ''#'', CR, LF] rest"
    using assms by (auto simp: cut_pbrk_def command_word_def list_all_iff intro!: takeWhile_append2)
  moreover have "skip_blanks (v @ x) = (if v = [] then skip_blanks x else v @ x)" for x
    using assms by (cases v) (auto simp: skip_blanks_def command_word_def)
  moreover have "takeWhile (\<lambda>c. \<not> is_blank c) (v @ x) = v @ takeWhile (\<lambda>c. \<not> is_blank c) x"
    "dropWhile (\<lambda>c. \<not> is_blank c) (v @ x) = dropWhile (\<lambda>c. \<not> is_blank c) x" for x
    using assms by (auto simp: command_word_def list_all_iff intro!: takeWhile_append2 dropWhile_append2)
  ultimately show ?thesis by (simp add: split_command_def Let_def del: dropWhile_eq_Nil_conv)
qed

text \<open>
  C23. The case of the verb does not matter: a request whose verb is written in another case is handled in
  the same way, whatever follows the verb.
\<close>

theorem CheckVerb_any_case:
  assumes "command_word v"
  shows "CheckVerb ops env h tbl (map c_toupper v @ rest) s = CheckVerb ops env h tbl (v @ rest) s"
proof -
  have "split_command (map c_toupper v @ rest) = split_command (v @ rest)"
    using assms by (simp add: split_command_word Let_def comp_def del: dropWhile_eq_Nil_conv)
  then show ?thesis by (simp add: CheckVerb_def)
qed

theorem CheckVerb_any_case_witness:
  "CheckVerb mem_ops mem_env list_hash mem_table ''ISALIVE'' (mem_task mem_world) =
   CheckVerb mem_ops mem_env list_hash mem_table ''isAlive'' (mem_task mem_world)"
proof -
  have "command_word ''isAlive''" "map c_toupper ''isAlive'' = ''ISALIVE''" by code_simp+
  with CheckVerb_any_case [of "''isAlive''" mem_ops mem_env list_hash mem_table "[]"] show ?thesis by simp
qed



text \<open>
  Requests that are dropped without an answer: the wake-up verb that the signal handler sends, and a
  verb that needs an identifier when its argument has less than four characters, leave the task as it is.
\<close>

theorem CheckVerb_silent:
  assumes "hash_contract h" "VerbInit h = Some tbl" "split_command buf = Some (cmd, arg)"
    and "cmd = ''WAKE_UP_SMS'' \<or> (\<exists>v\<in>set verbTab. verb v = cmd \<and> hasParams v = 1 \<and> length arg < 4)"
  shows "CheckVerb ops env h tbl buf s = Some s"
proof (cases "cmd = ''WAKE_UP_SMS''")
  case True
  have "''WAKE_UP_SMS'' \<notin> verb ` set verbTab" by code_simp
  then have "h_get_str h tbl ''WAKE_UP_SMS'' = None"
    using VerbInit_get [OF assms(1,2)] by (auto simp: map_of_eq_None_iff)
  with True assms(3) show ?thesis by (simp add: CheckVerb_def)
next
  case False
  with assms(4) obtain v where v: "v \<in> set verbTab" "verb v = cmd" "hasParams v = 1" "length arg < 4" by blast
  have "map_of (map (\<lambda>v. (verb v, v)) verbTab) (verb v) = Some v"
    using v(1) verbTab_distinct by (intro map_of_is_SomeI) (auto simp: comp_def)
  then have "h_get_str h tbl cmd = Some v" using VerbInit_get [OF assms(1,2)] v(2) by simp
  with v assms(3) show ?thesis by (simp add: CheckVerb_def)
qed

theorem CheckVerb_silent_witness:
  "CheckVerb mem_ops mem_env list_hash mem_table ''LOCKPROVISIONING AB'' (mem_task mem_world) = Some (mem_task mem_world)"
proof -
  have "split_command ''LOCKPROVISIONING AB'' = Some (''LOCKPROVISIONING'', ''AB'')" by code_simp
  moreover have "list_ex (\<lambda>v. verb v = ''LOCKPROVISIONING'' \<and> hasParams v = 1) verbTab" by code_simp
  then have "''LOCKPROVISIONING'' = ''WAKE_UP_SMS'' \<or>
     (\<exists>v\<in>set verbTab. verb v = ''LOCKPROVISIONING'' \<and> hasParams v = 1 \<and> length ''AB'' < 4)"
    by (auto simp: list_ex_iff)
  ultimately show ?thesis by (intro CheckVerb_silent [OF list_hash_contract list_hash_init])
qed





text \<open>
  Quoted parameters come back as they were written: for texts without a double quote and without an
  end of line, quoting them and separating them by spaces is undone by \<^verbatim>\<open>parse_params\<close>, up to the
  number of parameters asked for.
\<close>

theorem parse_params_quoted:
  assumes "0 < nb_params" "\<forall>t\<in>set ts. DQ \<notin> set t \<and> CR \<notin> set t \<and> LF \<notin> set t"
  shows "parse_params (join_with [SP] (map quoted ts)) nb_params = take nb_params ts"
  using params_loop_quoted_list [OF assms] by (simp add: parse_params_def)

theorem parse_params_quoted_witness:
  "parse_params (join_with [SP] (map quoted [''a b'', ''it's'', []])) 3 = [''a b'', ''it's'', []]"
  using parse_params_quoted [of 3 "[''a b'', ''it's'', []]"] by simp

end
