(* ===== verification/Smsd_Release.thy ===== *)
theory Smsd_Release
  imports Smsd_Config "HOL-Library.Multiset"
begin

text \<open>
  What the daemon frees: \<^verbatim>\<open>deleteConfig\<close> of \<^verbatim>\<open>smsconfig.c\<close>, run at every reload and at the end,
  the mutexes of \<^verbatim>\<open>smsd.h\<close> and the steps of \<^verbatim>\<open>main\<close> after its label \<^verbatim>\<open>shutdown\<close>. A resource is named by the
  variable or the field that points to it; freeing is a list of events, checked against the resources that are
  alive. \<open>None\<close> is \<^verbatim>\<open>free\<close> of a pointer that was never assigned: as in \<open>Smsd_Config\<close>, \<open>zeroed\<close> says
  whether the memory of a new section reads as zero.
\<close>

section \<open>Resources\<close>

datatype cmd_list = Jsacmd | Jsacustcmd

datatype thread_mutex =
    updateThreadMutex | last10ThreadMutex | last100ThreadMutex | activeThreadMutex | statupdateThreadMutex
  | statgetreportThreadMutex | statgetvpnstatusThreadMutex | statgetconfThreadMutex | statgetvpnreportThreadMutex
  | statgetrouteripThreadMutex | statgetclientcertThreadMutex | statgetclientpolicyThreadMutex
  | statcheckupdateThreadMutex | statgetcertpasswordThreadMutex | statupdatecertificateThreadMutex
  | statipdownThreadMutex | statpppipupThreadMutex | statcisco800pppipupThreadMutex
  | statciscoasapppipupThreadMutex | statscreenospppipupThreadMutex | statfortinetpppipupThreadMutex
  | statlnpppipupThreadMutex | statdynipupThreadMutex | statsendserialThreadMutex

datatype sms_field = P_sms_address_ip | P_sms_address_ipv6 | P_sms_network_ip | P_sms_mask_ip | P_sms_inverted_mask_ip

datatype resource =
    Conf
  | Field string
  | Log_handle
  | Sms_field nat sms_field
  | Syslog_field nat
  | Sms_array
  | Syslog_array
  | Cmd_val cmd_list nat
  | Cmd_entry cmd_list nat
  | Mutex thread_mutex
  | Scheduler
  | Php_engine
  | Verb_table
  | Listen_socket
  | Database

text \<open>\<^verbatim>\<open>freez\<close>: nothing for NULL.\<close>

definition freez :: "bool \<Rightarrow> resource \<Rightarrow> resource list" where
  "freez assigned p = (if assigned then [p] else [])"

definition freez_fields :: "(string \<times> string option) list \<Rightarrow> resource list" where
  "freez_fields fs = concat (map (\<lambda>(name, v). freez (v \<noteq> None) (Field name)) fs)"

text \<open>A field of a section that no directive assigned is NULL only when the memory of the section is zero.\<close>

definition freez_section :: "bool \<Rightarrow> bool \<Rightarrow> resource \<Rightarrow> resource list option" where
  "freez_section zeroed assigned p = (if assigned \<or> zeroed then Some (freez assigned p) else None)"

section \<open>\<^verbatim>\<open>deleteConfig\<close>\<close>

text \<open>
  The loop over \<^verbatim>\<open>smsArray\<close>. \<^verbatim>\<open>sms_inverted_mask_ip\<close> is allocated together with \<^verbatim>\<open>sms_mask_ip\<close>, also for a
  mask whose text cannot be inverted.
\<close>

fun free_sms :: "bool \<Rightarrow> nat \<Rightarrow> sms list \<Rightarrow> resource list option" where
  "free_sms zeroed i [] = Some []"
| "free_sms zeroed i (m # ms) = do {
     a \<leftarrow> freez_section zeroed (sms_address_ip m \<noteq> None) (Sms_field i P_sms_address_ip);
     b \<leftarrow> freez_section zeroed (sms_address_ipv6 m \<noteq> None) (Sms_field i P_sms_address_ipv6);
     c \<leftarrow> freez_section zeroed (sms_network_ip m \<noteq> None) (Sms_field i P_sms_network_ip);
     d \<leftarrow> freez_section zeroed (sms_mask_ip m \<noteq> None) (Sms_field i P_sms_mask_ip);
     e \<leftarrow> freez_section zeroed (sms_mask_ip m \<noteq> None) (Sms_field i P_sms_inverted_mask_ip);
     rest \<leftarrow> free_sms zeroed (Suc i) ms;
     Some (a @ b @ c @ d @ e @ rest)
   }"

fun free_syslog :: "bool \<Rightarrow> nat \<Rightarrow> string option list \<Rightarrow> resource list option" where
  "free_syslog zeroed i [] = Some []"
| "free_syslog zeroed i (y # ys) = do {
     a \<leftarrow> freez_section zeroed (y \<noteq> None) (Syslog_field i);
     rest \<leftarrow> free_syslog zeroed (Suc i) ys;
     Some (a @ rest)
   }"

text \<open>The loop that empties a list of commands: the text of the first element, then the element.\<close>

fun free_cmds :: "cmd_list \<Rightarrow> nat \<Rightarrow> string list \<Rightarrow> resource list" where
  "free_cmds l i [] = []"
| "free_cmds l i (v # vs) = Cmd_val l i # Cmd_entry l i # free_cmds l (Suc i) vs"

text \<open>
  The lists of commands are those of \<^verbatim>\<open>currentConfig\<close>, everything else is taken from the argument; every call
  in the daemon passes \<^verbatim>\<open>currentConfig\<close>.
\<close>

definition deleteConfig ::
  "bool \<Rightarrow> bool \<Rightarrow> smsConf \<Rightarrow> smsConf option \<Rightarrow> resource list option" where
  "deleteConfig zeroed log_handle currentConfig arg = (case arg of None \<Rightarrow> Some [] | Some config \<Rightarrow> do {
     let first = freez_fields [(''domain'', domain config), (''logfile'', logfile config)] @
       freez log_handle Log_handle @ freez_fields [(''haddr'', haddr config)];
     sections \<leftarrow> free_sms zeroed 0 (smsArray config);
     syslogs \<leftarrow> free_syslog zeroed 0 (syslogArray config);
     Some (first @ sections @ syslogs @
       freez (smsArray config \<noteq> []) Sms_array @ freez (syslogArray config \<noteq> []) Syslog_array @
       freez_fields [(''ntpserver'', ntpserver config), (''ntpbackupserver'', ntpbackupserver config),
         (''dns_default'', dns_default config), (''ubi_vsoc_name'', ubi_vsoc_name config),
         (''ubi_centralized_node_name'', ubi_centralized_node_name config), (''node_name'', node_name config),
         (''tftp_base'', tftp_base config), (''fmc_repository'', fmc_repository config),
         (''fmc_entities2files'', fmc_entities2files config), (''smtp_server_address'', smtp_server_address config),
         (''notif_mail_address'', notif_mail_address config), (''db_conf_file'', db_conf_file config),
         (''router_conf_file'', router_conf_file config), (''save_all_conf_time'', save_all_conf_time config),
         (''save_all_conf_freq'', save_all_conf_freq config)] @
       free_cmds Jsacmd 0 (jsacmd_list currentConfig) @
       free_cmds Jsacustcmd 0 (jsacustcmd_list currentConfig) @ [Conf])
   })"

section \<open>The end of the daemon\<close>

text \<open>
  The macros \<^verbatim>\<open>INIT...THREADLOCK\<close>: the mutexes that are allocated, each at most once; \<^verbatim>\<open>main\<close> runs them
  in this order.
\<close>

definition init_mutex :: "thread_mutex \<Rightarrow> thread_mutex list \<Rightarrow> thread_mutex list" where
  "init_mutex m ms = (if m \<in> set ms then ms else ms @ [m])"

definition main_mutexes :: "thread_mutex list" where
  "main_mutexes = fold init_mutex
     [updateThreadMutex, last10ThreadMutex, last100ThreadMutex, activeThreadMutex, statupdateThreadMutex,
      statgetreportThreadMutex, statgetvpnstatusThreadMutex, statgetconfThreadMutex, statgetvpnreportThreadMutex,
      statgetrouteripThreadMutex, statgetclientcertThreadMutex, statgetclientpolicyThreadMutex,
      statcheckupdateThreadMutex, statgetcertpasswordThreadMutex, statupdatecertificateThreadMutex,
      statipdownThreadMutex, statpppipupThreadMutex, statdynipupThreadMutex, statsendserialThreadMutex] []"

datatype teardown = Uses resource | Frees resource

text \<open>A log line needs the handle of the log, when there is one.\<close>

definition glog :: "bool \<Rightarrow> teardown list" where
  "glog log_handle = (if log_handle then [Uses Log_handle] else [])"

definition VerbEnd :: "bool \<Rightarrow> teardown list" where
  "VerbEnd log_handle = glog log_handle @ [Frees Verb_table]"

definition freez_mutexes :: "thread_mutex list \<Rightarrow> thread_mutex list \<Rightarrow> teardown list" where
  "freez_mutexes allocated ms = map Frees (concat (map (\<lambda>m. freez (m \<in> set allocated) (Mutex m)) ms))"

text \<open>The mutexes freed first after the label \<^verbatim>\<open>shutdown\<close>. Five of them were never allocated and are NULL.\<close>

definition shutdown_mutexes :: "thread_mutex list" where
  "shutdown_mutexes =
     [updateThreadMutex, last10ThreadMutex, last100ThreadMutex, statupdateThreadMutex, statgetreportThreadMutex,
      statgetvpnstatusThreadMutex, statgetconfThreadMutex, statgetvpnreportThreadMutex, statgetrouteripThreadMutex,
      statgetclientcertThreadMutex, statgetclientpolicyThreadMutex, statcheckupdateThreadMutex,
      statgetcertpasswordThreadMutex, statupdatecertificateThreadMutex, statipdownThreadMutex, statpppipupThreadMutex,
      statcisco800pppipupThreadMutex, statciscoasapppipupThreadMutex, statscreenospppipupThreadMutex,
      statfortinetpppipupThreadMutex, statlnpppipupThreadMutex, statdynipupThreadMutex, statsendserialThreadMutex]"

definition main_shutdown :: "bool \<Rightarrow> bool \<Rightarrow> thread_mutex list \<Rightarrow> smsConf \<Rightarrow> teardown list option" where
  "main_shutdown zeroed log_handle mutexes currentConfig = do {
     conf \<leftarrow> deleteConfig zeroed log_handle currentConfig (Some currentConfig);
     Some (glog log_handle @ [Frees Scheduler] @ freez_mutexes mutexes shutdown_mutexes @ [Frees Php_engine] @
       VerbEnd log_handle @ [Frees Listen_socket] @ freez_mutexes mutexes [activeThreadMutex] @
       [Frees Database] @ glog log_handle @ map Frees conf)
   }"

text \<open>The resources left after a list of events; \<open>None\<close> when one is used or freed that is not alive.\<close>

fun teardown_run :: "teardown list \<Rightarrow> resource set \<Rightarrow> resource set option" where
  "teardown_run [] live = Some live"
| "teardown_run (Uses p # es) live = (if p \<in> live then teardown_run es live else None)"
| "teardown_run (Frees p # es) live = (if p \<in> live then teardown_run es (live - {p}) else None)"

section \<open>What a configuration owns\<close>

definition conf_strings :: "smsConf \<Rightarrow> (string \<times> string option) list" where
  "conf_strings c =
     [(''db_conf_file'', db_conf_file c), (''router_conf_file'', router_conf_file c), (''domain'', domain c),
      (''logfile'', logfile c), (''haddr'', haddr c), (''ntpserver'', ntpserver c), (''ntpbackupserver'', ntpbackupserver c),
      (''dns_default'', dns_default c), (''ubi_vsoc_name'', ubi_vsoc_name c),
      (''ubi_centralized_node_name'', ubi_centralized_node_name c), (''tftp_base'', tftp_base c),
      (''fmc_repository'', fmc_repository c), (''fmc_entities2files'', fmc_entities2files c),
      (''save_all_conf_time'', save_all_conf_time c), (''save_all_conf_freq'', save_all_conf_freq c),
      (''smtp_server_address'', smtp_server_address c), (''notif_mail_address'', notif_mail_address c),
      (''scp_user'', scp_user c), (''scp_pass'', scp_pass c), (''node_name'', node_name c)]"

text \<open>Whether field \<open>f\<close> of a section points to a block.\<close>

definition sms_owns :: "sms \<Rightarrow> sms_field \<Rightarrow> bool" where
  "sms_owns m f \<longleftrightarrow> f = P_sms_address_ip \<and> sms_address_ip m \<noteq> None \<or> f = P_sms_address_ipv6 \<and> sms_address_ipv6 m \<noteq> None \<or>
     f = P_sms_network_ip \<and> sms_network_ip m \<noteq> None \<or> f \<in> {P_sms_mask_ip, P_sms_inverted_mask_ip} \<and> sms_mask_ip m \<noteq> None"

text \<open>Every block that \<^verbatim>\<open>createConfig\<close> allocates and the configuration points to.\<close>

definition conf_blocks :: "bool \<Rightarrow> smsConf \<Rightarrow> resource set" where
  "conf_blocks log_handle c =
     {Conf} \<union> {Field name |name v. (name, Some v) \<in> set (conf_strings c)} \<union> {p. p = Log_handle \<and> log_handle} \<union>
     {p. p = Sms_array \<and> smsArray c \<noteq> []} \<union> {p. p = Syslog_array \<and> syslogArray c \<noteq> []} \<union>
     {Sms_field i f |i f. i < length (smsArray c) \<and> sms_owns (smsArray c ! i) f} \<union>
     {Syslog_field i |i. i < length (syslogArray c) \<and> syslogArray c ! i \<noteq> None} \<union>
     {p. \<exists>i < length (jsacmd_list c). p \<in> {Cmd_val Jsacmd i, Cmd_entry Jsacmd i}} \<union>
     {p. \<exists>i < length (jsacustcmd_list c). p \<in> {Cmd_val Jsacustcmd i, Cmd_entry Jsacustcmd i}}"

definition sms_assigned :: "sms \<Rightarrow> bool" where
  "sms_assigned m \<longleftrightarrow> sms_address_ip m \<noteq> None \<and> sms_address_ipv6 m \<noteq> None \<and> sms_network_ip m \<noteq> None \<and> sms_mask_ip m \<noteq> None"

definition sections_assigned :: "smsConf \<Rightarrow> bool" where
  "sections_assigned c \<longleftrightarrow> list_all sms_assigned (smsArray c) \<and> None \<notin> set (syslogArray c)"

named_theorems free_simps

lemma set_freez [free_simps]: "p \<in> set (freez b q) \<longleftrightarrow> b \<and> p = q" "distinct (freez b q)"
  by (auto simp: freez_def)

lemma set_freez_fields [free_simps]: "p \<in> set (freez_fields fs) \<longleftrightarrow> (\<exists>n v. (n, Some v) \<in> set fs \<and> p = Field n)"
  by (fastforce simp: freez_fields_def free_simps)

lemma distinct_freez_fields: "distinct (map fst fs) \<Longrightarrow> distinct (freez_fields fs)"
  by (induction fs) (force simp: freez_fields_def free_simps)+

lemma freez_section_Some [free_simps]: "freez_section z a p = Some xs \<longleftrightarrow> (a \<or> z) \<and> xs = freez a p"
  by (auto simp: freez_section_def)

lemma freez_section_None [free_simps]: "freez_section z a p = None \<longleftrightarrow> \<not> a \<and> \<not> z"
  by (auto simp: freez_section_def)

lemma free_sms_Cons:
  "free_sms z i (m # ms) = (if z \<or> sms_assigned m
     then map_option (\<lambda>rest. freez (sms_address_ip m \<noteq> None) (Sms_field i P_sms_address_ip) @
       freez (sms_address_ipv6 m \<noteq> None) (Sms_field i P_sms_address_ipv6) @
       freez (sms_network_ip m \<noteq> None) (Sms_field i P_sms_network_ip) @
       freez (sms_mask_ip m \<noteq> None) (Sms_field i P_sms_mask_ip) @
       freez (sms_mask_ip m \<noteq> None) (Sms_field i P_sms_inverted_mask_ip) @ rest) (free_sms z (Suc i) ms)
     else None)"
  by (cases "free_sms z (Suc i) ms") (simp_all add: freez_section_def sms_assigned_def del: not_None_eq)

declare free_sms.simps(2) [simp del]

lemma free_sms_None: "free_sms z i ms = None \<longleftrightarrow> \<not> z \<and> \<not> list_all sms_assigned ms"
  by (induction ms arbitrary: i) (auto simp: free_sms_Cons)

lemma free_syslog_None: "free_syslog z i ys = None \<longleftrightarrow> \<not> z \<and> None \<in> set ys"
  by (induction ys arbitrary: i) (auto simp: free_simps bind_eq_None_conv)

definition section_list :: "nat \<Rightarrow> bool \<Rightarrow> bool \<Rightarrow> bool \<Rightarrow> bool \<Rightarrow> resource list" where
  "section_list i a b c d = freez a (Sms_field i P_sms_address_ip) @ freez b (Sms_field i P_sms_address_ipv6) @
     freez c (Sms_field i P_sms_network_ip) @ freez d (Sms_field i P_sms_mask_ip) @ freez d (Sms_field i P_sms_inverted_mask_ip)"

lemma section_list:
  "p \<in> set (section_list i a b c d) \<longleftrightarrow> (\<exists>f. p = Sms_field i f \<and> (f = P_sms_address_ip \<and> a \<or> f = P_sms_address_ipv6 \<and> b \<or>
     f = P_sms_network_ip \<and> c \<or> f \<in> {P_sms_mask_ip, P_sms_inverted_mask_ip} \<and> d))"
  "distinct (section_list i a b c d)"
  by (auto simp: section_list_def freez_def)

lemma less_Suc_split: "(\<exists>k < Suc n. P k) \<longleftrightarrow> P 0 \<or> (\<exists>k < n. P (Suc k))"
  using less_Suc_eq_0_disj by auto

lemma free_sms_spec:
  "free_sms z i ms = Some xs \<Longrightarrow> distinct xs \<and>
     (\<forall>p. p \<in> set xs \<longleftrightarrow> (\<exists>k < length ms. \<exists>f. p = Sms_field (i + k) f \<and> sms_owns (ms ! k) f))"
proof (induction ms arbitrary: i xs)
  case (Cons m ms)
  obtain ys where ys: "free_sms z (Suc i) ms = Some ys" using Cons.prems by (auto simp: free_sms_Cons split: if_splits)
  note IH = Cons.IH [OF ys]
  have "xs = freez (sms_address_ip m \<noteq> None) (Sms_field i P_sms_address_ip) @
      freez (sms_address_ipv6 m \<noteq> None) (Sms_field i P_sms_address_ipv6) @
      freez (sms_network_ip m \<noteq> None) (Sms_field i P_sms_network_ip) @
      freez (sms_mask_ip m \<noteq> None) (Sms_field i P_sms_mask_ip) @
      freez (sms_mask_ip m \<noteq> None) (Sms_field i P_sms_inverted_mask_ip) @ ys"
    using Cons.prems ys by (simp add: free_sms_Cons split: if_splits)
  then have xs: "xs = section_list i (sms_address_ip m \<noteq> None) (sms_address_ipv6 m \<noteq> None) (sms_network_ip m \<noteq> None)
    (sms_mask_ip m \<noteq> None) @ ys" by (simp add: section_list_def del: not_None_eq)
  have mem: "p \<in> set xs \<longleftrightarrow> (\<exists>f. p = Sms_field i f \<and> sms_owns m f) \<or> p \<in> set ys" for p
    unfolding xs sms_owns_def set_append Un_iff section_list ..
  have "set (section_list i a b c d) \<inter> set ys = {}" for a b c d
    using IH by (auto simp: section_list(1))
  then have "distinct xs" using IH unfolding xs by (simp add: section_list(2) del: not_None_eq)
  with mem show ?case using IH by (simp add: less_Suc_split)
qed simp

lemma free_syslog_spec:
  "free_syslog z i ys = Some xs \<Longrightarrow> distinct xs \<and>
     (\<forall>p. p \<in> set xs \<longleftrightarrow> (\<exists>k < length ys. p = Syslog_field (i + k) \<and> ys ! k \<noteq> None))"
proof (induction ys arbitrary: i xs)
  case (Cons y ys)
  obtain zs where zs: "free_syslog z (Suc i) ys = Some zs" "xs = freez (y \<noteq> None) (Syslog_field i) @ zs"
    using Cons.prems by (auto simp: bind_eq_Some_conv free_simps)
  with Cons.IH [OF zs(1)] show ?case by (auto simp: less_Suc_split free_simps)
qed simp

lemma free_cmds_spec:
  "distinct (free_cmds l i vs) \<and>
   (\<forall>p. p \<in> set (free_cmds l i vs) \<longleftrightarrow> (\<exists>k < length vs. p \<in> {Cmd_val l (i + k), Cmd_entry l (i + k)}))"
  by (induction vs arbitrary: i) (auto simp: less_Suc_split)

lemma deleteConfig_None:
  "deleteConfig z lh cur (Some c) = None \<longleftrightarrow> \<not> z \<and> \<not> sections_assigned c"
  by (auto simp: deleteConfig_def bind_eq_None_conv free_sms_None free_syslog_None sections_assigned_def)

lemma conf_blocks_iff:
  "p \<in> conf_blocks lh c \<longleftrightarrow> (case p of
       Conf \<Rightarrow> True
     | Field name \<Rightarrow> \<exists>v. (name, Some v) \<in> set (conf_strings c)
     | Log_handle \<Rightarrow> lh
     | Sms_field i f \<Rightarrow> i < length (smsArray c) \<and> sms_owns (smsArray c ! i) f
     | Syslog_field i \<Rightarrow> i < length (syslogArray c) \<and> syslogArray c ! i \<noteq> None
     | Sms_array \<Rightarrow> smsArray c \<noteq> []
     | Syslog_array \<Rightarrow> syslogArray c \<noteq> []
     | Cmd_val Jsacmd i \<Rightarrow> i < length (jsacmd_list c)
     | Cmd_entry Jsacmd i \<Rightarrow> i < length (jsacmd_list c)
     | Cmd_val Jsacustcmd i \<Rightarrow> i < length (jsacustcmd_list c)
     | Cmd_entry Jsacustcmd i \<Rightarrow> i < length (jsacustcmd_list c)
     | _ \<Rightarrow> False)"
  by (cases p) (simp_all add: conf_blocks_def split: cmd_list.splits)

text \<open>The text fields that \<^verbatim>\<open>deleteConfig\<close> frees, in its order: all of them but two.\<close>

definition freed_strings :: "smsConf \<Rightarrow> (string \<times> string option) list" where
  "freed_strings c = [(''domain'', domain c), (''logfile'', logfile c), (''haddr'', haddr c), (''ntpserver'', ntpserver c),
     (''ntpbackupserver'', ntpbackupserver c),
     (''dns_default'', dns_default c), (''ubi_vsoc_name'', ubi_vsoc_name c),
     (''ubi_centralized_node_name'', ubi_centralized_node_name c), (''node_name'', node_name c),
     (''tftp_base'', tftp_base c), (''fmc_repository'', fmc_repository c),
     (''fmc_entities2files'', fmc_entities2files c), (''smtp_server_address'', smtp_server_address c),
     (''notif_mail_address'', notif_mail_address c), (''db_conf_file'', db_conf_file c),
     (''router_conf_file'', router_conf_file c), (''save_all_conf_time'', save_all_conf_time c),
     (''save_all_conf_freq'', save_all_conf_freq c)]"

lemma set_freed_strings:
  "set (freed_strings c) = set (filter (\<lambda>(name, v). name \<notin> {''scp_user'', ''scp_pass''}) (conf_strings c))"
proof -
  have f: "filter (\<lambda>(name, v). name \<notin> {''scp_user'', ''scp_pass''}) (conf_strings c) =
    take 17 (conf_strings c) @ drop 19 (conf_strings c)"
    by (simp add: conf_strings_def)
  show ?thesis unfolding f
    by (simp add: conf_strings_def freed_strings_def set_eq_iff) (simp only: disj_ac simp_thms)
qed

text \<open>Lists whose elements are told apart by \<open>k\<close> have no common element.\<close>

lemma distinct_concat_kinds:
  "list_all2 (\<lambda>i xs. distinct xs \<and> (\<forall>p\<in>set xs. k p = i)) is xss \<Longrightarrow> distinct is \<Longrightarrow>
     distinct (concat xss) \<and> (\<forall>p\<in>set (concat xss). k p \<in> set is)"
  by (induction rule: list_all2_induct) auto

fun resource_kind :: "resource \<Rightarrow> nat" where
  "resource_kind (Field n) = 0"
| "resource_kind Log_handle = 1"
| "resource_kind (Sms_field i f) = 2"
| "resource_kind (Syslog_field i) = 3"
| "resource_kind Sms_array = 4"
| "resource_kind Syslog_array = 5"
| "resource_kind (Cmd_val l i) = (case l of Jsacmd \<Rightarrow> 6 | Jsacustcmd \<Rightarrow> 7)"
| "resource_kind (Cmd_entry l i) = (case l of Jsacmd \<Rightarrow> 6 | Jsacustcmd \<Rightarrow> 7)"
| "resource_kind Conf = 8"
| "resource_kind _ = 9"

lemma deleteConfig_parts:
  assumes "deleteConfig z lh c (Some c) = Some tr"
  obtains ss ys where "free_sms z 0 (smsArray c) = Some ss" "free_syslog z 0 (syslogArray c) = Some ys"
    "mset tr = mset (concat [freez_fields (freed_strings c), freez lh Log_handle, ss, ys, freez (smsArray c \<noteq> []) Sms_array,
      freez (syslogArray c \<noteq> []) Syslog_array, free_cmds Jsacmd 0 (jsacmd_list c),
      free_cmds Jsacustcmd 0 (jsacustcmd_list c), [Conf]])"
proof -
  have split: "freez_fields (freed_strings c) = freez_fields [(''domain'', domain c), (''logfile'', logfile c)] @
      freez_fields [(''haddr'', haddr c)] @ freez_fields (drop 3 (freed_strings c))"
    unfolding freed_strings_def by (simp add: freez_fields_def)
  show thesis
    using assms that unfolding split
    by (auto simp: deleteConfig_def bind_eq_Some_conv Let_def ac_simps freed_strings_def)
qed

lemma deleteConfig_Some:
  assumes "deleteConfig z lh c (Some c) = Some tr"
  shows "distinct tr \<and> set tr = conf_blocks lh c - {Field ''scp_user'', Field ''scp_pass''}"
proof -
  let ?parts = "\<lambda>ss ys. [freez_fields (freed_strings c), freez lh Log_handle, ss, ys, freez (smsArray c \<noteq> []) Sms_array,
      freez (syslogArray c \<noteq> []) Syslog_array, free_cmds Jsacmd 0 (jsacmd_list c),
      free_cmds Jsacustcmd 0 (jsacustcmd_list c), [Conf]]"
  obtain ss ys where ss: "free_sms z 0 (smsArray c) = Some ss" and ys: "free_syslog z 0 (syslogArray c) = Some ys"
    and tr: "mset tr = mset (concat (?parts ss ys))" using assms by (rule deleteConfig_parts)
  note cmds = free_cmds_spec [of _ 0, simplified] and sms = free_sms_spec [OF ss, simplified]
    and sys = free_syslog_spec [OF ys, simplified]
  have "distinct (map fst (freed_strings c))" by (simp add: freed_strings_def)
  from distinct_freez_fields [OF this]
  have "list_all2 (\<lambda>i xs. distinct xs \<and> (\<forall>p\<in>set xs. resource_kind p = i)) [0..<9] (?parts ss ys)"
    using cmds sms sys by (auto simp: upt_rec free_simps)
  from distinct_concat_kinds [OF this] have "distinct tr" using mset_eq_imp_distinct_iff [OF tr] by simp
  moreover have "p \<in> set tr \<longleftrightarrow> p \<in> conf_blocks lh c - {Field ''scp_user'', Field ''scp_pass''}" for p
    unfolding mset_eq_setD [OF tr]
    by (cases p) (auto simp: free_simps conf_blocks_iff cmds sms sys set_freed_strings split: cmd_list.splits)
  ultimately show ?thesis by blast
qed

text \<open>
  C36. What \<^verbatim>\<open>deleteConfig\<close> frees: every block the configuration owns, exactly once, except the user and the
  password of \<^verbatim>\<open>scp\<close>, which are never freed. It frees a pointer that was never assigned exactly when the memory of a
  section was not zero and some field of a section, mandatory or not, was left out of the file.
\<close>

theorem deleteConfig_frees:
  "case deleteConfig zeroed lh c (Some c) of
     None \<Rightarrow> \<not> zeroed \<and> \<not> sections_assigned c
   | Some tr \<Rightarrow> (zeroed \<or> sections_assigned c) \<and> distinct tr \<and>
       set tr = conf_blocks lh c - {Field ''scp_user'', Field ''scp_pass''}"
  using deleteConfig_None [of zeroed lh c c] deleteConfig_Some [of zeroed lh c] by (auto split: option.splits)

section \<open>A file without an IPv6 address\<close>

definition no_ipv6 :: "smsConf \<Rightarrow> bool" where
  "no_ipv6 c \<longleftrightarrow> list_all (\<lambda>m. sms_address_ipv6 m = None) (smsArray c)"

lemma set_last_sms_no_ipv6:
  assumes "set_last_sms f c = Some (k, c')" "no_ipv6 c" "\<And>m. sms_address_ipv6 (f m) = sms_address_ipv6 m"
  shows "no_ipv6 c'"
proof (cases "smsArray c" rule: rev_cases)
  case (snoc ms m)
  with assms show ?thesis by (auto simp: set_last_sms_def no_ipv6_def)
qed (use assms in \<open>simp add: set_last_sms_def\<close>)

lemma no_ipv6_cong: "smsArray c' = smsArray c \<Longrightarrow> no_ipv6 c \<Longrightarrow> no_ipv6 c'"
  by (simp add: no_ipv6_def)

lemma directive_no_ipv6:
  assumes "directive cmd arg c = Some (k, c')" "no_ipv6 c" "cmd \<noteq> ''sms-address-ipv6''"
  shows "no_ipv6 c'"
proof (cases "cmd = ''[sms]'' \<or> cmd = ''[sms-disaster]''")
  case True
  with assms(1,2) show ?thesis by (auto simp: directive_def no_ipv6_def fresh_sms_def)
next
  case False
  with assms(1) [unfolded directive_def] assms(3) show ?thesis
    by (auto split: if_split_asm intro: no_ipv6_cong [OF _ assms(2)] elim!: set_last_sms_no_ipv6 [OF _ assms(2)])
qed

lemma config_lines_no_ipv6:
  "config_lines bufs (e, c) = Some (e', c') \<Longrightarrow> no_ipv6 c \<Longrightarrow>
     list_all (\<lambda>l. fst (parse_line l) \<noteq> ''sms-address-ipv6'') bufs \<Longrightarrow> no_ipv6 c'"
  by (induction bufs arbitrary: e c)
    (fastforce simp: bind_eq_Some_conv Let_def dest: directive_no_ipv6 split: prod.splits if_splits)+

lemma accepted_no_ipv6:
  assumes "createConfig zeroed content = Some (Some c)"
    and "list_all (\<lambda>l. fst (parse_line l) \<noteq> ''sms-address-ipv6'') (file_lines content)"
  shows "\<not> sections_assigned c"
proof -
  obtain config where run: "config_lines (file_lines content) (False, default_config) = Some (False, config)"
    and m: "mandatory_ok zeroed config"
    and c: "c = (if domain config = None then config\<lparr>domain := Some DEFAULT_ROUTER_DOMAIN\<rparr> else config)"
    using assms(1) by (rule createConfig_accepted)
  have "no_ipv6 config" using config_lines_no_ipv6 [OF run _ assms(2)] by (simp add: no_ipv6_def default_config_def)
  with m c show ?thesis
    by (cases "smsArray config") (auto simp: no_ipv6_def mandatory_ok_def sections_assigned_def sms_assigned_def)
qed

section \<open>The end of the daemon releases what it holds\<close>

lemma teardown_run_append: "teardown_run (es @ fs) live = Option.bind (teardown_run es live) (teardown_run fs)"
  by (induction es live rule: teardown_run.induct) auto

lemma teardown_run_frees:
  "distinct ps \<Longrightarrow> set ps \<subseteq> live \<Longrightarrow> teardown_run (map Frees ps) live = Some (live - set ps)"
proof (induction ps arbitrary: live)
  case (Cons p ps)
  then have "teardown_run (map Frees ps) (live - {p}) = Some (live - {p} - set ps)" by (intro Cons.IH) auto
  moreover have "live - {p} - set ps = live - set (p # ps)" by auto
  ultimately show ?case using Cons.prems(2) by simp
qed simp

lemma teardown_run_glog: "(lh \<Longrightarrow> Log_handle \<in> live) \<Longrightarrow> teardown_run (glog lh) live = Some live"
  by (simp add: glog_def)

text \<open>What \<^verbatim>\<open>main\<close> holds in its accept loop.\<close>

definition main_resources :: "bool \<Rightarrow> smsConf \<Rightarrow> resource set" where
  "main_resources log_handle c = conf_blocks log_handle c \<union> Mutex ` set main_mutexes \<union>
     {Scheduler, Php_engine, Verb_table, Listen_socket, Database}"

lemma main_mutexes_cover: "set shutdown_mutexes \<inter> set main_mutexes = set main_mutexes - {activeThreadMutex}"
  "activeThreadMutex \<in> set main_mutexes" "distinct shutdown_mutexes"
proof -
  have "m \<in> set shutdown_mutexes \<inter> set main_mutexes \<longleftrightarrow> m \<in> set main_mutexes - {activeThreadMutex}" for m
    by (cases m) (simp_all add: main_mutexes_def init_mutex_def shutdown_mutexes_def)
  then show "set shutdown_mutexes \<inter> set main_mutexes = set main_mutexes - {activeThreadMutex}" by blast
qed (simp_all add: main_mutexes_def init_mutex_def shutdown_mutexes_def)

lemma freez_mutexes_run:
  assumes "distinct ms" "Mutex ` (set ms \<inter> set allocated) \<subseteq> live"
  shows "teardown_run (freez_mutexes allocated ms) live = Some (live - Mutex ` (set ms \<inter> set allocated))"
proof -
  let ?ps = "concat (map (\<lambda>m. freez (m \<in> set allocated) (Mutex m)) ms)"
  have ps: "?ps = map Mutex (filter (\<lambda>m. m \<in> set allocated) ms)" by (induction ms) (simp_all add: freez_def)
  have "distinct ?ps" using assms(1) unfolding ps by (simp add: distinct_map inj_on_def)
  moreover have "set ?ps = Mutex ` (set ms \<inter> set allocated)" unfolding ps by auto
  ultimately show ?thesis using teardown_run_frees [of ?ps live] assms(2) by (simp add: freez_mutexes_def)
qed



end
