(* ===== verification/Smsd_Main.thy ===== *)
theory Smsd_Main
  imports Smsd_Verb Smsd_Release
begin

text \<open>
  The daemon itself, \<^verbatim>\<open>smsd.c\<close>: the task that serves one connection, the counters given to SNMP,
  and the loop of \<^verbatim>\<open>main\<close> that accepts connections, as a step relation
  in which the signal handler may run between any two steps.
\<close>

section \<open>One connection\<close>

definition serve :: "'w ops \<Rightarrow> smsd_env \<Rightarrow> 'h hash_ops \<Rightarrow> 'h \<Rightarrow> 'w smsd \<Rightarrow> (int \<times> 'w smsd) option" where
  "serve ops env h verbHashTable s = do {
     let ((n, buf), s) = socketReadLine ops (cfd (csp s)) BUFSIZ SELECTTIMEOUT s;
     s \<leftarrow> (if n > 0 then CheckVerb ops env h verbHashTable buf s else Some s);
     let s = s\<lparr>csp := (csp s)\<lparr>ip_addr_str := None\<rparr>\<rparr>;
     let s = (if cfd (csp s) \<noteq> -1 then snd (socketClose ops (cfd (csp s)) s) else s);
     Some (0, s)
   }"

section \<open>SNMP counters\<close>

datatype snmp_type = SNMP_NONE | SNMP_STRING | SNMP_GAUGE

record snmp_counter =
  oid :: string
  ctype :: snmp_type
  cvalue :: "32 word"
  valstr :: "string option"

definition OID_SEC_ENGINE :: string where "OID_SEC_ENGINE = ''1.3.6.1.4.1.13567.3''"

text \<open>The counters in the order of the list: the suffix of the identifier, the type and the text.\<close>

definition init_snmp_counters :: "string \<Rightarrow> smsConf \<Rightarrow> snmp_counter list" where
  "init_snmp_counters prog conf =
     map (\<lambda>(suffix, ty, str). \<lparr>oid = OID_SEC_ENGINE @ ''.'' @ fmt_d (port conf) @ suffix, ctype = ty, cvalue = 0,
            valstr = str\<rparr>)
       [('''', SNMP_NONE, None), (''.1'', SNMP_NONE, None), (''.1.1'', SNMP_STRING, Some prog), (''.2'', SNMP_NONE, None),
        (''.3'', SNMP_NONE, None), (''.3.1'', SNMP_GAUGE, None), (''.3.2'', SNMP_GAUGE, None),
        (''.3.3'', SNMP_GAUGE, None), (''.3.4'', SNMP_GAUGE, None), (''.3.5'', SNMP_GAUGE, None)]"

record daemon_stats =
  Stat_VmSize :: "32 word"
  Stat_VmData :: "32 word"
  Stat_RunTasks :: "32 word"
  Stat_CurTasks :: "32 word"
  Stat_OpFileDesc :: "32 word"

text \<open>One line of \<^verbatim>\<open>/proc/self/status\<close>.\<close>

definition status_line :: "string \<Rightarrow> daemon_stats \<Rightarrow> daemon_stats" where
  "status_line buf st =
     (if strncmp_eq buf ''VmSize:'' then st\<lparr>Stat_VmSize := word_of_int (strtol0 (drop 7 buf))\<rparr>
      else if strncmp_eq buf ''VmData:'' then st\<lparr>Stat_VmData := word_of_int (strtol0 (drop 7 buf))\<rparr>
      else st)"

text \<open>
  \<open>fds\<close> are the names in \<^verbatim>\<open>/proc/self/fd\<close>, \<open>content\<close> the text of \<^verbatim>\<open>/proc/self/status\<close>, both
  \<open>None\<close> when they cannot be opened; the averages come from the scheduler.
\<close>

definition updateStats ::
  "32 word \<Rightarrow> 32 word \<Rightarrow> string list option \<Rightarrow> string option \<Rightarrow> daemon_stats \<Rightarrow> daemon_stats" where
  "updateStats avg_running_tasks avg_tasks fds content st =
     (let st = st\<lparr>Stat_RunTasks := avg_running_tasks, Stat_CurTasks := avg_tasks, Stat_OpFileDesc := 0\<rparr>;
          st = (case fds of None \<Rightarrow> st
                | Some names \<Rightarrow> st\<lparr>Stat_OpFileDesc := word_of_nat (length (filter (\<lambda>n. n \<noteq> ''.'' \<and> n \<noteq> ''..'') names))\<rparr>)
      in case content of None \<Rightarrow> st | Some t \<Rightarrow> foldl (\<lambda>st l. status_line l st) st (file_lines t))"

section \<open>The accept loop\<close>

text \<open>
  Where \<^verbatim>\<open>main\<close> is: at the head of the loop, in \<^verbatim>\<open>socketAccept\<close>, with a connection accepted, past
  the label \<^verbatim>\<open>shutdown\<close>, or ended by \<^verbatim>\<open>exit(-1)\<close>. \<open>Undefined\<close> is a configuration file that makes
  \<^verbatim>\<open>createConfig\<close> leave an array, or a pointer that \<^verbatim>\<open>deleteConfig\<close> frees without its having been assigned.
\<close>

datatype main_pc = Top | InAccept | Accepted int "string option" int | Stopped | Exited | Undefined

datatype signal = SIGHUP | SIGINT | SIGCHLD | OtherSignal

text \<open>
  The globals the loop and the signal handler share, the connections accepted so far, the descriptors
  \<^verbatim>\<open>main\<close> closed, the clients it gave to a \<^verbatim>\<open>serve\<close> task, and the number of wake-up connections the
  signal handler opened.
\<close>

record daemon =
  pc :: main_pc
  d_stat :: sms_stat
  totalConnections :: "32 word"
  shutdown_flag :: bool
  reload_flag :: bool
  conf :: smsConf
  log_open :: bool
  accepted :: "int list"
  main_closed :: "int list"
  served :: "client_state list"
  wakeups :: nat

text \<open>What the environment answers in one step.\<close>

record env_answer =
  nb_tasks :: "64 word"
  config_file :: "string option"
  log_init_ok :: bool
  accept_result :: "int \<times> string option \<times> int"
  malloc_ok :: bool
  task_ok :: bool
  connect_ok :: bool

definition load_config :: "bool \<Rightarrow> string option \<Rightarrow> smsConf option option" where
  "load_config zeroed content = (case content of None \<Rightarrow> Some None | Some c \<Rightarrow> createConfig zeroed c)"

definition reloadConfig :: "bool \<Rightarrow> env_answer \<Rightarrow> daemon \<Rightarrow> daemon" where
  "reloadConfig zeroed a d =
     (let d = d\<lparr>reload_flag := False\<rparr>
      in case load_config zeroed (config_file a) of
           None \<Rightarrow> d\<lparr>pc := Undefined\<rparr>
         | Some None \<Rightarrow> d\<lparr>pc := Exited\<rparr>
         | Some (Some config) \<Rightarrow>
             (case deleteConfig zeroed (log_open d) (conf d) (Some (conf d)) of
                None \<Rightarrow> d\<lparr>pc := Undefined\<rparr>
              | Some freed \<Rightarrow> d\<lparr>conf := config, log_open := log_init_ok a\<rparr>))"

text \<open>\<^verbatim>\<open>if (shutdownRequired) goto shutdown; if (reloadRequired) reloadConfig();\<close> and what follows.\<close>

definition check_flags :: "bool \<Rightarrow> env_answer \<Rightarrow> (daemon \<Rightarrow> daemon) \<Rightarrow> daemon \<Rightarrow> daemon" where
  "check_flags zeroed a f d =
     (if shutdown_flag d then d\<lparr>pc := Stopped\<rparr>
      else if reload_flag d
      then let d' = reloadConfig zeroed a d in if pc d' \<in> {Exited, Undefined} then d' else f d'
      else f d)"

definition top_step :: "bool \<Rightarrow> env_answer \<Rightarrow> daemon \<Rightarrow> daemon" where
  "top_step zeroed a d =
     check_flags zeroed a (\<lambda>d. d\<lparr>pc := InAccept\<rparr>)
       (d\<lparr>d_stat := (d_stat d)\<lparr>activeThreads := nb_tasks a, totalThreads := scast (totalConnections d)\<rparr>\<rparr>)"

definition accept_step :: "env_answer \<Rightarrow> daemon \<Rightarrow> daemon" where
  "accept_step a d =
     (let (fd, ip, addr) = accept_result a
      in d\<lparr>pc := Accepted fd ip addr, totalConnections := totalConnections d + 1,
           accepted := accepted d @ (if fd < 0 then [] else [fd])\<rparr>)"

definition dispatch :: "env_answer \<Rightarrow> int \<Rightarrow> string option \<Rightarrow> int \<Rightarrow> daemon \<Rightarrow> daemon" where
  "dispatch a fd ip addr d =
     (if fd < 0 then d\<lparr>pc := Top\<rparr>
      else if \<not> malloc_ok a then d\<lparr>pc := Top, main_closed := main_closed d @ [fd]\<rparr>
      else if task_ok a
      then d\<lparr>pc := Top, served := served d @ [\<lparr>cfd = fd, ip_addr_str = ip, ip_addr_long = addr, db_ctx = None\<rparr>]\<rparr>
      else d\<lparr>pc := Top, main_closed := main_closed d @ [fd]\<rparr>)"

definition main_step :: "bool \<Rightarrow> env_answer \<Rightarrow> daemon \<Rightarrow> daemon" where
  "main_step zeroed a d = (case pc d of
       Top \<Rightarrow> top_step zeroed a d
     | InAccept \<Rightarrow> accept_step a d
     | Accepted fd ip addr \<Rightarrow> check_flags zeroed a (dispatch a fd ip addr) d
     | _ \<Rightarrow> d)"

text \<open>The handler sets its flag and opens a connection to the daemon itself.\<close>

definition smsSignal :: "signal \<Rightarrow> env_answer \<Rightarrow> daemon \<Rightarrow> daemon" where
  "smsSignal sig a d = (case sig of
       SIGHUP \<Rightarrow> d\<lparr>reload_flag := True, wakeups := wakeups d + (if connect_ok a then 1 else 0)\<rparr>
     | SIGINT \<Rightarrow> d\<lparr>shutdown_flag := True, wakeups := wakeups d + (if connect_ok a then 1 else 0)\<rparr>
     | _ \<Rightarrow> d)"

definition running :: "daemon \<Rightarrow> bool" where
  "running d \<longleftrightarrow> pc d \<notin> {Stopped, Exited, Undefined}"

inductive daemon_step :: "bool \<Rightarrow> daemon \<Rightarrow> daemon \<Rightarrow> bool" for zeroed where
  main: "running d \<Longrightarrow> daemon_step zeroed d (main_step zeroed a d)"
| signal: "running d \<Longrightarrow> daemon_step zeroed d (smsSignal sig a d)"

inductive_cases daemon_stepE: "daemon_step zeroed d d'"

text \<open>\<^verbatim>\<open>main\<close> when it enters the loop: the log is open when the configuration names its file.\<close>

definition start_daemon :: "smsConf \<Rightarrow> sms_stat \<Rightarrow> daemon" where
  "start_daemon config st = \<lparr>pc = Top, d_stat = st, totalConnections = 0, shutdown_flag = False, reload_flag = False,
     conf = config, log_open = (logfile config \<noteq> None), accepted = [], main_closed = [], served = [], wakeups = 0\<rparr>"

inductive reachable :: "bool \<Rightarrow> smsConf \<Rightarrow> sms_stat \<Rightarrow> daemon \<Rightarrow> bool" for zeroed config st where
  start: "reachable zeroed config st (start_daemon config st)"
| step: "reachable zeroed config st d \<Longrightarrow> daemon_step zeroed d d' \<Longrightarrow> reachable zeroed config st d'"

section \<open>Every accepted connection is served or closed\<close>

text \<open>The connection in the hands of \<^verbatim>\<open>main\<close>, when there is one.\<close>

definition in_hand :: "daemon \<Rightarrow> int list" where
  "in_hand d = (case pc d of Accepted fd ip addr \<Rightarrow> if fd < 0 then [] else [fd] | _ \<Rightarrow> [])"

text \<open>A daemon that has ended may have dropped the one connection it had just accepted.\<close>

definition conserved :: "daemon \<Rightarrow> bool" where
  "conserved d \<longleftrightarrow> (\<exists>lost. mset (accepted d) = mset (map cfd (served d)) + mset (main_closed d) + mset (in_hand d) + lost \<and>
     size lost \<le> (if running d then 0 else 1))"

definition clients_fresh :: "daemon \<Rightarrow> bool" where
  "clients_fresh d \<longleftrightarrow> (\<forall>c\<in>set (served d). 0 \<le> cfd c \<and> db_ctx c = None)"

lemma reloadConfig_frame [simp]:
  "accepted (reloadConfig z a d) = accepted d" "served (reloadConfig z a d) = served d"
  "main_closed (reloadConfig z a d) = main_closed d" "shutdown_flag (reloadConfig z a d) = shutdown_flag d"
  "reload_flag (reloadConfig z a d) = False"
  "totalConnections (reloadConfig z a d) = totalConnections d"
  by (simp_all add: reloadConfig_def Let_def split: option.splits)

lemma reloadConfig_pc: "pc (reloadConfig z a d) = pc d \<or> pc (reloadConfig z a d) \<in> {Exited, Undefined}"
  by (simp add: reloadConfig_def Let_def split: option.splits)

lemma smsSignal_frame [simp]:
  "accepted (smsSignal g a d) = accepted d" "served (smsSignal g a d) = served d"
  "main_closed (smsSignal g a d) = main_closed d" "pc (smsSignal g a d) = pc d" "conf (smsSignal g a d) = conf d"
  by (simp_all add: smsSignal_def split: signal.splits)

lemma conserved_running:
  "running d \<Longrightarrow> conserved d \<longleftrightarrow> mset (accepted d) = mset (map cfd (served d)) + mset (main_closed d) + mset (in_hand d)"
  by (auto simp: conserved_def)

lemma conserved_stop:
  assumes "running d" "conserved d" "accepted d' = accepted d" "served d' = served d" "main_closed d' = main_closed d"
    and "\<not> running d'"
  shows "conserved d'"
proof -
  have "in_hand d' = []" "size (mset (in_hand d)) \<le> 1"
    using assms(6) by (auto simp: in_hand_def running_def split: main_pc.splits)
  with assms show ?thesis by (auto simp: conserved_running conserved_def intro!: exI [of _ "mset (in_hand d)"])
qed

lemma check_flags_keeps:
  assumes "running d"
    and stop: "\<And>d'. accepted d' = accepted d \<Longrightarrow> served d' = served d \<Longrightarrow> main_closed d' = main_closed d \<Longrightarrow>
      \<not> running d' \<Longrightarrow> P d'"
    and go: "\<And>d'. accepted d' = accepted d \<Longrightarrow> served d' = served d \<Longrightarrow> main_closed d' = main_closed d \<Longrightarrow>
      pc d' = pc d \<Longrightarrow> P (f d')"
  shows "P (check_flags z a f d)"
proof -
  have "pc (reloadConfig z a d) = pc d" if "pc (reloadConfig z a d) \<notin> {Exited, Undefined}"
    using that reloadConfig_pc [of z a d] by blast
  then show ?thesis
    using assms by (auto simp: check_flags_def Let_def running_def)
qed

lemma conserved_main_step:
  assumes "running d" "conserved d"
  shows "conserved (main_step z a d)"
proof (cases "pc d")
  case Top
  let ?d = "d\<lparr>d_stat := (d_stat d)\<lparr>activeThreads := nb_tasks a, totalThreads := scast (totalConnections d)\<rparr>\<rparr>"
  have d: "running ?d" "conserved ?d" using assms by (auto simp: running_def conserved_def in_hand_def)
  have "conserved (check_flags z a (\<lambda>d. d\<lparr>pc := InAccept\<rparr>) ?d)"
  proof (rule check_flags_keeps [where P = conserved, OF d(1)])
    show "conserved d'" if "accepted d' = accepted ?d" "served d' = served ?d" "main_closed d' = main_closed ?d" "\<not> running d'" for d'
      using conserved_stop [OF d that] .
    show "conserved (d'\<lparr>pc := InAccept\<rparr>)"
      if "accepted d' = accepted ?d" "served d' = served ?d" "main_closed d' = main_closed ?d" for d'
      using that d Top by (auto simp: conserved_def in_hand_def running_def)
  qed
  with Top show ?thesis by (simp add: main_step_def top_step_def)
next
  case InAccept
  with assms show ?thesis
    by (auto simp: main_step_def accept_step_def conserved_def in_hand_def running_def split: prod.splits)
next
  case (Accepted fd ip addr)
  have "conserved (check_flags z a (dispatch a fd ip addr) d)"
  proof (rule check_flags_keeps [where P = conserved, OF assms(1)])
    show "conserved d'" if "accepted d' = accepted d" "served d' = served d" "main_closed d' = main_closed d" "\<not> running d'" for d'
      using conserved_stop [OF assms that] .
    show "conserved (dispatch a fd ip addr d')"
      if "accepted d' = accepted d" "served d' = served d" "main_closed d' = main_closed d" "pc d' = pc d" for d'
      using that assms Accepted by (auto simp: dispatch_def conserved_def in_hand_def running_def)
  qed
  with Accepted show ?thesis by (simp add: main_step_def)
qed (use assms in \<open>simp_all add: running_def\<close>)

lemma conserved_signal: "conserved (smsSignal sig a d) = conserved d"
  by (simp add: conserved_def in_hand_def running_def)

lemma clients_fresh_cong: "served d' = served d \<Longrightarrow> clients_fresh d' = clients_fresh d"
  by (simp add: clients_fresh_def)

lemma clients_fresh_dispatch: "clients_fresh d \<Longrightarrow> clients_fresh (dispatch a fd ip addr d)"
  by (auto simp: clients_fresh_def dispatch_def)

lemma clients_fresh_main_step:
  assumes "running d" "clients_fresh d"
  shows "clients_fresh (main_step z a d)"
proof -
  have flags: "clients_fresh (check_flags z a f u)"
    if "running u" "clients_fresh u" "\<And>d'. served d' = served u \<Longrightarrow> clients_fresh (f d')" for f u
    using that by (intro check_flags_keeps [where P = clients_fresh]) (auto simp: clients_fresh_def)
  show ?thesis
  proof (cases "pc d")
    case Top
    have "clients_fresh (top_step z a d)"
      unfolding top_step_def using assms by (intro flags) (auto simp: running_def clients_fresh_def)
    with Top show ?thesis by (simp add: main_step_def)
  next
    case (Accepted fd ip addr)
    have "clients_fresh (check_flags z a (dispatch a fd ip addr) d)"
      using assms by (intro flags clients_fresh_dispatch) (auto simp: clients_fresh_def)
    with Accepted show ?thesis by (simp add: main_step_def)
  qed (use assms in \<open>auto simp: main_step_def accept_step_def clients_fresh_def split: prod.splits\<close>)
qed

lemma reachable_invariant: "reachable z config st d \<Longrightarrow> conserved d \<and> clients_fresh d"
proof (induction rule: reachable.induct)
  case start
  then show ?case by (simp add: conserved_def clients_fresh_def start_daemon_def in_hand_def)
next
  case (step d d')
  from step.hyps(2) step.IH show ?case
    by (auto elim!: daemon_stepE simp: conserved_main_step clients_fresh_main_step conserved_signal
        clients_fresh_cong [OF smsSignal_frame(2)])
qed

text \<open>
  An execution as a list of events: steps of \<^verbatim>\<open>main\<close> and signals, in any order. A daemon that has
  ended ignores them.
\<close>

datatype event = Main_Event env_answer | Signal_Event signal env_answer

fun exec_event :: "bool \<Rightarrow> daemon \<Rightarrow> event \<Rightarrow> daemon" where
  "exec_event z d (Main_Event a) = (if running d then main_step z a d else d)"
| "exec_event z d (Signal_Event sig a) = (if running d then smsSignal sig a d else d)"

fun is_main :: "event \<Rightarrow> bool" where
  "is_main (Main_Event a) \<longleftrightarrow> True"
| "is_main (Signal_Event sig a) \<longleftrightarrow> False"

lemma reachable_exec: "reachable z config st d \<Longrightarrow> reachable z config st (foldl (exec_event z) d es)"
proof (induction es arbitrary: d)
  case (Cons e es)
  have "reachable z config st (exec_event z d e)"
    using Cons.prems by (cases e) (auto intro: reachable.step daemon_step.intros)
  with Cons.IH show ?case by simp
qed simp

text \<open>
  C29. No connection is lost: in every reachable state the connections \<^verbatim>\<open>socketAccept\<close> returned are the
  ones given to a \<^verbatim>\<open>serve\<close> task, the ones \<^verbatim>\<open>main\<close> closed itself and the one in its hands; only the
  connection accepted when the daemon ends is dropped. A served client has an open descriptor and no
  database context.
\<close>

theorem accepted_connections_conserved:
  assumes "reachable zeroed config st d"
  shows "conserved d \<and> clients_fresh d"
  by (rule reachable_invariant [OF assms])

text \<open>An execution of the instance: a client is accepted and served, then the daemon is stopped.\<close>

definition sample_answer :: env_answer where
  "sample_answer = \<lparr>nb_tasks = 1, config_file = None, log_init_ok = True, accept_result = (5, Some ''10.0.0.1'', 167772161), malloc_ok = True,
     task_ok = True, connect_ok = True\<rparr>"

definition sample_run :: "event list" where
  "sample_run = [Main_Event sample_answer, Main_Event sample_answer, Main_Event sample_answer, Main_Event sample_answer,
     Signal_Event SIGINT sample_answer, Main_Event sample_answer, Main_Event sample_answer]"

theorem accepted_connections_conserved_witness:
  "let d = foldl (exec_event True) (start_daemon default_config zero_stat) sample_run
   in accepted d = [5, 5] \<and> map cfd (served d) = [5] \<and> conserved d \<and> clients_fresh d"
proof -
  let ?d = "foldl (exec_event True) (start_daemon default_config zero_stat) sample_run"
  have "accepted ?d = [5, 5]" "map cfd (served ?d) = [5]" by code_simp+
  moreover have "conserved ?d \<and> clients_fresh ?d"
    by (rule accepted_connections_conserved) (rule reachable_exec [OF reachable.start])
  ultimately show ?thesis by (simp add: Let_def)
qed

lemma stopped_stays: "pc d = Stopped \<Longrightarrow> foldl (exec_event z) d es = d"
proof (induction es)
  case (Cons e es)
  then have "exec_event z d e = d" by (cases e) (auto simp: running_def)
  with Cons show ?case by simp
qed simp

lemma shutdown_main_step:
  assumes "shutdown_flag d" "running d"
  shows "served (main_step z a d) = served d \<and> shutdown_flag (main_step z a d) \<and>
    (pc (main_step z a d) = Stopped \<or> pc d = InAccept \<and> (\<exists>fd ip addr. pc (main_step z a d) = Accepted fd ip addr))"
  using assms by (cases "pc d")
    (auto simp: main_step_def top_step_def check_flags_def accept_step_def running_def split: prod.splits)

lemma shutdown_signal [simp]: "shutdown_flag d \<Longrightarrow> shutdown_flag (smsSignal sig a d)" "running (smsSignal sig a d) = running d"
  by (auto simp: smsSignal_def running_def split: signal.splits)

lemma shutdown_exec:
  assumes "shutdown_flag d" "running d" "(if pc d = InAccept then 2 else 1) \<le> length (filter is_main es)"
  shows "pc (foldl (exec_event z) d es) = Stopped \<and> served (foldl (exec_event z) d es) = served d"
  using assms
proof (induction es arbitrary: d)
  case Nil
  then show ?case by (simp split: if_splits)
next
  case (Cons e es)
  show ?case
  proof (cases e)
    case (Signal_Event sig a)
    with Cons.prems Cons.IH [of "smsSignal sig a d"] show ?thesis by simp
  next
    case (Main_Event a)
    have m: "served (main_step z a d) = served d" "shutdown_flag (main_step z a d)"
      using shutdown_main_step [OF Cons.prems(1,2)] by blast+
    consider "pc (main_step z a d) = Stopped"
      | fd ip addr where "pc d = InAccept" "pc (main_step z a d) = Accepted fd ip addr"
      using shutdown_main_step [OF Cons.prems(1,2), of z a] by blast
    then show ?thesis
    proof cases
      case 1
      with m Main_Event Cons.prems(2) stopped_stays [OF 1] show ?thesis by simp
    next
      case 2
      with Cons.prems Main_Event have "1 \<le> length (filter is_main es)" by simp
      with 2 m Main_Event Cons.prems(2) Cons.IH [of "main_step z a d"] show ?thesis by (simp add: running_def)
    qed
  qed
qed

text \<open>
  C30. The daemon stops: once a shutdown is asked for, two more steps of \<^verbatim>\<open>main\<close> (at most one return of
  \<^verbatim>\<open>socketAccept\<close>, which the connection of the signal handler provokes) bring it to the label
  \<^verbatim>\<open>shutdown\<close>, whatever signals arrive meanwhile, and no further client is served.
\<close>

theorem shutdown_stops:
  assumes "shutdown_flag d" "running d" "2 \<le> length (filter is_main es)"
  shows "pc (foldl (exec_event zeroed) d es) = Stopped \<and> served (foldl (exec_event zeroed) d es) = served d"
  using assms by (intro shutdown_exec) auto

theorem shutdown_stops_witness:
  "pc (foldl (exec_event True) (smsSignal SIGINT sample_answer (start_daemon default_config zero_stat))
     [Main_Event sample_answer, Signal_Event SIGHUP sample_answer, Main_Event sample_answer]) = Stopped"
proof -
  let ?d = "smsSignal SIGINT sample_answer (start_daemon default_config zero_stat)"
  have "shutdown_flag ?d" "running ?d" by (simp_all add: smsSignal_def start_daemon_def running_def)
  from shutdown_stops [OF this, of "[Main_Event sample_answer, Signal_Event SIGHUP sample_answer, Main_Event sample_answer]"]
  show ?thesis by simp
qed

lemma dispatch_frame [simp]:
  "pc (dispatch a fd ip addr d) = Top" "conf (dispatch a fd ip addr d) = conf d"
  "reload_flag (dispatch a fd ip addr d) = reload_flag d"
  by (simp_all add: dispatch_def)



text \<open>
  C21. A file without an IPv6 address spoils the next reload: the address is optional and \<^verbatim>\<open>createConfig\<close> accepts
  the file, but when the memory of the new sections is not zero, the reload that replaces this configuration hands
  a pointer that was never assigned to \<^verbatim>\<open>free\<close>, whatever the rest of the file and whatever the new one.
\<close>

theorem reload_frees_unassigned:
  assumes "createConfig False content = Some (Some c)"
    and "list_all (\<lambda>l. fst (parse_line l) \<noteq> ''sms-address-ipv6'') (file_lines content)"
    and "conf d = c" "reload_flag d" "\<not> shutdown_flag d" "pc d = Top \<or> pc d = Accepted fd ip addr"
    and "load_config False (config_file a) = Some (Some c')"
  shows "pc (main_step False a d) = Undefined"
proof -
  have "deleteConfig False (log_open d) (conf d) (Some (conf d)) = None"
    using accepted_no_ipv6 [OF assms(1,2)] assms(3) by (simp add: deleteConfig_None)
  with assms(4-7) show ?thesis
    by (auto simp: main_step_def top_step_def check_flags_def reloadConfig_def Let_def)
qed

lemma createConfig_unzeroed:
  assumes "createConfig True content = Some (Some c)"
  shows "createConfig False content = Some (Some c)"
proof -
  obtain config where "config_lines (file_lines content) (False, default_config) = Some (False, config)"
    "mandatory_ok True config" "c = (if domain config = None then config\<lparr>domain := Some DEFAULT_ROUTER_DOMAIN\<rparr> else config)"
    using assms by (rule createConfig_accepted)
  moreover then have "mandatory_ok False config" by (simp add: mandatory_ok_def sms_missing_def is_null_def)
  ultimately show ?thesis by (simp add: createConfig_def)
qed

text \<open>The complete sample file is one: it is accepted also when the sections read as zero.\<close>

theorem reload_frees_unassigned_witness:
  "\<exists>c. createConfig False (text_lines sample_config) = Some (Some c) \<and> createConfig True (text_lines sample_config) = Some (Some c) \<and>
     pc (main_step False (sample_answer\<lparr>config_file := Some (text_lines sample_config)\<rparr>)
       (smsSignal SIGHUP sample_answer (start_daemon c zero_stat))) = Undefined"
proof -
  have ls: "list_all (\<lambda>l. LF \<notin> set l \<and> length l < 8000) sample_config" by code_simp
  obtain c where c: "createConfig True (text_lines sample_config) = Some (Some c)" "createConfig False (text_lines sample_config) = Some (Some c)"
    using sample_config_accepted createConfig_unzeroed by blast
  let ?d = "smsSignal SIGHUP sample_answer (start_daemon c zero_stat)"
  let ?a = "sample_answer\<lparr>config_file := Some (text_lines sample_config)\<rparr>"
  have "list_all (\<lambda>l. fst (parse_line (l @ [LF])) \<noteq> ''sms-address-ipv6'') sample_config" by code_simp
  then have "list_all (\<lambda>l. fst (parse_line l) \<noteq> ''sms-address-ipv6'') (file_lines (text_lines sample_config))"
    by (simp add: file_lines_text [OF ls] list_all_iff)
  moreover have "conf ?d = c" "reload_flag ?d" "\<not> shutdown_flag ?d" "pc ?d = Top \<or> pc ?d = Accepted 0 None 0"
    "load_config False (config_file ?a) = Some (Some c)"
    by (simp_all add: smsSignal_def start_daemon_def load_config_def c)
  ultimately have "pc (main_step False ?a ?d) = Undefined" by (rule reload_frees_unassigned [OF c(2)])
  with c show ?thesis by blast
qed

end
