(* ===== verification/Smsd_Php.thy ===== *)
theory Smsd_Php
  imports Smsd_Config
begin

text \<open>
  The variables of \<^verbatim>\<open>php.c\<close> that every PHP script finds in \<^verbatim>\<open>$_SERVER\<close>: they are taken from the current
  configuration, with the sections of the master and of the disaster daemon found through the global indices.
  The rest of the file is tables for the Zend engine.
\<close>

section \<open>Registration\<close>

text \<open>\<^verbatim>\<open>snprintf(buf, 16, ...)\<close> keeps 15 characters.\<close>

definition snprintf16 :: "string \<Rightarrow> string" where
  "snprintf16 t = take 15 t"

text \<open>An element of an array of the configuration; \<open>None\<close> outside of it.\<close>

definition array_get :: "'a list \<Rightarrow> nat \<Rightarrow> 'a option" where
  "array_get xs i = (if i < length xs then Some (xs ! i) else None)"

definition sms_sapi_php_register_variables :: "int \<Rightarrow> smsConf \<Rightarrow> (string \<times> string option) list option" where
  "sms_sapi_php_register_variables thread_id config = do {
     syslog \<leftarrow> array_get (syslogArray config) (syslog_master config);
     master \<leftarrow> array_get (smsArray config) (sms_master config);
     disaster \<leftarrow> array_get (smsArray config) (sms_disaster config);
     Some [
       (''DOMAIN'', domain config),
       (''IP_SMS_SYSLOG'', syslog),
       (''SMS_NETWORK_IP'', sms_network_ip master),
       (''SMS_MASK_IP'', sms_mask_ip master),
       (''SMS_NETWORK_IP_DISASTER'', sms_network_ip disaster),
       (''SMS_MASK_IP_DISASTER'', sms_mask_ip disaster),
       (''TFTP_BASE'', tftp_base config),
       (''SMS_ADDRESS_IP'', sms_address_ip master),
       (''SMS_ADDRESS_IPV6'', sms_address_ipv6 master),
       (''NTP_SERVER'', ntpserver config),
       (''GENERATED_CONF_BASE'', Some ''/opt/sms/spool/routerconfigs''),
       (''DNS_DEFAULT'', dns_default config),
       (''UBI_VSOC_NAME'', ubi_vsoc_name config),
       (''UBI_CENTRALIZED_NODE_NAME'', ubi_centralized_node_name config),
       (''NOTIF_MAIL_ADDRESS'', notif_mail_address config),
       (''NTP_BACKUP_SERVER'', ntpbackupserver config),
       (''FMC_REPOSITORY'', fmc_repository config),
       (''FMC_ENTITIES2FILES'', fmc_entities2files config),
       (''SCP_USERNAME'', scp_user config),
       (''SCP_PASSWORD'', scp_pass config),
       (''LOCAL_SERVER_SYNCHRO_TIMEOUT'', Some (fmt_d (local_server_synchro_timeout config))),
       (''NODE_NAME'', node_name config),
       (''THREAD_ID'', Some (snprintf16 (fmt_lu thread_id))),
       (''DEBUG_LEVEL'', Some (snprintf16 (fmt_d (debug config))))]
   }"

section \<open>The indices stay inside the arrays\<close>

text \<open>Before the first section an array is empty and its index is 0.\<close>

definition index_ok :: "'a list \<Rightarrow> nat \<Rightarrow> bool" where
  "index_ok xs i \<longleftrightarrow> i < max 1 (length xs)"

definition indices_ok :: "smsConf \<Rightarrow> bool" where
  "indices_ok c \<longleftrightarrow> index_ok (smsArray c) (sms_master c) \<and> index_ok (smsArray c) (sms_disaster c) \<and>
     index_ok (syslogArray c) (syslog_master c) \<and> index_ok (syslogArray c) (syslog_disaster c)"

lemma indices_ok_cong:
  "length (smsArray c') = length (smsArray c) \<Longrightarrow> length (syslogArray c') = length (syslogArray c) \<Longrightarrow>
   sms_master c' = sms_master c \<Longrightarrow> sms_disaster c' = sms_disaster c \<Longrightarrow>
   syslog_master c' = syslog_master c \<Longrightarrow> syslog_disaster c' = syslog_disaster c \<Longrightarrow> indices_ok c' = indices_ok c"
  by (simp add: indices_ok_def index_ok_def)

lemma indices_ok_default: "indices_ok default_config"
  by (simp add: indices_ok_def index_ok_def default_config_def)

lemma directive_frame:
  assumes "directive cmd arg c = Some (known, c')" "cmd \<notin> {''[sms]'', ''[sms-disaster]'', ''[syslog]'', ''[syslog-disaster]''}"
  shows "length (smsArray c') = length (smsArray c) \<and> length (syslogArray c') = length (syslogArray c) \<and>
    sms_master c' = sms_master c \<and> sms_disaster c' = sms_disaster c \<and>
    syslog_master c' = syslog_master c \<and> syslog_disaster c' = syslog_disaster c"
  using assms(1) unfolding directive_def set_last_sms_def
  by (elim if_SomeE) (use assms(2) in force)+

lemma directive_indices:
  assumes "directive cmd arg c = Some (known, c')" "indices_ok c"
  shows "indices_ok c'"
proof (cases "cmd \<in> {''[sms]'', ''[sms-disaster]'', ''[syslog]'', ''[syslog-disaster]''}")
  case True
  with assms show ?thesis by (auto simp: directive_def indices_ok_def index_ok_def)
next
  case False
  with directive_frame [OF assms(1) False] indices_ok_cong [of c' c] assms(2) show ?thesis by simp
qed

lemma config_lines_indices:
  "config_lines bufs (e, c) = Some (err, c') \<Longrightarrow> indices_ok c \<Longrightarrow> indices_ok c'"
  by (induction bufs arbitrary: e c)
    (auto simp: bind_eq_Some_conv Let_def dest: directive_indices split: prod.splits if_splits)



end
