(* ===== verification/Smsd_Start.thy ===== *)
theory Smsd_Start
  imports Smsd_Main Smsd_Php
begin

text \<open>
  The start of the daemon, \<^verbatim>\<open>main\<close> of \<^verbatim>\<open>smsd.c\<close> up to its accept loop: the command line, the
  configuration, the libraries, the address to bind, the fork, the pools of database contexts, the release of
  the locks of an earlier run, and the scheduled tasks.
\<close>

section \<open>Address and times\<close>

text \<open>
  The address to bind: whether it is refused, the host and the port. Without a colon in the address
  \<^verbatim>\<open>p\<close> is NULL, and a bad port makes the code write before it: \<open>None\<close>.
\<close>

definition bind_spec :: "smsConf \<Rightarrow> (bool \<times> string option \<times> int) option" where
  "bind_spec config = (case haddr config of
       None \<Rightarrow> Some (False, None, port config)
     | Some a \<Rightarrow>
         (case strchr_split (CHR '':'') a of
            None \<Rightarrow> if port config \<le> 0 then None else Some (False, if a = [] then None else Some a, port config)
          | Some (host, p) \<Rightarrow>
              let port' = (if p \<noteq> [] then atoi p else port config)
              in Some (if port' \<le> 0 then (True, Some a, port') else (False, if host = [] then None else Some host, port'))))"

text \<open>\<^verbatim>\<open>strtok(time, ":")\<close>: the tokens that are not empty.\<close>

fun strtok :: "char \<Rightarrow> string \<Rightarrow> string \<Rightarrow> string list" where
  "strtok d cur [] = (if cur = [] then [] else [cur])"
| "strtok d cur (c # s) = (if c = d then (if cur = [] then [] else [cur]) @ strtok d [] s else strtok d (cur @ [c]) s)"

text \<open>
  The three numbers of a time. The string is copied into 15 bytes and every token into 5; a missing
  number is an uninitialised variable that is read.
\<close>

definition parse_hms :: "string option \<Rightarrow> (int \<times> int \<times> int) option" where
  "parse_hms t = do {
     time \<leftarrow> t;
     let ts = strtok (CHR '':'') [] time;
     if length time < 15 \<and> list_all (\<lambda>x. length x < 5) ts \<and> length ts \<ge> 3
     then Some (atoi (ts ! 0), atoi (ts ! 1), atoi (ts ! 2)) else None
   }"

definition int_ok :: "int \<Rightarrow> bool" where
  "int_ok x \<longleftrightarrow> - (2 ^ 31) \<le> x \<and> x < 2 ^ 31"

definition GPUL_MILLI_PER_SEC :: int where "GPUL_MILLI_PER_SEC = 1000"

section \<open>Scheduled tasks\<close>

text \<open>
  The tasks \<^verbatim>\<open>main\<close> starts, with their delay and period in milliseconds: always two, one that keeps the
  database connections alive, and the nightly save. The products are of type \<^verbatim>\<open>int\<close>: \<open>None\<close> when one
  overflows. \<open>to_date\<close> is \<^verbatim>\<open>gpul_sched_milliseconds_to_date\<close>.
\<close>

definition base_tasks :: "(string \<times> int \<times> int) list" where
  "base_tasks = [(''scan-updated'', 60 * GPUL_MILLI_PER_SEC, 60 * GPUL_MILLI_PER_SEC),
     (''update stats'', 58 * GPUL_MILLI_PER_SEC, 60 * GPUL_MILLI_PER_SEC)]"

definition keep_alive_task :: "int \<Rightarrow> (string \<times> int \<times> int) list option" where
  "keep_alive_task db_keep_alive =
     (if db_keep_alive < 0 then Some []
      else if int_ok (db_keep_alive * GPUL_MILLI_PER_SEC)
      then Some [(''keep alive DB'', db_keep_alive * GPUL_MILLI_PER_SEC, db_keep_alive * GPUL_MILLI_PER_SEC)]
      else None)"

definition save_task :: "(int \<Rightarrow> int \<Rightarrow> int \<Rightarrow> int) \<Rightarrow> smsConf \<Rightarrow> (string \<times> int \<times> int) list option" where
  "save_task to_date config =
     (if nightly_save_conf config = 0 then Some []
      else do {
        (hour, min, sec) \<leftarrow> parse_hms (save_all_conf_time config);
        (period_hour, period_min, period_sec) \<leftarrow> parse_hms (save_all_conf_freq config);
        let freq = period_hour * 3600 + period_min * 60 + period_sec;
        if int_ok (freq * GPUL_MILLI_PER_SEC)
        then Some [(''save all conf'', to_date hour min sec, freq * GPUL_MILLI_PER_SEC)] else None
      })"

text \<open>\<^verbatim>\<open>gpul_sched_new_task\<close> for each of them; the first failure ends the daemon.\<close>

fun start_tasks :: "'w ops \<Rightarrow> (string \<times> int \<times> int) list \<Rightarrow> 'w smsd \<Rightarrow> bool \<times> 'w smsd" where
  "start_tasks ops [] s = (True, s)"
| "start_tasks ops ((name, delay, period) # ts) s =
     (let (ok, w) = x_sched_new_task ops name delay period (world s);
          s = log_call (NewTask name delay period ok) (s\<lparr>world := w\<rparr>)
      in if ok then start_tasks ops ts s else (False, s))"

section \<open>The start\<close>

definition resetBdFlag :: "'w ops \<Rightarrow> 'w smsd \<Rightarrow> (int \<times> 'w smsd) option" where
  "resetBdFlag ops s = do {
     let (db_sms_ctx, s) = sms_db_find_ctx ops DB_SMS s;
     ((ret, _), s) \<leftarrow> HA_SMSSQL_UnLockAll ops db_sms_ctx (x_get_error_message ops ERR_SD_INTRUPDT) s;
     Some (if ret = ERR_DB_FAILED then -1 else 0, sms_db_release_ctx ops (Some db_sms_ctx) s)
   }"

text \<open>What the calls of \<^verbatim>\<open>main\<close> to the libraries and to the system answer.\<close>

record start_answers =
  a_log_init :: bool
  a_db_init :: int
  a_router_init :: int
  a_php_init :: int
  a_bind :: "string option \<Rightarrow> int \<Rightarrow> int"
  a_signals :: int
  a_fork :: int
  a_prctl :: int
  a_sched_init :: bool
  a_alloc_ctx :: "nat \<Rightarrow> int \<Rightarrow> int"
  a_db_keep_alive :: int
  a_to_date :: "int \<Rightarrow> int \<Rightarrow> int \<Rightarrow> int"

text \<open>\<^verbatim>\<open>strcasecmp(argv[1], "-c")\<close>: \<open>None\<close> is the usage message and \<^verbatim>\<open>exit(-1)\<close>.\<close>

definition config_path :: "string list \<Rightarrow> string option" where
  "config_path argv =
     (if length argv > 2 then (if map c_tolower (argv ! 1) = ''-c'' then Some (argv ! 2) else None)
      else Some ''smsd.conf'')"

text \<open>Whether both pools could be allocated; the second one is not tried when the first fails.\<close>

definition InitDBSqlCtx :: "start_answers \<Rightarrow> smsConf \<Rightarrow> bool" where
  "InitDBSqlCtx a config \<longleftrightarrow>
     a_alloc_ctx a DB_SMS (SMSnumContext config) = 0 \<and> a_alloc_ctx a DB_CUST (CUSTnumContext config) = 0"

datatype start_result = Exit int | Loop daemon

text \<open>The child of the fork.\<close>

definition child_start ::
  "'w ops \<Rightarrow> start_answers \<Rightarrow> smsConf \<Rightarrow> 'w smsd \<Rightarrow> (start_result \<times> 'w smsd) option" where
  "child_start ops a config s =
     (if a_prctl a < 0 \<or> \<not> a_sched_init a \<or> \<not> InitDBSqlCtx a config then Some (Exit (-1), s)
      else do {
        (ret, s) \<leftarrow> resetBdFlag ops s;
        if ret \<noteq> 0 then Some (Exit (-1), s)
        else do {
          let (ok, s) = start_tasks ops base_tasks s;
          if \<not> ok then Some (Exit (-1), s)
          else do {
            ts \<leftarrow> keep_alive_task (a_db_keep_alive a);
            let (ok, s) = start_tasks ops ts s;
            if \<not> ok then Some (Exit (-1), s)
            else do {
              ts \<leftarrow> save_task (a_to_date a) config;
              let (ok, s) = start_tasks ops ts s;
              if \<not> ok then Some (Exit (-1), s)
              else Some (Loop (start_daemon config zero_stat), s)
            }
          }
        }
      })"

text \<open>
  \<^verbatim>\<open>main\<close>: \<open>files\<close> is the content of a file that can be opened. The father and a process whose fork failed
  both exit with 0.
\<close>

definition main_start ::
  "'w ops \<Rightarrow> 'h hash_ops \<Rightarrow> bool \<Rightarrow> (string \<Rightarrow> string option) \<Rightarrow> start_answers \<Rightarrow> string list \<Rightarrow> 'w smsd \<Rightarrow>
   (start_result \<times> 'w smsd) option" where
  "main_start ops h zeroed files a argv s = (case config_path argv of
       None \<Rightarrow> Some (Exit (-1), s)
     | Some path \<Rightarrow> do {
         loaded \<leftarrow> load_config zeroed (files path);
         case loaded of
           None \<Rightarrow> Some (Exit (-1), s)
         | Some config \<Rightarrow>
             if (logfile config \<noteq> None \<and> \<not> a_log_init a) \<or> a_db_init a \<noteq> 0 \<or> a_router_init a \<noteq> 0 \<or> VerbInit h = None \<or>
                a_php_init a \<noteq> 0
             then Some (Exit (-1), s)
             else do {
               (err, host, p) \<leftarrow> bind_spec config;
               let config = config\<lparr>haddr := host, port := p\<rparr>;
               if err \<or> a_bind a host p < 0 then Some (Exit (-1), s)
               else if a_signals a \<noteq> 0 then Some (Exit (-1), s)
               else if a_fork a \<noteq> 0 then Some (Exit 0, s)
               else child_start ops a config s
             }
       })"

section \<open>What a started daemon has done\<close>

lemma resetBdFlag_trace:
  assumes "resetBdFlag ops s = Some (ret, t)"
  shows "\<exists>ds. calls t = calls s @ ds \<and> (\<forall>hs. ctx_run hs ds = Some hs) \<and> filter task_started ds = [] \<and>
    (ret = 0 \<longrightarrow> (\<exists>c r. Sql ''UnLockAll'' c r \<in> set ds \<and> r \<notin> {ERR_DB_FAILED, ERR_DB_CONNECTION_LOST}))"
proof -
  obtain c u r x v where u: "sms_db_find_ctx ops DB_SMS s = (c, u)"
    and v: "HA_SMSSQL_UnLockAll ops c (x_get_error_message ops ERR_SD_INTRUPDT) u = Some ((r, x), v)"
    and t: "t = sms_db_release_ctx ops (Some c) v" "ret = (if r = ERR_DB_FAILED then -1 else 0)"
    using assms unfolding resetBdFlag_def by (auto simp: returned)
  obtain n ds where ds: "calls v = calls u @ concat (replicate n [Sql ''UnLockAll'' c ERR_DB_CONNECTION_LOST, ReallocCtx c DB_SMS]) @ ds"
    and alt: "ds = [Sql ''UnLockAll'' c r] \<or> ds = [] \<and> r = ERR_DB_FAILED"
    using UnLockAll.trace [OF v] by blast
  let ?lost = "concat (replicate n [Sql ''UnLockAll'' c ERR_DB_CONNECTION_LOST, ReallocCtx c DB_SMS])"
  have lost: "filter task_started ?lost = []" "list_all ctx_neutral ?lost" by (induction n) auto
  have calls: "calls t = calls s @ (FindCtx DB_SMS c # ?lost @ ds @ [ReleaseCtx (Some c)])"
    using sms_db_find_ctx_D [OF u] ds t by simp
  have "list_all ctx_neutral (?lost @ ds)" using lost(2) alt by auto
  from ctx_run_neutral [OF this] have "ctx_run hs (FindCtx DB_SMS c # ?lost @ ds @ [ReleaseCtx (Some c)]) = Some hs" for hs
    by (simp add: ctx_run_append flip: append_assoc)
  moreover have "\<exists>c' r'. Sql ''UnLockAll'' c' r' \<in> set (FindCtx DB_SMS c # ?lost @ ds @ [ReleaseCtx (Some c)]) \<and>
    r' \<notin> {ERR_DB_FAILED, ERR_DB_CONNECTION_LOST}" if "ret = 0"
    using that t(2) alt UnLockAll.frame [OF v] by (intro exI [of _ c] exI [of _ r]) (auto split: if_splits)
  moreover have "filter task_started (FindCtx DB_SMS c # ?lost @ ds @ [ReleaseCtx (Some c)]) = []"
    using lost(1) alt by auto
  ultimately show ?thesis using calls by blast
qed

lemma start_tasks_ok:
  "start_tasks ops ts s = (True, t) \<Longrightarrow> calls t = calls s @ map (\<lambda>(n, d, p). NewTask n d p True) ts"
  by (induction ops ts s rule: start_tasks.induct) (auto simp: Let_def log_call_def split: prod.splits if_splits)

lemma new_tasks_only:
  "filter task_started (map (\<lambda>(n, d, p). NewTask n d p True) ts) = map (\<lambda>(n, d, p). NewTask n d p True) ts"
  "list_all ctx_neutral (map (\<lambda>(n, d, p). NewTask n d p True) ts)"
  by (induction ts) auto

lemma child_start_loop:
  assumes "child_start ops a config s = Some (Loop d, t)"
  shows "\<exists>ds keep save. calls t = calls s @ ds \<and> (\<forall>hs. ctx_run hs ds = Some hs) \<and>
    keep_alive_task (a_db_keep_alive a) = Some keep \<and> save_task (a_to_date a) config = Some save \<and>
    filter task_started ds = map (\<lambda>(n, d, p). NewTask n d p True) (base_tasks @ keep @ save) \<and>
    (\<exists>c r. Sql ''UnLockAll'' c r \<in> set ds \<and> r \<notin> {ERR_DB_FAILED, ERR_DB_CONNECTION_LOST}) \<and> d = start_daemon config zero_stat"
proof -
  obtain u v keep w save where u: "resetBdFlag ops s = Some (0, u)" and v: "start_tasks ops base_tasks u = (True, v)"
    and keep: "keep_alive_task (a_db_keep_alive a) = Some keep" and w: "start_tasks ops keep v = (True, w)"
    and save: "save_task (a_to_date a) config = Some save" and t: "start_tasks ops save w = (True, t)"
    and d: "d = start_daemon config zero_stat"
    using assms unfolding child_start_def by (auto simp: returned)
  obtain ds where ds: "calls u = calls s @ ds" "\<And>hs. ctx_run hs ds = Some hs" "filter task_started ds = []"
    "\<exists>c r. Sql ''UnLockAll'' c r \<in> set ds \<and> r \<notin> {ERR_DB_FAILED, ERR_DB_CONNECTION_LOST}"
    using resetBdFlag_trace [OF u] by auto
  let ?new = "map (\<lambda>(n, d, p). NewTask n d p True) (base_tasks @ keep @ save)"
  have "calls t = calls s @ (ds @ ?new)"
    using ds(1) start_tasks_ok [OF v] start_tasks_ok [OF w] start_tasks_ok [OF t] by simp
  moreover have "ctx_run hs (ds @ ?new) = Some hs" for hs
    using ds(2) ctx_run_neutral [OF new_tasks_only(2) [of "base_tasks @ keep @ save"]] by (simp add: ctx_run_append)
  moreover have "filter task_started (ds @ ?new) = ?new"
    using ds(3) new_tasks_only(1) [of "base_tasks @ keep @ save"] by simp
  ultimately show ?thesis using ds(4) keep save d by (intro exI [of _ "ds @ ?new"] exI [of _ keep] exI [of _ save]) auto
qed

text \<open>
  C18. A daemon enters its accept loop only when it is ready: the configuration file was accepted and its
  address bound, the verbs are in their table, the update locks of an earlier run were released, and exactly
  the scan, the statistics, and the configured keep-alive and nightly save tasks were started; the database
  contexts it used are given back. On every other path it exits with 0 or -1 without entering the loop.
\<close>

theorem main_start_ready:
  assumes "main_start ops h zeroed files a argv s = Some (res, t)"
  shows "case res of Exit n \<Rightarrow> n = 0 \<and> a_fork a \<noteq> 0 \<or> n = -1
    | Loop d \<Rightarrow> a_fork a = 0 \<and> VerbInit h \<noteq> None \<and>
        (\<exists>path config host p ds keep save.
          config_path argv = Some path \<and> load_config zeroed (files path) = Some (Some config) \<and>
          bind_spec config = Some (False, host, p) \<and> 0 \<le> a_bind a host p \<and>
          d = start_daemon (config\<lparr>haddr := host, port := p\<rparr>) zero_stat \<and>
          calls t = calls s @ ds \<and> ctx_run [] ds = Some [] \<and>
          (\<exists>c r. Sql ''UnLockAll'' c r \<in> set ds \<and> r \<notin> {ERR_DB_FAILED, ERR_DB_CONNECTION_LOST}) \<and>
          keep_alive_task (a_db_keep_alive a) = Some keep \<and>
          save_task (a_to_date a) (config\<lparr>haddr := host, port := p\<rparr>) = Some save \<and>
          filter task_started ds = map (\<lambda>(n, d, p). NewTask n d p True) (base_tasks @ keep @ save))"
proof -
  consider (early) n where "res = Exit n" "n = 0 \<and> a_fork a \<noteq> 0 \<or> n = -1"
    | (child) path config host p where "config_path argv = Some path" "load_config zeroed (files path) = Some (Some config)"
        "bind_spec config = Some (False, host, p)" "0 \<le> a_bind a host p" "VerbInit h \<noteq> None" "a_fork a = 0"
        "child_start ops a (config\<lparr>haddr := host, port := p\<rparr>) s = Some (res, t)"
    using assms unfolding main_start_def by (auto simp: returned split: option.splits if_splits)
  then show ?thesis
  proof cases
    case early
    then show ?thesis by simp
  next
    case child
    show ?thesis
    proof (cases res)
      case (Exit n)
      with child(7) show ?thesis unfolding child_start_def by (auto simp: returned)
    next
      case (Loop d)
      with child(1-6) child_start_loop [OF child(7) [unfolded Loop]] show ?thesis by auto
    qed
  qed
qed

theorem main_start_ready_witness:
  "case main_start mem_ops list_hash True (\<lambda>f. if f = ''/etc/smsd.conf'' then Some (text_lines sample_config) else None)
     \<lparr>a_log_init = True, a_db_init = 0, a_router_init = 0, a_php_init = 0, a_bind = (\<lambda>host p. 3), a_signals = 0, a_fork = 0,
      a_prctl = 0, a_sched_init = True, a_alloc_ctx = (\<lambda>db n. 0), a_db_keep_alive = 30, a_to_date = (\<lambda>h m sc. 0)\<rparr>
     [''smsd'', ''-C'', ''/etc/smsd.conf''] (mem_task mem_world) of
   Some (Loop d, t) \<Rightarrow> \<exists>ds. calls t = ds \<and> ctx_run [] ds = Some [] \<and> (\<exists>c r. Sql ''UnLockAll'' c r \<in> set ds)
   | _ \<Rightarrow> False"
proof -
  let ?files = "\<lambda>f. if f = ''/etc/smsd.conf'' then Some (text_lines sample_config) else None"
  let ?a = "\<lparr>a_log_init = True, a_db_init = 0, a_router_init = 0, a_php_init = 0, a_bind = (\<lambda>host p. 3), a_signals = 0, a_fork = 0,
      a_prctl = 0, a_sched_init = True, a_alloc_ctx = (\<lambda>db n. 0), a_db_keep_alive = 30, a_to_date = (\<lambda>h m sc. 0)\<rparr>"
  let ?s = "mem_task mem_world"
  have path: "config_path [''smsd'', ''-C'', ''/etc/smsd.conf''] = Some ''/etc/smsd.conf''" by code_simp
  obtain c where c: "createConfig True (text_lines sample_config) = Some (Some c)" "logfile c = None"
    "bind_spec c = Some (False, None, 28169)" "nightly_save_conf c = 0"
    using sample_config_accepted by (auto simp: bind_spec_def)
  have tasks: "case resetBdFlag mem_ops ?s of None \<Rightarrow> False | Some (r, u) \<Rightarrow> r = 0 \<and>
      (case start_tasks mem_ops base_tasks u of (ok, v) \<Rightarrow> ok \<and>
         fst (start_tasks mem_ops [(''keep alive DB'', 30000, 30000)] v))" by code_simp
  have "main_start mem_ops list_hash True ?files ?a [''smsd'', ''-C'', ''/etc/smsd.conf''] ?s =
    child_start mem_ops ?a (c\<lparr>haddr := None, port := 28169\<rparr>) ?s"
    using path c list_hash_init by (simp add: main_start_def load_config_def)
  moreover have "\<exists>d t. child_start mem_ops ?a (c\<lparr>haddr := None, port := 28169\<rparr>) ?s = Some (Loop d, t)"
    using tasks c(4) by (auto simp: child_start_def InitDBSqlCtx_def keep_alive_task_def save_task_def int_ok_def
      GPUL_MILLI_PER_SEC_def split: option.splits prod.splits)
  ultimately obtain d t where run: "main_start mem_ops list_hash True ?files ?a [''smsd'', ''-C'', ''/etc/smsd.conf''] ?s = Some (Loop d, t)"
    by metis
  from main_start_ready [OF run] have "\<exists>ds. calls t = calls ?s @ ds \<and> ctx_run [] ds = Some [] \<and> (\<exists>c r. Sql ''UnLockAll'' c r \<in> set ds)"
    by auto
  with run show ?thesis by (simp add: mem_task_def)
qed

end
