(* ===== verification/Smsd_Wrappers.thy ===== *)
theory Smsd_Wrappers
  imports Smsd_Prelude
begin

text \<open>
  The macros of \<^verbatim>\<open>sms_php_wrappers.h\<close>: each makes a PHP function of a C function; \<^verbatim>\<open>php.c\<close> uses 21 of them.
  \<^verbatim>\<open>zend_parse_parameters\<close> belongs to the Zend engine and is the argument \<open>zpp\<close>: from the specification
  string and the arguments of the call it gives the converted values, or \<open>None\<close> for \<^verbatim>\<open>FAILURE\<close>. An \<open>l\<close> converts
  to a 64-bit \<^verbatim>\<open>long\<close>, an \<open>s\<close> to a string of bytes, of which the C function sees the part before a NUL byte,
  an \<open>a\<close> to an array and a \<open>b\<close> to a truth value.

  The state \<open>'s\<close> is what the C functions act on; \<open>None\<close> is an undefined execution.
\<close>

section \<open>PHP values\<close>

datatype zkey = ZIndex int | ZName string

datatype zval =
    ZNull
  | ZBool bool
  | ZLong "64 word"
  | ZStr string
  | ZArr "(zkey \<times> zval) list"

type_synonym zarr = "(zkey \<times> zval) list"
type_synonym zpp = "string \<Rightarrow> zval list \<Rightarrow> zval list option"
type_synonym 's php_function = "zval list \<Rightarrow> 's \<Rightarrow> (zval \<times> 's) option"

text \<open>What C reads of the bytes of a PHP string.\<close>

definition c_str :: "string \<Rightarrow> string" where
  "c_str s = takeWhile (\<lambda>c. c \<noteq> CHR 0x00) s"

text \<open>\<^verbatim>\<open>zend_hash_index_find\<close> and \<^verbatim>\<open>zend_hash_find\<close> on a PHP array.\<close>

definition zend_hash_index_find :: "zarr \<Rightarrow> nat \<Rightarrow> zval option" where
  "zend_hash_index_find arr i = map_of arr (ZIndex (int i))"

definition zend_hash_find :: "zarr \<Rightarrow> string \<Rightarrow> zval option" where
  "zend_hash_find arr key = map_of arr (ZName key)"

text \<open>\<^verbatim>\<open>Z_STRVAL_P\<close>, defined for strings only.\<close>

fun Z_STRVAL_P :: "zval \<Rightarrow> string option" where
  "Z_STRVAL_P (ZStr v) = Some (c_str v)"
| "Z_STRVAL_P _ = None"

fun Z_ARRVAL_P :: "zval \<Rightarrow> zarr option" where
  "Z_ARRVAL_P (ZArr v) = Some v"
| "Z_ARRVAL_P _ = None"

text \<open>\<^verbatim>\<open>RETURN_NULL\<close>, \<^verbatim>\<open>RETURN_LONG\<close>, \<^verbatim>\<open>RETURN_TRUE\<close> and \<^verbatim>\<open>RETURN_FALSE\<close>, \<^verbatim>\<open>RETVAL_STRING\<close> of a pointer that may be NULL, and
  a plain \<^verbatim>\<open>return\<close>, which leaves the return value null.\<close>

definition RETURN_NULL :: "'s \<Rightarrow> (zval \<times> 's) option" where
  "RETURN_NULL s = Some (ZNull, s)"

definition return_void :: "'s \<Rightarrow> (zval \<times> 's) option" where
  "return_void s = Some (ZNull, s)"

definition RETURN_LONG :: "64 word \<Rightarrow> 's \<Rightarrow> (zval \<times> 's) option" where
  "RETURN_LONG l s = Some (ZLong l, s)"

definition RETURN_BOOL :: "bool \<Rightarrow> 's \<Rightarrow> (zval \<times> 's) option" where
  "RETURN_BOOL b s = Some (ZBool b, s)"

definition RETVAL_STRING :: "string option \<Rightarrow> 's \<Rightarrow> (zval \<times> 's) option" where
  "RETVAL_STRING ret s = (case ret of Some t \<Rightarrow> Some (ZStr t, s) | None \<Rightarrow> RETURN_NULL s)"

text \<open>A \<^verbatim>\<open>long\<close> assigned to an \<^verbatim>\<open>int\<close> variable and read back as a \<^verbatim>\<open>long\<close>.\<close>

definition int_var :: "64 word \<Rightarrow> 64 word" where
  "int_var l = scast (ucast l :: 32 word)"

section \<open>The macros\<close>

text \<open>
  The macros in the order of the header. \<^verbatim>\<open>PHP_s_\<close> and \<^verbatim>\<open>PHP_sf_\<close> differ in who owns the text that the C function
  returns, which the script does not see.
\<close>

definition PHP_s_i :: "zpp \<Rightarrow> (64 word \<Rightarrow> 's \<Rightarrow> (string option \<times> 's) option) \<Rightarrow> 's php_function" where
  "PHP_s_i zpp fname args s = (case zpp ''l'' args of
       None \<Rightarrow> RETURN_NULL s
     | Some [ZLong a] \<Rightarrow> do { (ret, s) \<leftarrow> fname a s; RETVAL_STRING ret s }
     | _ \<Rightarrow> None)"

definition PHP_s_ii :: "zpp \<Rightarrow> (64 word \<Rightarrow> 64 word \<Rightarrow> 's \<Rightarrow> (string option \<times> 's) option) \<Rightarrow> 's php_function" where
  "PHP_s_ii zpp fname args s = (case zpp ''ll'' args of
       None \<Rightarrow> RETURN_NULL s
     | Some [ZLong a, ZLong b] \<Rightarrow> do { (ret, s) \<leftarrow> fname a b s; RETVAL_STRING ret s }
     | _ \<Rightarrow> None)"

definition PHP_sf_i :: "zpp \<Rightarrow> (64 word \<Rightarrow> 's \<Rightarrow> (string option \<times> 's) option) \<Rightarrow> 's php_function" where
  "PHP_sf_i zpp fname args s = (case zpp ''l'' args of
       None \<Rightarrow> RETURN_NULL s
     | Some [ZLong a] \<Rightarrow> do { (ret, s) \<leftarrow> fname a s; RETVAL_STRING ret s }
     | _ \<Rightarrow> None)"

definition PHP_sf_is :: "zpp \<Rightarrow> (64 word \<Rightarrow> string \<Rightarrow> 's \<Rightarrow> (string option \<times> 's) option) \<Rightarrow> 's php_function" where
  "PHP_sf_is zpp fname args s = (case zpp ''ls'' args of
       None \<Rightarrow> RETURN_NULL s
     | Some [ZLong a, ZStr b] \<Rightarrow> do { (ret, s) \<leftarrow> fname a (c_str b) s; RETVAL_STRING ret s }
     | _ \<Rightarrow> None)"

definition PHP_sf_s :: "zpp \<Rightarrow> (string \<Rightarrow> 's \<Rightarrow> (string option \<times> 's) option) \<Rightarrow> 's php_function" where
  "PHP_sf_s zpp fname args s = (case zpp ''s'' args of
       None \<Rightarrow> RETURN_NULL s
     | Some [ZStr a] \<Rightarrow> do { (ret, s) \<leftarrow> fname (c_str a) s; RETVAL_STRING ret s }
     | _ \<Rightarrow> None)"

definition PHP_s_iis :: "zpp \<Rightarrow> (64 word \<Rightarrow> 64 word \<Rightarrow> string \<Rightarrow> 's \<Rightarrow> (string option \<times> 's) option) \<Rightarrow> 's php_function" where
  "PHP_s_iis zpp fname args s = (case zpp ''lls'' args of
       None \<Rightarrow> RETURN_NULL s
     | Some [ZLong a, ZLong b, ZStr c] \<Rightarrow>
         do { (ret, s) \<leftarrow> fname a b (c_str c) s; RETVAL_STRING ret s }
     | _ \<Rightarrow> None)"

definition PHP_sf_ii :: "zpp \<Rightarrow> (64 word \<Rightarrow> 64 word \<Rightarrow> 's \<Rightarrow> (string option \<times> 's) option) \<Rightarrow> 's php_function" where
  "PHP_sf_ii zpp fname args s = (case zpp ''ll'' args of
       None \<Rightarrow> RETURN_NULL s
     | Some [ZLong a, ZLong b] \<Rightarrow> do { (ret, s) \<leftarrow> fname a b s; RETVAL_STRING ret s }
     | _ \<Rightarrow> None)"

definition PHP_sf_iiss :: "zpp \<Rightarrow> (64 word \<Rightarrow> 64 word \<Rightarrow> string \<Rightarrow> string \<Rightarrow> 's \<Rightarrow> (string option \<times> 's) option) \<Rightarrow> 's php_function" where
  "PHP_sf_iiss zpp fname args s = (case zpp ''llss'' args of
       None \<Rightarrow> RETURN_NULL s
     | Some [ZLong a, ZLong b, ZStr c, ZStr d] \<Rightarrow>
         do { (ret, s) \<leftarrow> fname a b (c_str c) (c_str d) s; RETVAL_STRING ret s }
     | _ \<Rightarrow> None)"

definition PHP_v_iisssss :: "zpp \<Rightarrow> (64 word \<Rightarrow> 64 word \<Rightarrow> string \<Rightarrow> string \<Rightarrow> string \<Rightarrow> string \<Rightarrow> string \<Rightarrow> 's \<Rightarrow> 's option) \<Rightarrow> 's php_function" where
  "PHP_v_iisssss zpp fname args s = (case zpp ''llsssss'' args of
       None \<Rightarrow> return_void s
     | Some [ZLong a, ZLong b, ZStr c, ZStr d, ZStr e, ZStr f, ZStr g] \<Rightarrow>
         do { s \<leftarrow> fname a b (c_str c) (c_str d) (c_str e) (c_str f) (c_str g) s; return_void s }
     | _ \<Rightarrow> None)"

definition PHP_v_iss :: "zpp \<Rightarrow> (64 word \<Rightarrow> string \<Rightarrow> string \<Rightarrow> 's \<Rightarrow> 's option) \<Rightarrow> 's php_function" where
  "PHP_v_iss zpp fname args s = (case zpp ''lss'' args of
       None \<Rightarrow> return_void s
     | Some [ZLong a, ZStr b, ZStr c] \<Rightarrow> do { s \<leftarrow> fname a (c_str b) (c_str c) s; return_void s }
     | _ \<Rightarrow> None)"

definition PHP_v_i :: "zpp \<Rightarrow> (64 word \<Rightarrow> 's \<Rightarrow> 's option) \<Rightarrow> 's php_function" where
  "PHP_v_i zpp fname args s = (case zpp ''l'' args of
       None \<Rightarrow> return_void s
     | Some [ZLong a] \<Rightarrow> do { s \<leftarrow> fname a s; return_void s }
     | _ \<Rightarrow> None)"

definition PHP_v_ii :: "zpp \<Rightarrow> (64 word \<Rightarrow> 64 word \<Rightarrow> 's \<Rightarrow> 's option) \<Rightarrow> 's php_function" where
  "PHP_v_ii zpp fname args s = (case zpp ''ll'' args of
       None \<Rightarrow> return_void s
     | Some [ZLong a, ZLong b] \<Rightarrow> do { s \<leftarrow> fname a b s; return_void s }
     | _ \<Rightarrow> None)"

definition PHP_v_issi :: "zpp \<Rightarrow> (64 word \<Rightarrow> string \<Rightarrow> string \<Rightarrow> 64 word \<Rightarrow> 's \<Rightarrow> 's option) \<Rightarrow> 's php_function" where
  "PHP_v_issi zpp fname args s = (case zpp ''lssl'' args of
       None \<Rightarrow> return_void s
     | Some [ZLong a, ZStr b, ZStr c, ZLong d] \<Rightarrow>
         do { s \<leftarrow> fname a (c_str b) (c_str c) d s; return_void s }
     | _ \<Rightarrow> None)"

definition PHP_v_isss :: "zpp \<Rightarrow> (64 word \<Rightarrow> string \<Rightarrow> string \<Rightarrow> string \<Rightarrow> 's \<Rightarrow> 's option) \<Rightarrow> 's php_function" where
  "PHP_v_isss zpp fname args s = (case zpp ''lsss'' args of
       None \<Rightarrow> return_void s
     | Some [ZLong a, ZStr b, ZStr c, ZStr d] \<Rightarrow>
         do { s \<leftarrow> fname a (c_str b) (c_str c) (c_str d) s; return_void s }
     | _ \<Rightarrow> None)"

definition PHP_v_issssss :: "zpp \<Rightarrow> (64 word \<Rightarrow> string \<Rightarrow> string \<Rightarrow> string \<Rightarrow> string \<Rightarrow> string \<Rightarrow> string \<Rightarrow> 's \<Rightarrow> 's option) \<Rightarrow> 's php_function" where
  "PHP_v_issssss zpp fname args s = (case zpp ''lssssss'' args of
       None \<Rightarrow> return_void s
     | Some [ZLong a, ZStr b, ZStr c, ZStr d, ZStr e, ZStr f, ZStr g] \<Rightarrow>
         do { s \<leftarrow> fname a (c_str b) (c_str c) (c_str d) (c_str e) (c_str f) (c_str g) s; return_void s }
     | _ \<Rightarrow> None)"

definition PHP_v_isssss :: "zpp \<Rightarrow> (64 word \<Rightarrow> string \<Rightarrow> string \<Rightarrow> string \<Rightarrow> string \<Rightarrow> string \<Rightarrow> 's \<Rightarrow> 's option) \<Rightarrow> 's php_function" where
  "PHP_v_isssss zpp fname args s = (case zpp ''lsssss'' args of
       None \<Rightarrow> return_void s
     | Some [ZLong a, ZStr b, ZStr c, ZStr d, ZStr e, ZStr f] \<Rightarrow>
         do { s \<leftarrow> fname a (c_str b) (c_str c) (c_str d) (c_str e) (c_str f) s; return_void s }
     | _ \<Rightarrow> None)"

definition PHP_v_issss :: "zpp \<Rightarrow> (64 word \<Rightarrow> string \<Rightarrow> string \<Rightarrow> string \<Rightarrow> string \<Rightarrow> 's \<Rightarrow> 's option) \<Rightarrow> 's php_function" where
  "PHP_v_issss zpp fname args s = (case zpp ''lssss'' args of
       None \<Rightarrow> return_void s
     | Some [ZLong a, ZStr b, ZStr c, ZStr d, ZStr e] \<Rightarrow>
         do { s \<leftarrow> fname a (c_str b) (c_str c) (c_str d) (c_str e) s; return_void s }
     | _ \<Rightarrow> None)"

definition PHP_v_isis :: "zpp \<Rightarrow> (64 word \<Rightarrow> string \<Rightarrow> 64 word \<Rightarrow> string \<Rightarrow> 's \<Rightarrow> 's option) \<Rightarrow> 's php_function" where
  "PHP_v_isis zpp fname args s = (case zpp ''lsls'' args of
       None \<Rightarrow> return_void s
     | Some [ZLong a, ZStr b, ZLong c, ZStr d] \<Rightarrow>
         do { s \<leftarrow> fname a (c_str b) c (c_str d) s; return_void s }
     | _ \<Rightarrow> None)"

definition PHP_v_isiss :: "zpp \<Rightarrow> (64 word \<Rightarrow> string \<Rightarrow> 64 word \<Rightarrow> string \<Rightarrow> string \<Rightarrow> 's \<Rightarrow> 's option) \<Rightarrow> 's php_function" where
  "PHP_v_isiss zpp fname args s = (case zpp ''lslss'' args of
       None \<Rightarrow> return_void s
     | Some [ZLong a, ZStr b, ZLong c, ZStr d, ZStr e] \<Rightarrow>
         do { s \<leftarrow> fname a (c_str b) c (c_str d) (c_str e) s; return_void s }
     | _ \<Rightarrow> None)"

definition PHP_v_isisss :: "zpp \<Rightarrow> (64 word \<Rightarrow> string \<Rightarrow> 64 word \<Rightarrow> string \<Rightarrow> string \<Rightarrow> string \<Rightarrow> 's \<Rightarrow> 's option) \<Rightarrow> 's php_function" where
  "PHP_v_isisss zpp fname args s = (case zpp ''lslsss'' args of
       None \<Rightarrow> return_void s
     | Some [ZLong a, ZStr b, ZLong c, ZStr d, ZStr e, ZStr f] \<Rightarrow>
         do { s \<leftarrow> fname a (c_str b) c (c_str d) (c_str e) (c_str f) s; return_void s }
     | _ \<Rightarrow> None)"

definition PHP_v_isissss :: "zpp \<Rightarrow> (64 word \<Rightarrow> string \<Rightarrow> 64 word \<Rightarrow> string \<Rightarrow> string \<Rightarrow> string \<Rightarrow> string \<Rightarrow> 's \<Rightarrow> 's option) \<Rightarrow> 's php_function" where
  "PHP_v_isissss zpp fname args s = (case zpp ''lslssss'' args of
       None \<Rightarrow> return_void s
     | Some [ZLong a, ZStr b, ZLong c, ZStr d, ZStr e, ZStr f, ZStr g] \<Rightarrow>
         do { s \<leftarrow> fname a (c_str b) c (c_str d) (c_str e) (c_str f) (c_str g) s; return_void s }
     | _ \<Rightarrow> None)"

definition PHP_s_s :: "zpp \<Rightarrow> (string \<Rightarrow> 's \<Rightarrow> (string option \<times> 's) option) \<Rightarrow> 's php_function" where
  "PHP_s_s zpp fname args s = (case zpp ''s'' args of
       None \<Rightarrow> RETURN_NULL s
     | Some [ZStr a] \<Rightarrow> do { (ret, s) \<leftarrow> fname (c_str a) s; RETVAL_STRING ret s }
     | _ \<Rightarrow> None)"

definition PHP_s_ss :: "zpp \<Rightarrow> (string \<Rightarrow> string \<Rightarrow> 's \<Rightarrow> (string option \<times> 's) option) \<Rightarrow> 's php_function" where
  "PHP_s_ss zpp fname args s = (case zpp ''ss'' args of
       None \<Rightarrow> RETURN_NULL s
     | Some [ZStr a, ZStr b] \<Rightarrow> do { (ret, s) \<leftarrow> fname (c_str a) (c_str b) s; RETVAL_STRING ret s }
     | _ \<Rightarrow> None)"

definition PHP_sf_ss :: "zpp \<Rightarrow> (string \<Rightarrow> string \<Rightarrow> 's \<Rightarrow> (string option \<times> 's) option) \<Rightarrow> 's php_function" where
  "PHP_sf_ss zpp fname args s = (case zpp ''ss'' args of
       None \<Rightarrow> RETURN_NULL s
     | Some [ZStr a, ZStr b] \<Rightarrow> do { (ret, s) \<leftarrow> fname (c_str a) (c_str b) s; RETVAL_STRING ret s }
     | _ \<Rightarrow> None)"

definition PHP_i_s :: "zpp \<Rightarrow> (string \<Rightarrow> 's \<Rightarrow> (64 word \<times> 's) option) \<Rightarrow> 's php_function" where
  "PHP_i_s zpp fname args s = (case zpp ''s'' args of
       None \<Rightarrow> RETURN_NULL s
     | Some [ZStr a] \<Rightarrow> do { (ret, s) \<leftarrow> fname (c_str a) s; RETURN_LONG (int_var ret) s }
     | _ \<Rightarrow> None)"

definition PHP_i_ss :: "zpp \<Rightarrow> (string \<Rightarrow> string \<Rightarrow> 's \<Rightarrow> (64 word \<times> 's) option) \<Rightarrow> 's php_function" where
  "PHP_i_ss zpp fname args s = (case zpp ''ss'' args of
       None \<Rightarrow> RETURN_NULL s
     | Some [ZStr a, ZStr b] \<Rightarrow>
         do { (ret, s) \<leftarrow> fname (c_str a) (c_str b) s; RETURN_LONG (int_var ret) s }
     | _ \<Rightarrow> None)"

definition PHP_i_sss :: "zpp \<Rightarrow> (string \<Rightarrow> string \<Rightarrow> string \<Rightarrow> 's \<Rightarrow> (64 word \<times> 's) option) \<Rightarrow> 's php_function" where
  "PHP_i_sss zpp fname args s = (case zpp ''sss'' args of
       None \<Rightarrow> RETURN_NULL s
     | Some [ZStr a, ZStr b, ZStr c] \<Rightarrow>
         do { (ret, s) \<leftarrow> fname (c_str a) (c_str b) (c_str c) s; RETURN_LONG (int_var ret) s }
     | _ \<Rightarrow> None)"

definition PHP_sf_iss :: "zpp \<Rightarrow> (64 word \<Rightarrow> string \<Rightarrow> string \<Rightarrow> 's \<Rightarrow> (string option \<times> 's) option) \<Rightarrow> 's php_function" where
  "PHP_sf_iss zpp fname args s = (case zpp ''lss'' args of
       None \<Rightarrow> RETURN_NULL s
     | Some [ZLong a, ZStr b, ZStr c] \<Rightarrow>
         do { (ret, s) \<leftarrow> fname a (c_str b) (c_str c) s; RETVAL_STRING ret s }
     | _ \<Rightarrow> None)"

definition PHP_s_sss :: "zpp \<Rightarrow> (string \<Rightarrow> string \<Rightarrow> string \<Rightarrow> 's \<Rightarrow> (string option \<times> 's) option) \<Rightarrow> 's php_function" where
  "PHP_s_sss zpp fname args s = (case zpp ''sss'' args of
       None \<Rightarrow> RETURN_NULL s
     | Some [ZStr a, ZStr b, ZStr c] \<Rightarrow>
         do { (ret, s) \<leftarrow> fname (c_str a) (c_str b) (c_str c) s; RETVAL_STRING ret s }
     | _ \<Rightarrow> None)"

definition PHP_sf_sss :: "zpp \<Rightarrow> (string \<Rightarrow> string \<Rightarrow> string \<Rightarrow> 's \<Rightarrow> (string option \<times> 's) option) \<Rightarrow> 's php_function" where
  "PHP_sf_sss zpp fname args s = (case zpp ''sss'' args of
       None \<Rightarrow> RETURN_NULL s
     | Some [ZStr a, ZStr b, ZStr c] \<Rightarrow>
         do { (ret, s) \<leftarrow> fname (c_str a) (c_str b) (c_str c) s; RETVAL_STRING ret s }
     | _ \<Rightarrow> None)"

definition PHP_i_i :: "zpp \<Rightarrow> (64 word \<Rightarrow> 's \<Rightarrow> (64 word \<times> 's) option) \<Rightarrow> 's php_function" where
  "PHP_i_i zpp fname args s = (case zpp ''l'' args of
       None \<Rightarrow> RETURN_LONG (-1) s
     | Some [ZLong a] \<Rightarrow> do { (ret, s) \<leftarrow> fname a s; RETURN_LONG ret s }
     | _ \<Rightarrow> None)"

definition PHP_i_ii :: "zpp \<Rightarrow> (64 word \<Rightarrow> 64 word \<Rightarrow> 's \<Rightarrow> (64 word \<times> 's) option) \<Rightarrow> 's php_function" where
  "PHP_i_ii zpp fname args s = (case zpp ''ll'' args of
       None \<Rightarrow> RETURN_LONG (-1) s
     | Some [ZLong a, ZLong b] \<Rightarrow> do { (ret, s) \<leftarrow> fname a b s; RETURN_LONG ret s }
     | _ \<Rightarrow> None)"

definition PHP_i_iii :: "zpp \<Rightarrow> (64 word \<Rightarrow> 64 word \<Rightarrow> 64 word \<Rightarrow> 's \<Rightarrow> (64 word \<times> 's) option) \<Rightarrow> 's php_function" where
  "PHP_i_iii zpp fname args s = (case zpp ''lll'' args of
       None \<Rightarrow> RETURN_LONG (-1) s
     | Some [ZLong a, ZLong b, ZLong c] \<Rightarrow> do { (ret, s) \<leftarrow> fname a b c s; RETURN_LONG ret s }
     | _ \<Rightarrow> None)"

definition PHP_i_iiiii :: "zpp \<Rightarrow> (64 word \<Rightarrow> 64 word \<Rightarrow> 64 word \<Rightarrow> 64 word \<Rightarrow> 64 word \<Rightarrow> 's \<Rightarrow> (64 word \<times> 's) option) \<Rightarrow> 's php_function" where
  "PHP_i_iiiii zpp fname args s = (case zpp ''lllll'' args of
       None \<Rightarrow> RETURN_LONG (-1) s
     | Some [ZLong a, ZLong b, ZLong c, ZLong d, ZLong e] \<Rightarrow>
         do { (ret, s) \<leftarrow> fname a b c d e s; RETURN_LONG ret s }
     | _ \<Rightarrow> None)"

definition PHP_i_iis :: "zpp \<Rightarrow> (64 word \<Rightarrow> 64 word \<Rightarrow> string \<Rightarrow> 's \<Rightarrow> (64 word \<times> 's) option) \<Rightarrow> 's php_function" where
  "PHP_i_iis zpp fname args s = (case zpp ''lls'' args of
       None \<Rightarrow> RETURN_LONG (-1) s
     | Some [ZLong a, ZLong b, ZStr d] \<Rightarrow> do { (ret, s) \<leftarrow> fname a b (c_str d) s; RETURN_LONG ret s }
     | _ \<Rightarrow> None)"

definition PHP_i_iiis :: "zpp \<Rightarrow> (64 word \<Rightarrow> 64 word \<Rightarrow> 64 word \<Rightarrow> string \<Rightarrow> 's \<Rightarrow> (64 word \<times> 's) option) \<Rightarrow> 's php_function" where
  "PHP_i_iiis zpp fname args s = (case zpp ''llls'' args of
       None \<Rightarrow> RETURN_LONG (-1) s
     | Some [ZLong a, ZLong b, ZLong c, ZStr d] \<Rightarrow>
         do { (ret, s) \<leftarrow> fname a b c (c_str d) s; RETURN_LONG ret s }
     | _ \<Rightarrow> None)"

definition PHP_i_iiisi :: "zpp \<Rightarrow> (64 word \<Rightarrow> 64 word \<Rightarrow> 64 word \<Rightarrow> string \<Rightarrow> 64 word \<Rightarrow> 's \<Rightarrow> (64 word \<times> 's) option) \<Rightarrow> 's php_function" where
  "PHP_i_iiisi zpp fname args s = (case zpp ''lllsl'' args of
       None \<Rightarrow> RETURN_LONG (-1) s
     | Some [ZLong a, ZLong b, ZLong c, ZStr d, ZLong e] \<Rightarrow>
         do { (ret, s) \<leftarrow> fname a b c (c_str d) e s; RETURN_LONG ret s }
     | _ \<Rightarrow> None)"

definition PHP_i_iiisis :: "zpp \<Rightarrow> (64 word \<Rightarrow> 64 word \<Rightarrow> 64 word \<Rightarrow> string \<Rightarrow> 64 word \<Rightarrow> string \<Rightarrow> 's \<Rightarrow> (64 word \<times> 's) option) \<Rightarrow> 's php_function" where
  "PHP_i_iiisis zpp fname args s = (case zpp ''lllsls'' args of
       None \<Rightarrow> RETURN_LONG (-1) s
     | Some [ZLong a, ZLong b, ZLong c, ZStr d, ZLong e, ZStr f] \<Rightarrow>
         do { (ret, s) \<leftarrow> fname a b c (c_str d) e (c_str f) s; RETURN_LONG ret s }
     | _ \<Rightarrow> None)"

definition PHP_i_iiisiss :: "zpp \<Rightarrow> (64 word \<Rightarrow> 64 word \<Rightarrow> 64 word \<Rightarrow> string \<Rightarrow> 64 word \<Rightarrow> string \<Rightarrow> string \<Rightarrow> 's \<Rightarrow> (64 word \<times> 's) option) \<Rightarrow> 's php_function" where
  "PHP_i_iiisiss zpp fname args s = (case zpp ''lllslss'' args of
       None \<Rightarrow> RETURN_LONG (-1) s
     | Some [ZLong a, ZLong b, ZLong c, ZStr d, ZLong e, ZStr f, ZStr g] \<Rightarrow>
         do { (ret, s) \<leftarrow> fname a b c (c_str d) e (c_str f) (c_str g) s; RETURN_LONG ret s }
     | _ \<Rightarrow> None)"

definition PHP_i_is :: "zpp \<Rightarrow> (64 word \<Rightarrow> string \<Rightarrow> 's \<Rightarrow> (64 word \<times> 's) option) \<Rightarrow> 's php_function" where
  "PHP_i_is zpp fname args s = (case zpp ''ls'' args of
       None \<Rightarrow> RETURN_LONG (-1) s
     | Some [ZLong a, ZStr b] \<Rightarrow> do { (ret, s) \<leftarrow> fname a (c_str b) s; RETURN_LONG ret s }
     | _ \<Rightarrow> None)"

definition PHP_i_isi :: "zpp \<Rightarrow> (64 word \<Rightarrow> string \<Rightarrow> 64 word \<Rightarrow> 's \<Rightarrow> (64 word \<times> 's) option) \<Rightarrow> 's php_function" where
  "PHP_i_isi zpp fname args s = (case zpp ''lsl'' args of
       None \<Rightarrow> RETURN_LONG (-1) s
     | Some [ZLong a, ZStr b, ZLong c] \<Rightarrow> do { (ret, s) \<leftarrow> fname a (c_str b) c s; RETURN_LONG ret s }
     | _ \<Rightarrow> None)"

definition PHP_i_isis :: "zpp \<Rightarrow> (64 word \<Rightarrow> string \<Rightarrow> 64 word \<Rightarrow> string \<Rightarrow> 's \<Rightarrow> (64 word \<times> 's) option) \<Rightarrow> 's php_function" where
  "PHP_i_isis zpp fname args s = (case zpp ''lsls'' args of
       None \<Rightarrow> RETURN_LONG (-1) s
     | Some [ZLong a, ZStr b, ZLong c, ZStr d] \<Rightarrow>
         do { (ret, s) \<leftarrow> fname a (c_str b) c (c_str d) s; RETURN_LONG ret s }
     | _ \<Rightarrow> None)"

definition PHP_i_iss :: "zpp \<Rightarrow> (64 word \<Rightarrow> string \<Rightarrow> string \<Rightarrow> 's \<Rightarrow> (64 word \<times> 's) option) \<Rightarrow> 's php_function" where
  "PHP_i_iss zpp fname args s = (case zpp ''lss'' args of
       None \<Rightarrow> RETURN_LONG (-1) s
     | Some [ZLong a, ZStr b, ZStr d] \<Rightarrow>
         do { (ret, s) \<leftarrow> fname a (c_str b) (c_str d) s; RETURN_LONG ret s }
     | _ \<Rightarrow> None)"

definition PHP_i_iiss :: "zpp \<Rightarrow> (64 word \<Rightarrow> 64 word \<Rightarrow> string \<Rightarrow> string \<Rightarrow> 's \<Rightarrow> (64 word \<times> 's) option) \<Rightarrow> 's php_function" where
  "PHP_i_iiss zpp fname args s = (case zpp ''llss'' args of
       None \<Rightarrow> RETURN_LONG (-1) s
     | Some [ZLong a, ZLong b, ZStr c, ZStr d] \<Rightarrow>
         do { (ret, s) \<leftarrow> fname a b (c_str c) (c_str d) s; RETURN_LONG ret s }
     | _ \<Rightarrow> None)"

definition PHP_i_sii :: "zpp \<Rightarrow> (string \<Rightarrow> 64 word \<Rightarrow> 64 word \<Rightarrow> 's \<Rightarrow> (64 word \<times> 's) option) \<Rightarrow> 's php_function" where
  "PHP_i_sii zpp fname args s = (case zpp ''sll'' args of
       None \<Rightarrow> RETURN_LONG (-1) s
     | Some [ZStr a, ZLong b, ZLong c] \<Rightarrow> do { (ret, s) \<leftarrow> fname (c_str a) b c s; RETURN_LONG ret s }
     | _ \<Rightarrow> None)"

definition PHP_i_siiiisssi :: "zpp \<Rightarrow> (string \<Rightarrow> 64 word \<Rightarrow> 64 word \<Rightarrow> 64 word \<Rightarrow> 64 word \<Rightarrow> string \<Rightarrow> string \<Rightarrow> string \<Rightarrow> 64 word \<Rightarrow> 's \<Rightarrow> (64 word \<times> 's) option) \<Rightarrow> 's php_function" where
  "PHP_i_siiiisssi zpp fname args s = (case zpp ''sllllsssl'' args of
       None \<Rightarrow> RETURN_LONG (-1) s
     | Some [ZStr a, ZLong b, ZLong c, ZLong d, ZLong e, ZStr f, ZStr g, ZStr h, ZLong k] \<Rightarrow>
         do { (ret, s) \<leftarrow> fname (c_str a) b c d e (c_str f) (c_str g) (c_str h) k s; RETURN_LONG ret s }
     | _ \<Rightarrow> None)"

definition PHP_i_ih :: "zpp \<Rightarrow> (64 word \<Rightarrow> zarr \<Rightarrow> 's \<Rightarrow> (64 word \<times> 's) option) \<Rightarrow> 's php_function" where
  "PHP_i_ih zpp fname args s = (case zpp ''la'' args of
       None \<Rightarrow> RETURN_LONG (-1) s
     | Some [ZLong a, ZArr b] \<Rightarrow> do { (ret, s) \<leftarrow> fname a b s; RETURN_LONG ret s }
     | _ \<Rightarrow> None)"

definition PHP_i_iiih :: "zpp \<Rightarrow> (64 word \<Rightarrow> 64 word \<Rightarrow> 64 word \<Rightarrow> zarr \<Rightarrow> 's \<Rightarrow> (64 word \<times> 's) option) \<Rightarrow> 's php_function" where
  "PHP_i_iiih zpp fname args s = (case zpp ''llla'' args of
       None \<Rightarrow> RETURN_LONG (-1) s
     | Some [ZLong a, ZLong b, ZLong c, ZArr d] \<Rightarrow>
         do { (ret, s) \<leftarrow> fname a b c d s; RETURN_LONG ret s }
     | _ \<Rightarrow> None)"

definition PHP_i_iih :: "zpp \<Rightarrow> (64 word \<Rightarrow> 64 word \<Rightarrow> zarr \<Rightarrow> 's \<Rightarrow> (64 word \<times> 's) option) \<Rightarrow> 's php_function" where
  "PHP_i_iih zpp fname args s = (case zpp ''lla'' args of
       None \<Rightarrow> RETURN_LONG (-1) s
     | Some [ZLong a, ZLong b, ZArr c] \<Rightarrow> do { (ret, s) \<leftarrow> fname a b c s; RETURN_LONG ret s }
     | _ \<Rightarrow> None)"

definition PHP_i_ish :: "zpp \<Rightarrow> (64 word \<Rightarrow> string \<Rightarrow> zarr \<Rightarrow> 's \<Rightarrow> (64 word \<times> 's) option) \<Rightarrow> 's php_function" where
  "PHP_i_ish zpp fname args s = (case zpp ''lsa'' args of
       None \<Rightarrow> RETURN_LONG (-1) s
     | Some [ZLong a, ZStr b, ZArr c] \<Rightarrow> do { (ret, s) \<leftarrow> fname a (c_str b) c s; RETURN_LONG ret s }
     | _ \<Rightarrow> None)"

definition PHP_i_ishh :: "zpp \<Rightarrow> (64 word \<Rightarrow> string \<Rightarrow> zarr \<Rightarrow> zarr \<Rightarrow> 's \<Rightarrow> (64 word \<times> 's) option) \<Rightarrow> 's php_function" where
  "PHP_i_ishh zpp fname args s = (case zpp ''lsaa'' args of
       None \<Rightarrow> RETURN_LONG (-1) s
     | Some [ZLong a, ZStr b, ZArr c, ZArr d] \<Rightarrow>
         do { (ret, s) \<leftarrow> fname a (c_str b) c d s; RETURN_LONG ret s }
     | _ \<Rightarrow> None)"

definition PHP_i_h :: "zpp \<Rightarrow> (zarr \<Rightarrow> 's \<Rightarrow> (64 word \<times> 's) option) \<Rightarrow> 's php_function" where
  "PHP_i_h zpp fname args s = (case zpp ''a'' args of
       None \<Rightarrow> RETURN_LONG (-1) s
     | Some [ZArr a] \<Rightarrow> do { (ret, s) \<leftarrow> fname a s; RETURN_LONG ret s }
     | _ \<Rightarrow> None)"

definition PHP_v_s :: "zpp \<Rightarrow> (string \<Rightarrow> 's \<Rightarrow> 's option) \<Rightarrow> 's php_function" where
  "PHP_v_s zpp fname args s = (case zpp ''s'' args of
       None \<Rightarrow> return_void s
     | Some [ZStr b] \<Rightarrow> do { s \<leftarrow> fname (c_str b) s; return_void s }
     | _ \<Rightarrow> None)"

definition PHP_v_is :: "zpp \<Rightarrow> (64 word \<Rightarrow> string \<Rightarrow> 's \<Rightarrow> 's option) \<Rightarrow> 's php_function" where
  "PHP_v_is zpp fname args s = (case zpp ''ls'' args of
       None \<Rightarrow> return_void s
     | Some [ZLong a, ZStr b] \<Rightarrow> do { s \<leftarrow> fname a (c_str b) s; return_void s }
     | _ \<Rightarrow> None)"

definition PHP_b_s :: "zpp \<Rightarrow> (string \<Rightarrow> 's \<Rightarrow> (64 word \<times> 's) option) \<Rightarrow> 's php_function" where
  "PHP_b_s zpp fname args s = (case zpp ''s'' args of
       None \<Rightarrow> RETURN_BOOL False s
     | Some [ZStr b] \<Rightarrow> do { (ret, s) \<leftarrow> fname (c_str b) s; RETURN_BOOL (ret \<noteq> 0) s }
     | _ \<Rightarrow> None)"

definition PHP_b_i :: "zpp \<Rightarrow> (64 word \<Rightarrow> 's \<Rightarrow> (64 word \<times> 's) option) \<Rightarrow> 's php_function" where
  "PHP_b_i zpp fname args s = (case zpp ''l'' args of
       None \<Rightarrow> RETURN_BOOL False s
     | Some [ZLong a] \<Rightarrow> do { (ret, s) \<leftarrow> fname a s; RETURN_BOOL (ret \<noteq> 0) s }
     | _ \<Rightarrow> None)"

definition PHP_v_issb :: "zpp \<Rightarrow> (64 word \<Rightarrow> string \<Rightarrow> string \<Rightarrow> 64 word \<Rightarrow> 's \<Rightarrow> 's option) \<Rightarrow> 's php_function" where
  "PHP_v_issb zpp fname args s = (case zpp ''lssb'' args of
       None \<Rightarrow> return_void s
     | Some [ZLong a, ZStr b, ZStr c, ZBool d] \<Rightarrow>
         do { s \<leftarrow> fname a (c_str b) (c_str c) (if d then 1 else 0) s; return_void s }
     | _ \<Rightarrow> None)"

definition PHP_v_isssssb :: "zpp \<Rightarrow> (64 word \<Rightarrow> string \<Rightarrow> string \<Rightarrow> string \<Rightarrow> string \<Rightarrow> string \<Rightarrow> 64 word \<Rightarrow> 's \<Rightarrow> 's option) \<Rightarrow> 's php_function" where
  "PHP_v_isssssb zpp fname args s = (case zpp ''lsssssb'' args of
       None \<Rightarrow> return_void s
     | Some [ZLong a, ZStr b, ZStr c, ZStr d, ZStr e, ZStr f, ZBool g] \<Rightarrow>
         do { s \<leftarrow> fname a (c_str b) (c_str c) (c_str d) (c_str e) (c_str f) (if g then 1 else 0) s; return_void s }
     | _ \<Rightarrow> None)"

definition PHP_v_issssb :: "zpp \<Rightarrow> (64 word \<Rightarrow> string \<Rightarrow> string \<Rightarrow> string \<Rightarrow> string \<Rightarrow> 64 word \<Rightarrow> 's \<Rightarrow> 's option) \<Rightarrow> 's php_function" where
  "PHP_v_issssb zpp fname args s = (case zpp ''lssssb'' args of
       None \<Rightarrow> return_void s
     | Some [ZLong a, ZStr b, ZStr c, ZStr d, ZStr e, ZBool f] \<Rightarrow>
         do { s \<leftarrow> fname a (c_str b) (c_str c) (c_str d) (c_str e) (if f then 1 else 0) s; return_void s }
     | _ \<Rightarrow> None)"

definition PHP_v_isssb :: "zpp \<Rightarrow> (64 word \<Rightarrow> string \<Rightarrow> string \<Rightarrow> string \<Rightarrow> 64 word \<Rightarrow> 's \<Rightarrow> 's option) \<Rightarrow> 's php_function" where
  "PHP_v_isssb zpp fname args s = (case zpp ''lsssb'' args of
       None \<Rightarrow> return_void s
     | Some [ZLong a, ZStr b, ZStr c, ZStr d, ZBool e] \<Rightarrow>
         do { s \<leftarrow> fname a (c_str b) (c_str c) (c_str d) (if e then 1 else 0) s; return_void s }
     | _ \<Rightarrow> None)"

text \<open>Two macros look at no argument.\<close>

definition PHP_s_v :: "('s \<Rightarrow> (string option \<times> 's) option) \<Rightarrow> 's php_function" where
  "PHP_s_v fname args s = do { (ret, s) \<leftarrow> fname s; RETVAL_STRING ret s }"

definition PHP_i_v :: "('s \<Rightarrow> (64 word \<times> 's) option) \<Rightarrow> 's php_function" where
  "PHP_i_v fname args s = do { (ret, s) \<leftarrow> fname s; RETURN_LONG ret s }"

text \<open>
  \<^verbatim>\<open>PHP_i_iias\<close> copies the strings found at the indices below the number of elements; an index that is missing is
  left out, a value that is no string is read as one.
\<close>

fun str_tab_loop :: "zarr \<Rightarrow> nat list \<Rightarrow> string list option" where
  "str_tab_loop d [] = Some []"
| "str_tab_loop d (i # is) = (case zend_hash_index_find d i of
       None \<Rightarrow> str_tab_loop d is
     | Some var \<Rightarrow> do { t \<leftarrow> Z_STRVAL_P var; ts \<leftarrow> str_tab_loop d is; Some (t # ts) })"

definition PHP_i_iias ::
  "zpp \<Rightarrow> (64 word \<Rightarrow> 64 word \<Rightarrow> string list \<Rightarrow> nat \<Rightarrow> string \<Rightarrow> 's \<Rightarrow> (64 word \<times> 's) option) \<Rightarrow> 's php_function" where
  "PHP_i_iias zpp fname args s = (case zpp ''llas'' args of
       None \<Rightarrow> RETURN_LONG (-1) s
     | Some [ZLong a, ZLong b, ZArr d, ZStr e] \<Rightarrow> do {
         str_tab \<leftarrow> str_tab_loop d [0..<length d];
         (ret, s) \<leftarrow> fname a b str_tab (length str_tab) (c_str e) s;
         RETURN_LONG ret s
       }
     | _ \<Rightarrow> None)"

section \<open>Typing\<close>

text \<open>The documented behaviour of \<^verbatim>\<open>zend_parse_parameters\<close>: the values it gives match the specification.\<close>

fun letter_ok :: "char \<Rightarrow> zval \<Rightarrow> bool" where
  "letter_ok c (ZLong a) = (c = CHR ''l'')"
| "letter_ok c (ZStr b) = (c = CHR ''s'')"
| "letter_ok c (ZArr d) = (c = CHR ''a'')"
| "letter_ok c (ZBool b) = (c = CHR ''b'')"
| "letter_ok c ZNull = False"

definition zpp_ok :: "zpp \<Rightarrow> bool" where
  "zpp_ok zpp \<longleftrightarrow> (\<forall>spec args vals. zpp spec args = Some vals \<longrightarrow> list_all2 letter_ok spec vals)"

text \<open>
  The result of a function, by the first part of the name of its macro; \<open>Ret_n\<close> is for \<^verbatim>\<open>PHP_i_s\<close>,
  \<^verbatim>\<open>PHP_i_ss\<close> and \<^verbatim>\<open>PHP_i_sss\<close>, which give null and not \<open>-1\<close> when the arguments do not convert.
\<close>

datatype ret_kind = Ret_v | Ret_i | Ret_n | Ret_s | Ret_b

fun fail_value :: "ret_kind \<Rightarrow> zval" where
  "fail_value Ret_i = ZLong (-1)"
| "fail_value Ret_b = ZBool False"
| "fail_value _ = ZNull"

fun ret_ok :: "ret_kind \<Rightarrow> zval \<Rightarrow> bool" where
  "ret_ok Ret_v z \<longleftrightarrow> z = ZNull"
| "ret_ok Ret_i z \<longleftrightarrow> (\<exists>l. z = ZLong l)"
| "ret_ok Ret_n z \<longleftrightarrow> (\<exists>l. z = ZLong l)"
| "ret_ok Ret_s z \<longleftrightarrow> z = ZNull \<or> (\<exists>t. z = ZStr t)"
| "ret_ok Ret_b z \<longleftrightarrow> (\<exists>b. z = ZBool b)"

lemma letter_ok_simps:
  "letter_ok CHR ''l'' v \<longleftrightarrow> (\<exists>a. v = ZLong a)" "letter_ok CHR ''s'' v \<longleftrightarrow> (\<exists>b. v = ZStr b)"
  "letter_ok CHR ''a'' v \<longleftrightarrow> (\<exists>d. v = ZArr d)" "letter_ok CHR ''b'' v \<longleftrightarrow> (\<exists>b. v = ZBool b)"
  by (cases v; simp)+

lemma zpp_okD: "zpp spec args = Some vals \<Longrightarrow> zpp_ok zpp \<Longrightarrow> list_all2 letter_ok spec vals"
  by (auto simp: zpp_ok_def)

text \<open>The end of a macro: it returns when the C function does, with the converted result.\<close>

lemma void_result:
  "(do { s \<leftarrow> c; return_void s }) = Some (z, s') \<longleftrightarrow> c = Some s' \<and> z = ZNull"
  "(do { s \<leftarrow> c; return_void s }) = None \<longleftrightarrow> c = None"
  by (cases c; auto simp: return_void_def)+

lemma long_result:
  "(do { (ret, s) \<leftarrow> c; RETURN_LONG (g ret) s }) = Some (z, s') \<longleftrightarrow> (\<exists>r. c = Some (r, s') \<and> z = ZLong (g r))"
  "(do { (ret, s) \<leftarrow> c; RETURN_LONG (g ret) s }) = None \<longleftrightarrow> c = None"
  by (cases c; auto simp: RETURN_LONG_def)+

definition str_zval :: "string option \<Rightarrow> zval" where
  "str_zval ret = (case ret of None \<Rightarrow> ZNull | Some t \<Rightarrow> ZStr t)"

lemma RETVAL_STRING_eq: "RETVAL_STRING ret s = Some (str_zval ret, s)"
  by (cases ret) (simp_all add: RETVAL_STRING_def RETURN_NULL_def str_zval_def)

lemma str_zval_ok: "ret_ok Ret_s (str_zval ret)"
  by (cases ret) (simp_all add: str_zval_def)

lemma string_result:
  "(do { (ret, s) \<leftarrow> c; RETVAL_STRING ret s }) = Some (z, s') \<longleftrightarrow> (\<exists>r. c = Some (r, s') \<and> z = str_zval r)"
  "(do { (ret, s) \<leftarrow> c; RETVAL_STRING ret s }) = None \<longleftrightarrow> c = None"
  by (cases c; auto simp: RETVAL_STRING_eq)+

lemma bool_result:
  "(do { (ret, s) \<leftarrow> c; RETURN_BOOL (g ret) s }) = Some (z, s') \<longleftrightarrow> (\<exists>r. c = Some (r, s') \<and> z = ZBool (g r))"
  "(do { (ret, s) \<leftarrow> c; RETURN_BOOL (g ret) s }) = None \<longleftrightarrow> c = None"
  by (cases c; auto simp: RETURN_BOOL_def)+

lemma fail_result:
  "return_void s = Some (z, s') \<longleftrightarrow> z = ZNull \<and> s' = s"
  "RETURN_LONG l s = Some (z, s') \<longleftrightarrow> z = ZLong l \<and> s' = s"
  "RETURN_NULL s = Some (z, s') \<longleftrightarrow> z = ZNull \<and> s' = s"
  "RETURN_BOOL b s = Some (z, s') \<longleftrightarrow> z = ZBool b \<and> s' = s"
  by (auto simp: return_void_def RETURN_LONG_def RETURN_NULL_def RETURN_BOOL_def)

lemma fail_str: "ret_ok Ret_s ZNull"
  by simp

lemmas macro_simps = letter_ok_simps list_all2_Cons1 void_result long_result long_result [where g = "\<lambda>r. r"] string_result
  bool_result str_zval_ok fail_str fail_result

text \<open>
  What every macro guarantees: arguments that do not convert give the failure value and leave the state alone; else
  the result has the declared type, there is one whenever the C function returns on all arguments, and the state is
  one that the C function leads to.
\<close>

locale php_macro =
  fixes M :: "zpp \<Rightarrow> 'f \<Rightarrow> 's php_function"
    and spec :: string
    and kind :: ret_kind
    and returns :: "'f \<Rightarrow> 's \<Rightarrow> bool"
    and after :: "'f \<Rightarrow> 's \<Rightarrow> 's \<Rightarrow> bool"
  assumes rejects: "zpp spec args = None \<Longrightarrow> M zpp fname args s = Some (fail_value kind, s)"
    and typed: "zpp_ok zpp \<Longrightarrow> zpp spec args = Some vals \<Longrightarrow> M zpp fname args s = Some (z, s') \<Longrightarrow> ret_ok kind z"
    and defined: "zpp_ok zpp \<Longrightarrow> zpp spec args = Some vals \<Longrightarrow> returns fname s \<Longrightarrow> M zpp fname args s \<noteq> None"
    and effect: "M zpp fname args s = Some (z, s') \<Longrightarrow> s' = s \<or> after fname s s'"
begin

lemma well_typed:
  assumes "zpp_ok zpp" "M zpp fname args s = Some (z, s')"
  shows "if zpp spec args = None then z = fail_value kind \<and> s' = s else ret_ok kind z"
  using assms rejects typed by (cases "zpp spec args") auto

lemma total:
  assumes "zpp_ok zpp" "returns fname s"
  shows "M zpp fname args s \<noteq> None"
  using assms rejects defined by (cases "zpp spec args") auto

end

interpretation PHP_s_i: php_macro PHP_s_i "''l''" Ret_s
  "\<lambda>fname s. \<forall>a. fname a s \<noteq> None" "\<lambda>fname s s'. \<exists>a r. fname a s = Some (r, s')"
  by unfold_locales (auto simp: PHP_s_i_def macro_simps simp del: ret_ok.simps(4) iff del: not_None_eq dest!: zpp_okD
      split: option.split_asm list.split_asm zval.split_asm)

interpretation PHP_s_ii: php_macro PHP_s_ii "''ll''" Ret_s
  "\<lambda>fname s. \<forall>a b. fname a b s \<noteq> None" "\<lambda>fname s s'. \<exists>a b r. fname a b s = Some (r, s')"
  by unfold_locales (auto simp: PHP_s_ii_def macro_simps simp del: ret_ok.simps(4) iff del: not_None_eq dest!: zpp_okD
      split: option.split_asm list.split_asm zval.split_asm)

interpretation PHP_sf_i: php_macro PHP_sf_i "''l''" Ret_s
  "\<lambda>fname s. \<forall>a. fname a s \<noteq> None" "\<lambda>fname s s'. \<exists>a r. fname a s = Some (r, s')"
  by unfold_locales (auto simp: PHP_sf_i_def macro_simps simp del: ret_ok.simps(4) iff del: not_None_eq dest!: zpp_okD
      split: option.split_asm list.split_asm zval.split_asm)

interpretation PHP_sf_is: php_macro PHP_sf_is "''ls''" Ret_s
  "\<lambda>fname s. \<forall>a b. fname a b s \<noteq> None" "\<lambda>fname s s'. \<exists>a b r. fname a b s = Some (r, s')"
  by unfold_locales (auto simp: PHP_sf_is_def macro_simps simp del: ret_ok.simps(4) iff del: not_None_eq dest!: zpp_okD
      split: option.split_asm list.split_asm zval.split_asm)

interpretation PHP_sf_s: php_macro PHP_sf_s "''s''" Ret_s
  "\<lambda>fname s. \<forall>a. fname a s \<noteq> None" "\<lambda>fname s s'. \<exists>a r. fname a s = Some (r, s')"
  by unfold_locales (auto simp: PHP_sf_s_def macro_simps simp del: ret_ok.simps(4) iff del: not_None_eq dest!: zpp_okD
      split: option.split_asm list.split_asm zval.split_asm)

interpretation PHP_s_iis: php_macro PHP_s_iis "''lls''" Ret_s
  "\<lambda>fname s. \<forall>a b c. fname a b c s \<noteq> None" "\<lambda>fname s s'. \<exists>a b c r. fname a b c s = Some (r, s')"
  by unfold_locales (auto simp: PHP_s_iis_def macro_simps simp del: ret_ok.simps(4) iff del: not_None_eq dest!: zpp_okD
      split: option.split_asm list.split_asm zval.split_asm)

interpretation PHP_sf_ii: php_macro PHP_sf_ii "''ll''" Ret_s
  "\<lambda>fname s. \<forall>a b. fname a b s \<noteq> None" "\<lambda>fname s s'. \<exists>a b r. fname a b s = Some (r, s')"
  by unfold_locales (auto simp: PHP_sf_ii_def macro_simps simp del: ret_ok.simps(4) iff del: not_None_eq dest!: zpp_okD
      split: option.split_asm list.split_asm zval.split_asm)

interpretation PHP_sf_iiss: php_macro PHP_sf_iiss "''llss''" Ret_s
  "\<lambda>fname s. \<forall>a b c d. fname a b c d s \<noteq> None" "\<lambda>fname s s'. \<exists>a b c d r. fname a b c d s = Some (r, s')"
  by unfold_locales (auto simp: PHP_sf_iiss_def macro_simps simp del: ret_ok.simps(4) iff del: not_None_eq dest!: zpp_okD
      split: option.split_asm list.split_asm zval.split_asm)

interpretation PHP_v_iisssss: php_macro PHP_v_iisssss "''llsssss''" Ret_v
  "\<lambda>fname s. \<forall>a b c d e f g. fname a b c d e f g s \<noteq> None" "\<lambda>fname s s'. \<exists>a b c d e f g. fname a b c d e f g s = Some s'"
  by unfold_locales (auto simp: PHP_v_iisssss_def macro_simps simp del: ret_ok.simps(4) iff del: not_None_eq dest!: zpp_okD
      split: option.split_asm list.split_asm zval.split_asm)

interpretation PHP_v_iss: php_macro PHP_v_iss "''lss''" Ret_v
  "\<lambda>fname s. \<forall>a b c. fname a b c s \<noteq> None" "\<lambda>fname s s'. \<exists>a b c. fname a b c s = Some s'"
  by unfold_locales (auto simp: PHP_v_iss_def macro_simps simp del: ret_ok.simps(4) iff del: not_None_eq dest!: zpp_okD
      split: option.split_asm list.split_asm zval.split_asm)

interpretation PHP_v_i: php_macro PHP_v_i "''l''" Ret_v
  "\<lambda>fname s. \<forall>a. fname a s \<noteq> None" "\<lambda>fname s s'. \<exists>a. fname a s = Some s'"
  by unfold_locales (auto simp: PHP_v_i_def macro_simps simp del: ret_ok.simps(4) iff del: not_None_eq dest!: zpp_okD
      split: option.split_asm list.split_asm zval.split_asm)

interpretation PHP_v_ii: php_macro PHP_v_ii "''ll''" Ret_v
  "\<lambda>fname s. \<forall>a b. fname a b s \<noteq> None" "\<lambda>fname s s'. \<exists>a b. fname a b s = Some s'"
  by unfold_locales (auto simp: PHP_v_ii_def macro_simps simp del: ret_ok.simps(4) iff del: not_None_eq dest!: zpp_okD
      split: option.split_asm list.split_asm zval.split_asm)

interpretation PHP_v_issi: php_macro PHP_v_issi "''lssl''" Ret_v
  "\<lambda>fname s. \<forall>a b c d. fname a b c d s \<noteq> None" "\<lambda>fname s s'. \<exists>a b c d. fname a b c d s = Some s'"
  by unfold_locales (auto simp: PHP_v_issi_def macro_simps simp del: ret_ok.simps(4) iff del: not_None_eq dest!: zpp_okD
      split: option.split_asm list.split_asm zval.split_asm)

interpretation PHP_v_isss: php_macro PHP_v_isss "''lsss''" Ret_v
  "\<lambda>fname s. \<forall>a b c d. fname a b c d s \<noteq> None" "\<lambda>fname s s'. \<exists>a b c d. fname a b c d s = Some s'"
  by unfold_locales (auto simp: PHP_v_isss_def macro_simps simp del: ret_ok.simps(4) iff del: not_None_eq dest!: zpp_okD
      split: option.split_asm list.split_asm zval.split_asm)

interpretation PHP_v_issssss: php_macro PHP_v_issssss "''lssssss''" Ret_v
  "\<lambda>fname s. \<forall>a b c d e f g. fname a b c d e f g s \<noteq> None" "\<lambda>fname s s'. \<exists>a b c d e f g. fname a b c d e f g s = Some s'"
  by unfold_locales (auto simp: PHP_v_issssss_def macro_simps simp del: ret_ok.simps(4) iff del: not_None_eq dest!: zpp_okD
      split: option.split_asm list.split_asm zval.split_asm)

interpretation PHP_v_isssss: php_macro PHP_v_isssss "''lsssss''" Ret_v
  "\<lambda>fname s. \<forall>a b c d e f. fname a b c d e f s \<noteq> None" "\<lambda>fname s s'. \<exists>a b c d e f. fname a b c d e f s = Some s'"
  by unfold_locales (auto simp: PHP_v_isssss_def macro_simps simp del: ret_ok.simps(4) iff del: not_None_eq dest!: zpp_okD
      split: option.split_asm list.split_asm zval.split_asm)

interpretation PHP_v_issss: php_macro PHP_v_issss "''lssss''" Ret_v
  "\<lambda>fname s. \<forall>a b c d e. fname a b c d e s \<noteq> None" "\<lambda>fname s s'. \<exists>a b c d e. fname a b c d e s = Some s'"
  by unfold_locales (auto simp: PHP_v_issss_def macro_simps simp del: ret_ok.simps(4) iff del: not_None_eq dest!: zpp_okD
      split: option.split_asm list.split_asm zval.split_asm)

interpretation PHP_v_isis: php_macro PHP_v_isis "''lsls''" Ret_v
  "\<lambda>fname s. \<forall>a b c d. fname a b c d s \<noteq> None" "\<lambda>fname s s'. \<exists>a b c d. fname a b c d s = Some s'"
  by unfold_locales (auto simp: PHP_v_isis_def macro_simps simp del: ret_ok.simps(4) iff del: not_None_eq dest!: zpp_okD
      split: option.split_asm list.split_asm zval.split_asm)

interpretation PHP_v_isiss: php_macro PHP_v_isiss "''lslss''" Ret_v
  "\<lambda>fname s. \<forall>a b c d e. fname a b c d e s \<noteq> None" "\<lambda>fname s s'. \<exists>a b c d e. fname a b c d e s = Some s'"
  by unfold_locales (auto simp: PHP_v_isiss_def macro_simps simp del: ret_ok.simps(4) iff del: not_None_eq dest!: zpp_okD
      split: option.split_asm list.split_asm zval.split_asm)

interpretation PHP_v_isisss: php_macro PHP_v_isisss "''lslsss''" Ret_v
  "\<lambda>fname s. \<forall>a b c d e f. fname a b c d e f s \<noteq> None" "\<lambda>fname s s'. \<exists>a b c d e f. fname a b c d e f s = Some s'"
  by unfold_locales (auto simp: PHP_v_isisss_def macro_simps simp del: ret_ok.simps(4) iff del: not_None_eq dest!: zpp_okD
      split: option.split_asm list.split_asm zval.split_asm)

interpretation PHP_v_isissss: php_macro PHP_v_isissss "''lslssss''" Ret_v
  "\<lambda>fname s. \<forall>a b c d e f g. fname a b c d e f g s \<noteq> None" "\<lambda>fname s s'. \<exists>a b c d e f g. fname a b c d e f g s = Some s'"
  by unfold_locales (auto simp: PHP_v_isissss_def macro_simps simp del: ret_ok.simps(4) iff del: not_None_eq dest!: zpp_okD
      split: option.split_asm list.split_asm zval.split_asm)

interpretation PHP_s_s: php_macro PHP_s_s "''s''" Ret_s
  "\<lambda>fname s. \<forall>a. fname a s \<noteq> None" "\<lambda>fname s s'. \<exists>a r. fname a s = Some (r, s')"
  by unfold_locales (auto simp: PHP_s_s_def macro_simps simp del: ret_ok.simps(4) iff del: not_None_eq dest!: zpp_okD
      split: option.split_asm list.split_asm zval.split_asm)

interpretation PHP_s_ss: php_macro PHP_s_ss "''ss''" Ret_s
  "\<lambda>fname s. \<forall>a b. fname a b s \<noteq> None" "\<lambda>fname s s'. \<exists>a b r. fname a b s = Some (r, s')"
  by unfold_locales (auto simp: PHP_s_ss_def macro_simps simp del: ret_ok.simps(4) iff del: not_None_eq dest!: zpp_okD
      split: option.split_asm list.split_asm zval.split_asm)

interpretation PHP_sf_ss: php_macro PHP_sf_ss "''ss''" Ret_s
  "\<lambda>fname s. \<forall>a b. fname a b s \<noteq> None" "\<lambda>fname s s'. \<exists>a b r. fname a b s = Some (r, s')"
  by unfold_locales (auto simp: PHP_sf_ss_def macro_simps simp del: ret_ok.simps(4) iff del: not_None_eq dest!: zpp_okD
      split: option.split_asm list.split_asm zval.split_asm)

interpretation PHP_i_s: php_macro PHP_i_s "''s''" Ret_n
  "\<lambda>fname s. \<forall>a. fname a s \<noteq> None" "\<lambda>fname s s'. \<exists>a r. fname a s = Some (r, s')"
  by unfold_locales (auto simp: PHP_i_s_def macro_simps simp del: ret_ok.simps(4) iff del: not_None_eq dest!: zpp_okD
      split: option.split_asm list.split_asm zval.split_asm)

interpretation PHP_i_ss: php_macro PHP_i_ss "''ss''" Ret_n
  "\<lambda>fname s. \<forall>a b. fname a b s \<noteq> None" "\<lambda>fname s s'. \<exists>a b r. fname a b s = Some (r, s')"
  by unfold_locales (auto simp: PHP_i_ss_def macro_simps simp del: ret_ok.simps(4) iff del: not_None_eq dest!: zpp_okD
      split: option.split_asm list.split_asm zval.split_asm)

interpretation PHP_i_sss: php_macro PHP_i_sss "''sss''" Ret_n
  "\<lambda>fname s. \<forall>a b c. fname a b c s \<noteq> None" "\<lambda>fname s s'. \<exists>a b c r. fname a b c s = Some (r, s')"
  by unfold_locales (auto simp: PHP_i_sss_def macro_simps simp del: ret_ok.simps(4) iff del: not_None_eq dest!: zpp_okD
      split: option.split_asm list.split_asm zval.split_asm)

interpretation PHP_sf_iss: php_macro PHP_sf_iss "''lss''" Ret_s
  "\<lambda>fname s. \<forall>a b c. fname a b c s \<noteq> None" "\<lambda>fname s s'. \<exists>a b c r. fname a b c s = Some (r, s')"
  by unfold_locales (auto simp: PHP_sf_iss_def macro_simps simp del: ret_ok.simps(4) iff del: not_None_eq dest!: zpp_okD
      split: option.split_asm list.split_asm zval.split_asm)

interpretation PHP_s_sss: php_macro PHP_s_sss "''sss''" Ret_s
  "\<lambda>fname s. \<forall>a b c. fname a b c s \<noteq> None" "\<lambda>fname s s'. \<exists>a b c r. fname a b c s = Some (r, s')"
  by unfold_locales (auto simp: PHP_s_sss_def macro_simps simp del: ret_ok.simps(4) iff del: not_None_eq dest!: zpp_okD
      split: option.split_asm list.split_asm zval.split_asm)

interpretation PHP_sf_sss: php_macro PHP_sf_sss "''sss''" Ret_s
  "\<lambda>fname s. \<forall>a b c. fname a b c s \<noteq> None" "\<lambda>fname s s'. \<exists>a b c r. fname a b c s = Some (r, s')"
  by unfold_locales (auto simp: PHP_sf_sss_def macro_simps simp del: ret_ok.simps(4) iff del: not_None_eq dest!: zpp_okD
      split: option.split_asm list.split_asm zval.split_asm)

interpretation PHP_i_i: php_macro PHP_i_i "''l''" Ret_i
  "\<lambda>fname s. \<forall>a. fname a s \<noteq> None" "\<lambda>fname s s'. \<exists>a r. fname a s = Some (r, s')"
  by unfold_locales (auto simp: PHP_i_i_def macro_simps simp del: ret_ok.simps(4) iff del: not_None_eq dest!: zpp_okD
      split: option.split_asm list.split_asm zval.split_asm)

interpretation PHP_i_ii: php_macro PHP_i_ii "''ll''" Ret_i
  "\<lambda>fname s. \<forall>a b. fname a b s \<noteq> None" "\<lambda>fname s s'. \<exists>a b r. fname a b s = Some (r, s')"
  by unfold_locales (auto simp: PHP_i_ii_def macro_simps simp del: ret_ok.simps(4) iff del: not_None_eq dest!: zpp_okD
      split: option.split_asm list.split_asm zval.split_asm)

interpretation PHP_i_iii: php_macro PHP_i_iii "''lll''" Ret_i
  "\<lambda>fname s. \<forall>a b c. fname a b c s \<noteq> None" "\<lambda>fname s s'. \<exists>a b c r. fname a b c s = Some (r, s')"
  by unfold_locales (auto simp: PHP_i_iii_def macro_simps simp del: ret_ok.simps(4) iff del: not_None_eq dest!: zpp_okD
      split: option.split_asm list.split_asm zval.split_asm)

interpretation PHP_i_iiiii: php_macro PHP_i_iiiii "''lllll''" Ret_i
  "\<lambda>fname s. \<forall>a b c d e. fname a b c d e s \<noteq> None" "\<lambda>fname s s'. \<exists>a b c d e r. fname a b c d e s = Some (r, s')"
  by unfold_locales (auto simp: PHP_i_iiiii_def macro_simps simp del: ret_ok.simps(4) iff del: not_None_eq dest!: zpp_okD
      split: option.split_asm list.split_asm zval.split_asm)

interpretation PHP_i_iis: php_macro PHP_i_iis "''lls''" Ret_i
  "\<lambda>fname s. \<forall>a b d. fname a b d s \<noteq> None" "\<lambda>fname s s'. \<exists>a b d r. fname a b d s = Some (r, s')"
  by unfold_locales (auto simp: PHP_i_iis_def macro_simps simp del: ret_ok.simps(4) iff del: not_None_eq dest!: zpp_okD
      split: option.split_asm list.split_asm zval.split_asm)

interpretation PHP_i_iiis: php_macro PHP_i_iiis "''llls''" Ret_i
  "\<lambda>fname s. \<forall>a b c d. fname a b c d s \<noteq> None" "\<lambda>fname s s'. \<exists>a b c d r. fname a b c d s = Some (r, s')"
  by unfold_locales (auto simp: PHP_i_iiis_def macro_simps simp del: ret_ok.simps(4) iff del: not_None_eq dest!: zpp_okD
      split: option.split_asm list.split_asm zval.split_asm)

interpretation PHP_i_iiisi: php_macro PHP_i_iiisi "''lllsl''" Ret_i
  "\<lambda>fname s. \<forall>a b c d e. fname a b c d e s \<noteq> None" "\<lambda>fname s s'. \<exists>a b c d e r. fname a b c d e s = Some (r, s')"
  by unfold_locales (auto simp: PHP_i_iiisi_def macro_simps simp del: ret_ok.simps(4) iff del: not_None_eq dest!: zpp_okD
      split: option.split_asm list.split_asm zval.split_asm)

interpretation PHP_i_iiisis: php_macro PHP_i_iiisis "''lllsls''" Ret_i
  "\<lambda>fname s. \<forall>a b c d e f. fname a b c d e f s \<noteq> None" "\<lambda>fname s s'. \<exists>a b c d e f r. fname a b c d e f s = Some (r, s')"
  by unfold_locales (auto simp: PHP_i_iiisis_def macro_simps simp del: ret_ok.simps(4) iff del: not_None_eq dest!: zpp_okD
      split: option.split_asm list.split_asm zval.split_asm)

interpretation PHP_i_iiisiss: php_macro PHP_i_iiisiss "''lllslss''" Ret_i
  "\<lambda>fname s. \<forall>a b c d e f g. fname a b c d e f g s \<noteq> None" "\<lambda>fname s s'. \<exists>a b c d e f g r. fname a b c d e f g s = Some (r, s')"
  by unfold_locales (auto simp: PHP_i_iiisiss_def macro_simps simp del: ret_ok.simps(4) iff del: not_None_eq dest!: zpp_okD
      split: option.split_asm list.split_asm zval.split_asm)

interpretation PHP_i_is: php_macro PHP_i_is "''ls''" Ret_i
  "\<lambda>fname s. \<forall>a b. fname a b s \<noteq> None" "\<lambda>fname s s'. \<exists>a b r. fname a b s = Some (r, s')"
  by unfold_locales (auto simp: PHP_i_is_def macro_simps simp del: ret_ok.simps(4) iff del: not_None_eq dest!: zpp_okD
      split: option.split_asm list.split_asm zval.split_asm)

interpretation PHP_i_isi: php_macro PHP_i_isi "''lsl''" Ret_i
  "\<lambda>fname s. \<forall>a b c. fname a b c s \<noteq> None" "\<lambda>fname s s'. \<exists>a b c r. fname a b c s = Some (r, s')"
  by unfold_locales (auto simp: PHP_i_isi_def macro_simps simp del: ret_ok.simps(4) iff del: not_None_eq dest!: zpp_okD
      split: option.split_asm list.split_asm zval.split_asm)

interpretation PHP_i_isis: php_macro PHP_i_isis "''lsls''" Ret_i
  "\<lambda>fname s. \<forall>a b c d. fname a b c d s \<noteq> None" "\<lambda>fname s s'. \<exists>a b c d r. fname a b c d s = Some (r, s')"
  by unfold_locales (auto simp: PHP_i_isis_def macro_simps simp del: ret_ok.simps(4) iff del: not_None_eq dest!: zpp_okD
      split: option.split_asm list.split_asm zval.split_asm)

interpretation PHP_i_iss: php_macro PHP_i_iss "''lss''" Ret_i
  "\<lambda>fname s. \<forall>a b d. fname a b d s \<noteq> None" "\<lambda>fname s s'. \<exists>a b d r. fname a b d s = Some (r, s')"
  by unfold_locales (auto simp: PHP_i_iss_def macro_simps simp del: ret_ok.simps(4) iff del: not_None_eq dest!: zpp_okD
      split: option.split_asm list.split_asm zval.split_asm)

interpretation PHP_i_iiss: php_macro PHP_i_iiss "''llss''" Ret_i
  "\<lambda>fname s. \<forall>a b c d. fname a b c d s \<noteq> None" "\<lambda>fname s s'. \<exists>a b c d r. fname a b c d s = Some (r, s')"
  by unfold_locales (auto simp: PHP_i_iiss_def macro_simps simp del: ret_ok.simps(4) iff del: not_None_eq dest!: zpp_okD
      split: option.split_asm list.split_asm zval.split_asm)

interpretation PHP_i_sii: php_macro PHP_i_sii "''sll''" Ret_i
  "\<lambda>fname s. \<forall>a b c. fname a b c s \<noteq> None" "\<lambda>fname s s'. \<exists>a b c r. fname a b c s = Some (r, s')"
  by unfold_locales (auto simp: PHP_i_sii_def macro_simps simp del: ret_ok.simps(4) iff del: not_None_eq dest!: zpp_okD
      split: option.split_asm list.split_asm zval.split_asm)

interpretation PHP_i_siiiisssi: php_macro PHP_i_siiiisssi "''sllllsssl''" Ret_i
  "\<lambda>fname s. \<forall>a b c d e f g h k. fname a b c d e f g h k s \<noteq> None" "\<lambda>fname s s'. \<exists>a b c d e f g h k r. fname a b c d e f g h k s = Some (r, s')"
  by unfold_locales (auto simp: PHP_i_siiiisssi_def macro_simps simp del: ret_ok.simps(4) iff del: not_None_eq dest!: zpp_okD
      split: option.split_asm list.split_asm zval.split_asm)

interpretation PHP_i_ih: php_macro PHP_i_ih "''la''" Ret_i
  "\<lambda>fname s. \<forall>a b. fname a b s \<noteq> None" "\<lambda>fname s s'. \<exists>a b r. fname a b s = Some (r, s')"
  by unfold_locales (auto simp: PHP_i_ih_def macro_simps simp del: ret_ok.simps(4) iff del: not_None_eq dest!: zpp_okD
      split: option.split_asm list.split_asm zval.split_asm)

interpretation PHP_i_iiih: php_macro PHP_i_iiih "''llla''" Ret_i
  "\<lambda>fname s. \<forall>a b c d. fname a b c d s \<noteq> None" "\<lambda>fname s s'. \<exists>a b c d r. fname a b c d s = Some (r, s')"
  by unfold_locales (auto simp: PHP_i_iiih_def macro_simps simp del: ret_ok.simps(4) iff del: not_None_eq dest!: zpp_okD
      split: option.split_asm list.split_asm zval.split_asm)

interpretation PHP_i_iih: php_macro PHP_i_iih "''lla''" Ret_i
  "\<lambda>fname s. \<forall>a b c. fname a b c s \<noteq> None" "\<lambda>fname s s'. \<exists>a b c r. fname a b c s = Some (r, s')"
  by unfold_locales (auto simp: PHP_i_iih_def macro_simps simp del: ret_ok.simps(4) iff del: not_None_eq dest!: zpp_okD
      split: option.split_asm list.split_asm zval.split_asm)

interpretation PHP_i_ish: php_macro PHP_i_ish "''lsa''" Ret_i
  "\<lambda>fname s. \<forall>a b c. fname a b c s \<noteq> None" "\<lambda>fname s s'. \<exists>a b c r. fname a b c s = Some (r, s')"
  by unfold_locales (auto simp: PHP_i_ish_def macro_simps simp del: ret_ok.simps(4) iff del: not_None_eq dest!: zpp_okD
      split: option.split_asm list.split_asm zval.split_asm)

interpretation PHP_i_ishh: php_macro PHP_i_ishh "''lsaa''" Ret_i
  "\<lambda>fname s. \<forall>a b c d. fname a b c d s \<noteq> None" "\<lambda>fname s s'. \<exists>a b c d r. fname a b c d s = Some (r, s')"
  by unfold_locales (auto simp: PHP_i_ishh_def macro_simps simp del: ret_ok.simps(4) iff del: not_None_eq dest!: zpp_okD
      split: option.split_asm list.split_asm zval.split_asm)

interpretation PHP_i_h: php_macro PHP_i_h "''a''" Ret_i
  "\<lambda>fname s. \<forall>a. fname a s \<noteq> None" "\<lambda>fname s s'. \<exists>a r. fname a s = Some (r, s')"
  by unfold_locales (auto simp: PHP_i_h_def macro_simps simp del: ret_ok.simps(4) iff del: not_None_eq dest!: zpp_okD
      split: option.split_asm list.split_asm zval.split_asm)

interpretation PHP_v_s: php_macro PHP_v_s "''s''" Ret_v
  "\<lambda>fname s. \<forall>b. fname b s \<noteq> None" "\<lambda>fname s s'. \<exists>b. fname b s = Some s'"
  by unfold_locales (auto simp: PHP_v_s_def macro_simps simp del: ret_ok.simps(4) iff del: not_None_eq dest!: zpp_okD
      split: option.split_asm list.split_asm zval.split_asm)

interpretation PHP_v_is: php_macro PHP_v_is "''ls''" Ret_v
  "\<lambda>fname s. \<forall>a b. fname a b s \<noteq> None" "\<lambda>fname s s'. \<exists>a b. fname a b s = Some s'"
  by unfold_locales (auto simp: PHP_v_is_def macro_simps simp del: ret_ok.simps(4) iff del: not_None_eq dest!: zpp_okD
      split: option.split_asm list.split_asm zval.split_asm)

interpretation PHP_b_s: php_macro PHP_b_s "''s''" Ret_b
  "\<lambda>fname s. \<forall>b. fname b s \<noteq> None" "\<lambda>fname s s'. \<exists>b r. fname b s = Some (r, s')"
  by unfold_locales (auto simp: PHP_b_s_def macro_simps simp del: ret_ok.simps(4) iff del: not_None_eq dest!: zpp_okD
      split: option.split_asm list.split_asm zval.split_asm)

interpretation PHP_b_i: php_macro PHP_b_i "''l''" Ret_b
  "\<lambda>fname s. \<forall>a. fname a s \<noteq> None" "\<lambda>fname s s'. \<exists>a r. fname a s = Some (r, s')"
  by unfold_locales (auto simp: PHP_b_i_def macro_simps simp del: ret_ok.simps(4) iff del: not_None_eq dest!: zpp_okD
      split: option.split_asm list.split_asm zval.split_asm)

interpretation PHP_v_issb: php_macro PHP_v_issb "''lssb''" Ret_v
  "\<lambda>fname s. \<forall>a b c d. fname a b c d s \<noteq> None" "\<lambda>fname s s'. \<exists>a b c d. fname a b c d s = Some s'"
  by unfold_locales (auto simp: PHP_v_issb_def macro_simps simp del: ret_ok.simps(4) iff del: not_None_eq dest!: zpp_okD
      split: option.split_asm list.split_asm zval.split_asm)

interpretation PHP_v_isssssb: php_macro PHP_v_isssssb "''lsssssb''" Ret_v
  "\<lambda>fname s. \<forall>a b c d e f g. fname a b c d e f g s \<noteq> None" "\<lambda>fname s s'. \<exists>a b c d e f g. fname a b c d e f g s = Some s'"
  by unfold_locales (auto simp: PHP_v_isssssb_def macro_simps simp del: ret_ok.simps(4) iff del: not_None_eq dest!: zpp_okD
      split: option.split_asm list.split_asm zval.split_asm)

interpretation PHP_v_issssb: php_macro PHP_v_issssb "''lssssb''" Ret_v
  "\<lambda>fname s. \<forall>a b c d e f. fname a b c d e f s \<noteq> None" "\<lambda>fname s s'. \<exists>a b c d e f. fname a b c d e f s = Some s'"
  by unfold_locales (auto simp: PHP_v_issssb_def macro_simps simp del: ret_ok.simps(4) iff del: not_None_eq dest!: zpp_okD
      split: option.split_asm list.split_asm zval.split_asm)

interpretation PHP_v_isssb: php_macro PHP_v_isssb "''lsssb''" Ret_v
  "\<lambda>fname s. \<forall>a b c d e. fname a b c d e s \<noteq> None" "\<lambda>fname s s'. \<exists>a b c d e. fname a b c d e s = Some s'"
  by unfold_locales (auto simp: PHP_v_isssb_def macro_simps simp del: ret_ok.simps(4) iff del: not_None_eq dest!: zpp_okD
      split: option.split_asm list.split_asm zval.split_asm)

section \<open>Arrays of strings\<close>

lemma str_tab_loop_list:
  "str_tab_loop (zip (map (\<lambda>i. ZIndex (int i)) [0..<length vs]) (map ZStr vs)) [k..<length vs] = Some (map c_str (drop k vs))"
proof (induction "length vs - k" arbitrary: k)
  case (Suc n)
  let ?d = "zip (map (\<lambda>i. ZIndex (int i)) [0..<length vs]) (map ZStr vs)"
  have k: "k < length vs" using Suc.hyps(2) by simp
  have "distinct (map fst ?d)" by (simp add: distinct_map inj_on_def)
  moreover have "(ZIndex (int k), ZStr (vs ! k)) \<in> set ?d" using k by (auto simp: set_zip intro!: exI [of _ k])
  ultimately have "zend_hash_index_find ?d k = Some (ZStr (vs ! k))" by (simp add: zend_hash_index_find_def)
  moreover have "str_tab_loop ?d [Suc k..<length vs] = Some (map c_str (drop (Suc k) vs))" using Suc by simp
  ultimately show ?case using k by (simp add: upt_rec [of k] flip: Cons_nth_drop_Suc)
qed (simp add: upt_rec)

text \<open>A script that passes a list of strings passes all of them, in their order.\<close>

lemma PHP_i_iias_strings:
  assumes "zpp ''llas'' args = Some [ZLong a, ZLong b, ZArr (zip (map (\<lambda>i. ZIndex (int i)) [0..<length vs]) (map ZStr vs)), ZStr e]"
  shows "PHP_i_iias zpp fname args s = do { (ret, s) \<leftarrow> fname a b (map c_str vs) (length vs) (c_str e) s; RETURN_LONG ret s }"
  using str_tab_loop_list [of vs 0] by (simp add: PHP_i_iias_def assms)

end
