(* ===== verification/Smsd_PhpDb.thy ===== *)
theory Smsd_PhpDb
  imports Smsd_Locks Smsd_Wrappers
begin

text \<open>
  The functions of \<^verbatim>\<open>php_db.c\<close> that the PHP scripts call on the database: locks, provisioning
  status, polling mode, address, configuration objects and logs of a device.

  The scripts hold pointers as integers. \<^verbatim>\<open>lcsp\<close> is null or the client state of the running task;
  \<^verbatim>\<open>lsd_info\<close> is null or the address of the description of a device, which the argument \<open>mem\<close> gives; the
  provisioning status a script reads lies in memory of its own, a map from addresses that shrinks when it is freed.
\<close>

section \<open>Pointers\<close>

type_synonym sd_mem = "64 word \<Rightarrow> sd_info"
type_synonym prov_mem = "64 word \<rightharpoonup> sd_provstatus"

text \<open>The test \<^verbatim>\<open>!sd_info || !csp\<close> and the access to the device.\<close>

definition sd_of :: "sd_mem \<Rightarrow> 64 word \<Rightarrow> 64 word \<Rightarrow> sd_info option" where
  "sd_of mem lcsp lsd_info = (if lsd_info = 0 \<or> lcsp = 0 then None else Some (mem lsd_info))"

text \<open>
  A call on the context of the task, or on one that is found for the call and given back: \<^verbatim>\<open>csp->db_ctx\<close> keeps
  the handle in either case.
\<close>

definition with_ctx :: "'w ops \<Rightarrow> (nat \<Rightarrow> 'w smsd \<Rightarrow> ('r \<times> 'w smsd) option) \<Rightarrow> 'w smsd \<Rightarrow> ('r \<times> 'w smsd) option" where
  "with_ctx ops call s = do {
     let (release_db_ctx, s) = need_ctx ops s;
     c \<leftarrow> ctx_of s;
     (ret, s) \<leftarrow> call c s;
     Some (ret, drop_ctx ops release_db_ctx s)
   }"

section \<open>Operations\<close>

definition sms_sd_prov_lock :: "'w ops \<Rightarrow> sd_mem \<Rightarrow> 64 word \<Rightarrow> 64 word \<Rightarrow> 'w smsd \<Rightarrow> (int \<times> 'w smsd) option" where
  "sms_sd_prov_lock ops mem lcsp lsd_info s = (case sd_of mem lcsp lsd_info of None \<Rightarrow> Some (ERR_SD_FAILED, s)
     | Some i \<Rightarrow> lockProv ops (sd_cli_prefix (SD i)) (sd_seqnum (SD i)) s)"

definition sms_sd_prov_unlock :: "'w ops \<Rightarrow> sd_mem \<Rightarrow> 64 word \<Rightarrow> 64 word \<Rightarrow> 'w smsd \<Rightarrow> (int \<times> 'w smsd) option" where
  "sms_sd_prov_unlock ops mem lcsp lsd_info s = (case sd_of mem lcsp lsd_info of None \<Rightarrow> Some (ERR_SD_FAILED, s)
     | Some i \<Rightarrow> unlockProv ops (sd_cli_prefix (SD i)) (sd_seqnum (SD i)) s)"

definition sms_sd_lock :: "'w ops \<Rightarrow> sd_mem \<Rightarrow> 64 word \<Rightarrow> 64 word \<Rightarrow> 'w smsd \<Rightarrow> (int \<times> 'w smsd) option" where
  "sms_sd_lock ops mem lcsp lsd_info s = (case sd_of mem lcsp lsd_info of None \<Rightarrow> Some (ERR_SD_FAILED, s)
     | Some i \<Rightarrow> lockSD ops (sd_cli_prefix (SD i)) (sd_seqnum (SD i)) s)"

definition sms_sd_unlock :: "'w ops \<Rightarrow> sd_mem \<Rightarrow> 64 word \<Rightarrow> 64 word \<Rightarrow> 'w smsd \<Rightarrow> (int \<times> 'w smsd) option" where
  "sms_sd_unlock ops mem lcsp lsd_info s = (case sd_of mem lcsp lsd_info of None \<Rightarrow> Some (ERR_SD_FAILED, s)
     | Some i \<Rightarrow> unlockSD ops (sd_cli_prefix (SD i)) (sd_seqnum (SD i)) s)"

text \<open>
  The loop over the stages: the string under the key \<open>name\<close> in each row of the PHP array \<^verbatim>\<open>lstage_names\<close>,
  \<open>Some None\<close> when a row or its key is missing.
\<close>

fun stage_names_loop :: "zarr \<Rightarrow> nat list \<Rightarrow> string list option option" where
  "stage_names_loop arr [] = Some (Some [])"
| "stage_names_loop arr (i # is) = (case zend_hash_index_find arr i of
       None \<Rightarrow> Some None
     | Some row \<Rightarrow> do {
         r \<leftarrow> Z_ARRVAL_P row;
         (case zend_hash_find r ''name'' of
            None \<Rightarrow> Some None
          | Some v \<Rightarrow> do {
              name \<leftarrow> Z_STRVAL_P v;
              names \<leftarrow> stage_names_loop arr is;
              Some (map_option (\<lambda>ns. name # ns) names)
            })
       })"

definition sms_bd_init_provstatus ::
  "'w ops \<Rightarrow> sd_mem \<Rightarrow> 64 word \<Rightarrow> 64 word \<Rightarrow> int \<Rightarrow> zarr \<Rightarrow> 'w smsd \<Rightarrow> (int \<times> 'w smsd) option" where
  "sms_bd_init_provstatus ops mem lcsp lsd_info num_stages lstage_names s =
     (case sd_of mem lcsp lsd_info of None \<Rightarrow> Some (ERR_SD_FAILED, s)
      | Some i \<Rightarrow> do {
          names \<leftarrow> stage_names_loop lstage_names [0..<nat num_stages];
          (case names of
             None \<Rightarrow> Some (ERR_LOCAL_PHP, s)
           | Some stage_names \<Rightarrow> with_ctx ops (\<lambda>c s. do {
               ((ret, _), s) \<leftarrow> HA_SMSSQL_InitProvStatus ops c (sd_cli_prefix (SD i)) (sd_seqnum (SD i)) num_stages stage_names s;
               Some (ret, s)
             }) s)
        })"

definition provstatus_message :: "'w ops \<Rightarrow> int \<Rightarrow> string \<Rightarrow> string" where
  "provstatus_message ops error_id additionalmsg =
     (case x_get_error_message ops error_id of None \<Rightarrow> [] | Some m \<Rightarrow> m) @
     (if additionalmsg = [] then [] else '' ['' @ additionalmsg @ '']'')"

definition sms_bd_set_provstatus ::
  "'w ops \<Rightarrow> sd_mem \<Rightarrow> 64 word \<Rightarrow> 64 word \<Rightarrow> int \<Rightarrow> string option \<Rightarrow> int \<Rightarrow> string option \<Rightarrow> string option \<Rightarrow> 'w smsd \<Rightarrow> (int \<times> 'w smsd) option" where
  "sms_bd_set_provstatus ops mem lcsp lsd_info stage_index status error_id next_status additionalmsg s =
     (case (sd_of mem lcsp lsd_info, additionalmsg) of
        (Some i, Some amsg) \<Rightarrow> with_ctx ops (\<lambda>c s. do {
          let next_status = (if next_status = Some [] then None else next_status);
          ((ret, _), s) \<leftarrow> HA_SMSSQL_SetProvStatus ops c (sd_cli_prefix (SD i)) (sd_seqnum (SD i)) stage_index status
            next_status (x_get_error_code_num ops error_id) (provstatus_message ops error_id amsg) s;
          Some (ret, s)
        }) s
      | _ \<Rightarrow> Some (ERR_SD_FAILED, s))"

text \<open>
  \<^verbatim>\<open>malloc\<close> returns the address \<open>new m\<close>, null or not in use, of memory that holds \<open>junk\<close>.
\<close>

definition sms_bd_get_provstatus ::
  "'w ops \<Rightarrow> sd_mem \<Rightarrow> (prov_mem \<Rightarrow> 64 word) \<Rightarrow> sd_provstatus \<Rightarrow> 64 word \<Rightarrow> 64 word \<Rightarrow> int \<Rightarrow> 'w smsd \<times> prov_mem \<Rightarrow>
   (64 word \<times> 'w smsd \<times> prov_mem) option" where
  "sms_bd_get_provstatus ops mem new junk lcsp lsd_info stage_index = (\<lambda>(s, m). case sd_of mem lcsp lsd_info of None \<Rightarrow> Some (0, s, m)
     | Some i \<Rightarrow> if new m = 0 then None else do {
         let provstatus = junk\<lparr>sdps_prefix := sd_cli_prefix (SD i), sdps_seqnum := sd_seqnum (SD i),
           sdps_stage_index := stage_index\<rparr>;
         ((ret, provstatus), s) \<leftarrow> with_ctx ops (\<lambda>c s. HA_SMSSQL_GetProvStatus ops c provstatus s) s;
         Some (if ret \<noteq> 0 then (0, s, m) else (new m, s, m(new m \<mapsto> provstatus)))
       })"

text \<open>\<^verbatim>\<open>%08x\<close> of an \<^verbatim>\<open>unsigned int\<close>.\<close>

definition hex_digit :: "nat \<Rightarrow> char" where
  "hex_digit d = (if d < 10 then char_of (48 + d) else char_of (87 + d))"

definition fmt_08x :: "32 word \<Rightarrow> string" where
  "fmt_08x w = map (\<lambda>i. hex_digit (unat w div 16 ^ i mod 16)) (rev [0..<8])"

definition sms_bd_get_provstatus_field_str :: "64 word \<Rightarrow> string \<Rightarrow> prov_mem \<Rightarrow> string option option" where
  "sms_bd_get_provstatus_field_str lprovstatus field_name m = (if lprovstatus = 0 then Some None else do {
     p \<leftarrow> m lprovstatus;
     Some (if field_name = ''sdps_status'' then Some (sdps_status p)
        else if field_name = ''sdps_error_code'' then Some (''0x'' @ fmt_08x (ucast (sdps_error_code p)))
        else if field_name = ''sdps_error_message'' then Some (sdps_error_message p)
        else None)
   })"

definition sms_bd_free_provstatus :: "64 word \<Rightarrow> prov_mem \<Rightarrow> prov_mem option" where
  "sms_bd_free_provstatus lprovstatus m = (if lprovstatus = 0 then Some m
     else if m lprovstatus = None then None else Some (m(lprovstatus := None)))"

definition sms_bd_set_poll_mode :: "'w ops \<Rightarrow> sd_mem \<Rightarrow> 64 word \<Rightarrow> 64 word \<Rightarrow> int \<Rightarrow> 'w smsd \<Rightarrow> (int \<times> 'w smsd) option" where
  "sms_bd_set_poll_mode ops mem lcsp lsd_info poll_mode s = (case sd_of mem lcsp lsd_info of None \<Rightarrow> Some (ERR_SD_FAILED, s)
     | Some i \<Rightarrow> with_ctx ops (\<lambda>c s. do {
         ((ret, _), s) \<leftarrow> HA_SMSSQL_SetPollMode ops c (sd_cli_prefix (SD i)) (sd_seqnum (SD i)) poll_mode s;
         Some (ret, s)
       }) s)"

definition sms_bd_set_ipconfig :: "'w ops \<Rightarrow> sd_mem \<Rightarrow> 64 word \<Rightarrow> 64 word \<Rightarrow> string \<Rightarrow> 'w smsd \<Rightarrow> (int \<times> 'w smsd) option" where
  "sms_bd_set_ipconfig ops mem lcsp lsd_info ip_addr s = (case sd_of mem lcsp lsd_info of None \<Rightarrow> Some (ERR_SD_FAILED, s)
     | Some i \<Rightarrow> with_ctx ops (\<lambda>c s. do {
         ((ret, _), s) \<leftarrow> HA_SMSSQL_SetSDIPConfig ops c (sd_cli_prefix (SD i)) (sd_seqnum (SD i)) ip_addr 1 s;
         Some (ret, s)
       }) s)"

definition CRUD_NAME_LEN :: nat where "CRUD_NAME_LEN = 200"
definition CRUD_VALUE_LEN :: nat where "CRUD_VALUE_LEN = 4000"

definition crud_object :: "sd_like \<Rightarrow> string \<Rightarrow> string \<Rightarrow> sd_crud_object" where
  "crud_object sd name val = \<lparr>crud_cli_prefix = take PREFIXSIZE (sd_cli_prefix sd), crud_seqnum = sd_seqnum sd,
     crud_name = take CRUD_NAME_LEN name, crud_value = take CRUD_VALUE_LEN val\<rparr>"

definition sms_bd_reset_conf_objects :: "'w ops \<Rightarrow> sd_mem \<Rightarrow> 64 word \<Rightarrow> 64 word \<Rightarrow> 'w smsd \<Rightarrow> (int \<times> 'w smsd) option" where
  "sms_bd_reset_conf_objects ops mem lcsp lsd_info s = (case sd_of mem lcsp lsd_info of None \<Rightarrow> Some (ERR_SD_FAILED, s)
     | Some i \<Rightarrow> with_ctx ops (\<lambda>c s. do {
         let ((ret, _), s) = sql_call ''ResetSDCrudObjects'' c
           (no_out (x_ResetSDCrudObjects (x_db ops) c (crud_object (SD i) [] []))) s;
         Some (ret, s)
       }) s)"

definition sms_bd_set_conf_objects :: "'w ops \<Rightarrow> sd_mem \<Rightarrow> 64 word \<Rightarrow> 64 word \<Rightarrow> string \<Rightarrow> string \<Rightarrow> 'w smsd \<Rightarrow> (int \<times> 'w smsd) option" where
  "sms_bd_set_conf_objects ops mem lcsp lsd_info name val s = (case sd_of mem lcsp lsd_info of None \<Rightarrow> Some (ERR_SD_FAILED, s)
     | Some i \<Rightarrow> with_ctx ops (\<lambda>c s. do {
         let ((ret, _), s) = sql_call ''SetSDCrudObjects'' c
           (no_out (x_SetSDCrudObjects (x_db ops) c (crud_object (SD i) name val))) s;
         Some (ret, s)
       }) s)"

definition sms_bd_delete_conf_objects :: "'w ops \<Rightarrow> sd_mem \<Rightarrow> 64 word \<Rightarrow> 64 word \<Rightarrow> string \<Rightarrow> 'w smsd \<Rightarrow> (int \<times> 'w smsd) option" where
  "sms_bd_delete_conf_objects ops mem lcsp lsd_info name s = (case sd_of mem lcsp lsd_info of None \<Rightarrow> Some (ERR_SD_FAILED, s)
     | Some i \<Rightarrow> with_ctx ops (\<lambda>c s. do {
         let ((ret, _), s) = sql_call ''DeleteSDCrudObjects'' c
           (no_out (x_DeleteSDCrudObjects (x_db ops) c (crud_object (SD i) name []))) s;
         Some (ret, s)
       }) s)"

definition LOG_REFERENCE_LEN :: nat where "LOG_REFERENCE_LEN = 100"

text \<open>C's remainder takes the sign of the dividend.\<close>

definition c_rem :: "int \<Rightarrow> int \<Rightarrow> int" where
  "c_rem a b = sgn a * (\<bar>a\<bar> mod \<bar>b\<bar>)"

text \<open>The string under a key of the PHP array \<^verbatim>\<open>zlog\<close>, \<open>Some None\<close> when it is missing.\<close>

definition zlog_str :: "zarr \<Rightarrow> string \<Rightarrow> string option option" where
  "zlog_str zlog key = (case zend_hash_find zlog key of None \<Rightarrow> Some None | Some v \<Rightarrow> map_option Some (Z_STRVAL_P v))"

text \<open>The device is accessed without a test, and the context is not the task's own.\<close>

definition sms_bd_set_log :: "'w ops \<Rightarrow> sd_mem \<Rightarrow> 64 word \<Rightarrow> zarr \<Rightarrow> 'w smsd \<Rightarrow> (int \<times> 'w smsd) option" where
  "sms_bd_set_log ops mem lsd_info zlog s = (if lsd_info = 0 then None else do {
     let i = mem lsd_info;
     msg \<leftarrow> zlog_str zlog ''log_msg'';
     level \<leftarrow> zlog_str zlog ''log_level'';
     reference \<leftarrow> zlog_str zlog ''log_reference'';
     let fildelog = \<lparr>log_cli_prefix = take PREFIXSIZE (sd_cli_prefix (SD i)), log_seqnum = sd_seqnum (SD i),
        log_msg = (case msg of None \<Rightarrow> [] | Some v \<Rightarrow> take LOG_MESG_LEN v),
        log_level = (case level of None \<Rightarrow> 0 | Some v \<Rightarrow> c_rem (strtol0 v) 8),
        log_reference = (case reference of None \<Rightarrow> [] | Some v \<Rightarrow> take LOG_REFERENCE_LEN v)\<rparr>;
     let (h, s) = sms_db_find_ctx ops DB_SMS s;
     let (_, s) = set_log_by_id ops (Some h) fildelog s;
     Some (SMS_OK, sms_db_release_ctx ops (Some h) s)
   })"

section \<open>The functions and the context of the task\<close>

text \<open>
  What a script may rely on, whichever function it calls: either nothing happened, or a context was borrowed.
\<close>

locale script_call =
  fixes ops :: "'w ops" and op :: "'w smsd \<Rightarrow> ('r \<times> 'w smsd) option"
  assumes borrows: "op s = Some (r, s') \<Longrightarrow> s' = s \<or> borrowed s s'"
begin

lemma balanced: "op s = Some (r, s') \<Longrightarrow> ctx_balanced s s'"
  using borrows by (fastforce simp: borrowed_def ctx_balanced_def)

lemma keeps_stat: "op s = Some (r, s') \<Longrightarrow> currentStat s' = currentStat s \<and> cfd (csp s') = cfd (csp s)"
  using borrows by (fastforce simp: borrowed_def)

lemma dangling:
  assumes "op s = Some (r, s')" "ctx_of s = None" "s' \<noteq> s" "ctx_run [] (calls s) = Some []"
  shows "\<exists>h. ctx_of s' = Some h \<and> ctx_run [] (calls s') = Some [] \<and> ctx_run [] (calls (RELEASE_BD_CTX ops s')) = None"
proof -
  from borrows [OF assms(1)] assms(3) obtain h ds where "ctx_of s' = Some h" "calls s' = calls s @ ds" "ctx_run [] ds = Some []"
    by (auto simp: borrowed_def ctx_balanced_def)
  with assms(4) show ?thesis by (simp add: ctx_run_append)
qed

end

lemma with_ctx_borrowed:
  assumes "with_ctx ops call s = Some (r, s')" "\<And>c s r s'. call c s = Some (r, s') \<Longrightarrow> quiet s s'"
  shows "borrowed s s'"
proof -
  obtain acq s1 where n: "need_ctx ops s = (acq, s1)" by (cases "need_ctx ops s")
  show ?thesis using assms unfolding with_ctx_def n by (auto simp: returned intro: borrow_ctx [OF n])
qed

text \<open>The locks on a device borrow a context themselves.\<close>

interpretation sms_sd_lock: script_call ops "sms_sd_lock ops mem lcsp lsd_info" for ops mem lcsp lsd_info
  by unfold_locales (auto simp: sms_sd_lock_def dest: lockSD.borrows split: option.splits)

interpretation sms_sd_unlock: script_call ops "sms_sd_unlock ops mem lcsp lsd_info" for ops mem lcsp lsd_info
  by unfold_locales (auto simp: sms_sd_unlock_def dest: unlockSD.borrows split: option.splits)

interpretation sms_sd_prov_lock: script_call ops "sms_sd_prov_lock ops mem lcsp lsd_info" for ops mem lcsp lsd_info
  by unfold_locales (auto simp: sms_sd_prov_lock_def dest: lockProv.borrows split: option.splits)

interpretation sms_sd_prov_unlock: script_call ops "sms_sd_prov_unlock ops mem lcsp lsd_info" for ops mem lcsp lsd_info
  by unfold_locales (auto simp: sms_sd_prov_unlock_def dest: unlockProv.borrows split: option.splits)

interpretation sms_bd_set_provstatus: script_call ops "sms_bd_set_provstatus ops mem lcsp lsd_info stage_index status error_id next_status additionalmsg" for ops mem lcsp lsd_info stage_index status error_id next_status additionalmsg
  by unfold_locales (auto simp: sms_bd_set_provstatus_def returned dest: SetProvStatus.quiet elim!: notE [OF _ with_ctx_borrowed] split: option.splits)

interpretation sms_bd_set_poll_mode: script_call ops "sms_bd_set_poll_mode ops mem lcsp lsd_info poll_mode" for ops mem lcsp lsd_info poll_mode
  by unfold_locales (auto simp: sms_bd_set_poll_mode_def returned dest: SetPollMode.quiet elim!: notE [OF _ with_ctx_borrowed] split: option.splits)

interpretation sms_bd_set_ipconfig: script_call ops "sms_bd_set_ipconfig ops mem lcsp lsd_info ip_addr" for ops mem lcsp lsd_info ip_addr
  by unfold_locales (auto simp: sms_bd_set_ipconfig_def returned dest: SetSDIPConfig.quiet elim!: notE [OF _ with_ctx_borrowed] split: option.splits)

interpretation sms_bd_reset_conf_objects: script_call ops "sms_bd_reset_conf_objects ops mem lcsp lsd_info" for ops mem lcsp lsd_info
  by unfold_locales (auto simp: sms_bd_reset_conf_objects_def returned dest: quiet_sql_call elim!: notE [OF _ with_ctx_borrowed] split: option.splits)

interpretation sms_bd_set_conf_objects: script_call ops "sms_bd_set_conf_objects ops mem lcsp lsd_info name val" for ops mem lcsp lsd_info name val
  by unfold_locales (auto simp: sms_bd_set_conf_objects_def returned dest: quiet_sql_call elim!: notE [OF _ with_ctx_borrowed] split: option.splits)

interpretation sms_bd_delete_conf_objects: script_call ops "sms_bd_delete_conf_objects ops mem lcsp lsd_info name" for ops mem lcsp lsd_info name
  by unfold_locales (auto simp: sms_bd_delete_conf_objects_def returned dest: quiet_sql_call elim!: notE [OF _ with_ctx_borrowed] split: option.splits)

interpretation sms_bd_init_provstatus: script_call ops "sms_bd_init_provstatus ops mem lcsp lsd_info num_stages lstage_names"
  for ops mem lcsp lsd_info num_stages lstage_names
proof
  fix s r and s' :: "'a smsd"
  assume run: "sms_bd_init_provstatus ops mem lcsp lsd_info num_stages lstage_names s = Some (r, s')"
  show "s' = s \<or> borrowed s s'"
  proof (cases "stage_names_loop lstage_names [0..<nat num_stages]")
    case (Some names)
    with run show ?thesis
      by (cases names) (auto simp: sms_bd_init_provstatus_def returned dest: InitProvStatus.quiet
        elim!: notE [OF _ with_ctx_borrowed] split: option.splits)
  qed (use run in \<open>auto simp: sms_bd_init_provstatus_def split: option.splits\<close>)
qed

end
