(* ===== verification/Smsd_Binding.thy ===== *)
theory Smsd_Binding
  imports Smsd_PhpDb Smsd_Router
begin

text \<open>
  The extension module of \<^verbatim>\<open>php.c\<close>: the table of the functions that the PHP scripts can call, each made by a
  macro of \<^verbatim>\<open>sms_php_wrappers.h\<close> from a C function. The C functions of \<^verbatim>\<open>php_db.c\<close>, \<^verbatim>\<open>php_misc.c\<close> and
  \<^verbatim>\<open>php_sdinfo.c\<close> are those of the other theories; the seven of \<^verbatim>\<open>libsmsphp\<close> are parameters.

  The state of a script is the state of its task and the memory of the provisioning status it has asked for.
\<close>

section \<open>The table\<close>

type_synonym 'w php_state = "'w smsd \<times> prov_mem"

record 'w php_lib =
  x_sms_log_error :: "string \<Rightarrow> 'w \<Rightarrow> 'w"
  x_sms_log_info :: "string \<Rightarrow> 'w \<Rightarrow> 'w"
  x_sms_log_debug :: "int \<Rightarrow> string \<Rightarrow> 'w \<Rightarrow> 'w"
  x_sms_store_in_database :: "64 word \<Rightarrow> string \<Rightarrow> zarr \<Rightarrow> zarr \<Rightarrow> 'w \<Rightarrow> int \<times> 'w"
  x_sms_delete_in_database :: "64 word \<Rightarrow> string \<Rightarrow> zarr \<Rightarrow> 'w \<Rightarrow> int \<times> 'w"
  x_sms_find_db_context :: "string \<Rightarrow> 'w \<Rightarrow> 64 word \<times> 'w"
  x_sms_release_db_context :: "64 word \<Rightarrow> 'w \<Rightarrow> 'w"

text \<open>The memory the scripts' pointers lead to, the parameters, and the severities of the configuration.\<close>

record 'w php_env =
  p_ops :: "'w ops"
  p_lib :: "'w php_lib"
  p_mem :: sd_mem
  p_new :: "prov_mem \<Rightarrow> 64 word"
  p_junk :: sd_provstatus
  p_alarm_fail :: int
  p_alarm_ok :: int

text \<open>The conversions of C at a call: a \<^verbatim>\<open>long\<close> for an \<^verbatim>\<open>int\<close> parameter, an \<^verbatim>\<open>int\<close> result for a \<^verbatim>\<open>long\<close>.\<close>

definition as_int :: "64 word \<Rightarrow> int" where
  "as_int l = sint (ucast l :: 32 word)"

definition int_result :: "('w smsd \<Rightarrow> (int \<times> 'w smsd) option) \<Rightarrow> 'w php_state \<Rightarrow> (64 word \<times> 'w php_state) option" where
  "int_result f = (\<lambda>(s, m). do { (r, s) \<leftarrow> f s; Some (word_of_int r, s, m) })"

definition to_client :: "64 word \<Rightarrow> ('w smsd \<Rightarrow> 'w smsd) \<Rightarrow> 'w php_state \<Rightarrow> 'w php_state option" where
  "to_client lcsp f = (\<lambda>(s, m). Some (if lcsp = 0 then s else f s, m))"

definition built :: "string \<Rightarrow> 'w php_state \<Rightarrow> (string option \<times> 'w php_state) option" where
  "built t s = Some (Some t, s)"

definition on_world :: "('w \<Rightarrow> 'w) \<Rightarrow> 'w php_state \<Rightarrow> 'w php_state option" where
  "on_world f = (\<lambda>(s, m). Some (s\<lparr>world := f (world s)\<rparr>, m))"

definition world_result :: "('w \<Rightarrow> 64 word \<times> 'w) \<Rightarrow> 'w php_state \<Rightarrow> (64 word \<times> 'w php_state) option" where
  "world_result f = (\<lambda>(s, m). let (r, w) = f (world s) in Some (r, s\<lparr>world := w\<rparr>, m))"

definition php_sms_functions :: "'w php_env \<Rightarrow> zpp \<Rightarrow> (string \<times> 'w php_state php_function) list" where
  "php_sms_functions e zpp = (let ops = p_ops e; lib = p_lib e; mem = p_mem e in [
     (''sms_sd_get_config_mode_from_sdinfo'', PHP_i_i zpp (\<lambda>lsdinfo s. Some (word_of_int
        (sms_sd_get_config_mode_from_sdinfo (if lsdinfo = 0 then None else Some (mem lsdinfo))), s))),
     (''sms_sd_prov_unlock'', PHP_i_ii zpp (\<lambda>a b. int_result (sms_sd_prov_unlock ops mem a b))),
     (''sms_sd_prov_lock'', PHP_i_ii zpp (\<lambda>a b. int_result (sms_sd_prov_lock ops mem a b))),
     (''sms_sd_lock'', PHP_i_ii zpp (\<lambda>a b. int_result (sms_sd_lock ops mem a b))),
     (''sms_sd_unlock'', PHP_i_ii zpp (\<lambda>a b. int_result (sms_sd_unlock ops mem a b))),
     (''sms_sd_forceasset'', PHP_i_ii zpp (\<lambda>a b. int_result (sms_sd_forceasset ops (sd_of mem a b)))),
     (''sms_bd_init_provstatus'', PHP_i_iiih zpp (\<lambda>a b c d. int_result (sms_bd_init_provstatus ops mem a b (as_int c) d))),
     (''sms_bd_set_provstatus'', PHP_i_iiisiss zpp (\<lambda>a b c d e f g.
        int_result (sms_bd_set_provstatus ops mem a b (as_int c) (Some d) (as_int e) (Some f) (Some g)))),
     (''sms_bd_get_provstatus'', PHP_i_iii zpp (\<lambda>a b c. sms_bd_get_provstatus ops mem (p_new e) (p_junk e) a b (as_int c))),
     (''sms_bd_get_provstatus_field_str'', PHP_sf_is zpp (\<lambda>a b (s, m).
        do { t \<leftarrow> sms_bd_get_provstatus_field_str a b m; Some (t, s, m) })),
     (''sms_bd_free_provstatus'', PHP_v_i zpp (\<lambda>a (s, m). do { m \<leftarrow> sms_bd_free_provstatus a m; Some (s, m) })),
     (''sms_bd_set_poll_mode'', PHP_i_iii zpp (\<lambda>a b c. int_result (sms_bd_set_poll_mode ops mem a b (as_int c)))),
     (''sms_bd_set_ipconfig'', PHP_i_iis zpp (\<lambda>a b c. int_result (sms_bd_set_ipconfig ops mem a b c))),
     (''sms_bd_reset_conf_objects'', PHP_i_ii zpp (\<lambda>a b. int_result (sms_bd_reset_conf_objects ops mem a b))),
     (''sms_bd_set_conf_objects'', PHP_i_iiss zpp (\<lambda>a b c d. int_result (sms_bd_set_conf_objects ops mem a b c d))),
     (''sms_bd_delete_conf_objects'', PHP_i_iis zpp (\<lambda>a b c. int_result (sms_bd_delete_conf_objects ops mem a b c))),
     (''sms_bd_set_log'', PHP_i_ih zpp (\<lambda>a b. int_result (sms_bd_set_log ops mem a b))),
     (''sms_log_error'', PHP_v_s zpp (\<lambda>a. on_world (x_sms_log_error lib a))),
     (''sms_log_info'', PHP_v_s zpp (\<lambda>a. on_world (x_sms_log_info lib a))),
     (''sms_log_debug'', PHP_v_is zpp (\<lambda>a b. on_world (x_sms_log_debug lib (as_int a) b))),
     (''sms_reply_to_user'', PHP_v_iss zpp (\<lambda>a b c. to_client a (sms_reply_to_user ops (Some c)))),
     (''sms_send_user_message'', PHP_v_iss zpp (\<lambda>a b c. to_client a (sms_send_user_message ops c))),
     (''sms_user_message_add'', PHP_sf_sss zpp (\<lambda>a b c. built (sms_user_message_add ops a b c))),
     (''sms_user_message_add_json'', PHP_sf_sss zpp (\<lambda>a b c. built (sms_user_message_add_json a b c))),
     (''sms_user_message_add_array'', PHP_sf_sss zpp (\<lambda>a b c. built (sms_user_message_add_array a b c))),
     (''sms_user_message_array_add'', PHP_sf_ss zpp (\<lambda>a b. built (sms_user_message_array_add a b))),
     (''sms_send_user_ok'', PHP_v_iss zpp (\<lambda>a b c. to_client a (sms_send_user_ok ops (Some c)))),
     (''sms_send_user_ok_ex'', PHP_v_isss zpp (\<lambda>a b c d. to_client a (sms_send_user_ok_ex ops (Some c) (Some d)))),
     (''sms_send_user_error_ex'', PHP_v_issi zpp (\<lambda>a b c d (s, m).
        do { t \<leftarrow> sms_send_user_error_ex ops (Some c) (as_int d) s; Some (if a = 0 then s else t, m) })),
     (''sms_send_user_error'', PHP_v_issi zpp (\<lambda>a b c d. to_client a (sms_send_user_error ops (Some c) (as_int d)))),
     (''sms_close_user_socket'', PHP_v_i zpp (\<lambda>a (s, m). if a = 0 then None else Some (sms_close_user_socket ops s, m))),
     (''sms_set_update_status'', PHP_v_isisss zpp (\<lambda>a b c d e' f (s, m). if a = 0 then Some (s, m) else do {
        (_, s) \<leftarrow> sms_set_update_status ops (p_alarm_fail e) (p_alarm_ok e) b (as_int c) d e' f s;
        Some (s, m) })),
     (''sms_store_in_database'', PHP_i_ishh zpp (\<lambda>a b c d. world_result (\<lambda>w.
        map_prod word_of_int id (x_sms_store_in_database lib a b c d w)))),
     (''sms_delete_in_database'', PHP_i_ish zpp (\<lambda>a b c. world_result (\<lambda>w.
        map_prod word_of_int id (x_sms_delete_in_database lib a b c w)))),
     (''sms_find_db_context'', PHP_i_s zpp (\<lambda>a. world_result (x_sms_find_db_context lib a))),
     (''sms_release_db_context'', PHP_v_i zpp (\<lambda>a. on_world (x_sms_release_db_context lib a)))])"

text \<open>The declarations of the functions, in the order of the file: the macro gives result and parameters.\<close>

definition php_declarations :: "(string \<times> ret_kind \<times> string) list" where
  "php_declarations = [
     (''sms_log_error'', Ret_v, ''s''),
     (''sms_log_info'', Ret_v, ''s''),
     (''sms_log_debug'', Ret_v, ''ls''),
     (''sms_sd_get_config_mode_from_sdinfo'', Ret_i, ''l''),
     (''sms_sd_prov_lock'', Ret_i, ''ll''),
     (''sms_sd_prov_unlock'', Ret_i, ''ll''),
     (''sms_sd_lock'', Ret_i, ''ll''),
     (''sms_sd_unlock'', Ret_i, ''ll''),
     (''sms_sd_forceasset'', Ret_i, ''ll''),
     (''sms_bd_init_provstatus'', Ret_i, ''llla''),
     (''sms_bd_set_provstatus'', Ret_i, ''lllslss''),
     (''sms_bd_get_provstatus'', Ret_i, ''lll''),
     (''sms_bd_get_provstatus_field_str'', Ret_s, ''ls''),
     (''sms_bd_free_provstatus'', Ret_v, ''l''),
     (''sms_bd_set_poll_mode'', Ret_i, ''lll''),
     (''sms_bd_set_ipconfig'', Ret_i, ''lls''),
     (''sms_bd_reset_conf_objects'', Ret_i, ''ll''),
     (''sms_bd_set_conf_objects'', Ret_i, ''llss''),
     (''sms_bd_delete_conf_objects'', Ret_i, ''lls''),
     (''sms_bd_set_log'', Ret_i, ''la''),
     (''sms_store_in_database'', Ret_i, ''lsaa''),
     (''sms_delete_in_database'', Ret_i, ''lsa''),
     (''sms_find_db_context'', Ret_n, ''s''),
     (''sms_release_db_context'', Ret_v, ''l''),
     (''sms_reply_to_user'', Ret_v, ''lss''),
     (''sms_send_user_message'', Ret_v, ''lss''),
     (''sms_user_message_add'', Ret_s, ''sss''),
     (''sms_user_message_add_json'', Ret_s, ''sss''),
     (''sms_user_message_add_array'', Ret_s, ''sss''),
     (''sms_user_message_array_add'', Ret_s, ''ss''),
     (''sms_send_user_ok'', Ret_v, ''lss''),
     (''sms_send_user_ok_ex'', Ret_v, ''lsss''),
     (''sms_send_user_error_ex'', Ret_v, ''lssl''),
     (''sms_send_user_error'', Ret_v, ''lssl''),
     (''sms_close_user_socket'', Ret_v, ''l''),
     (''sms_set_update_status'', Ret_v, ''lslsss'')]"

text \<open>A call of a function by its name.\<close>

definition php_call :: "'w php_env \<Rightarrow> zpp \<Rightarrow> string \<Rightarrow> zval list \<Rightarrow> 'w php_state \<Rightarrow> (zval \<times> 'w php_state) option" where
  "php_call e zpp name args s = (case map_of (php_sms_functions e zpp) name of None \<Rightarrow> None | Some f \<Rightarrow> f args s)"

section \<open>Typing of the calls\<close>

lemmas macro_well_typed = PHP_v_s.well_typed PHP_v_is.well_typed PHP_i_i.well_typed PHP_i_ii.well_typed
  PHP_i_iiih.well_typed PHP_i_iiisiss.well_typed PHP_i_iii.well_typed PHP_sf_is.well_typed PHP_v_i.well_typed
  PHP_i_iis.well_typed PHP_i_iiss.well_typed PHP_i_ih.well_typed PHP_i_ishh.well_typed PHP_i_ish.well_typed
  PHP_i_s.well_typed PHP_v_iss.well_typed PHP_sf_sss.well_typed PHP_sf_ss.well_typed PHP_v_isss.well_typed
  PHP_v_issi.well_typed PHP_v_isisss.well_typed

definition typed_entry :: "zpp \<Rightarrow> string \<times> 'w php_state php_function \<Rightarrow> bool" where
  "typed_entry zpp = (\<lambda>(name, f). \<exists>kind spec. (name, kind, spec) \<in> set php_declarations \<and>
     (\<forall>args s z s'. f args s = Some (z, s') \<longrightarrow>
        (if zpp spec args = None then z = fail_value kind \<and> s' = s else ret_ok kind z)))"

lemma typed_entryI:
  assumes "(name, kind, spec) \<in> set php_declarations"
    "\<And>args s z s'. f args s = Some (z, s') \<Longrightarrow> if zpp spec args = None then z = fail_value kind \<and> s' = s else ret_ok kind z"
  shows "typed_entry zpp (name, f)"
  using assms unfolding typed_entry_def by blast

lemma table_typed:
  assumes "zpp_ok zpp"
  shows "list_all (typed_entry zpp) (php_sms_functions e zpp)"
  unfolding php_sms_functions_def Let_def list.pred_inject(2)
  by (intro conjI list.pred_inject(1); rule typed_entryI [rotated], erule macro_well_typed [OF assms], simp add: php_declarations_def)

definition php_names :: "string list" where
  "php_names = [''sms_sd_get_config_mode_from_sdinfo'', ''sms_sd_prov_unlock'', ''sms_sd_prov_lock'', ''sms_sd_lock'',
     ''sms_sd_unlock'', ''sms_sd_forceasset'', ''sms_bd_init_provstatus'', ''sms_bd_set_provstatus'',
     ''sms_bd_get_provstatus'', ''sms_bd_get_provstatus_field_str'', ''sms_bd_free_provstatus'', ''sms_bd_set_poll_mode'',
     ''sms_bd_set_ipconfig'', ''sms_bd_reset_conf_objects'', ''sms_bd_set_conf_objects'', ''sms_bd_delete_conf_objects'',
     ''sms_bd_set_log'', ''sms_log_error'', ''sms_log_info'', ''sms_log_debug'',
     ''sms_reply_to_user'', ''sms_send_user_message'', ''sms_user_message_add'', ''sms_user_message_add_json'',
     ''sms_user_message_add_array'', ''sms_user_message_array_add'', ''sms_send_user_ok'', ''sms_send_user_ok_ex'',
     ''sms_send_user_error_ex'', ''sms_send_user_error'', ''sms_close_user_socket'', ''sms_set_update_status'',
     ''sms_store_in_database'', ''sms_delete_in_database'', ''sms_find_db_context'', ''sms_release_db_context'']"

lemma php_sms_functions_names: "map fst (php_sms_functions e zpp) = php_names"
  unfolding php_sms_functions_def Let_def php_names_def list.map fst_conv ..

lemma php_names_declared: "distinct php_names \<and> set php_names = set (map fst php_declarations)"
  by code_simp

text \<open>An engine that converts nothing: it accepts arguments of the declared types only.\<close>

definition strict_zpp :: zpp where
  "strict_zpp spec args = (if list_all2 letter_ok spec args then Some args else None)"

lemma strict_zpp_ok: "zpp_ok strict_zpp"
  by (simp add: zpp_ok_def strict_zpp_def)

definition mem_lib :: "mem php_lib" where
  "mem_lib = \<lparr>x_sms_log_error = (\<lambda>t w. w), x_sms_log_info = (\<lambda>t w. w), x_sms_log_debug = (\<lambda>l t w. w),
     x_sms_store_in_database = (\<lambda>c t v k w. (0, w)), x_sms_delete_in_database = (\<lambda>c t k w. (0, w)),
     x_sms_find_db_context = (\<lambda>d w. (0x7F00C0001000, w)), x_sms_release_db_context = (\<lambda>c w. w)\<rparr>"

definition mem_junk :: sd_provstatus where
  "mem_junk = \<lparr>sdps_prefix = [], sdps_seqnum = 0, sdps_stage_index = 0, sdps_status = ''W'', sdps_error_code = 33,
     sdps_error_message = ''lost''\<rparr>"

definition mem_php :: "mem php_env" where
  "mem_php = \<lparr>p_ops = mem_ops, p_lib = mem_lib, p_mem = (\<lambda>_. mem_info), p_new = (\<lambda>m. 0x7F00C0002000), p_junk = mem_junk,
     p_alarm_fail = 1, p_alarm_ok = 6\<rparr>"

text \<open>
  C15. Calls from PHP are well typed. The functions a script can call are exactly the 36 declared ones, each
  registered once. When the engine keeps its contract, a call whose arguments do not convert to the declared types
  gives the failure value of the declaration and changes nothing, and any other call that returns has a result of
  the declared type: null, an integer, or a string or null.
\<close>

theorem php_calls_typed:
  assumes "zpp_ok zpp"
  shows "distinct (map fst (php_sms_functions e zpp)) \<and>
    set (map fst (php_sms_functions e zpp)) = set (map fst php_declarations) \<and>
    (php_call e zpp name args s = Some (z, s') \<longrightarrow>
      (\<exists>kind spec. (name, kind, spec) \<in> set php_declarations \<and>
        (if zpp spec args = None then z = fail_value kind \<and> s' = s else ret_ok kind z)))"
proof (intro conjI impI)
  show "distinct (map fst (php_sms_functions e zpp))" "set (map fst (php_sms_functions e zpp)) = set (map fst php_declarations)"
    unfolding php_sms_functions_names using php_names_declared by blast+
  assume "php_call e zpp name args s = Some (z, s')"
  then obtain f where "(name, f) \<in> set (php_sms_functions e zpp)" "f args s = Some (z, s')"
    by (auto simp: php_call_def dest: map_of_SomeD split: option.splits)
  moreover have "typed_entry zpp (name, f)" using table_typed [OF assms, of e] calculation(1) by (simp add: list_all_iff)
  ultimately show "\<exists>kind spec. (name, kind, spec) \<in> set php_declarations \<and>
      (if zpp spec args = None then z = fail_value kind \<and> s' = s else ret_ok kind z)"
    unfolding typed_entry_def by blast
qed

theorem php_calls_typed_witness:
  "php_call mem_php strict_zpp ''sms_sd_lock'' [ZLong 1, ZStr ''ABC12''] (mem_task mem_world, Map.empty) =
     Some (ZLong (-1), mem_task mem_world, Map.empty)"
proof -
  let ?args = "[ZLong 1, ZStr ''ABC12'']"
  have "php_call mem_php strict_zpp ''sms_sd_lock'' ?args (mem_task mem_world, Map.empty) \<noteq> None" by code_simp
  then obtain z s m where c: "php_call mem_php strict_zpp ''sms_sd_lock'' ?args (mem_task mem_world, Map.empty) = Some (z, s, m)"
    by auto
  from php_calls_typed [OF strict_zpp_ok, of mem_php "''sms_sd_lock''" ?args "(mem_task mem_world, Map.empty)" z "(s, m)"] c
  obtain kind spec where d: "(''sms_sd_lock'', kind, spec) \<in> set php_declarations"
    and r: "if strict_zpp spec ?args = None then z = fail_value kind \<and> (s, m) = (mem_task mem_world, Map.empty) else ret_ok kind z"
    by blast
  have "kind = Ret_i" "spec = ''ll''" using d by (simp_all add: php_declarations_def)
  with r c show ?thesis by (simp add: strict_zpp_def)
qed

section \<open>Pointers held by a script\<close>

text \<open>The engine passes arguments of the declared types on unchanged.\<close>

definition zpp_exact :: "zpp \<Rightarrow> bool" where
  "zpp_exact zpp \<longleftrightarrow> (\<forall>spec args. list_all2 letter_ok spec args \<longrightarrow> zpp spec args = Some args)"

lemma strict_zpp_exact: "zpp_exact strict_zpp"
  by (simp add: zpp_exact_def strict_zpp_def)

lemma php_call_provstatus:
  "php_call e zpp ''sms_bd_get_provstatus'' args s =
     PHP_i_iii zpp (\<lambda>a b c. sms_bd_get_provstatus (p_ops e) (p_mem e) (p_new e) (p_junk e) a b (as_int c)) args s"
  "php_call e zpp ''sms_bd_get_provstatus_field_str'' args s =
     PHP_sf_is zpp (\<lambda>a b (s, m). do { t \<leftarrow> sms_bd_get_provstatus_field_str a b m; Some (t, s, m) }) args s"
  "php_call e zpp ''sms_bd_free_provstatus'' args s =
     PHP_v_i zpp (\<lambda>a (s, m). do { m \<leftarrow> sms_bd_free_provstatus a m; Some (s, m) }) args s"
  by (simp_all add: php_call_def php_sms_functions_def Let_def)

lemma php_call_find_db_context:
  "php_call e zpp ''sms_find_db_context'' args s = PHP_i_s zpp (\<lambda>a. world_result (x_sms_find_db_context (p_lib e) a)) args s"
  by (simp add: php_call_def php_sms_functions_def Let_def)

lemma get_provstatus_cases:
  assumes "sms_bd_get_provstatus ops mem new junk a b c (s, m) = Some (p, s', m')"
  shows "p = 0 \<and> m' = m \<or> p \<noteq> 0 \<and> p = new m \<and> (\<exists>v. m' = m(p \<mapsto> v))"
  using assms by (auto simp: sms_bd_get_provstatus_def returned split: option.splits if_splits)

text \<open>
  C39. The provisioning status a script asks for can be used through its integer: when \<^verbatim>\<open>malloc\<close> returns memory
  that is not in use, a call of \<^verbatim>\<open>sms_bd_get_provstatus\<close> with arguments of the declared types gives 0 and keeps
  the memory of the script, or it gives an address with which every field can be read and which
  \<^verbatim>\<open>sms_bd_free_provstatus\<close> frees exactly once: the memory is then what it was before the call, and freeing again,
  or reading, is an error.
\<close>

theorem provstatus_handle:
  assumes "zpp_exact zpp" "m (p_new e m) = None"
    and "php_call e zpp ''sms_bd_get_provstatus'' [ZLong a, ZLong b, ZLong c] (s, m) = Some (z, s', m')"
  shows "\<exists>p. z = ZLong p \<and> (if p = 0 then m' = m else
    (\<forall>f. \<exists>t. php_call e zpp ''sms_bd_get_provstatus_field_str'' [ZLong p, ZStr f] (s', m') = Some (t, s', m')) \<and>
    php_call e zpp ''sms_bd_free_provstatus'' [ZLong p] (s', m') = Some (ZNull, s', m) \<and>
    php_call e zpp ''sms_bd_free_provstatus'' [ZLong p] (s', m) = None \<and>
    php_call e zpp ''sms_bd_get_provstatus_field_str'' [ZLong p, ZStr f] (s', m) = None)"
proof -
  have exact: "zpp ''lll'' [ZLong a, ZLong b, ZLong c] = Some [ZLong a, ZLong b, ZLong c]" "\<And>p. zpp ''l'' [ZLong p] = Some [ZLong p]"
    "\<And>p f. zpp ''ls'' [ZLong p, ZStr f] = Some [ZLong p, ZStr f]"
    using assms(1) by (simp_all add: zpp_exact_def)
  obtain p where z: "z = ZLong p"
    and p: "sms_bd_get_provstatus (p_ops e) (p_mem e) (p_new e) (p_junk e) a b (as_int c) (s, m) = Some (p, s', m')"
    using assms(3) exact(1) by (auto simp: php_call_provstatus PHP_i_iii_def returned RETURN_LONG_def)
  from get_provstatus_cases [OF p] show ?thesis
  proof
    assume "p \<noteq> 0 \<and> p = p_new e m \<and> (\<exists>v. m' = m(p \<mapsto> v))"
    then obtain v where v: "p \<noteq> 0" "m p = None" "m' = m(p \<mapsto> v)" using assms(2) by auto
    have "m'(p := None) = m" using v by auto
    with z v exact(2,3) show ?thesis
      by (auto simp: php_call_provstatus PHP_sf_is_def PHP_v_i_def sms_bd_get_provstatus_field_str_def
        sms_bd_free_provstatus_def RETVAL_STRING_def RETURN_NULL_def return_void_def)
  qed (use z in simp)
qed

theorem provstatus_handle_witness:
  "\<exists>p s m. php_call mem_php strict_zpp ''sms_bd_get_provstatus'' [ZLong 1, ZLong 2, ZLong 0] (mem_task mem_world, Map.empty) =
     Some (ZLong p, s, m) \<and> p \<noteq> 0 \<and>
     php_call mem_php strict_zpp ''sms_bd_free_provstatus'' [ZLong p] (s, m) = Some (ZNull, s, Map.empty) \<and>
     php_call mem_php strict_zpp ''sms_bd_free_provstatus'' [ZLong p] (s, Map.empty) = None"
proof -
  let ?args = "[ZLong 1, ZLong 2, ZLong 0]"
  let ?t = "(mem_task mem_world, Map.empty)"
  have "map_option fst (php_call mem_php strict_zpp ''sms_bd_get_provstatus'' ?args ?t) = Some (ZLong 0x7F00C0002000)" by code_simp
  then obtain s m where c: "php_call mem_php strict_zpp ''sms_bd_get_provstatus'' ?args ?t = Some (ZLong 0x7F00C0002000, s, m)" by auto
  from provstatus_handle [OF strict_zpp_exact _ c, of undefined] c show ?thesis by (auto simp: mem_php_def)
qed

lemma sint_int_var: "sint (int_var h) = signed_take_bit 31 (sint h)"
proof -
  have u: "sint h = signed_take_bit 63 (uint h)" by (simp add: sint_uint)
  have "take_bit 32 (uint h) = take_bit 32 (sint h)" unfolding u by (simp add: take_bit_signed_take_bit)
  then have "signed_take_bit 31 (uint h) = signed_take_bit 31 (sint h)"
    using signed_take_bit_eq_iff_take_bit_eq [of 31 "uint h" "sint h"] by simp
  moreover have "sint (ucast h :: 32 word) = signed_take_bit 31 (uint h)" by (simp add: unsigned_ucast_eq sint_uint signed_take_bit_take_bit)
  moreover have "sint (scast (ucast h :: 32 word) :: 64 word) = sint (ucast h :: 32 word)" by (simp add: sint_up_scast is_up)
  ultimately show ?thesis by (simp add: int_var_def)
qed

lemma int_var_id: "int_var h = h \<longleftrightarrow> - (2 ^ 31) \<le> sint h \<and> sint h < 2 ^ 31"
proof -
  have "int_var h = h \<longleftrightarrow> sint (int_var h) = sint h" by (metis signed_word_eqI)
  then show ?thesis by (simp add: sint_int_var signed_take_bit_int_eq_self_iff)
qed

text \<open>
  C40. The context that \<^verbatim>\<open>sms_find_db_context\<close> returns is a \<^verbatim>\<open>long\<close>, but its macro keeps it in an
  \<^verbatim>\<open>int\<close>: the script receives the address only if it lies within the range of an \<^verbatim>\<open>int\<close>. Any other address
  comes back changed, and it is the changed one that the script hands to \<^verbatim>\<open>sms_release_db_context\<close>.
\<close>

theorem find_db_context_truncated:
  assumes "zpp_exact zpp" "x_sms_find_db_context (p_lib e) (c_str d) (world s) = (h, w)"
  shows "\<exists>h'. php_call e zpp ''sms_find_db_context'' [ZStr d] (s, m) = Some (ZLong h', s\<lparr>world := w\<rparr>, m) \<and>
    (h' = h \<longleftrightarrow> - (2 ^ 31) \<le> sint h \<and> sint h < 2 ^ 31)"
proof -
  have "zpp ''s'' [ZStr d] = Some [ZStr d]" using assms(1) by (simp add: zpp_exact_def)
  then have "php_call e zpp ''sms_find_db_context'' [ZStr d] (s, m) = Some (ZLong (int_var h), s\<lparr>world := w\<rparr>, m)"
    using assms(2) by (simp add: php_call_find_db_context PHP_i_s_def world_result_def RETURN_LONG_def)
  then show ?thesis using int_var_id by blast
qed

theorem find_db_context_truncated_witness:
  "\<exists>h'. php_call mem_php strict_zpp ''sms_find_db_context'' [ZStr ''SMS''] (mem_task mem_world, Map.empty) =
     Some (ZLong h', mem_task mem_world, Map.empty) \<and> h' \<noteq> 0x7F00C0001000"
proof -
  have "x_sms_find_db_context (p_lib mem_php) (c_str ''SMS'') (world (mem_task mem_world)) = (0x7F00C0001000, mem_world)"
    by (simp add: mem_php_def mem_lib_def mem_task_def)
  from find_db_context_truncated [OF strict_zpp_exact this, of Map.empty] show ?thesis
    by (auto simp: mem_task_def)
qed

end
