(* ===== verification/Smsd_Context.thy ===== *)
theory Smsd_Context
  imports Smsd_Verb
begin

text \<open>
  The discipline of the database contexts over a whole request: the context that \<^verbatim>\<open>CheckVerb\<close> takes is
  given back once, whatever the handler does in between, as long as the PHP scripts leave the client state
  alone. The handlers that break it are the ones of \<^verbatim>\<open>update.c\<close> that run a function which borrows a
  context after the task gave its own one back.
\<close>

section \<open>Steps that leave the context alone\<close>

definition scripts_keep_csp :: "'w ops \<Rightarrow> bool" where
  "scripts_keep_csp ops \<longleftrightarrow>
     (\<forall>sid m sc vars c w r c' w'. x_execute_script ops sid m sc vars c w = (r, c', w') \<longrightarrow> c' = c)"

definition calm :: "'w smsd \<Rightarrow> 'w smsd \<Rightarrow> bool" where
  "calm s s' \<longleftrightarrow> ctx_of s' = ctx_of s \<and> (\<exists>ds. calls s' = calls s @ ds \<and> list_all ctx_neutral ds)"

named_theorems calm_intros \<open>steps after which a task still has the context it had\<close>

lemma calm_refl [simp, intro!]: "calm s s"
  by (auto simp: calm_def)

lemma calm_trans: "calm s t \<Longrightarrow> calm t u \<Longrightarrow> calm s u"
  by (auto simp: calm_def)

lemma calm_quiet: "quiet s t \<Longrightarrow> calm s t"
  by (auto simp: calm_def quiet_def)

lemma calm_step:
  "calm s t \<Longrightarrow> ctx_of u = ctx_of t \<Longrightarrow> calls u = calls t @ ds \<Longrightarrow> list_all ctx_neutral ds \<Longrightarrow> calm s u"
  by (auto simp: calm_def)

lemma calm_prims [calm_intros]:
  assumes "calm s t"
  shows "calm s (php_startup t)" "calm s (php_set n v t)" "calm s (php_shutdown t)" "calm s (freeSDinfo t)"
    "calm s (log_call FreeCust t)" "calm s (log_call LogReinit t)" "calm s (log_call (SetLogLevel l) t)"
    "calm s (log_call (SetDbgLevel l) t)" "calm s (log_call (SnmpGet x fd) t)" "calm s (log_call (SnmpGetNext x fd) t)"
    "calm s (t\<lparr>world := w\<rparr>)" "calm s (upd_stat f t)" "calm s (set_cfd fd t)"
  using assms by (auto simp: calm_def upd_stat_def)

lemma calm_snd [calm_intros]:
  assumes "calm s t"
  shows "calm s (snd (getSDinfo ops sid t))" "calm s (snd (get_cust_info ops sid t))" "calm s (snd (socketWrite ops fd b t))"
    "calm s (snd (socketClose ops fd t))" "calm s (snd (socketReadLine ops fd n m t))" "calm s (snd (set_log_by_id ops c l t))"
    "calm s (snd (sql_call nm k f t))" "calm s (set_sd_alarm ops pre seq sev ref msg t)" "calm s (sched_new_task ops nm i j t)"
  using assms by (auto simp: calm_def getSDinfo_def get_cust_info_def socketWrite_def socketClose_def socketReadLine_def
      set_log_by_id_def sql_call_def set_sd_alarm_def sched_new_task_def split: prod.splits)

lemma calm_php_execute [calm_intros]:
  "scripts_keep_csp ops \<Longrightarrow> calm s t \<Longrightarrow> calm s (snd (php_execute ops sid m sc t))"
  by (fastforce simp: scripts_keep_csp_def calm_def php_execute_def split: prod.splits)

lemma calm_replies [calm_intros]:
  assumes "calm s t"
  shows "calm s (sms_send_user_error ops res e t)" "calm s (sms_send_user_ok ops res t)" "calm s (sms_send_user_ok_ex ops res m t)"
  using assms by (auto simp: sms_send_user_error_def sms_send_user_ok_def sms_send_user_ok_ex_def internal_send_user_message_def
      WRITE_def intro: calm_snd)

lemma calm_send [calm_intros]:
  assumes "calm s t"
  shows "calm s (snd (send_ok ops m t))" "calm s (snd (send_error ops m e t))"
proof -
  have "calm t (snd (send_ok ops m t))" if "send_ok ops m t = (r, t')" for r t'
    using send_ok_frame [OF that] send_ok_neutral [OF that] that by (auto simp: calm_def)
  moreover have "calm t (snd (send_error ops m e t))" if "send_error ops m e t = (r, t')" for r t'
    using send_error_frame [OF that] send_error_neutral [OF that] that by (auto simp: calm_def)
  ultimately show "calm s (snd (send_ok ops m t))" "calm s (snd (send_error ops m e t))"
    using assms calm_trans by (metis prod.exhaust_sel)+
qed

lemma calm_answers [calm_intros]:
  assumes "calm s t"
  shows "calm s (snd (answer_ok ops m t))" "calm s (snd (answer_error ops m e t))" "calm s (snd (answer_code ops e t))"
  using assms by (auto simp: answer_ok_def answer_error_def answer_code_def split_beta Let_def intro: calm_send)

lemma calm_if [calm_intros]: "calm s t \<Longrightarrow> calm s u \<Longrightarrow> calm s (if b then t else u)"
  by simp

section \<open>Functions that run a script\<close>

lemma calm_generic [calm_intros]:
  assumes "scripts_keep_csp ops" "calm s t"
  shows "calm s (snd (genericStaging ops i t))" "calm s (snd (genericStagingMap ops i t))"
    "calm s (snd (genericCheckProvisioning ops i t))" "calm s (snd (genericGetRunningConf ops i t))"
    "calm s (snd (genericGetConfig ops i t))" "calm s (snd (genericGetActivityReport ops i t))"
    "calm s (snd (genericBackupConf ops i a b t))" "calm s (snd (genericPushConfig ops i a b c od t))"
    "calm s (snd (genericSmsexecCmd ops i cs t))" "calm s (snd (genericSmsAddonExecCmd ops i a cs t))"
    "calm s (snd (genericUnarchiveConfiguration ops i a b t))" "calm s (snd (genericGetArchiveConfiguration ops i a t))"
    "calm s (snd (genericUpdateLicense ops i t))" "calm s (snd (genericUpdateFirmware ops i a b t))"
    "calm s (snd (genericHaSwap ops i t))" "calm s (snd (genericSendDataFiles ops i a b c d t))"
    "calm s (snd (generic_gen_template ops i a b c t))" "calm s (snd (genericSnmpTest ops a b c d t))"
    "calm s (snd (genericGetConfiguration ops i t))" "calm s (snd (genericGetReport ops i fl x y t))"
    "calm s (snd (genericCheckSerialNumber ops i a t))" "calm s (snd (genericCallCommand ops i a n od t))"
  unfolding genericStaging_def genericStagingMap_def genericCheckProvisioning_def genericGetRunningConf_def
    genericGetConfig_def genericGetActivityReport_def genericBackupConf_def genericPushConfig_def genericSmsexecCmd_def
    genericSmsAddonExecCmd_def genericUnarchiveConfiguration_def genericGetArchiveConfiguration_def genericUpdateLicense_def
    genericUpdateFirmware_def genericHaSwap_def genericSendDataFiles_def generic_gen_template_def genericSnmpTest_def
    genericGetConfiguration_def genericGetReport_def genericCheckSerialNumber_def genericCallCommand_def
  by (auto simp: Let_def split_beta intro!: calm_intros assms)

lemma calm_runs [calm_intros]:
  assumes "scripts_keep_csp ops" "calm s t"
  shows "calm s (snd (dnsUpdate ops sid ip t))" "calm s (snd (getPingStatus ops p t))" "calm s (snd (resolve_with ops v sid p t))"
    "calm s (snd (resolve_template ops sid p t))" "calm s (snd (resolve_template_buffer ops sid p t))"
    "calm s (snd (save_running_conf ops sd f vc t))" "calm s (snd (run_commands ops i a cs t))"
  unfolding dnsUpdate_def getPingStatus_def resolve_with_def resolve_template_def resolve_template_buffer_def
    save_running_conf_def run_commands_def
  by (auto simp: Let_def split_beta intro!: calm_intros assms split: option.splits)

lemma calm_with_sdinfo:
  assumes "\<And>i u. calm s u \<Longrightarrow> calm s (snd (f i u))" "calm s t"
  shows "calm s (snd (with_sdinfo ops sid f t))"
  by (auto simp: with_sdinfo_def Let_def split_beta intro!: calm_intros assms)

lemma calm_bad_param [calm_intros]: "calm s t \<Longrightarrow> calm s (snd (bad_param ops t))"
  by (auto simp: bad_param_def intro!: calm_intros)

lemma calm_requests [calm_intros]:
  assumes "scripts_keep_csp ops" "calm s t"
  shows "calm s (snd (getRunningConf ops p t))" "calm s (snd (getConfig ops p t))" "calm s (snd (getActivityReport ops p t))"
    "calm s (snd (unarchive_conf ops p t))" "calm s (snd (get_archive_conf ops p t))" "calm s (snd (send_data_files ops p t))"
    "calm s (snd (check_serial ops p t))" "calm s (snd (checkProvisioning ops p t))"
    "calm s (snd (backupRouterFullConfiguration ops p t))" "calm s (snd (staging ops p fl t))"
    "calm s (snd (updateLicense ops p t))" "calm s (snd (updateFirmware ops p t))" "calm s (snd (ha_swap ops p t))"
    "calm s (snd (genTemplate ops p t))"
  unfolding getRunningConf_def getConfig_def getActivityReport_def unarchive_conf_def get_archive_conf_def
    send_data_files_def check_serial_def checkProvisioning_def backupRouterFullConfiguration_def staging_def
    updateLicense_def updateFirmware_def ha_swap_def genTemplate_def
  by (auto simp: Let_def split_beta intro!: calm_intros calm_with_sdinfo assms)

section \<open>The context a task owns\<close>

text \<open>
  \<open>owns s\<close>: of the contexts the task took it holds exactly the one its client state points to, and no
  context was released twice. \<open>held s\<close>: it owns one.
\<close>

definition owns :: "'w smsd \<Rightarrow> bool" where
  "owns s \<longleftrightarrow> ctx_run [] (calls s) = Some (case ctx_of s of None \<Rightarrow> [] | Some h \<Rightarrow> [h])"

definition held :: "'w smsd \<Rightarrow> bool" where
  "held s \<longleftrightarrow> owns s \<and> ctx_of s \<noteq> None"

lemma held_owns: "held s \<Longrightarrow> owns s"
  by (simp add: held_def)

lemma calm_owns: "calm s t \<Longrightarrow> owns s \<Longrightarrow> owns t"
  by (auto simp: owns_def calm_def)

lemma calm_held: "calm s t \<Longrightarrow> held s \<Longrightarrow> held t"
  using calm_owns by (auto simp: held_def calm_def)

lemma owns_release: "owns s \<Longrightarrow> owns (RELEASE_BD_CTX ops s)"
  by (auto simp: owns_def ctx_run_append split: option.splits)

lemma owns_release_ctx: "owns s \<Longrightarrow> owns (release_ctx ops s) \<and> ctx_of (release_ctx ops s) = None"
  using owns_release by (auto simp: release_ctx_def)

lemma held_need_ctx: "owns s \<Longrightarrow> need_ctx ops s = (acq, t) \<Longrightarrow> held t"
  by (auto simp: held_def owns_def need_ctx_def ctx_run_append dest!: sms_db_find_ctx_D split: if_splits prod.splits)

lemma held_find_ctx: "owns s \<Longrightarrow> ctx_of s = None \<Longrightarrow> sms_db_find_ctx ops db s = (h, t) \<Longrightarrow> held (set_db_ctx (Some h) t)"
  by (auto simp: held_def owns_def ctx_run_append dest!: sms_db_find_ctx_D)

lemma borrowed_held: "borrowed s t \<Longrightarrow> held s \<Longrightarrow> held t"
proof -
  assume b: "borrowed s t" and h: "held s"
  then obtain ds k where ds: "calls t = calls s @ ds" "\<And>hs. ctx_run hs ds = Some hs" and k: "ctx_of s = Some k" "ctx_of t = Some k"
    by (fastforce simp: borrowed_def ctx_balanced_def held_def)
  from h k have "ctx_run [] (calls s) = Some [k]" by (simp add: held_def owns_def)
  with ds k show ?thesis by (simp add: held_def owns_def ctx_run_append)
qed

text \<open>A second context, taken and given back around calm steps.\<close>

lemma owns_second_ctx:
  assumes "owns s" "sms_db_find_ctx ops db s = (h, t)" "calm t u"
  shows "owns (sms_db_release_ctx ops (Some h) u)"
proof -
  from assms(2,3) obtain ds where ds: "calls u = calls s @ FindCtx db h # ds" "list_all ctx_neutral ds" "ctx_of u = ctx_of s"
    by (auto simp: calm_def dest!: sms_db_find_ctx_D)
  then have "ctx_run hs (FindCtx db h # ds @ [ReleaseCtx (Some h)]) = Some hs" for hs
    by (simp add: ctx_run_append ctx_run_neutral)
  moreover have "calls (sms_db_release_ctx ops (Some h) u) = calls s @ (FindCtx db h # ds @ [ReleaseCtx (Some h)])"
    using ds by simp
  ultimately show ?thesis using assms(1) ds(3) unfolding owns_def by (simp only: ctx_run_append) (auto split: option.splits)
qed

section \<open>Loops\<close>

lemmas calm_read = calm_trans [OF calm_snd(5) [OF calm_refl]]
lemmas calm_sql = calm_trans [OF calm_snd(7) [OF calm_refl]]

lemma calm_read_lines: "read_lines ops eol lo fd n k acc s = Some rs \<Longrightarrow> calm s (snd rs)"
proof (erule read_lines.raw_induct [where P = "\<lambda>ops eol lo fd n k acc s rs. calm s (snd rs)", rotated], goal_cases)
  case (1 f ops eol lo fd n k acc s rs)
  note IH = "1"(1)
  show ?case
    using "1"(2) by (auto simp: split_beta Let_def split: if_splits dest!: IH intro: calm_read calm_snd)
qed

lemma calm_read_json: "read_json ops fd buf s = Some rs \<Longrightarrow> calm s (snd rs)"
proof (erule read_json.raw_induct [where P = "\<lambda>ops fd buf s rs. calm s (snd rs)", rotated], goal_cases)
  case (1 f ops fd buf s rs)
  note IH = "1"(1)
  show ?case
    using "1"(2) by (auto simp: split_beta Let_def split: if_splits dest!: IH intro: calm_read calm_snd)
qed

lemma calm_save_next:
  "calm (snd (sql_call nm h f (if b then sched_new_task ops x i j s else s))) t \<Longrightarrow> calm s t"
  by (erule calm_trans [rotated]) (intro calm_snd calm_if calm_refl)

lemma calm_save_all_loop: "save_all_loop ops h cur s = Some t \<Longrightarrow> calm s t"
proof (erule save_all_loop.raw_induct [where P = "\<lambda>ops h cur s t. calm s t", rotated], goal_cases)
  case (1 f ops h cur s t)
  note IH = "1"(1)
  show ?case
    using "1"(2)
    by (auto simp: split_beta Let_def if_eq_Some simp del: if_split split: option.splits prod.splits
      dest!: IH intro: calm_sql calm_save_next calm_snd calm_if)
qed

section \<open>Requests keep the context they own\<close>

lemma calm_reads:
  "read_lines ops eol lo fd n k acc s = Some (a, t) \<Longrightarrow> calm s t" "read_json ops fd buf s = Some (b, t) \<Longrightarrow> calm s t"
  using calm_read_lines calm_read_json by fastforce+

lemmas calm_HA = HA_quiet [THEN calm_quiet]

lemmas held_steps = calm_prims [OF calm_refl, THEN calm_held] calm_snd [OF calm_refl, THEN calm_held]
  calm_replies [OF calm_refl, THEN calm_held] calm_send [OF calm_refl, THEN calm_held]
  calm_answers [OF calm_refl, THEN calm_held] calm_bad_param [OF calm_refl, THEN calm_held]
  calm_php_execute [OF _ calm_refl, THEN calm_held] calm_generic [OF _ calm_refl, THEN calm_held]
  calm_runs [OF _ calm_refl, THEN calm_held] calm_requests [OF _ calm_refl, THEN calm_held]

lemmas owns_steps = calm_prims [OF calm_refl, THEN calm_owns] calm_snd [OF calm_refl, THEN calm_owns]
  calm_replies [OF calm_refl, THEN calm_owns] calm_send [OF calm_refl, THEN calm_owns]
  calm_answers [OF calm_refl, THEN calm_owns] calm_bad_param [OF calm_refl, THEN calm_owns]
  calm_php_execute [OF _ calm_refl, THEN calm_owns] calm_generic [OF _ calm_refl, THEN calm_owns]
  calm_runs [OF _ calm_refl, THEN calm_owns] calm_requests [OF _ calm_refl, THEN calm_owns]
  owns_release

lemmas held_runs = calm_HA [THEN calm_held] calm_reads [THEN calm_held]

lemmas returned_snd = bind_eq_Some_conv if_eq_Some split_beta Let_def

lemmas held_locks = lockSD.borrows [THEN borrowed_held] unlockSD.borrows [THEN borrowed_held]
  lockProv.borrows [THEN borrowed_held] unlockProv.borrows [THEN borrowed_held] sdForceAsset.borrows [THEN borrowed_held]

lemma held_lock_requests:
  "unlockUpdate ops sid s = Some (r, t) \<Longrightarrow> held s \<Longrightarrow> held t"
  "lockProvisioning ops sid s = Some (r, t) \<Longrightarrow> held s \<Longrightarrow> held t"
  "unlockProvisioning ops sid s = Some (r, t) \<Longrightarrow> held s \<Longrightarrow> held t"
  unfolding unlockUpdate_def lockProvisioning_def unlockProvisioning_def
  by (auto simp: returned dest: held_locks)

lemma held_need: "owns s \<Longrightarrow> held (snd (need_ctx ops s))"
  using held_need_ctx by (metis prod.collapse)

lemma held_getUpdateStatus: "getUpdateStatus ops sid ty s = Some (rc, t) \<Longrightarrow> owns s \<Longrightarrow> held t"
  unfolding getUpdateStatus_def HA_SMSSQL_GetUpdateStatus_def
  by (auto simp: returned_snd intro!: held_steps held_need)

lemma held_check_events: "check_events ops sid evs acc s = Some (rc, t) \<Longrightarrow> held s \<Longrightarrow> held t"
proof (induction evs arbitrary: acc s)
  case (Cons ev evs)
  obtain ty v where ev: "ev = (ty, v)" by (cases ev)
  with Cons.prems(1) obtain rc' u where u: "getUpdateStatus ops sid ty s = Some (rc', u)"
    and "t = u \<or> (\<exists>acc. check_events ops sid evs acc u = Some (rc, t))"
    by (auto simp: returned)
  with Cons.IH held_getUpdateStatus [OF u held_owns [OF Cons.prems(2)]] show ?case by blast
qed simp

lemma held_status:
  "checkUpdate ops sid s = Some (rc, t) \<Longrightarrow> held s \<Longrightarrow> held t"
  "checkAllUpdate ops sid s = Some (rc, t) \<Longrightarrow> held s \<Longrightarrow> held t"
  unfolding checkUpdate_def checkAllUpdate_def
  by (auto simp: returned_snd dest: held_getUpdateStatus [OF _ held_owns] held_check_events)

lemma held_assets:
  "sdGetAsset ops sid s = Some (rc, t) \<Longrightarrow> held s \<Longrightarrow> held t"
  "sdSetConfigMode ops sid m s = Some (rcm, t) \<Longrightarrow> held s \<Longrightarrow> held t"
  unfolding sdGetAsset_def sdSetConfigMode_def
  by (auto simp: returned_snd intro: held_runs)

lemma held_scripts:
  assumes "scripts_keep_csp ops"
  shows "genericInitialProvisioning ops i a b c d s = Some (r, t) \<Longrightarrow> held s \<Longrightarrow> held t"
    "genericRestoreConf ops i a b s = Some (r, t) \<Longrightarrow> held s \<Longrightarrow> held t"
    "generic_sms_cmd ops i a p s = Some (r, t) \<Longrightarrow> held s \<Longrightarrow> held t"
    "generic_smsd_cmd ops a p s = Some (r, t) \<Longrightarrow> held s \<Longrightarrow> held t"
    "generic_sms_cust_cmd ops cu a p s = Some (r, t) \<Longrightarrow> held s \<Longrightarrow> held t"
  unfolding genericInitialProvisioning_def genericRestoreConf_def generic_sms_cmd_def generic_smsd_cmd_def
    generic_sms_cust_cmd_def
  by (auto simp: returned_snd intro!: held_steps assms elim!: held_locks(2))

lemma held_with_sdinfo:
  assumes "\<And>i u. calm s u \<Longrightarrow> calm s (snd (f i u))" "held s"
  shows "held (snd (with_sdinfo ops sid f s))"
proof -
  have "calm s (snd (with_sdinfo ops sid f s))" by (rule calm_with_sdinfo) (simp_all add: assms(1))
  then show ?thesis using assms(2) by (rule calm_held)
qed

lemma held_requests:
  assumes "scripts_keep_csp ops"
  shows "smsCmd ops p s = Some (r, t) \<Longrightarrow> held s \<Longrightarrow> held t"
    "smsCustCmd ops p s = Some (r, t) \<Longrightarrow> held s \<Longrightarrow> held t"
    "provisioning ops p s = Some (r, t) \<Longrightarrow> held s \<Longrightarrow> held t"
    "restoreConf ops p s = Some (r, t) \<Longrightarrow> held s \<Longrightarrow> held t"
  unfolding smsCmd_def smsCustCmd_def provisioning_def restoreConf_def
  by (auto simp: returned_snd prod_eq_iff intro!: held_steps assms elim!: held_scripts [OF assms] intro: held_runs)

lemma held_push_config: "scripts_keep_csp ops \<Longrightarrow> push_config ops p s = Some (r, t) \<Longrightarrow> held s \<Longrightarrow> held t"
  unfolding push_config_def
  by (auto simp: bind_eq_Some_conv if_eq_Some Let_def prod_eq_iff
      intro!: held_steps held_with_sdinfo calm_generic intro: held_runs)

lemma held_call_command:
  assumes keep: "scripts_keep_csp ops" and run: "call_command ops p s = Some (r, t)" and "held s"
  shows "held t"
proof (cases "BUFSIZ \<le> length p \<or> sscanf_count (sscanf_s 3 p) \<noteq> 3")
  case True
  with run have "bad_param ops s = (r, t)" by (auto simp: call_command_def Let_def split: if_splits)
  then have "t = snd (bad_param ops s)" by simp
  then show ?thesis using \<open>held s\<close> by (auto intro: held_steps)
next
  case False
  with run obtain rd u where u: "read_json ops (cfd (csp s)) [] s = Some (rd, u)"
    by (auto simp: call_command_def Let_def bind_eq_Some_conv)
  have "held u" using u \<open>held s\<close> by (rule held_runs)
  with run u False keep show ?thesis
    by (cases rd) (auto simp: call_command_def split_beta Let_def split: if_splits intro!: held_steps)
qed

lemma owns_reports:
  assumes "scripts_keep_csp ops" "owns s"
  shows "owns (snd (getReport ops p s))" "owns (snd (getVPNReport ops p s))"
    "owns (snd (getRouterFullConfiguration ops p s))" "owns (snd (getRouterIp ops p s))" "owns (snd (smsexec ops p a s))"
  unfolding getReport_def getVPNReport_def getRouterFullConfiguration_def getRouterIp_def smsexec_def report_error_def
  by (auto simp: Let_def split_beta intro!: owns_steps assms split: option.splits)

lemma owns_smsexecn:
  assumes "scripts_keep_csp ops"
  shows "smsexecn ops sid a s = Some (r, t) \<Longrightarrow> owns s \<Longrightarrow> owns t"
  unfolding smsexecn_def report_error_def
  by (auto simp: returned_snd intro!: owns_steps assms dest: calm_reads [THEN calm_owns])

lemma owns_save_all_conf: "save_all_conf ops s = Some (r, t) \<Longrightarrow> owns s \<Longrightarrow> owns t"
  unfolding save_all_conf_def
  by (auto simp: returned dest!: calm_save_all_loop intro: owns_second_ctx)

lemma held_ip:
  "log_event ops sd m rf s = Some (r, t) \<Longrightarrow> held s \<Longrightarrow> held t"
  "store_ip ops sd ip s = Some (r, t) \<Longrightarrow> held s \<Longrightarrow> held t"
  "mark_up ops sd ty ip s = Some (r, t) \<Longrightarrow> held s \<Longrightarrow> held t"
  "mark_down ops sd s = Some (r, t) \<Longrightarrow> held s \<Longrightarrow> held t"
proof -
  show log: "log_event ops sd m rf s = Some (r, t) \<Longrightarrow> held s \<Longrightarrow> held t" for m rf s r t
    unfolding log_event_def by (auto simp: prod_eq_iff split: if_splits intro!: held_steps)
  show "store_ip ops sd ip s = Some (r, t) \<Longrightarrow> held s \<Longrightarrow> held t"
    "mark_up ops sd ty ip s = Some (r, t) \<Longrightarrow> held s \<Longrightarrow> held t"
    "mark_down ops sd s = Some (r, t) \<Longrightarrow> held s \<Longrightarrow> held t"
    unfolding store_ip_def mark_up_def mark_down_def
    by (auto simp: returned_snd dest: log held_runs)
qed

lemmas owns_after_need = held_ip(2) [OF _ held_need, THEN held_owns] held_ip(3) [OF _ held_need, THEN held_owns]
  held_need [THEN held_owns]

lemma owns_ip:
  assumes "scripts_keep_csp ops"
  shows "updateIP ops sid ip s = Some (r, t) \<Longrightarrow> owns s \<Longrightarrow> owns t"
    "updateRouterIP ops p s = Some (r, t) \<Longrightarrow> owns s \<Longrightarrow> owns t"
  unfolding updateIP_def updateRouterIP_def
  by (auto simp: returned_snd split: option.splits if_splits intro!: owns_steps assms owns_after_need(3)
      elim!: owns_after_need(1,2))

section \<open>Handlers\<close>

lemma calm_answer_text: "answer_text ops e m s = Some (r, t) \<Longrightarrow> calm s t"
  unfolding answer_text_def
  by (auto simp: bind_eq_Some_conv if_eq_Some prod_eq_iff intro!: calm_intros)

text \<open>The handlers that never touch the context of the task.\<close>

lemma calm_handlers:
  assumes "scripts_keep_csp ops"
    and "f \<in> {V_doCheckProvisioning, V_doStaging, V_doStagingMap, V_doGenTemplate, V_doBackupConf, V_doGetRunningConf,
      V_doGetConfig, V_doGetActivityReport, V_doHaSwap, V_doSendDataFiles, V_doCheckSerial, V_doUnarchiveConf,
      V_doGetArchiveConf, V_doSnmpTest, V_doPing, V_doPS, V_doReinitLogs, V_doIsAlive, V_doStat, V_doListVerb,
      V_doSetLogLevel, V_do_SnmpGet, V_do_SnmpGetNext, V_doResolveTemplate}"
    and "run_verb ops env f arg s = Some (r, t)"
  shows "calm s t"
  using assms(2,3)
  by (auto simp: doCheckProvisioning_def doStaging_def doStagingMap_def doGenTemplate_def doBackupConf_def
      doGetRunningConf_def doGetConfig_def doGetActivityReport_def doHaSwap_def doSendDataFiles_def doCheckSerial_def
      doUnarchiveConf_def doGetArchiveConf_def doSnmpTest_def doPing_def doPS_def doReinitLogs_def doIsAlive_def doStat_def
      doListVerb_def doSetLogLevel_def do_SnmpGet_def do_SnmpGetNext_def doResolveTemplate_def logs_only_def
      if_eq_Some split_beta Let_def prod_eq_iff split: if_splits intro!: calm_intros assms(1))

lemma owns_report_handlers:
  assumes "scripts_keep_csp ops"
    and "f \<in> {V_doGetReport, V_doGetVPNReport, V_doGetSDConf, V_doGetRouterIp, V_doJsSmsexec, V_doJsSmsexecn,
      V_doJsSmsAddonExec, V_doPppIpUp, V_doSdIpUp}"
    and "run_verb ops env f arg s = Some (r, t)" "owns s"
  shows "owns t"
  using assms(2,3)
  by (auto simp: doGetReport_def doGetVPNReport_def doGetSDConf_def doGetRouterIp_def doJsSmsexec_def doJsSmsexecn_def
      doJsSmsAddonExec_def doPppIpUp_def handlePppIpUp_def doSdIpUp_def logs_only_def bind_eq_Some_conv if_eq_Some split_beta
      Let_def prod_eq_iff split: if_splits option.splits
      intro!: owns_steps owns_reports assms(1,4) elim!: owns_smsexecn [OF assms(1)] owns_ip [OF assms(1)]
        calm_answer_text [THEN calm_owns])

lemma held_handlers:
  assumes "scripts_keep_csp ops"
    and "f \<in> {V_doCheckUpdate, V_doCheckAllUpdate, V_doCheckCmd, V_doCheckUpdateLicense, V_doCheckUpdateFirmware, V_doCheckBackup,
      V_doCheckSendDataFiles, V_doCheckRestore, V_doUnlockUpdate, V_doLockProvisioning, V_doUnLockProvisioning, V_doGetAsset,
      V_doForceAsset, V_doSetConfigMode}"
    and "run_verb ops env f arg s = Some (r, t)" "held s"
  shows "held t"
  using assms(2,3)
  by (auto simp: doCheckUpdate_def doCheckAllUpdate_def doCheckCmd_def doCheckUpdateLicense_def doCheckUpdateFirmware_def
      doCheckBackup_def doCheckSendDataFiles_def doCheckRestore_def doUnlockUpdate_def doLockProvisioning_def
      doUnLockProvisioning_def doGetAsset_def doForceAsset_def doSetConfigMode_def bind_eq_Some_conv if_eq_Some split_beta Let_def
      prod_eq_iff split: if_splits option.splits
      intro!: held_steps assms(4) elim!: held_status held_assets held_lock_requests held_locks calm_answer_text [THEN calm_held]
        held_getUpdateStatus [OF _ held_owns])

lemma held_script_handlers:
  assumes "scripts_keep_csp ops"
    and "f \<in> {V_doCmd, V_doCustCmd, V_doProvisioning, V_doPushConfig, V_doRestoreConf, V_doCallCommand}"
    and "run_verb ops env f arg s = Some (r, t)" "held s"
  shows "held t"
  using assms(2,3)
  by (auto simp: doCmd_def doCustCmd_def doProvisioning_def doPushConfig_def doRestoreConf_def doCallCommand_def logs_only_def
      bind_eq_Some_conv intro!: assms(4) elim!: held_requests [OF assms(1)] held_push_config [OF assms(1)]
        held_call_command [OF assms(1)])

lemma held_ask_asset: "ask_asset ops p rs = Some (r, t) \<Longrightarrow> held (snd rs) \<Longrightarrow> held t"
  unfolding ask_asset_def
  by (auto simp: bind_eq_Some_conv split_beta Let_def if_eq_Some split: prod.splits
      intro!: held_need held_owns elim!: held_locks)

lemma held_asset_handlers:
  assumes "scripts_keep_csp ops" "f \<in> {V_doUpdateLicense, V_doUpdateFirmware}"
    and "run_verb ops env f arg s = Some (r, t)" "held s"
  shows "held t"
  using assms(2,3)
  by (auto simp: doUpdateLicense_def doUpdateFirmware_def intro!: held_steps assms(1,4) elim!: held_ask_asset)

lemma held_doIpDown: "doIpDown ops arg s = Some (r, t) \<Longrightarrow> held s \<Longrightarrow> held t"
  unfolding doIpDown_def ip_down_error_def ip_down_ok_def
  by (auto simp: bind_eq_Some_conv split_beta Let_def if_eq_Some prod_eq_iff split: if_splits
      intro!: held_steps elim!: held_ip)

lemma held_doResolve:
  assumes "scripts_keep_csp ops"
  shows "doResolve ops arg s = Some (r, t) \<Longrightarrow> held s \<Longrightarrow> held t"
  unfolding doResolve_def
  by (auto simp: bind_eq_Some_conv split_beta Let_def if_eq_Some prod_eq_iff split: if_splits
      intro!: held_steps assms intro: held_runs)

lemma owns_doImmediateSaveConf: "doImmediateSaveConf ops arg s = Some (r, t) \<Longrightarrow> owns s \<Longrightarrow> owns t"
  unfolding doImmediateSaveConf_def by (auto simp: bind_eq_Some_conv dest: owns_save_all_conf)

text \<open>Every handler but three gives back what it takes.\<close>

definition double_release_verbs :: "verb_fn set" where
  "double_release_verbs = {V_doUpdateConfig, V_doJsExecScript, V_doJsAExecScript}"

lemma owns_run_verb:
  assumes "scripts_keep_csp ops" "f \<notin> double_release_verbs" "run_verb ops env f arg s = Some (r, t)" "held s"
  shows "owns t"
  using assms(2-) held_owns [OF assms(4)] calm_handlers [OF assms(1) _ assms(3), THEN calm_owns]
    owns_report_handlers [OF assms(1) _ assms(3)] held_handlers [OF assms(1) _ assms(3,4), THEN held_owns]
    held_script_handlers [OF assms(1) _ assms(3,4), THEN held_owns]
    held_asset_handlers [OF assms(1) _ assms(3,4), THEN held_owns] held_doIpDown [THEN held_owns]
    held_doResolve [OF assms(1), THEN held_owns] owns_doImmediateSaveConf
  by (cases f) (simp_all add: double_release_verbs_def)

text \<open>The verbs without parameters run without a context of their own.\<close>

lemma owns_run_verb_plain:
  assumes "scripts_keep_csp ops" "v \<in> set verbTab" "hasParams v = 0" "run_verb ops env (doVerb v) arg s = Some (r, t)" "owns s"
  shows "owns t"
proof -
  have "doVerb v \<in> {V_doImmediateSaveConf, V_doIsAlive, V_doListVerb, V_doPS, V_doReinitLogs, V_doStat}"
    using assms(2,3) unfolding verbTab_def verb_entry_def by auto
  then show ?thesis
    using assms(4,5) calm_handlers [OF assms(1) _ assms(4), THEN calm_owns] owns_doImmediateSaveConf by auto
qed

section \<open>The dispatcher gives back the context it takes\<close>

lemma owns_neutral_send: "owns s \<Longrightarrow> owns (snd (send_error ops m e s))"
  by (rule calm_owns [OF calm_send(2)]) simp_all

lemma ctx_of_send_error [simp]: "ctx_of (snd (send_error ops m e s)) = ctx_of s"
  by (cases "send_error ops m e s") (auto dest: send_error_frame)

lemma CheckVerb_owns:
  assumes "scripts_keep_csp ops" "hash_contract h" "VerbInit h = Some tbl" "owns s" "ctx_of s = None"
    and "CheckVerb ops env h tbl buf s = Some t"
    and "\<And>v arg. v \<in> set verbTab \<Longrightarrow> split_command buf = Some (verb v, arg) \<Longrightarrow> doVerb v \<notin> double_release_verbs"
  shows "owns t \<and> ctx_of t = None"
proof -
  obtain cmd arg where sc: "split_command buf = Some (cmd, arg)"
    using assms(6) by (auto simp: CheckVerb_def bind_eq_Some_conv)
  have get: "h_get_str h tbl cmd = map_of (map (\<lambda>v. (verb v, v)) verbTab) cmd"
    by (rule VerbInit_get [OF assms(2,3)])
  show ?thesis
  proof (cases "h_get_str h tbl cmd")
    case None
    with assms(4-6) sc show ?thesis
      by (auto simp: CheckVerb_def intro: owns_neutral_send split: if_splits)
  next
    case (Some v)
    with get have v: "v \<in> set verbTab" "verb v = cmd" by (auto dest!: map_of_SomeD [OF sym])
    with assms(7) sc have ok: "doVerb v \<notin> double_release_verbs" by auto
    obtain c u where c: "sms_db_find_ctx ops DB_SMS s = (c, u)" by (cases "sms_db_find_ctx ops DB_SMS s")
    consider (short) "t = s"
      | (param) r w where "run_verb ops env (doVerb v) arg (set_db_ctx (Some c) u) = Some (r, w)" "t = release_ctx ops w"
      | (plain) r w where "hasParams v = 0" "run_verb ops env (doVerb v) ''N/A'' s = Some (r, w)" "t = release_ctx ops w"
      using assms(6) sc Some c by (auto simp: CheckVerb_def returned)
    then show ?thesis
    proof cases
      case short
      with assms(4,5) show ?thesis by simp
    next
      case param
      have "held (set_db_ctx (Some c) u)" by (rule held_find_ctx [OF assms(4,5) c])
      then have "owns w" by (rule owns_run_verb [OF assms(1) ok param(1)])
      then show ?thesis unfolding param(2) by (rule owns_release_ctx)
    next
      case plain
      have "owns w" by (rule owns_run_verb_plain [OF assms(1) v(1) plain(1,2) assms(4)])
      then show ?thesis unfolding plain(3) by (rule owns_release_ctx)
    qed
  qed
qed

section \<open>Handlers that release a context twice\<close>

lemma ctx_run_None_append: "ctx_run hs cs = None \<Longrightarrow> ctx_run hs (cs @ ds) = None"
  by (simp add: ctx_run_append)

text \<open>A task without a context that lets a function borrow one is left with the handle it gave back.\<close>

lemma borrowed_dangling:
  assumes "borrowed s t" "ctx_run [] (calls s) = Some []"
  shows "ctx_run [] (calls t) = Some [] \<and> ctx_run [] (calls (RELEASE_BD_CTX ops t)) = None"
proof -
  from assms(1) obtain ds k where ds: "calls t = calls s @ ds" "ctx_run [] ds = Some []" and k: "ctx_of t = Some k"
    by (fastforce simp: borrowed_def ctx_balanced_def)
  with assms(2) show ?thesis by (simp add: ctx_run_append)
qed

lemma calm_empty: "calm s t \<Longrightarrow> ctx_run [] (calls s) = Some [] \<Longrightarrow> ctx_run [] (calls t) = Some []"
  by (auto simp: calm_def)

lemma held_release_empty: "held s \<Longrightarrow> ctx_run [] (calls (RELEASE_BD_CTX ops s)) = Some []"
  using owns_release [of s ops] by (auto simp: held_def owns_def)

lemma genericUpdateConf_empty:
  assumes "scripts_keep_csp ops" "genericUpdateConf ops i s = Some (r, t)" "ctx_run [] (calls s) = Some []"
  shows "ctx_run [] (calls t) = Some []"
proof -
  let ?x = "snd (php_execute ops (info_sdid i) (router_path i) ''do_update_conf.php''
    (php_set ''sms_sd_info'' (PSdinfo i) (php_set ''sms_csp'' PCsp (php_startup s))))"
  have x: "calm s ?x" by (intro calm_intros assms(1) calm_refl)
  consider "calm s t" | u r' e where "unlockSD ops (sd_cli_prefix (SD i)) (sd_seqnum (SD i)) (sms_send_user_error ops (Some []) e ?x) = Some (r', u)"
      "t = php_shutdown u"
    using assms(2) x unfolding genericUpdateConf_def
    by (auto simp: returned_snd intro: calm_prims split: if_splits)
  then show ?thesis
  proof cases
    case 1
    with assms(3) calm_empty show ?thesis by blast
  next
    case 2
    have "calm s (sms_send_user_error ops (Some []) e ?x)" using x by (intro calm_replies)
    with assms(3) calm_empty have "ctx_run [] (calls (sms_send_user_error ops (Some []) e ?x)) = Some []" by blast
    from borrowed_dangling [OF unlockSD.borrows [OF 2(1)] this] 2(2) show ?thesis
      using calm_empty [OF calm_prims(3) [OF calm_refl]] by blast
  qed
qed

section \<open>Properties\<close>

lemma mem_scripts_keep: "scripts_keep_csp mem_ops"
  by (auto simp: scripts_keep_csp_def mem_ops_def)

lemma owns_mem_task: "owns (mem_task w)"
  by (simp add: owns_def mem_task_def)

text \<open>A task of the instance that holds the context with handle 0.\<close>

definition mem_holding :: "mem \<Rightarrow> mem smsd" where
  "mem_holding w = set_db_ctx (Some 0) ((mem_task w)\<lparr>calls := [FindCtx 0 0]\<rparr>)"

lemma mem_holding_ctx: "ctx_of (mem_holding w) = Some 0" "ctx_run [] (calls (mem_holding w)) = Some [0]"
  by (simp_all add: mem_holding_def)

text \<open>
  C1. A request gives back every database context it takes, exactly once: from a task that holds none,
  \<^verbatim>\<open>CheckVerb\<close> ends in a task that holds none, for every command line except the ones of the verbs
  whose handler releases a context twice (\<^verbatim>\<open>UPDATECONFIG\<close>, \<^verbatim>\<open>JSAUPDATECONF\<close>,
  \<^verbatim>\<open>JSEXECSCRIPT\<close>, \<^verbatim>\<open>JSAEXECSCRIPT\<close>), provided the PHP scripts leave the client state alone.
\<close>

theorem CheckVerb_ctx_discipline:
  assumes "scripts_keep_csp ops" "hash_contract h" "VerbInit h = Some tbl"
    and "ctx_run [] (calls s) = Some []" "ctx_of s = None"
    and "CheckVerb ops env h tbl buf s = Some t"
    and "\<And>v arg. v \<in> set verbTab \<Longrightarrow> split_command buf = Some (verb v, arg) \<Longrightarrow> doVerb v \<notin> double_release_verbs"
  shows "ctx_run [] (calls t) = Some [] \<and> ctx_of t = None"
  using CheckVerb_owns [OF assms(1-3) _ assms(5-7)] assms(4,5) by (simp add: owns_def)

theorem CheckVerb_ctx_discipline_witness:
  "case CheckVerb mem_ops mem_env list_hash mem_table ''forceasset ABC12'' (mem_task mem_world) of
     None \<Rightarrow> False | Some t \<Rightarrow> ctx_run [] (calls t) = Some [] \<and> ctx_of t = None"
proof -
  have "CheckVerb mem_ops mem_env list_hash mem_table ''forceasset ABC12'' (mem_task mem_world) \<noteq> None" by code_simp
  then obtain t where t: "CheckVerb mem_ops mem_env list_hash mem_table ''forceasset ABC12'' (mem_task mem_world) = Some t" by blast
  have sc: "split_command ''forceasset ABC12'' = Some (''FORCEASSET'', ''ABC12'')" by code_simp
  have "\<forall>v\<in>set verbTab. verb v = ''FORCEASSET'' \<longrightarrow> doVerb v = V_doForceAsset" by code_simp
  then have ok: "doVerb v \<notin> double_release_verbs"
    if "v \<in> set verbTab" "split_command ''forceasset ABC12'' = Some (verb v, arg)" for v arg
    using that sc by (auto simp: double_release_verbs_def)
  have "ctx_run [] (calls t) = Some [] \<and> ctx_of t = None"
    by (rule CheckVerb_ctx_discipline [OF mem_scripts_keep list_hash_contract list_hash_init _ _ t ok]) (simp_all add: mem_task_def)
  with t show ?thesis by simp
qed

text \<open>
  C2. \<^verbatim>\<open>updateConfig\<close> releases a database context that its task does not hold: after it gave back
  its own context, \<^verbatim>\<open>sdForceAsset\<close> borrows another and leaves its handle in the client state, which
  \<^verbatim>\<open>updateConfig\<close> then releases a second time.
\<close>

theorem updateConfig_double_release:
  assumes "scripts_keep_csp ops" "ctx_of s = Some h" "ctx_run [] (calls s) = Some [h]"
    and "updateConfig ops sd_info s = Some (r, t)"
  shows "ctx_run [] (calls t) = None"
proof -
  have "held s" using assms(2,3) by (simp add: held_def owns_def)
  then have e: "ctx_run [] (calls (RELEASE_BD_CTX ops s)) = Some []" by (rule held_release_empty)
  obtain u r' v where u: "genericUpdateConf ops sd_info (RELEASE_BD_CTX ops s) = Some (r, u)"
    and v: "sdForceAsset ops (sd_sdid (SD sd_info)) u = Some (r', v)"
    and t: "t = snd (save_running_conf ops (SD sd_info) ''update'' None (RELEASE_BD_CTX ops v))"
    using assms(4) unfolding updateConfig_def by (auto simp: returned_snd)
  have "ctx_run [] (calls (RELEASE_BD_CTX ops v)) = None"
    using borrowed_dangling [OF sdForceAsset.borrows [OF v]] genericUpdateConf_empty [OF assms(1) u e] by blast
  moreover have "calm (RELEASE_BD_CTX ops v) t" unfolding t by (rule calm_runs [OF assms(1) calm_refl])
  ultimately show ?thesis by (metis calm_def ctx_run_None_append)
qed

theorem updateConfig_double_release_witness:
  "case updateConfig mem_ops mem_info (mem_holding mem_world) of
     None \<Rightarrow> False | Some (r, t) \<Rightarrow> ctx_run [] (calls t) = None"
proof -
  have "updateConfig mem_ops mem_info (mem_holding mem_world) \<noteq> None" by code_simp
  then obtain r t where t: "updateConfig mem_ops mem_info (mem_holding mem_world) = Some (r, t)" by auto
  from updateConfig_double_release [OF mem_scripts_keep mem_holding_ctx t] t show ?thesis by simp
qed

text \<open>
  C3. When a script run by \<^verbatim>\<open>exec_script\<close> fails, the error path unlocks the device after the task gave
  its context back: the client state keeps a handle that \<^verbatim>\<open>CheckVerb\<close> releases a second time.
\<close>

theorem exec_script_double_release:
  assumes "scripts_keep_csp ops" "ctx_of s = Some h" "ctx_run [] (calls s) = Some [h]"
    and "split_request params = Some (sdid, script)" "getSDinfo ops sdid s = ((0, i), u)"
    and "exec_script ops params sync s = Some (r, t)" "r \<noteq> 0"
  shows "ctx_run [] (calls (release_ctx ops t)) = None"
proof -
  have "held s" using assms(2,3) by (simp add: held_def owns_def)
  then have "held u" using quiet_getSDinfo [OF assms(5)] calm_quiet calm_held by blast
  then have e: "ctx_run [] (calls (RELEASE_BD_CTX ops u)) = Some []" by (rule held_release_empty)
  let ?s = "php_set ''sms_sd_info'' (PSdinfo i) (php_set ''synchronous'' (PBool sync)
    (php_set ''exec_script_name'' (PStr (Some script)) (php_set ''sms_csp'' PCsp (php_startup (RELEASE_BD_CTX ops u)))))"
  let ?x = "snd (php_execute ops (info_sdid i) (router_path i) ''do_exec_script.php'' ?s)"
  obtain r' v where v: "unlockSD ops (sd_cli_prefix (SD i)) (sd_seqnum (SD i)) ?x = Some (r', v)"
    and t: "t = freeSDinfo (php_shutdown v)"
    using assms(4-7) unfolding exec_script_def genericExecScript_def by (auto simp: returned_snd)
  have "calm (RELEASE_BD_CTX ops u) ?x" by (intro calm_intros assms(1) calm_refl)
  with e calm_empty have x: "ctx_run [] (calls ?x) = Some []" by blast
  note b = unlockSD.borrows [OF v]
  from borrowed_dangling [OF b x, of ops] have "ctx_run [] (calls v) = Some []" by blast
  moreover obtain k where "ctx_of v = Some k" using b by (auto simp: borrowed_def)
  ultimately show ?thesis by (simp add: t release_ctx_def ctx_run_append)
qed

theorem exec_script_double_release_witness:
  "case exec_script mem_ops ''ABC12 reboot'' True (mem_holding (mem_world\<lparr>m_script := 33\<rparr>)) of
     None \<Rightarrow> False | Some (r, t) \<Rightarrow> ctx_run [] (calls (release_ctx mem_ops t)) = None"
proof -
  let ?s = "mem_holding (mem_world\<lparr>m_script := 33\<rparr>)"
  have "map_option fst (exec_script mem_ops ''ABC12 reboot'' True ?s) = Some 33" by code_simp
  then obtain t where t: "exec_script mem_ops ''ABC12 reboot'' True ?s = Some (33, t)" by auto
  have sp: "split_request ''ABC12 reboot'' = Some (''ABC12'', ''reboot'')" by code_simp
  have "fst (fst (getSDinfo mem_ops ''ABC12'' ?s)) = 0" by code_simp
  then obtain i u where u: "getSDinfo mem_ops ''ABC12'' ?s = ((0, i), u)" by (metis prod.collapse)
  from exec_script_double_release [OF mem_scripts_keep mem_holding_ctx sp u t] t show ?thesis by simp
qed

end
