(* ===== verification/Smsd_Script.thy ===== *)
theory Smsd_Script
  imports Smsd_Binding Smsd_Context
begin

text \<open>
  What a PHP script does to the database context of its task through the functions it calls. An execution of a
  script is a sequence of calls with the arguments it chose. The functions of \<^verbatim>\<open>php_db.c\<close> borrow a context: when
  the task had none they leave the handle behind in the client state although they gave the context back.
\<close>

section \<open>Executions\<close>

fun php_script :: "'w php_env \<Rightarrow> zpp \<Rightarrow> (string \<times> zval list) list \<Rightarrow> 'w php_state \<Rightarrow> (zval list \<times> 'w php_state) option" where
  "php_script e zpp [] s = Some ([], s)"
| "php_script e zpp ((name, args) # cs) s = do {
     (z, s) \<leftarrow> php_call e zpp name args s;
     (zs, s) \<leftarrow> php_script e zpp cs s;
     Some (z # zs, s)
   }"

text \<open>The client state has a handle, but every context was given back.\<close>

definition dangling :: "'w smsd \<Rightarrow> bool" where
  "dangling s \<longleftrightarrow> ctx_of s \<noteq> None \<and> ctx_run [] (calls s) = Some []"

text \<open>
  What a call may do to the context: a held one is kept, a dangling handle too, and a task without a context may
  end with a held one or with a dangling handle.
\<close>

definition ctx_step :: "'w smsd \<Rightarrow> 'w smsd \<Rightarrow> bool" where
  "ctx_step s t \<longleftrightarrow> (held s \<longrightarrow> held t \<and> ctx_of t = ctx_of s) \<and> (dangling s \<longrightarrow> dangling t) \<and>
     (owns s \<longrightarrow> owns t \<or> dangling t)"

lemma ctx_step_refl [simp]: "ctx_step s s"
  by (simp add: ctx_step_def)

lemma owns_cases: "owns s \<Longrightarrow> held s \<or> ctx_of s = None"
  by (auto simp: held_def)

lemma ctx_step_trans: "ctx_step s t \<Longrightarrow> ctx_step t u \<Longrightarrow> ctx_step s u"
  unfolding ctx_step_def by auto

lemma ctx_step_calm: "calm s t \<Longrightarrow> ctx_step s t"
  using calm_held [of s t] calm_owns [of s t] by (auto simp: ctx_step_def calm_def dangling_def)

lemma ctx_step_borrowed:
  assumes "borrowed s t"
  shows "ctx_step s t"
proof -
  obtain ds h where ds: "calls t = calls s @ ds" "\<And>hs. ctx_run hs ds = Some hs" and h: "ctx_of t = Some h"
    using assms by (fastforce simp: borrowed_def ctx_balanced_def)
  have "ctx_of s \<noteq> None \<longrightarrow> ctx_of t = ctx_of s" using assms by (simp add: borrowed_def)
  then show ?thesis using ds h borrowed_held [OF assms]
    by (auto simp: ctx_step_def dangling_def held_def owns_def ctx_run_append split: option.splits)
qed

lemma ctx_step_need: "ctx_step s (snd (need_ctx ops s))"
  by (cases "ctx_of s")
    (auto simp: need_ctx_def ctx_step_def dangling_def held_def owns_def ctx_run_append dest!: sms_db_find_ctx_D split: prod.splits)

section \<open>Every function takes such a step\<close>

named_theorems php_steps \<open>the steps of the C functions the scripts call\<close>

lemma int_result_D: "int_result f (s, m) = Some (r, s', m') \<Longrightarrow> \<exists>r'. f s = Some (r', s') \<and> m' = m"
  by (auto simp: int_result_def bind_eq_Some_conv)

text \<open>The functions that borrow a context, or do nothing.\<close>

definition borrow_step :: "'w smsd \<Rightarrow> 'w smsd \<Rightarrow> bool" where
  "borrow_step s s' \<longleftrightarrow> s' = s \<or> borrowed s s'"

lemma borrow_step_refl [simp]: "borrow_step s s"
  by (simp add: borrow_step_def)

lemma borrow_step_ctx: "borrow_step s s' \<Longrightarrow> ctx_step s s'"
  using ctx_step_borrowed by (auto simp: borrow_step_def)

lemma borrow_db_steps:
  "int_result (sms_sd_lock ops mem a b) (s, m) = Some (r, s', m') \<Longrightarrow> borrow_step s s'"
  "int_result (sms_sd_unlock ops mem a b) (s, m) = Some (r, s', m') \<Longrightarrow> borrow_step s s'"
  "int_result (sms_sd_prov_lock ops mem a b) (s, m) = Some (r, s', m') \<Longrightarrow> borrow_step s s'"
  "int_result (sms_sd_prov_unlock ops mem a b) (s, m) = Some (r, s', m') \<Longrightarrow> borrow_step s s'"
  "int_result (sms_bd_init_provstatus ops mem a b k d) (s, m) = Some (r, s', m') \<Longrightarrow> borrow_step s s'"
  "int_result (sms_bd_set_provstatus ops mem a b k st er nx am) (s, m) = Some (r, s', m') \<Longrightarrow> borrow_step s s'"
  "int_result (sms_bd_set_poll_mode ops mem a b k) (s, m) = Some (r, s', m') \<Longrightarrow> borrow_step s s'"
  "int_result (sms_bd_set_ipconfig ops mem a b ip) (s, m) = Some (r, s', m') \<Longrightarrow> borrow_step s s'"
  "int_result (sms_bd_reset_conf_objects ops mem a b) (s, m) = Some (r, s', m') \<Longrightarrow> borrow_step s s'"
  "int_result (sms_bd_set_conf_objects ops mem a b n v) (s, m) = Some (r, s', m') \<Longrightarrow> borrow_step s s'"
  "int_result (sms_bd_delete_conf_objects ops mem a b n) (s, m) = Some (r, s', m') \<Longrightarrow> borrow_step s s'"
  by (auto simp: borrow_step_def dest!: int_result_D
    dest: sms_sd_lock.borrows sms_sd_unlock.borrows sms_sd_prov_lock.borrows sms_sd_prov_unlock.borrows
    sms_bd_init_provstatus.borrows sms_bd_set_provstatus.borrows sms_bd_set_poll_mode.borrows sms_bd_set_ipconfig.borrows
    sms_bd_reset_conf_objects.borrows sms_bd_set_conf_objects.borrows sms_bd_delete_conf_objects.borrows)

lemma borrow_forceasset: "int_result (sms_sd_forceasset ops i) (s, m) = Some (r, s', m') \<Longrightarrow> borrow_step s s'"
  by (auto simp: borrow_step_def sms_sd_forceasset_def dest!: int_result_D dest: sdForceAsset.borrows split: option.splits)

lemma borrow_get_provstatus: "sms_bd_get_provstatus ops mem new junk a b c (s, m) = Some (r, s', m') \<Longrightarrow> borrow_step s s'"
  by (auto simp: borrow_step_def sms_bd_get_provstatus_def returned dest: GetProvStatus.quiet
    elim!: notE [OF _ with_ctx_borrowed] split: option.splits if_splits)

lemmas borrow_steps = borrow_db_steps borrow_forceasset borrow_get_provstatus

lemmas borrowing_steps [php_steps] = borrow_steps [THEN borrow_step_ctx]


lemma set_log_step [php_steps]:
  assumes "int_result (sms_bd_set_log ops mem a d) (s, m) = Some (r, s', m')"
  shows "ctx_step s s'"
proof -
  obtain h t l r' u where t: "sms_db_find_ctx ops DB_SMS s = (h, t)" and u: "set_log_by_id ops (Some h) l t = (r', u)"
    and s': "s' = sms_db_release_ctx ops (Some h) u"
    using int_result_D [OF assms] by (auto simp: sms_bd_set_log_def returned)
  have c: "calls s' = calls s @ [FindCtx DB_SMS h, SetLog r', ReleaseCtx (Some h)]" "ctx_of s' = ctx_of s"
    using sms_db_find_ctx_D [OF t] set_log_by_id_D [OF u] s' by auto
  have "ctx_run hs [FindCtx DB_SMS h, SetLog r', ReleaseCtx (Some h)] = Some hs" for hs by simp
  with c show ?thesis
    by (auto simp: ctx_step_def held_def owns_def dangling_def ctx_run_append split: option.splits simp del: ctx_run.simps)
qed

lemma to_client_steps [php_steps]:
  "to_client a (sms_reply_to_user ops t) (s, m) = Some (s', m') \<Longrightarrow> ctx_step s s'"
  "to_client a (sms_send_user_message ops t') (s, m) = Some (s', m') \<Longrightarrow> ctx_step s s'"
  "to_client a (sms_send_user_ok ops t) (s, m) = Some (s', m') \<Longrightarrow> ctx_step s s'"
  "to_client a (sms_send_user_ok_ex ops t u) (s, m) = Some (s', m') \<Longrightarrow> ctx_step s s'"
  "to_client a (sms_send_user_error ops t k) (s, m) = Some (s', m') \<Longrightarrow> ctx_step s s'"
  by (auto simp: to_client_def sms_reply_to_user_def sms_send_user_message_def WRITE_def
    intro!: ctx_step_calm calm_intros split: if_splits)

lemma world_steps [php_steps]:
  "on_world f (s, m) = Some (s', m') \<Longrightarrow> ctx_step s s'"
  "world_result g (s, m) = Some (r, s', m') \<Longrightarrow> ctx_step s s'"
  "built t (s, m) = Some (r', s', m') \<Longrightarrow> ctx_step s s'"
  by (auto simp: on_world_def world_result_def built_def intro!: ctx_step_calm calm_intros split: prod.splits)

lemma error_ex_step [php_steps]: "sms_send_user_error_ex ops t k s = Some s' \<Longrightarrow> ctx_step s s'"
  by (auto simp: sms_send_user_error_ex_def returned internal_send_user_message_def WRITE_def intro!: ctx_step_calm calm_intros)

lemma close_step [php_steps]: "ctx_step s (sms_close_user_socket ops s)"
  by (auto simp: sms_close_user_socket_def intro!: ctx_step_calm calm_intros)

lemma needed_steps:
  "set_sd_updated ops sid k s = Some (r, t) \<Longrightarrow> ctx_step s t"
  "setUpdateStatus ops sid ty st msg s = Some (r, t) \<Longrightarrow> ctx_step s t"
  unfolding set_sd_updated_def setUpdateStatus_def HA_SMSSQL_SetUpdateStatus_def
  by (auto simp: returned_snd intro!: ctx_step_trans [OF ctx_step_need ctx_step_calm] calm_snd dest: calm_HA)

lemma ctx_step_alarm: "ctx_step (set_sd_alarm ops pre seq sev ref msg s) t \<Longrightarrow> ctx_step s t"
  by (rule ctx_step_trans [OF ctx_step_calm [OF calm_snd(8) [OF calm_refl]]])

lemma update_status_step [php_steps]:
  "sms_set_update_status ops af ao sid k ty st msg s = Some (r, t) \<Longrightarrow> ctx_step s t"
  unfolding sms_set_update_status_def
  by (auto simp: returned_snd dest!: needed_steps dest: ctx_step_alarm elim: ctx_step_trans split: if_splits)

definition entry_step :: "'w php_state php_function \<Rightarrow> bool" where
  "entry_step f \<longleftrightarrow> (\<forall>args s m z s' m'. f args (s, m) = Some (z, s', m') \<longrightarrow> ctx_step s s')"

lemmas macro_effect = PHP_v_s.effect PHP_v_is.effect PHP_i_i.effect PHP_i_ii.effect PHP_i_iiih.effect PHP_i_iiisiss.effect
  PHP_i_iii.effect PHP_sf_is.effect PHP_v_i.effect PHP_i_iis.effect PHP_i_iiss.effect PHP_i_ih.effect PHP_i_ishh.effect
  PHP_i_ish.effect PHP_i_s.effect PHP_v_iss.effect PHP_sf_sss.effect PHP_sf_ss.effect PHP_v_isss.effect PHP_v_issi.effect
  PHP_v_isisss.effect

lemma entry_stepI: "(\<And>args s m z s' m'. f args (s, m) = Some (z, s', m') \<Longrightarrow> ctx_step s s') \<Longrightarrow> entry_step f"
  by (auto simp: entry_step_def)

lemma table_steps: "list_all (\<lambda>(name, f). entry_step f) (php_sms_functions e zpp)"
  unfolding php_sms_functions_def Let_def list.pred_inject(2)
  by (intro conjI list.pred_inject(1); unfold prod.case; rule entry_stepI; drule macro_effect; elim disjE exE;
    (erule php_steps | auto simp: returned split: if_splits intro: php_steps))

lemma php_call_step:
  assumes "php_call e zpp name args (s, m) = Some (z, s', m')"
  shows "ctx_step s s'"
proof -
  obtain f where "(name, f) \<in> set (php_sms_functions e zpp)" "f args (s, m) = Some (z, s', m')"
    using assms by (auto simp: php_call_def dest: map_of_SomeD split: option.splits)
  moreover have "entry_step f" using table_steps [of e zpp] calculation(1) by (auto simp: list_all_iff)
  ultimately show ?thesis unfolding entry_step_def by blast
qed

lemma php_script_step: "php_script e zpp cs (s, m) = Some (zs, s', m') \<Longrightarrow> ctx_step s s'"
proof (induction cs arbitrary: s m zs)
  case (Cons c cs)
  then show ?case by (cases c) (auto simp: returned elim: ctx_step_trans dest!: php_call_step)
qed simp

lemma dangling_release: "dangling s \<Longrightarrow> ctx_run [] (calls (release_ctx ops s)) = None"
  by (auto simp: dangling_def release_ctx_def ctx_run_append)

section \<open>The functions that borrow\<close>

definition db_functions :: "string list" where
  "db_functions = [''sms_sd_prov_unlock'', ''sms_sd_prov_lock'', ''sms_sd_lock'', ''sms_sd_unlock'', ''sms_sd_forceasset'',
     ''sms_bd_init_provstatus'', ''sms_bd_set_provstatus'', ''sms_bd_get_provstatus'', ''sms_bd_set_poll_mode'',
     ''sms_bd_set_ipconfig'', ''sms_bd_reset_conf_objects'', ''sms_bd_set_conf_objects'', ''sms_bd_delete_conf_objects'']"

definition borrow_entry :: "string \<times> 'w php_state php_function \<Rightarrow> bool" where
  "borrow_entry = (\<lambda>(name, f). name \<in> set db_functions \<longrightarrow>
     (\<forall>args s m z s' m'. f args (s, m) = Some (z, s', m') \<longrightarrow> borrow_step s s'))"

lemma borrow_entryI:
  "name \<notin> set db_functions \<Longrightarrow> borrow_entry (name, f)"
  "(\<And>args s m z s' m'. f args (s, m) = Some (z, s', m') \<Longrightarrow> borrow_step s s') \<Longrightarrow> borrow_entry (name, f)"
  by (auto simp: borrow_entry_def)

lemma table_borrows: "list_all borrow_entry (php_sms_functions e zpp)"
  unfolding php_sms_functions_def Let_def list.pred_inject(2)
  by (intro conjI list.pred_inject(1); (rule borrow_entryI(1), simp add: db_functions_def; fail |
    rule borrow_entryI(2); drule macro_effect; elim disjE exE; (erule borrow_steps | simp)))

text \<open>
  C13. Whatever functions a script calls, in whatever order and with whatever arguments: a task that holds a context
  when the script starts holds the same one when it ends, nothing taken in between is lost, and a task without a
  context ends without one, or with one that it holds, or with a handle in its client state to a context that was
  already given back, which the release at the end of the request then gives back a second time.
\<close>

theorem script_context:
  assumes "php_script e zpp cs (s, m) = Some (zs, s', m')" "owns s"
  shows "if ctx_of s \<noteq> None then owns s' \<and> ctx_of s' = ctx_of s
    else owns s' \<or> ctx_run [] (calls s') = Some [] \<and> ctx_run [] (calls (release_ctx ops s')) = None"
  using php_script_step [OF assms(1)] assms(2) dangling_release [of s' ops]
  by (auto simp: ctx_step_def held_def dangling_def)

theorem script_context_witness:
  "case php_script mem_php strict_zpp [(''sms_sd_lock'', [ZLong 1, ZLong 2]), (''sms_bd_set_poll_mode'', [ZLong 1, ZLong 2, ZLong 3])]
     (mem_holding mem_world, Map.empty) of None \<Rightarrow> False | Some (zs, s', m') \<Rightarrow> owns s'"
proof -
  let ?cs = "[(''sms_sd_lock'', [ZLong 1, ZLong 2]), (''sms_bd_set_poll_mode'', [ZLong 1, ZLong 2, ZLong 3])]"
  have "php_script mem_php strict_zpp ?cs (mem_holding mem_world, Map.empty) \<noteq> None" by code_simp
  then obtain zs s' m' where r: "php_script mem_php strict_zpp ?cs (mem_holding mem_world, Map.empty) = Some (zs, s', m')" by auto
  have "owns (mem_holding mem_world)" "ctx_of (mem_holding mem_world) \<noteq> None"
    using mem_holding_ctx by (auto simp: owns_def)
  with script_context [OF r] r show ?thesis by simp
qed

text \<open>
  C20. The functions of \<^verbatim>\<open>php_db.c\<close> are not safe for a task that has given its context back, as the handlers of
  \<^verbatim>\<open>update.c\<close> do before they run a script: when such a call reaches the database at all, it leaves the handle of a
  released context in the client state, and \<^verbatim>\<open>CheckVerb\<close> releases that context again.
\<close>

theorem script_db_call_dangles:
  assumes "name \<in> set db_functions" "php_call e zpp name args (s, m) = Some (z, s', m')"
    and "owns s" "ctx_of s = None" "calls s' \<noteq> calls s"
  shows "ctx_of s' \<noteq> None \<and> ctx_run [] (calls s') = Some [] \<and> ctx_run [] (calls (release_ctx ops s')) = None"
proof -
  obtain f where f: "(name, f) \<in> set (php_sms_functions e zpp)" "f args (s, m) = Some (z, s', m')"
    using assms(2) by (auto simp: php_call_def dest: map_of_SomeD split: option.splits)
  have "borrow_entry (name, f)" using table_borrows [of e zpp] f(1) by (auto simp: list_all_iff)
  then have "borrowed s s'" using assms(1,5) f(2) unfolding borrow_entry_def borrow_step_def by blast
  then have "dangling s'"
    using assms(3,4) by (auto simp: dangling_def borrowed_def ctx_balanced_def owns_def ctx_run_append)
  then show ?thesis using dangling_release [of s' ops] by (auto simp: dangling_def)
qed

theorem script_db_call_dangles_witness:
  "case php_call mem_php strict_zpp ''sms_bd_set_poll_mode'' [ZLong 1, ZLong 2, ZLong 3] (mem_task mem_world, Map.empty) of
     None \<Rightarrow> False | Some (z, s', m') \<Rightarrow> ctx_run [] (calls (release_ctx mem_ops s')) = None"
proof -
  let ?c = "php_call mem_php strict_zpp ''sms_bd_set_poll_mode'' [ZLong 1, ZLong 2, ZLong 3] (mem_task mem_world, Map.empty)"
  have "map_option (\<lambda>(z, s', m'). calls s' = []) ?c = Some False" by code_simp
  then obtain z s' m' where c: "?c = Some (z, s', m')" "calls s' \<noteq> []" by auto
  have "calls s' \<noteq> calls (mem_task mem_world)" using c(2) by (simp add: mem_task_def)
  from script_db_call_dangles [OF _ c(1) _ _ this] c(1) show ?thesis
    by (simp add: db_functions_def owns_def mem_task_def)
qed

end
