(* ===== verification/Smsd_Interleave.thy ===== *)
theory Smsd_Interleave
  imports Smsd_PhpDb
begin

text \<open>
  Tasks run at the same time. The locks live in the database, and between two calls of one task the calls of other
  tasks may run: \<^verbatim>\<open>lockSD\<close>, \<^verbatim>\<open>unlockSD\<close> and \<^verbatim>\<open>lockProv\<close> of \<^verbatim>\<open>update.c\<close>, with \<^verbatim>\<open>HA_SMSSQL_SetLock\<close> of
  \<^verbatim>\<open>bd.c\<close> unfolded, are written as programs over single database calls. Run alone they are the functions of
  \<open>Smsd_Locks\<close>; run interleaved they show which of their guarantees survive.
\<close>

section \<open>Programs over database calls\<close>

datatype db_call = Get_provlock | Set_down | Set_lock | Set_provlock int | Un_lock

text \<open>A program has returned, or makes a call and goes on with its code and its out-parameter.\<close>

datatype prog = Return int | Call db_call "int \<times> int \<Rightarrow> prog"

definition no_value :: "((int \<times> unit) \<times> 'w smsd) option \<Rightarrow> ((int \<times> int) \<times> 'w smsd) option" where
  "no_value = map_option (\<lambda>((r, u), s). ((r, 0), s))"

definition db_step :: "'w ops \<Rightarrow> string \<Rightarrow> int \<Rightarrow> nat \<Rightarrow> db_call \<Rightarrow> 'w smsd \<Rightarrow> ((int \<times> int) \<times> 'w smsd) option" where
  "db_step ops pre seq c q s = (case q of
       Get_provlock \<Rightarrow> HA_SMSSQL_GetSDprovlock ops c pre seq 0 s
     | Set_down \<Rightarrow> no_value (HA_SMSSQL_SetSdDown ops c pre seq s)
     | Set_lock \<Rightarrow> ha_loop ops ''SetLock'' c DB_SMS (x_SetLock (x_sql (x_db ops)) c pre seq) 0 s
     | Set_provlock v \<Rightarrow> no_value (HA_SMSSQL_SetSDprovlock ops c pre seq v s)
     | Un_lock \<Rightarrow> no_value (HA_SMSSQL_UnLock ops c pre seq s))"

primrec exec_prog :: "'w ops \<Rightarrow> string \<Rightarrow> int \<Rightarrow> nat \<Rightarrow> prog \<Rightarrow> 'w smsd \<Rightarrow> (int \<times> 'w smsd) option" where
  "exec_prog ops pre seq c (Return r) = (\<lambda>s. Some (r, s))"
| "exec_prog ops pre seq c (Call q k) = (\<lambda>s. Option.bind (db_step ops pre seq c q s) (\<lambda>(a, s). exec_prog ops pre seq c (k a) s))"

text \<open>\<^verbatim>\<open>HA_SMSSQL_SetLock\<close>: it reads the provisioning lock, and takes the update lock in a second call.\<close>

definition SetLock_prog :: "(int \<times> int \<Rightarrow> prog) \<Rightarrow> prog" where
  "SetLock_prog k = Call Get_provlock (\<lambda>(ret, provlock).
     if ret \<noteq> 0 then k (ret, 0)
     else if provlock \<noteq> 0 then k (ret, ALREADY_PROVLOCKED)
     else Call Set_lock k)"

definition lockSD_result :: "int \<times> int \<Rightarrow> int" where
  "lockSD_result = (\<lambda>(ret, update_lock_state).
     if ret \<noteq> 0 then ret
     else if update_lock_state = ALREADY_LOCKED then ERR_SD_LOCK
     else if update_lock_state = ALREADY_PROVLOCKED then ERR_SD_PROVLOCK
     else 0)"

definition lockSD_prog :: prog where
  "lockSD_prog = SetLock_prog (\<lambda>a. Return (lockSD_result a))"

definition unlockSD_prog :: prog where
  "unlockSD_prog = Call Un_lock (\<lambda>(ret, _). Return ret)"

definition lockProv_prog :: prog where
  "lockProv_prog = Call Get_provlock (\<lambda>(ret, provlock).
     if ret \<noteq> 0 then Return ret
     else Call Set_down (\<lambda>_.
       if provlock = 1 then Return ret
       else SetLock_prog (\<lambda>(ret, update_lock_state).
         if ret \<noteq> 0 then Return ret
         else if update_lock_state = ALREADY_LOCKED then Return ERR_SD_LOCK
         else Call (Set_provlock 1) (\<lambda>(ret, _).
           if ret \<noteq> 0 then Return ret
           else Call Un_lock (\<lambda>_. Return ret)))))"

section \<open>Interleaving\<close>

text \<open>
  The database and, for each task, its own state, the context it uses and what is left of its program. A schedule
  says which task makes the next call; a task that has returned does nothing more.
\<close>

type_synonym 'w tasks = "'w \<times> ('w smsd \<times> nat \<times> prog) list"

definition task_step :: "'w ops \<Rightarrow> string \<Rightarrow> int \<Rightarrow> nat \<Rightarrow> 'w tasks \<Rightarrow> 'w tasks option" where
  "task_step ops pre seq i = (\<lambda>(w, ts). if length ts \<le> i then Some (w, ts) else case ts ! i of
       (s, c, Return r) \<Rightarrow> Some (w, ts)
     | (s, c, Call q k) \<Rightarrow> do {
         (a, s) \<leftarrow> db_step ops pre seq c q (s\<lparr>world := w\<rparr>);
         Some (world s, ts[i := (s, c, k a)])
       })"

fun interleave :: "'w ops \<Rightarrow> string \<Rightarrow> int \<Rightarrow> nat list \<Rightarrow> 'w tasks \<Rightarrow> 'w tasks option" where
  "interleave ops pre seq [] st = Some st"
| "interleave ops pre seq (i # is) st = Option.bind (task_step ops pre seq i st) (interleave ops pre seq is)"

definition results :: "'w tasks \<Rightarrow> prog list" where
  "results st = map (\<lambda>(s, c, p). p) (snd st)"

section \<open>Alone, the programs are the functions\<close>

lemma exec_SetLock:
  "exec_prog ops pre seq c (SetLock_prog k) s =
     Option.bind (HA_SMSSQL_SetLock ops c pre seq 0 s) (\<lambda>(a, s). exec_prog ops pre seq c (k a) s)"
  by (auto simp: SetLock_prog_def HA_SMSSQL_SetLock_def db_step_def HA_SMSSQL_GetSDprovlock_def ha_call_def
      split: Option.bind_split)


section \<open>The effect of one call\<close>

definition call_effect :: "db_call \<Rightarrow> int \<times> bool \<Rightarrow> int \<times> int \<Rightarrow> int \<times> bool \<Rightarrow> bool" where
  "call_effect q = (\<lambda>(prov, locked) (r, v) (prov', locked'). case q of
       Get_provlock \<Rightarrow> prov' = prov \<and> locked' = locked \<and> (r = 0 \<longrightarrow> v = prov)
     | Set_down \<Rightarrow> prov' = prov \<and> locked' = locked
     | Set_lock \<Rightarrow> prov' = prov \<and> SetLock_outcome 0 locked r v locked'
     | Set_provlock x \<Rightarrow> prov' = (if r = 0 then x else prov) \<and> locked' = locked
     | Un_lock \<Rightarrow> prov' = prov \<and> locked' = (if r = 0 then False else locked))"

lemma db_step_effect:
  assumes c: "lock_contract ops plock llock" and "db_step ops pre seq c q s = Some ((r, v), s')"
  shows "call_effect q (plock (world s) (pre, seq), llock (world s) (pre, seq)) (r, v)
    (plock (world s') (pre, seq), llock (world s') (pre, seq))"
proof (cases q)
  case Get_provlock
  with assms(2) HA_GetSDprovlock_effect [OF c] show ?thesis by (auto simp: db_step_def call_effect_def)
next
  case Set_down
  with assms(2) obtain u where "HA_SMSSQL_SetSdDown ops c pre seq s = Some ((r, u), s')"
    by (auto simp: db_step_def no_value_def)
  from HA_SetSdDown_effect [OF assms(1) this] Set_down show ?thesis by (simp add: call_effect_def)
next
  case Set_lock
  with assms(2) have "ha_run ops ''SetLock'' c DB_SMS (x_SetLock (x_sql (x_db ops)) c pre seq) 0 s ((r, v), s')"
    by (simp add: db_step_def ha_loop_iff)
  from SetLock_run_effect [OF assms(1) this] Set_lock show ?thesis by (simp add: call_effect_def)
next
  case (Set_provlock x)
  with assms(2) obtain u where "HA_SMSSQL_SetSDprovlock ops c pre seq x s = Some ((r, u), s')"
    by (auto simp: db_step_def no_value_def)
  from HA_SetSDprovlock_effect [OF assms(1) this] Set_provlock show ?thesis by (simp add: call_effect_def)
next
  case Un_lock
  with assms(2) obtain u where "HA_SMSSQL_UnLock ops c pre seq s = Some ((r, u), s')"
    by (auto simp: db_step_def no_value_def)
  from HA_UnLock_effect [OF assms(1) this] Un_lock show ?thesis by (simp add: call_effect_def)
qed

section \<open>The update lock is exclusive\<close>

definition succeeded :: "prog \<Rightarrow> bool" where
  "succeeded p \<longleftrightarrow> (case p of Return r \<Rightarrow> r = 0 | Call q k \<Rightarrow> False)"

definition winners :: "'w tasks \<Rightarrow> nat" where
  "winners st = length (filter succeeded (results st))"

text \<open>The database takes no lock away because it is old.\<close>

definition no_timeout :: "'w ops \<Rightarrow> string \<Rightarrow> int \<Rightarrow> bool" where
  "no_timeout ops pre seq \<longleftrightarrow>
     (\<forall>c y w r st w'. x_SetLock (x_sql (x_db ops)) c pre seq y w = ((r, st), w') \<longrightarrow> st \<noteq> OK_LOCKED_BY_TIMEOUT)"

text \<open>What is left of \<^verbatim>\<open>lockSD\<close>: all of it, the second call, or nothing.\<close>

definition lockSD_stage :: "prog \<Rightarrow> bool" where
  "lockSD_stage p \<longleftrightarrow> p = lockSD_prog \<or> p = Call Set_lock (\<lambda>a. Return (lockSD_result a)) \<or> (\<exists>r. p = Return r)"

lemma no_timeout_run:
  assumes "no_timeout ops pre seq" "y \<noteq> OK_LOCKED_BY_TIMEOUT"
    and "ha_run ops ''SetLock'' c DB_SMS (x_SetLock (x_sql (x_db ops)) c pre seq) y s ((r, st), s')"
  shows "st \<noteq> OK_LOCKED_BY_TIMEOUT \<or> r \<noteq> 0"
  using ha_run_effect [OF assms(3), of "\<lambda>_. ()"] assms(1) unfolding no_timeout_def by fastforce

lemma lockSD_stage_step:
  assumes "lock_contract ops plock llock" "no_timeout ops pre seq" "lockSD_stage (Call q k)"
    and "db_step ops pre seq c q s = Some (a, s')"
  shows "lockSD_stage (k a) \<and>
    (if succeeded (k a) then \<not> llock (world s) (pre, seq) \<and> llock (world s') (pre, seq)
     else llock (world s') (pre, seq) = llock (world s) (pre, seq))"
proof -
  obtain r v where a: "a = (r, v)" by (cases a)
  note e = db_step_effect [OF assms(1) assms(4) [unfolded a]]
  from assms(3) consider (first) "q = Get_provlock" "Call q k = lockSD_prog"
    | (second) "q = Set_lock" "k = (\<lambda>a. Return (lockSD_result a))"
    by (auto simp: lockSD_stage_def lockSD_prog_def SetLock_prog_def)
  then show ?thesis
  proof cases
    case first
    then have k: "k a = (if r \<noteq> 0 then Return (lockSD_result (r, 0)) else if v \<noteq> 0 then Return (lockSD_result (r, ALREADY_PROVLOCKED))
      else Call Set_lock (\<lambda>a. Return (lockSD_result a)))" by (simp add: a lockSD_prog_def SetLock_prog_def)
    show ?thesis
      using e first(1) unfolding k by (auto simp: call_effect_def lockSD_stage_def succeeded_def lockSD_result_def lock_state_defs)
  next
    case second
    then have "v \<noteq> OK_LOCKED_BY_TIMEOUT \<or> r \<noteq> 0"
      using no_timeout_run [OF assms(2), of 0] assms(4) by (auto simp: db_step_def a ha_loop_iff lock_state_defs)
    with e second show ?thesis
      by (auto simp: call_effect_def lockSD_stage_def succeeded_def lockSD_result_def SetLock_outcome_def a lock_state_defs)
  qed
qed

lemma count_update:
  assumes "i < length xs" "\<not> P (xs ! i)"
  shows "length (filter P (xs[i := y])) = length (filter P xs) + (if P y then 1 else 0)"
  using assms by (induction xs arbitrary: i) (auto split: nat.splits simp: nth_Cons')

lemma lockSD_tasks_step:
  assumes "lock_contract ops plock llock" "no_timeout ops pre seq" "list_all lockSD_stage (results (w, ts))"
    and "task_step ops pre seq i (w, ts) = Some (w', ts')"
  shows "list_all lockSD_stage (results (w', ts')) \<and>
    winners (w', ts') + (if llock w (pre, seq) then 1 else 0) = winners (w, ts) + (if llock w' (pre, seq) then 1 else 0)"
proof (cases "i < length ts \<and> (\<exists>s c q k. ts ! i = (s, c, Call q k))")
  case True
  then obtain s c q k where i: "i < length ts" "ts ! i = (s, c, Call q k)" by blast
  then obtain a s' where a: "db_step ops pre seq c q (s\<lparr>world := w\<rparr>) = Some (a, s')" and st: "w' = world s'" "ts' = ts[i := (s', c, k a)]"
    using assms(4) by (auto simp: task_step_def bind_eq_Some_conv)
  have ri: "i < length (results (w, ts))" "results (w, ts) ! i = Call q k" using i by (simp_all add: results_def)
  have upd: "results (w', ts') = (results (w, ts))[i := k a]" using st(2) by (simp add: results_def map_update)
  have "lockSD_stage (Call q k)" using assms(3) ri by (metis list_all_length)
  from lockSD_stage_step [OF assms(1,2) this a]
  have k: "lockSD_stage (k a)" "if succeeded (k a) then \<not> llock w (pre, seq) \<and> llock w' (pre, seq)
     else llock w' (pre, seq) = llock w (pre, seq)" using st(1) by (auto split: if_splits)
  have "winners (w', ts') = winners (w, ts) + (if succeeded (k a) then 1 else 0)"
    unfolding winners_def upd using count_update [of i "results (w, ts)" succeeded "k a"] ri by (simp add: succeeded_def)
  moreover have "list_all lockSD_stage (results (w', ts'))"
    unfolding upd using assms(3) k(1) by (auto simp: list_all_iff dest!: set_update_subset_insert [THEN subsetD])
  ultimately show ?thesis using k(2) by (auto split: if_splits)
next
  case False
  then have "(w', ts') = (w, ts)"
    using assms(4) by (auto simp: task_step_def bind_eq_Some_conv not_less split: prod.splits prog.splits if_splits)
  with assms(3) show ?thesis by simp
qed

lemma lockSD_tasks_run:
  assumes "lock_contract ops plock llock" "no_timeout ops pre seq" "list_all lockSD_stage (results st)"
    and "interleave ops pre seq is st = Some st'"
  shows "winners st' + (if llock (fst st) (pre, seq) then 1 else 0) = winners st + (if llock (fst st') (pre, seq) then 1 else 0)"
  using assms(3,4)
proof (induction "is" arbitrary: st)
  case (Cons i "is")
  then obtain st1 where "task_step ops pre seq i st = Some st1" "interleave ops pre seq is st1 = Some st'"
    by (auto simp: bind_eq_Some_conv)
  with Cons.IH [of st1] lockSD_tasks_step [OF assms(1,2), of "fst st" "snd st" i "fst st1" "snd st1"] Cons.prems(1)
  show ?case by auto
qed simp



section \<open>The provisioning lock is not\<close>

text \<open>A database that answers every call: the code is zero.\<close>

definition healthy :: "'w ops \<Rightarrow> string \<Rightarrow> int \<Rightarrow> bool" where
  "healthy ops pre seq \<longleftrightarrow> (\<forall>c q s. \<exists>v s'. db_step ops pre seq c q s = Some ((0, v), s'))"

text \<open>What such a database does, as far as the device is concerned.\<close>

lemma healthy_step:
  assumes "lock_contract ops plock llock" "healthy ops pre seq"
  obtains v s' where "db_step ops pre seq c q s = Some ((0, v), s')"
    "call_effect q (plock (world s) (pre, seq), llock (world s) (pre, seq)) (0, v)
      (plock (world s') (pre, seq), llock (world s') (pre, seq))"
  using assms db_step_effect [OF assms(1)] unfolding healthy_def by blast

text \<open>
  C38. \<^verbatim>\<open>lockProv\<close> does not keep updates out when they come at the wrong moment. \<^verbatim>\<open>lockSD\<close> reads the provisioning
  lock and takes the update lock in two calls of the database; when the six calls of \<^verbatim>\<open>lockProv\<close> of another task fall
  between them, both succeed: the device is then locked for provisioning and for an update. This needs no failure of
  the database.
\<close>

theorem provlock_race:
  assumes "lock_contract ops plock llock" "healthy ops pre seq" "plock w (pre, seq) = 0" "\<not> llock w (pre, seq)"
  shows "\<exists>w' ts'. interleave ops pre seq [0, 1, 1, 1, 1, 1, 1, 0] (w, [(s0, c0, lockSD_prog), (s1, c1, lockProv_prog)]) = Some (w', ts') \<and>
    results (w', ts') = [Return 0, Return 0] \<and> plock w' (pre, seq) = 1 \<and> llock w' (pre, seq)"
proof -
  note step = healthy_step [OF assms(1,2)]
  let ?T = "\<lambda>w. (plock w (pre, seq), llock w (pre, seq))"
  obtain v1 t1 where 1: "db_step ops pre seq c0 Get_provlock (s0\<lparr>world := w\<rparr>) = Some ((0, v1), t1)" "?T (world t1) = (0, False)" "v1 = 0"
    by (rule step [of c0 Get_provlock "s0\<lparr>world := w\<rparr>"]) (use assms(3,4) in \<open>auto simp: call_effect_def\<close>)
  obtain v2 t2 where 2: "db_step ops pre seq c1 Get_provlock (s1\<lparr>world := world t1\<rparr>) = Some ((0, v2), t2)" "?T (world t2) = (0, False)" "v2 = 0"
    by (rule step [of c1 Get_provlock "s1\<lparr>world := world t1\<rparr>"]) (use 1 in \<open>auto simp: call_effect_def\<close>)
  obtain v3 t3 where 3: "db_step ops pre seq c1 Set_down t2 = Some ((0, v3), t3)" "?T (world t3) = (0, False)"
    by (rule step [of c1 Set_down t2]) (use 2 in \<open>auto simp: call_effect_def\<close>)
  obtain v4 t4 where 4: "db_step ops pre seq c1 Get_provlock t3 = Some ((0, v4), t4)" "?T (world t4) = (0, False)" "v4 = 0"
    by (rule step [of c1 Get_provlock t3]) (use 3 in \<open>auto simp: call_effect_def\<close>)
  obtain v5 t5 where 5: "db_step ops pre seq c1 Set_lock t4 = Some ((0, v5), t5)" "?T (world t5) = (0, True)" "v5 = OK_LOCKED"
    by (rule step [of c1 Set_lock t4]) (use 4 in \<open>auto simp: call_effect_def SetLock_outcome_def split: if_splits\<close>)
  obtain v6 t6 where 6: "db_step ops pre seq c1 (Set_provlock 1) t5 = Some ((0, v6), t6)" "?T (world t6) = (1, True)"
    by (rule step [of c1 "Set_provlock 1" t5]) (use 5 in \<open>auto simp: call_effect_def\<close>)
  obtain v7 t7 where 7: "db_step ops pre seq c1 Un_lock t6 = Some ((0, v7), t7)" "?T (world t7) = (1, False)"
    by (rule step [of c1 Un_lock t6]) (use 6 in \<open>auto simp: call_effect_def\<close>)
  obtain v8 t8 where 8: "db_step ops pre seq c0 Set_lock (t1\<lparr>world := world t7\<rparr>) = Some ((0, v8), t8)" "?T (world t8) = (1, True)" "v8 = OK_LOCKED"
    by (rule step [of c0 Set_lock "t1\<lparr>world := world t7\<rparr>"]) (use 7 in \<open>auto simp: call_effect_def SetLock_outcome_def split: if_splits\<close>)
  show ?thesis
    using 1 2 3 4 5 6 7 8
    by (simp add: task_step_def lockSD_prog_def lockProv_prog_def SetLock_prog_def results_def lockSD_result_def lock_state_defs)
qed

text \<open>The instance without a shutdown.\<close>

definition steady_ops :: "mem ops" where
  "steady_ops = mem_ops\<lparr>x_shutdownRequired := (\<lambda>w. False)\<rparr>"

lemma steady_contract: "lock_contract steady_ops m_prov m_lock"
proof -
  have db: "x_db steady_ops = x_db mem_ops" by (simp add: steady_ops_def)
  show ?thesis
    using mem_contract unfolding lock_contract_def SetSDprovlock_law_def GetSDprovlock_law_def SetLock_law_def UnLock_law_def
      SetSDPing_law_def find_ctx_law_def connect_law_def db .
qed

lemma steady_healthy: "healthy steady_ops pre seq"
proof -
  have "\<exists>v s'. db_step steady_ops pre seq c q s = Some ((0, v), s')" for c q s
    by (cases q) (auto simp: db_step_def HA_defs ha_call_def no_value_def steady_ops_def mem_defs shutdownRequired_def
      sql_call_def no_out_def ha_loop.simps)
  then show ?thesis by (simp add: healthy_def)
qed

theorem provlock_race_witness:
  "\<exists>w' ts'. interleave steady_ops ''ABC'' 12 [0, 1, 1, 1, 1, 1, 1, 0]
     (mem_world, [(mem_task mem_world, 1, lockSD_prog), (mem_task mem_world, 2, lockProv_prog)]) = Some (w', ts') \<and>
     results (w', ts') = [Return 0, Return 0] \<and> m_prov w' (''ABC'', 12) = 1 \<and> m_lock w' (''ABC'', 12)"
  by (rule provlock_race [OF steady_contract steady_healthy]) (simp_all add: mem_world_def)

end
