(* ===== verification/Smsd_Stats.thy ===== *)
theory Smsd_Stats
  imports Smsd_Instance Smsd_Release
begin

text \<open>
  The statistics of the daemon are one global record that every task increments. A handler does so in three steps,
  \<^verbatim>\<open>STAT...THREADLOCK; currentStat.x++; STAT...THREADUNLOCK;\<close>, and the increment itself is a load and a store. The
  handlers of \<open>Smsd_Handlers\<close> increment in one step, \<open>upd_stat\<close>. Here the four steps are taken one by one and
  the steps of several tasks are interleaved: where every increment of a counter is made under the same mutex, the
  one step is what remains, in any order; \<^verbatim>\<open>doGetVPNReport\<close> increments a counter of \<^verbatim>\<open>doGetReport\<close> under a mutex of
  its own, and there an increment can be lost. Loads and stores of different tasks take effect one after the other.
\<close>

section \<open>The counters and the places that increment them\<close>

datatype stat_counter =
    Totalgetreport | Totalerrorgetreport | Totalgetvpnreport | Totalgetrouterip | Totalerrorgetrouterip
  | Totalipdown | Totalerroripdown | Totalpppipup | Totalerrorpppipup

primrec counter_get :: "stat_counter \<Rightarrow> sms_stat \<Rightarrow> 64 word" where
  "counter_get Totalgetreport = totalgetreport"
| "counter_get Totalerrorgetreport = totalerrorgetreport"
| "counter_get Totalgetvpnreport = totalgetvpnreport"
| "counter_get Totalgetrouterip = totalgetrouterip"
| "counter_get Totalerrorgetrouterip = totalerrorgetrouterip"
| "counter_get Totalipdown = totalipdown"
| "counter_get Totalerroripdown = totalerroripdown"
| "counter_get Totalpppipup = totalpppipup"
| "counter_get Totalerrorpppipup = totalerrorpppipup"

primrec counter_set :: "stat_counter \<Rightarrow> 64 word \<Rightarrow> sms_stat \<Rightarrow> sms_stat" where
  "counter_set Totalgetreport v = totalgetreport_update (\<lambda>_. v)"
| "counter_set Totalerrorgetreport v = totalerrorgetreport_update (\<lambda>_. v)"
| "counter_set Totalgetvpnreport v = totalgetvpnreport_update (\<lambda>_. v)"
| "counter_set Totalgetrouterip v = totalgetrouterip_update (\<lambda>_. v)"
| "counter_set Totalerrorgetrouterip v = totalerrorgetrouterip_update (\<lambda>_. v)"
| "counter_set Totalipdown v = totalipdown_update (\<lambda>_. v)"
| "counter_set Totalerroripdown v = totalerroripdown_update (\<lambda>_. v)"
| "counter_set Totalpppipup v = totalpppipup_update (\<lambda>_. v)"
| "counter_set Totalerrorpppipup v = totalerrorpppipup_update (\<lambda>_. v)"

text \<open>The places of \<^verbatim>\<open>verb.c\<close> that increment a counter, named after the handler and its branch.\<close>

datatype stat_site =
    Site_getreport | Site_getreport_error | Site_getvpnreport | Site_getvpnreport_error
  | Site_pppipup | Site_pppipup_error | Site_sdipup | Site_sdipup_error
  | Site_ipdown | Site_ipdown_error | Site_getrouterip | Site_getrouterip_error

primrec site_counter :: "stat_site \<Rightarrow> stat_counter" where
  "site_counter Site_getreport = Totalgetreport"
| "site_counter Site_getreport_error = Totalerrorgetreport"
| "site_counter Site_getvpnreport = Totalgetvpnreport"
| "site_counter Site_getvpnreport_error = Totalerrorgetreport"
| "site_counter Site_pppipup = Totalpppipup"
| "site_counter Site_pppipup_error = Totalerrorpppipup"
| "site_counter Site_sdipup = Totalpppipup"
| "site_counter Site_sdipup_error = Totalerrorpppipup"
| "site_counter Site_ipdown = Totalipdown"
| "site_counter Site_ipdown_error = Totalerroripdown"
| "site_counter Site_getrouterip = Totalgetrouterip"
| "site_counter Site_getrouterip_error = Totalerrorgetrouterip"

primrec site_mutex :: "stat_site \<Rightarrow> thread_mutex" where
  "site_mutex Site_getreport = statgetreportThreadMutex"
| "site_mutex Site_getreport_error = statgetreportThreadMutex"
| "site_mutex Site_getvpnreport = statgetvpnreportThreadMutex"
| "site_mutex Site_getvpnreport_error = statgetvpnreportThreadMutex"
| "site_mutex Site_pppipup = statpppipupThreadMutex"
| "site_mutex Site_pppipup_error = statpppipupThreadMutex"
| "site_mutex Site_sdipup = statpppipupThreadMutex"
| "site_mutex Site_sdipup_error = statpppipupThreadMutex"
| "site_mutex Site_ipdown = statipdownThreadMutex"
| "site_mutex Site_ipdown_error = statipdownThreadMutex"
| "site_mutex Site_getrouterip = statgetrouteripThreadMutex"
| "site_mutex Site_getrouterip_error = statgetrouteripThreadMutex"

text \<open>The increment as one step, and the sites that a handler passes: the second one when it fails.\<close>

definition stat_inc :: "stat_site \<Rightarrow> sms_stat \<Rightarrow> sms_stat" where
  "stat_inc x st = counter_set (site_counter x) (counter_get (site_counter x) st + 1) st"

definition handler_sites :: "stat_site \<Rightarrow> stat_site \<Rightarrow> bool \<Rightarrow> stat_site list" where
  "handler_sites x x_error failed = x # (if failed then [x_error] else [])"

section \<open>Interleaved increments\<close>

text \<open>Where a task is in \<^verbatim>\<open>LOCK; x++; UNLOCK;\<close>: the value it has loaded is its own.\<close>

datatype stat_pc = At_lock | At_load | At_store "64 word" | At_unlock

type_synonym stat_task = "stat_site list \<times> stat_pc"

record stat_tasks =
  mutex_owner :: "thread_mutex \<Rightarrow> nat option"
  shared_stat :: sms_stat
  stat_progs :: "stat_task list"

text \<open>
  One step of task \<open>i\<close>. A task that waits for a mutex another task holds does nothing; a task that has passed all
  its sites does nothing more.
\<close>

definition stat_step :: "nat \<Rightarrow> stat_tasks \<Rightarrow> stat_tasks" where
  "stat_step i st = (if length (stat_progs st) \<le> i then st else case stat_progs st ! i of
       ([], _) \<Rightarrow> st
     | (x # xs, At_lock) \<Rightarrow>
         if mutex_owner st (site_mutex x) = None
         then st\<lparr>mutex_owner := (mutex_owner st)(site_mutex x := Some i), stat_progs := (stat_progs st)[i := (x # xs, At_load)]\<rparr>
         else st
     | (x # xs, At_load) \<Rightarrow>
         st\<lparr>stat_progs := (stat_progs st)[i := (x # xs, At_store (counter_get (site_counter x) (shared_stat st)))]\<rparr>
     | (x # xs, At_store v) \<Rightarrow>
         st\<lparr>shared_stat := counter_set (site_counter x) (v + 1) (shared_stat st),
            stat_progs := (stat_progs st)[i := (x # xs, At_unlock)]\<rparr>
     | (x # xs, At_unlock) \<Rightarrow>
         st\<lparr>mutex_owner := (mutex_owner st)(site_mutex x := None), stat_progs := (stat_progs st)[i := (xs, At_lock)]\<rparr>)"

definition stat_run :: "nat list \<Rightarrow> stat_tasks \<Rightarrow> stat_tasks" where
  "stat_run sched st = fold stat_step sched st"

definition stat_start :: "sms_stat \<Rightarrow> stat_site list list \<Rightarrow> stat_tasks" where
  "stat_start st ps = \<lparr>mutex_owner = (\<lambda>_. None), shared_stat = st, stat_progs = map (\<lambda>p. (p, At_lock)) ps\<rparr>"

definition stat_finished :: "stat_tasks \<Rightarrow> bool" where
  "stat_finished st \<longleftrightarrow> list_all (\<lambda>(xs, pc). xs = []) (stat_progs st)"

text \<open>The increments whose store is still to come, and the steps that are still to come.\<close>

fun task_pending :: "stat_task \<Rightarrow> stat_site list" where
  "task_pending (xs, At_unlock) = tl xs"
| "task_pending (xs, _) = xs"

fun task_steps :: "stat_task \<Rightarrow> nat" where
  "task_steps (xs, pc) =
     4 * length xs - (case pc of At_lock \<Rightarrow> 0 | At_load \<Rightarrow> 1 | At_store v \<Rightarrow> 2 | At_unlock \<Rightarrow> 3)"

definition stat_pending :: "stat_tasks \<Rightarrow> stat_site list" where
  "stat_pending st = concat (map task_pending (stat_progs st))"

definition stat_steps :: "stat_tasks \<Rightarrow> nat" where
  "stat_steps st = sum_list (map task_steps (stat_progs st))"

section \<open>Increments commute\<close>

lemma counter_get_set: "counter_get k (counter_set k' v st) = (if k = k' then v else counter_get k st)"
  by (cases k; cases k') simp_all

lemma counter_set_commute:
  "k \<noteq> k' \<Longrightarrow> counter_set k v (counter_set k' v' st) = counter_set k' v' (counter_set k v st)"
  by (cases k; cases k') simp_all

lemma counter_set_twice: "counter_set k v (counter_set k v' st) = counter_set k v st"
  by (cases k) simp_all

lemma stat_inc_commute: "stat_inc x \<circ> stat_inc y = stat_inc y \<circ> stat_inc x"
  by (cases "site_counter x = site_counter y")
    (simp_all add: fun_eq_iff stat_inc_def counter_get_set counter_set_commute counter_set_twice)

lemma fold_stat_inc_mset: "mset xs = mset ys \<Longrightarrow> fold stat_inc xs = fold stat_inc ys"
  by (rule fold_multiset_equiv) (auto simp: stat_inc_commute)

lemma counter_fold_inc:
  "counter_get k (fold stat_inc xs st) = counter_get k st + of_nat (length (filter (\<lambda>x. site_counter x = k) xs))"
  by (induction xs arbitrary: st) (auto simp: stat_inc_def counter_get_set)

section \<open>The mutexes\<close>

text \<open>Task \<open>i\<close> is between its lock and its unlock of mutex \<open>m\<close>.\<close>

fun task_inside :: "stat_task \<Rightarrow> thread_mutex \<Rightarrow> bool" where
  "task_inside ([], pc) m = False"
| "task_inside (x # xs, pc) m = (pc \<noteq> At_lock \<and> site_mutex x = m)"

lemma task_inside_lock [simp]: "\<not> task_inside (xs, At_lock) m"
  by (cases xs) simp_all

definition inside :: "stat_task list \<Rightarrow> nat \<Rightarrow> thread_mutex \<Rightarrow> bool" where
  "inside ts i m \<longleftrightarrow> i < length ts \<and> task_inside (ts ! i) m"

definition owners_inside :: "stat_tasks \<Rightarrow> bool" where
  "owners_inside st \<longleftrightarrow> (\<forall>m i. mutex_owner st m = Some i \<longleftrightarrow> inside (stat_progs st) i m)"

lemma stat_step_cases:
  obtains (idle) "stat_step i st = st"
  | (lock) x xs where "i < length (stat_progs st)" "stat_progs st ! i = (x # xs, At_lock)" "mutex_owner st (site_mutex x) = None"
      "stat_step i st = st\<lparr>mutex_owner := (mutex_owner st)(site_mutex x := Some i), stat_progs := (stat_progs st)[i := (x # xs, At_load)]\<rparr>"
  | (load) x xs where "i < length (stat_progs st)" "stat_progs st ! i = (x # xs, At_load)"
      "stat_step i st = st\<lparr>stat_progs := (stat_progs st)[i := (x # xs, At_store (counter_get (site_counter x) (shared_stat st)))]\<rparr>"
  | (store) x xs v where "i < length (stat_progs st)" "stat_progs st ! i = (x # xs, At_store v)"
      "stat_step i st = st\<lparr>shared_stat := counter_set (site_counter x) (v + 1) (shared_stat st),
         stat_progs := (stat_progs st)[i := (x # xs, At_unlock)]\<rparr>"
  | (unlock) x xs where "i < length (stat_progs st)" "stat_progs st ! i = (x # xs, At_unlock)"
      "stat_step i st = st\<lparr>mutex_owner := (mutex_owner st)(site_mutex x := None), stat_progs := (stat_progs st)[i := (xs, At_lock)]\<rparr>"
proof (cases "i < length (stat_progs st)")
  case False
  then show ?thesis by (intro idle) (simp add: stat_step_def)
next
  case i: True
  obtain xs pc where t: "stat_progs st ! i = (xs, pc)" by fastforce
  show ?thesis
  proof (cases xs)
    case Nil
    with t show ?thesis by (intro idle) (simp add: stat_step_def)
  next
    case (Cons x xs')
    note t = t [unfolded Cons]
    show ?thesis
    proof (cases pc)
      case At_lock
      with i t show ?thesis
        by (cases "mutex_owner st (site_mutex x)") (intro lock idle; simp add: stat_step_def)+
    qed (use i t in \<open>(intro load store unlock; simp add: stat_step_def)+\<close>)
  qed
qed

lemma inside_update:
  "i < length ts \<Longrightarrow> inside (ts[i := t]) j m = (if j = i then task_inside t m else inside ts j m)"
  by (simp add: inside_def)

lemma owners_inside_step:
  assumes "owners_inside st"
  shows "owners_inside (stat_step i st)"
proof (cases i st rule: stat_step_cases)
  case (unlock x xs)
  have "mutex_owner st m = Some i \<longleftrightarrow> m = site_mutex x" for m
    using assms unlock by (auto simp: owners_inside_def inside_def)
  with assms unlock show ?thesis by (simp add: owners_inside_def inside_update) (metis option.inject)
next
  case (lock x xs)
  have "mutex_owner st m \<noteq> Some i" for m
    using assms lock by (simp add: owners_inside_def inside_def)
  with assms lock show ?thesis by (simp add: owners_inside_def inside_update) (metis option.distinct(1))
next
  case (load x xs)
  with assms show ?thesis by (simp add: owners_inside_def inside_update) (simp add: inside_def)
next
  case (store x xs v)
  with assms show ?thesis by (simp add: owners_inside_def inside_update) (simp add: inside_def)
qed (use assms in simp)

lemma owners_inside_run: "owners_inside st \<Longrightarrow> owners_inside (stat_run sched st)"
  unfolding stat_run_def by (induction sched arbitrary: st) (auto intro: owners_inside_step)

lemma owners_inside_start: "owners_inside (stat_start st ps)"
  by (auto simp: owners_inside_def inside_def stat_start_def)

text \<open>A task between its load and its store holds the mutex of its site; two tasks never hold the same one.\<close>

lemma inside_exclusive: "owners_inside st \<Longrightarrow> inside (stat_progs st) i m \<Longrightarrow> inside (stat_progs st) j m \<Longrightarrow> i = j"
  unfolding owners_inside_def by (metis option.inject)

section \<open>No deadlock\<close>

lemma sum_list_update_nth:
  fixes f :: "'a \<Rightarrow> nat"
  assumes "i < length xs"
  shows "sum_list (map f (xs[i := y])) + f (xs ! i) = sum_list (map f xs) + f y"
  using assms by (induction xs arbitrary: i) (auto split: nat.splits)

lemma stat_steps_step: "stat_step i st = st \<or> stat_steps st = Suc (stat_steps (stat_step i st))"
proof (cases i st rule: stat_step_cases)
  case (lock x xs)
  then show ?thesis using sum_list_update_nth [of i "stat_progs st" task_steps "(x # xs, At_load)"] by (simp add: stat_steps_def)
next
  case (load x xs)
  then show ?thesis
    using sum_list_update_nth [of i "stat_progs st" task_steps "(x # xs, At_store (counter_get (site_counter x) (shared_stat st)))"]
    by (simp add: stat_steps_def)
next
  case (store x xs v)
  then show ?thesis using sum_list_update_nth [of i "stat_progs st" task_steps "(x # xs, At_unlock)"] by (simp add: stat_steps_def)
next
  case (unlock x xs)
  then show ?thesis using sum_list_update_nth [of i "stat_progs st" task_steps "(xs, At_lock)"] by (simp add: stat_steps_def)
qed simp

lemma stat_step_idle:
  assumes "stat_step i st = st" "i < length (stat_progs st)" "stat_progs st ! i = (x # xs, pc)"
  shows "pc = At_lock \<and> mutex_owner st (site_mutex x) \<noteq> None"
proof -
  have change: "ts[i := t] \<noteq> ts" if "i < length ts" "ts ! i \<noteq> t" for ts :: "stat_task list" and t
    using that by (metis nth_list_update_eq)
  have "stat_progs (stat_step i st) = stat_progs st" using assms(1) by simp
  with assms(2,3) change show ?thesis
    by (cases pc) (auto simp: stat_step_def split: if_splits)
qed

lemma stat_finished_nth: "stat_finished st \<longleftrightarrow> (\<forall>i < length (stat_progs st). fst (stat_progs st ! i) = [])"
  by (simp add: stat_finished_def list_all_length case_prod_beta)

lemma no_deadlock:
  assumes "owners_inside st" "\<forall>i < length (stat_progs st). stat_step i st = st"
  shows "stat_finished st"
proof (rule ccontr)
  assume "\<not> stat_finished st"
  then obtain i x xs pc where i: "i < length (stat_progs st)" "stat_progs st ! i = (x # xs, pc)"
    by (auto simp: stat_finished_nth neq_Nil_conv) (metis surjective_pairing)
  with assms(2) stat_step_idle obtain j where j: "mutex_owner st (site_mutex x) = Some j" by blast
  with assms(1) obtain y ys pc' where "j < length (stat_progs st)" "stat_progs st ! j = (y # ys, pc')" "pc' \<noteq> At_lock"
    by (auto simp: owners_inside_def inside_def elim: task_inside.elims)
  with assms(2) stat_step_idle show False by blast
qed

text \<open>A part of a schedule in which every task has its turn makes progress, unless nothing is left to do.\<close>

lemma turn_progress:
  "stat_steps (stat_run b st) < stat_steps st \<or> stat_run b st = st \<and> (\<forall>i \<in> set b. stat_step i st = st)"
  unfolding stat_run_def
proof (induction b arbitrary: st)
  case (Cons i b)
  show ?case
  proof (cases "stat_step i st = st")
    case True
    with Cons [of st] show ?thesis by simp
  next
    case False
    with stat_steps_step [of i st] Cons [of "stat_step i st"] show ?thesis by (auto intro: less_trans)
  qed
qed simp

lemma length_stat_step [simp]: "length (stat_progs (stat_step i st)) = length (stat_progs st)"
  by (cases i st rule: stat_step_cases) simp_all

lemma length_stat_run [simp]: "length (stat_progs (stat_run b st)) = length (stat_progs st)"
  unfolding stat_run_def by (induction b arbitrary: st) simp_all

lemma finished_step: "stat_finished st \<Longrightarrow> stat_step i st = st"
  by (cases i st rule: stat_step_cases) (force simp: stat_finished_nth)+

lemma finished_run: "stat_finished st \<Longrightarrow> stat_run b st = st"
  unfolding stat_run_def by (induction b arbitrary: st) (auto simp: finished_step)

lemma fair_turns_finish:
  assumes "owners_inside st" "\<forall>b \<in> set bs. \<forall>i < length (stat_progs st). i \<in> set b" "stat_steps st \<le> length bs"
  shows "stat_finished (stat_run (concat bs) st)"
  using assms
proof (induction bs arbitrary: st)
  case Nil
  then have "\<forall>i < length (stat_progs st). stat_step i st = st" using stat_steps_step by fastforce
  with Nil no_deadlock show ?case by (simp add: stat_run_def)
next
  case (Cons b bs)
  have split: "stat_run (concat (b # bs)) st = stat_run (concat bs) (stat_run b st)" by (simp add: stat_run_def)
  from turn_progress [of b st] show ?case
  proof
    assume "stat_steps (stat_run b st) < stat_steps st"
    with Cons owners_inside_run show ?thesis unfolding split by (intro Cons.IH) auto
  next
    assume idle: "stat_run b st = st \<and> (\<forall>i \<in> set b. stat_step i st = st)"
    with Cons.prems have "stat_finished st" by (intro no_deadlock) auto
    with idle finished_run show ?thesis unfolding split by simp
  qed
qed

section \<open>Increments under one mutex per counter\<close>

lemma task_pending_Nil [simp]: "task_pending ([], pc) = []"
  by (cases pc) simp_all

lemma pending_same:
  "i < length (stat_progs st) \<Longrightarrow> task_pending t = task_pending (stat_progs st ! i) \<Longrightarrow>
   concat (map task_pending ((stat_progs st)[i := t])) = stat_pending st"
  by (simp add: map_update stat_pending_def) (metis length_map list_update_id nth_map)

lemma pending_less:
  assumes "i < length ts" "task_pending (ts ! i) = x # task_pending t"
  shows "mset (concat (map task_pending ts)) = add_mset x (mset (concat (map task_pending (ts[i := t]))))"
  using assms by (induction ts arbitrary: i) (auto split: nat.splits)

text \<open>
  A set of sites in which the sites of one counter use one mutex. Then a loaded value is still the value of the
  counter when it is stored, and the increments that are still to come bring the statistics to the same end
  whichever task goes on.
\<close>

locale counter_discipline =
  fixes covered :: "stat_site \<Rightarrow> bool"
  assumes one_mutex: "covered x \<Longrightarrow> covered y \<Longrightarrow> site_counter x = site_counter y \<Longrightarrow> site_mutex x = site_mutex y"
begin

definition loaded_current :: "stat_tasks \<Rightarrow> bool" where
  "loaded_current st \<longleftrightarrow> (\<forall>i < length (stat_progs st). list_all covered (fst (stat_progs st ! i)) \<and>
     (\<forall>x xs v. stat_progs st ! i = (x # xs, At_store v) \<longrightarrow> v = counter_get (site_counter x) (shared_stat st)))"

lemma loaded_covered:
  assumes "loaded_current st" "i < length (stat_progs st)" "stat_progs st ! i = (x # xs, pc)"
  shows "covered x" "list_all covered xs"
  using assms(1) [unfolded loaded_current_def, rule_format, OF assms(2)] assms(3) by simp_all

lemma loaded_current_step:
  assumes "owners_inside st" "loaded_current st"
  shows "loaded_current (stat_step i st)"
proof (cases i st rule: stat_step_cases)
  case (store x xs v)
  have other: "site_counter y \<noteq> site_counter x"
    if "j < length (stat_progs st)" "stat_progs st ! j = (y # ys, At_store w)" "j \<noteq> i" for j y ys w
  proof
    assume "site_counter y = site_counter x"
    moreover have "covered x" "covered y" using assms(2) store(1,2) that(1,2) loaded_covered(1) by blast+
    ultimately have "site_mutex y = site_mutex x" using one_mutex by blast
    then have "inside (stat_progs st) j (site_mutex x)" "inside (stat_progs st) i (site_mutex x)"
      using store(1,2) that(1,2) by (simp_all add: inside_def)
    with that(3) inside_exclusive [OF assms(1)] show False by blast
  qed
  note loaded_covered [OF assms(2) store(1,2)]
  moreover have "list_all covered (fst (stat_progs st ! j)) \<and> (\<forall>y ys w. stat_progs st ! j = (y # ys, At_store w) \<longrightarrow>
      w = counter_get (site_counter y) (counter_set (site_counter x) (v + 1) (shared_stat st)))"
    if "j < length (stat_progs st)" "j \<noteq> i" for j
    using assms(2) that other [of j] by (simp add: loaded_current_def counter_get_set)
  ultimately show ?thesis unfolding store(3) using store(1) by (simp add: loaded_current_def nth_list_update)
qed (use assms(2) in \<open>fastforce simp: loaded_current_def nth_list_update\<close>)+

lemma pending_step:
  assumes "loaded_current st"
  shows "fold stat_inc (stat_pending (stat_step i st)) (shared_stat (stat_step i st)) = fold stat_inc (stat_pending st) (shared_stat st)"
proof (cases i st rule: stat_step_cases)
  case (store x xs v)
  let ?ts = "(stat_progs st)[i := (x # xs, At_unlock)]"
  have "v = counter_get (site_counter x) (shared_stat st)" using assms store(1,2) by (simp add: loaded_current_def)
  then have "shared_stat (stat_step i st) = stat_inc x (shared_stat st)" using store(3) by (simp add: stat_inc_def)
  moreover have "mset (stat_pending st) = mset (x # concat (map task_pending ?ts))"
    using pending_less [OF store(1), of x "(x # xs, At_unlock)"] store(2) by (simp add: stat_pending_def)
  moreover have "stat_pending (stat_step i st) = concat (map task_pending ?ts)" using store(3) by (simp add: stat_pending_def)
  ultimately show ?thesis using fold_stat_inc_mset [of "stat_pending st" "x # concat (map task_pending ?ts)"] by simp
qed (simp_all add: stat_pending_def pending_same [unfolded stat_pending_def])

lemma pending_run:
  assumes "owners_inside st" "loaded_current st"
  shows "fold stat_inc (stat_pending (stat_run sched st)) (shared_stat (stat_run sched st)) = fold stat_inc (stat_pending st) (shared_stat st)"
  using assms unfolding stat_run_def
  by (induction sched arbitrary: st) (simp_all add: owners_inside_step loaded_current_step pending_step)

lemma serialise:
  assumes "list_all (list_all covered) ps" "stat_finished (stat_run sched (stat_start st ps))"
  shows "shared_stat (stat_run sched (stat_start st ps)) = fold stat_inc (concat ps) st"
proof -
  have "loaded_current (stat_start st ps)" using assms(1) by (auto simp: loaded_current_def stat_start_def list_all_length)
  from pending_run [OF owners_inside_start this]
  have "fold stat_inc (stat_pending (stat_run sched (stat_start st ps))) (shared_stat (stat_run sched (stat_start st ps))) =
    fold stat_inc (concat ps) st" by (simp add: stat_pending_def stat_start_def comp_def)
  moreover have "stat_pending (stat_run sched (stat_start st ps)) = []"
    using assms(2) by (fastforce simp: stat_finished_def stat_pending_def list_all_iff)
  ultimately show ?thesis by simp
qed

end

text \<open>
  The sites of the daemon have one mutex per counter, except for the two that increment \<^verbatim>\<open>totalerrorgetreport\<close>:
  with either of them left out, the laws hold.
\<close>

interpretation without_vpn_error: counter_discipline "\<lambda>x. x \<noteq> Site_getvpnreport_error"
proof
  fix x y
  assume "x \<noteq> Site_getvpnreport_error" "y \<noteq> Site_getvpnreport_error" "site_counter x = site_counter y"
  then show "site_mutex x = site_mutex y" by (cases x; cases y) simp_all
qed

interpretation without_report_error: counter_discipline "\<lambda>x. x \<noteq> Site_getreport_error"
proof
  fix x y
  assume "x \<noteq> Site_getreport_error" "y \<noteq> Site_getreport_error" "site_counter x = site_counter y"
  then show "site_mutex x = site_mutex y" by (cases x; cases y) simp_all
qed

section \<open>The statistics of tasks that run at the same time\<close>



text \<open>
  C25. The increments of tasks that run at the same time are not lost, and which handler is first does not matter:
  as long as no \<^verbatim>\<open>GETVPNREPORT\<close> fails, whatever the interleaving of the locks, loads, stores and unlocks, the
  statistics at the end are those of all increments made one by one, in any order, and each counter has grown,
  modulo \<open>2 ^ 64\<close>, by the number of increments of it.
\<close>

theorem stat_increments_serialise:
  assumes "list_all (list_all (\<lambda>x. x \<noteq> Site_getvpnreport_error)) ps"
    and "stat_finished (stat_run sched (stat_start st ps))" and "mset xs = mset (concat ps)"
  shows "shared_stat (stat_run sched (stat_start st ps)) = fold stat_inc xs st \<and>
    counter_get k (shared_stat (stat_run sched (stat_start st ps))) =
      counter_get k st + of_nat (length (filter (\<lambda>x. site_counter x = k) (concat ps)))"
  using without_vpn_error.serialise [OF assms(1,2)] fold_stat_inc_mset [OF assms(3)] by (simp add: counter_fold_inc)

theorem stat_increments_serialise_witness:
  "shared_stat (stat_run [0, 1, 0, 1, 0, 0, 1, 1, 1, 1] (stat_start zero_stat [[Site_pppipup], [Site_sdipup]])) =
     fold stat_inc [Site_sdipup, Site_pppipup] zero_stat \<and>
   totalpppipup (shared_stat (stat_run [0, 1, 0, 1, 0, 0, 1, 1, 1, 1] (stat_start zero_stat [[Site_pppipup], [Site_sdipup]]))) = 2"
proof -
  have "stat_finished (stat_run [0, 1, 0, 1, 0, 0, 1, 1, 1, 1] (stat_start zero_stat [[Site_pppipup], [Site_sdipup]]))" by code_simp
  from stat_increments_serialise [of "[[Site_pppipup], [Site_sdipup]]", OF _ this, of "[Site_sdipup, Site_pppipup]" Totalpppipup]
  show ?thesis by (simp add: zero_stat_def stat_inc_def)
qed

text \<open>
  C33. An error of \<^verbatim>\<open>GETVPNREPORT\<close> is counted in the error counter of \<^verbatim>\<open>GETREPORT\<close>, under the mutex of
  \<^verbatim>\<open>GETVPNREPORT\<close>: when one request of each kind fails at the same time, both tasks can hold their mutexes at
  once, and of the two increments one is lost. From any statistics there is an interleaving after which both
  tasks have finished and the counter is one less than the increments made one by one give, and all the other
  counters are as they should be.
\<close>

theorem vpnreport_error_lost:
  "\<exists>sched. let e = stat_run sched (stat_start st
        [handler_sites Site_getreport Site_getreport_error True, handler_sites Site_getvpnreport Site_getvpnreport_error True])
     in stat_finished e \<and>
        totalerrorgetreport (shared_stat e) = totalerrorgetreport st + 1 \<and>
        stat_inc Site_getvpnreport_error (shared_stat e) =
          fold stat_inc [Site_getreport, Site_getreport_error, Site_getvpnreport, Site_getvpnreport_error] st"
  by (rule exI [of _ "[0, 0, 0, 0, 1, 1, 1, 1, 0, 1, 0, 1, 0, 1, 0, 1]"])
    (simp add: stat_run_def stat_start_def stat_step_def stat_finished_def handler_sites_def stat_inc_def)

end
