(* ===== verification/Smsd_Counts.thy ===== *)
theory Smsd_Counts
  imports Smsd_Stats Smsd_Verb
begin

text \<open>
  Which counters a request increments. Everything a handler calls leaves the statistics alone, for every library
  and every script; the six handlers that count increment at their sites of \<open>Smsd_Stats\<close>, so what is interleaved
  there is what the handlers do, and a request changes the statistics in no other way.
\<close>

section \<open>Functions that leave the statistics alone\<close>

lemma quiet_stat: "quiet s s' \<Longrightarrow> currentStat s' = currentStat s"
  by (simp add: quiet_def)

lemma stat_snd [simp]:
  "currentStat (snd (getSDinfo ops sid s)) = currentStat s" "currentStat (snd (get_cust_info ops sid s)) = currentStat s"
  "currentStat (snd (set_log_by_id ops c l s)) = currentStat s" "currentStat (snd (php_execute ops sid m sc s)) = currentStat s"
  "currentStat (snd (socketClose ops fd s)) = currentStat s" "currentStat (snd (socketWrite ops fd b s)) = currentStat s"
  "currentStat (snd (socketReadLine ops fd n k s)) = currentStat s" "currentStat (snd (sql_call nm h f s)) = currentStat s"
  "currentStat (snd (need_ctx ops s)) = currentStat s" "currentStat (snd (sms_db_find_ctx ops db s)) = currentStat s"
  "currentStat (set_sd_alarm ops pre seq sev ref msg s) = currentStat s"
  "currentStat (sched_new_task ops nm i j s) = currentStat s"
  by (simp_all add: getSDinfo_def get_cust_info_def set_log_by_id_def php_execute_def socketClose_def socketWrite_def
      socketReadLine_def sql_call_def need_ctx_def sms_db_find_ctx_def set_sd_alarm_def sched_new_task_def split_beta Let_def)

lemma stat_replies [simp]:
  "currentStat (snd (send_ok ops msg s)) = currentStat s" "currentStat (snd (send_error ops msg e s)) = currentStat s"
  "currentStat (sms_send_user_ok ops res s) = currentStat s" "currentStat (sms_send_user_ok_ex ops res m s) = currentStat s"
  by (simp_all add: send_ok_frame [OF surjective_pairing] send_error_frame [OF surjective_pairing]
      sms_send_user_ok_def sms_send_user_ok_ex_def)

lemma stat_answers [simp]:
  "currentStat (snd (answer_ok ops msg s)) = currentStat s" "currentStat (snd (answer_error ops msg e s)) = currentStat s"
  "currentStat (snd (answer_code ops e s)) = currentStat s" "currentStat (snd (bad_param ops s)) = currentStat s"
  by (simp_all add: answer_ok_def answer_error_def answer_code_def bad_param_def split_beta Let_def)

lemma stat_upd [simp]: "currentStat (upd_stat f s) = f (currentStat s)"
  by (simp add: upd_stat_def)

lemma stat_generic [simp]:
  "currentStat (snd (genericStaging ops i s)) = currentStat s" "currentStat (snd (genericStagingMap ops i s)) = currentStat s"
  "currentStat (snd (genericCheckProvisioning ops i s)) = currentStat s" "currentStat (snd (genericGetRunningConf ops i s)) = currentStat s"
  "currentStat (snd (genericGetConfig ops i s)) = currentStat s" "currentStat (snd (genericGetActivityReport ops i s)) = currentStat s"
  "currentStat (snd (genericBackupConf ops i a b s)) = currentStat s" "currentStat (snd (genericPushConfig ops i a b c od s)) = currentStat s"
  "currentStat (snd (genericSmsexecCmd ops i cs s)) = currentStat s" "currentStat (snd (genericSmsAddonExecCmd ops i a cs s)) = currentStat s"
  "currentStat (snd (genericUnarchiveConfiguration ops i a b s)) = currentStat s"
  "currentStat (snd (genericGetArchiveConfiguration ops i a s)) = currentStat s"
  "currentStat (snd (genericUpdateLicense ops i s)) = currentStat s" "currentStat (snd (genericUpdateFirmware ops i a b s)) = currentStat s"
  "currentStat (snd (genericHaSwap ops i s)) = currentStat s" "currentStat (snd (genericSendDataFiles ops i a b c d s)) = currentStat s"
  "currentStat (snd (generic_gen_template ops i a b c s)) = currentStat s" "currentStat (snd (genericSnmpTest ops a b c d s)) = currentStat s"
  "currentStat (snd (genericGetConfiguration ops i s)) = currentStat s" "currentStat (snd (genericGetReport ops i fl x y s)) = currentStat s"
  "currentStat (snd (genericCheckSerialNumber ops i a s)) = currentStat s" "currentStat (snd (genericCallCommand ops i a n od s)) = currentStat s"
  unfolding genericStaging_def genericStagingMap_def genericCheckProvisioning_def genericGetRunningConf_def
    genericGetConfig_def genericGetActivityReport_def genericBackupConf_def genericPushConfig_def genericSmsexecCmd_def
    genericSmsAddonExecCmd_def genericUnarchiveConfiguration_def genericGetArchiveConfiguration_def genericUpdateLicense_def
    genericUpdateFirmware_def genericHaSwap_def genericSendDataFiles_def generic_gen_template_def genericSnmpTest_def
    genericGetConfiguration_def genericGetReport_def genericCheckSerialNumber_def genericCallCommand_def
  by (simp_all add: Let_def split_beta)

lemma stat_session_runs [simp]:
  "currentStat (snd (dnsUpdate ops sid ip s)) = currentStat s" "currentStat (snd (getPingStatus ops p s)) = currentStat s"
  "currentStat (snd (resolve_with ops v sid p s)) = currentStat s" "currentStat (snd (save_running_conf ops sd f vc s)) = currentStat s"
  "currentStat (snd (resolve_template ops sid p s)) = currentStat s" "currentStat (snd (resolve_template_buffer ops sid p s)) = currentStat s"
  "currentStat (snd (run_commands ops i a cs s)) = currentStat s"
  by (simp_all add: dnsUpdate_def getPingStatus_def resolve_with_def resolve_template_def resolve_template_buffer_def
      save_running_conf_def run_commands_def Let_def split_beta split: option.split)

lemma stat_with_sdinfo [simp]:
  "(\<And>i u. currentStat (snd (f i u)) = currentStat u) \<Longrightarrow> currentStat (snd (with_sdinfo ops sid f s)) = currentStat s"
  by (simp add: with_sdinfo_def Let_def split_beta)

lemma stat_requests [simp]:
  "currentStat (snd (getRunningConf ops p s)) = currentStat s" "currentStat (snd (getConfig ops p s)) = currentStat s"
  "currentStat (snd (getActivityReport ops p s)) = currentStat s" "currentStat (snd (unarchive_conf ops p s)) = currentStat s"
  "currentStat (snd (get_archive_conf ops p s)) = currentStat s" "currentStat (snd (send_data_files ops p s)) = currentStat s"
  "currentStat (snd (check_serial ops p s)) = currentStat s" "currentStat (snd (checkProvisioning ops p s)) = currentStat s"
  "currentStat (snd (backupRouterFullConfiguration ops p s)) = currentStat s" "currentStat (snd (staging ops p fl s)) = currentStat s"
  "currentStat (snd (updateLicense ops p s)) = currentStat s" "currentStat (snd (updateFirmware ops p s)) = currentStat s"
  "currentStat (snd (ha_swap ops p s)) = currentStat s" "currentStat (snd (genTemplate ops p s)) = currentStat s"
  unfolding getRunningConf_def getConfig_def getActivityReport_def unarchive_conf_def get_archive_conf_def
    send_data_files_def check_serial_def checkProvisioning_def backupRouterFullConfiguration_def staging_def
    updateLicense_def updateFirmware_def ha_swap_def genTemplate_def
  by (simp_all add: Let_def split_beta)

lemma stat_reports [simp]:
  "currentStat (snd (getReport ops p s)) = currentStat s" "currentStat (snd (getVPNReport ops p s)) = currentStat s"
  "currentStat (snd (getRouterFullConfiguration ops p s)) = currentStat s" "currentStat (snd (getRouterIp ops p s)) = currentStat s"
  "currentStat (snd (smsexec ops p a s)) = currentStat s"
  unfolding getReport_def getVPNReport_def getRouterFullConfiguration_def getRouterIp_def smsexec_def report_error_def
  by (simp_all add: Let_def split_beta split: option.split)

section \<open>Functions that may not return\<close>

lemma stat_reads:
  "read_lines ops eol lo fd n k acc s = Some (a, t) \<Longrightarrow> currentStat t = currentStat s"
  "read_json ops fd buf s = Some (b, t) \<Longrightarrow> currentStat t = currentStat s"
proof -
  have "currentStat (snd rs) = currentStat s" if "read_lines ops eol lo fd n k acc s = Some rs" for rs
    using that
  proof (rule read_lines.raw_induct [where P = "\<lambda>ops eol lo fd n k acc s rs. currentStat (snd rs) = currentStat s", rotated], goal_cases)
    case (1 f ops eol lo fd n k acc s rs)
    then show ?case by (auto simp: split_beta Let_def split: if_splits)
  qed
  then show "read_lines ops eol lo fd n k acc s = Some (a, t) \<Longrightarrow> currentStat t = currentStat s" by fastforce
  have "currentStat (snd rs) = currentStat s" if "read_json ops fd buf s = Some rs" for rs
    using that
  proof (rule read_json.raw_induct [where P = "\<lambda>ops fd buf s rs. currentStat (snd rs) = currentStat s", rotated], goal_cases)
    case (1 f ops fd buf s rs)
    then show ?case by (auto simp: split_beta Let_def split: if_splits)
  qed
  then show "read_json ops fd buf s = Some (b, t) \<Longrightarrow> currentStat t = currentStat s" by fastforce
qed

lemma stat_save_all_loop: "save_all_loop ops h cur s = Some t \<Longrightarrow> currentStat t = currentStat s"
proof (erule save_all_loop.raw_induct [where P = "\<lambda>ops h cur s t. currentStat t = currentStat s", rotated], goal_cases)
  case (1 f ops h cur s t)
  note IH = "1"(1)
  show ?case
    using "1"(2) by (auto simp: split_beta Let_def if_eq_Some simp del: if_split split: option.splits prod.splits dest!: IH)
qed

lemmas stat_returned = bind_eq_Some_conv if_eq_Some split_beta Let_def

lemmas stat_HA = HA_quiet [THEN quiet_stat]

lemmas stat_locks = lockSD.keeps_stat [THEN conjunct1] unlockSD.keeps_stat [THEN conjunct1]
  lockProv.keeps_stat [THEN conjunct1] unlockProv.keeps_stat [THEN conjunct1] sdForceAsset.keeps_stat [THEN conjunct1]

lemma stat_lock_requests:
  "unlockUpdate ops sid s = Some (r, t) \<Longrightarrow> currentStat t = currentStat s"
  "lockProvisioning ops sid s = Some (r, t) \<Longrightarrow> currentStat t = currentStat s"
  "unlockProvisioning ops sid s = Some (r, t) \<Longrightarrow> currentStat t = currentStat s"
  unfolding unlockUpdate_def lockProvisioning_def unlockProvisioning_def
  by (auto simp: stat_returned dest!: stat_locks)

lemma stat_getUpdateStatus: "getUpdateStatus ops sid ty s = Some (rc, t) \<Longrightarrow> currentStat t = currentStat s"
  unfolding getUpdateStatus_def HA_SMSSQL_GetUpdateStatus_def by (auto simp: stat_returned)

lemma stat_check_events: "check_events ops sid evs acc s = Some (rc, t) \<Longrightarrow> currentStat t = currentStat s"
proof (induction evs arbitrary: acc s)
  case (Cons ev evs)
  then show ?case by (cases ev) (auto simp: stat_returned dest!: stat_getUpdateStatus split: if_splits)
qed simp

lemma stat_status:
  "checkUpdate ops sid s = Some (rc, t) \<Longrightarrow> currentStat t = currentStat s"
  "checkAllUpdate ops sid s = Some (rc, t) \<Longrightarrow> currentStat t = currentStat s"
  "sdGetAsset ops sid s = Some (rc, t) \<Longrightarrow> currentStat t = currentStat s"
  "sdSetConfigMode ops sid m s = Some (rcm, t) \<Longrightarrow> currentStat t = currentStat s"
  unfolding checkUpdate_def checkAllUpdate_def sdGetAsset_def sdSetConfigMode_def
  by (auto simp: stat_returned dest!: stat_getUpdateStatus stat_check_events stat_HA)

lemmas stat_scripts = genericInitialProvisioning.keeps_counters genericRestoreConf.keeps_counters
  genericUpdateConf.keeps_counters genericExecScript.keeps_counters

lemma stat_script_cmds:
  "generic_sms_cmd ops i a p s = Some (r, t) \<Longrightarrow> currentStat t = currentStat s"
  "generic_smsd_cmd ops a p s = Some (r, t) \<Longrightarrow> currentStat t = currentStat s"
  "generic_sms_cust_cmd ops cu a p s = Some (r, t) \<Longrightarrow> currentStat t = currentStat s"
  unfolding generic_sms_cmd_def generic_smsd_cmd_def generic_sms_cust_cmd_def
  by (auto simp: stat_returned dest!: stat_locks)

lemma stat_script_requests:
  "smsCmd ops p s = Some (r, t) \<Longrightarrow> currentStat t = currentStat s"
  "smsCustCmd ops p s = Some (r, t) \<Longrightarrow> currentStat t = currentStat s"
  "provisioning ops p s = Some (r, t) \<Longrightarrow> currentStat t = currentStat s"
  "restoreConf ops p s = Some (r, t) \<Longrightarrow> currentStat t = currentStat s"
  unfolding smsCmd_def smsCustCmd_def provisioning_def restoreConf_def
  by (auto simp: stat_returned prod_eq_iff dest!: stat_script_cmds stat_scripts stat_HA stat_reads)

lemma stat_update_requests:
  "push_config ops p s = Some (r, t) \<Longrightarrow> currentStat t = currentStat s"
  "smsexecn ops sid a s = Some (r, t) \<Longrightarrow> currentStat t = currentStat s"
  "exec_script ops p sy s = Some (r, t) \<Longrightarrow> currentStat t = currentStat s"
  "updateConfig ops i s = Some (r, t) \<Longrightarrow> currentStat t = currentStat s"
  "save_all_conf ops s = Some (r, t) \<Longrightarrow> currentStat t = currentStat s"
  unfolding push_config_def smsexecn_def exec_script_def updateConfig_def save_all_conf_def report_error_def
  by (auto simp: stat_returned prod_eq_iff split: option.splits dest!: stat_reads stat_scripts stat_locks stat_save_all_loop)

lemma stat_call_command:
  assumes "call_command ops p s = Some (r, t)"
  shows "currentStat t = currentStat s"
proof (cases "BUFSIZ \<le> length p \<or> sscanf_count (sscanf_s 3 p) \<noteq> 3")
  case True
  with assms have "bad_param ops s = (r, t)" by (auto simp: call_command_def Let_def split: if_splits)
  then show ?thesis using stat_answers(4) [of ops s] by simp
next
  case False
  with assms obtain rd u where u: "read_json ops (cfd (csp s)) [] s = Some (rd, u)"
    by (auto simp: call_command_def Let_def bind_eq_Some_conv)
  with assms False show ?thesis
    by (cases rd) (auto simp: call_command_def split_beta Let_def stat_reads(2) [OF u] split: if_splits)
qed

lemma stat_events:
  "log_event ops sd m rf s = Some (r, t) \<Longrightarrow> currentStat t = currentStat s"
  "store_ip ops sd ip s = Some (r, t) \<Longrightarrow> currentStat t = currentStat s"
  "mark_up ops sd ty ip s = Some (r, t) \<Longrightarrow> currentStat t = currentStat s"
  "mark_down ops sd s = Some (r, t) \<Longrightarrow> currentStat t = currentStat s"
proof -
  show log: "log_event ops sd m rf s = Some (r, t) \<Longrightarrow> currentStat t = currentStat s" for m rf s r t
    by (auto simp: log_event_def prod_eq_iff split: if_splits)
  show "store_ip ops sd ip s = Some (r, t) \<Longrightarrow> currentStat t = currentStat s"
    "mark_up ops sd ty ip s = Some (r, t) \<Longrightarrow> currentStat t = currentStat s"
    "mark_down ops sd s = Some (r, t) \<Longrightarrow> currentStat t = currentStat s"
    unfolding store_ip_def mark_up_def mark_down_def by (auto simp: stat_returned dest!: log stat_HA)
qed

lemma stat_ip:
  "updateIP ops sid ip s = Some (r, t) \<Longrightarrow> currentStat t = currentStat s"
  "updateRouterIP ops p s = Some (r, t) \<Longrightarrow> currentStat t = currentStat s"
  unfolding updateIP_def updateRouterIP_def
  by (auto simp: stat_returned split: option.splits if_splits dest!: stat_events)

section \<open>The handlers that count\<close>

text \<open>The site a handler passes at its start and the one it passes when it fails.\<close>

fun verb_sites :: "verb_fn \<Rightarrow> (stat_site \<times> stat_site) option" where
  "verb_sites V_doGetReport = Some (Site_getreport, Site_getreport_error)"
| "verb_sites V_doGetVPNReport = Some (Site_getvpnreport, Site_getvpnreport_error)"
| "verb_sites V_doGetRouterIp = Some (Site_getrouterip, Site_getrouterip_error)"
| "verb_sites V_doPppIpUp = Some (Site_pppipup, Site_pppipup_error)"
| "verb_sites V_doSdIpUp = Some (Site_sdipup, Site_sdipup_error)"
| "verb_sites V_doIpDown = Some (Site_ipdown, Site_ipdown_error)"
| "verb_sites _ = None"

definition counts :: "stat_site \<Rightarrow> stat_site \<Rightarrow> 'w smsd \<Rightarrow> 'w smsd \<Rightarrow> bool" where
  "counts x x_error s t \<longleftrightarrow> (\<exists>e. currentStat t = fold stat_inc (handler_sites x x_error e) (currentStat s))"

lemma counts_iff:
  "counts x x_error s t \<longleftrightarrow>
     currentStat t = stat_inc x (currentStat s) \<or> currentStat t = stat_inc x_error (stat_inc x (currentStat s))"
  by (auto simp: counts_def handler_sites_def ex_bool_eq)

text \<open>The updates of the handlers are the increments of the sites.\<close>

lemma upd_sites:
  "totalgetreport_update (\<lambda>n. n + 1) = stat_inc Site_getreport" "totalerrorgetreport_update (\<lambda>n. n + 1) = stat_inc Site_getreport_error"
  "totalgetvpnreport_update (\<lambda>n. n + 1) = stat_inc Site_getvpnreport"
  "totalgetrouterip_update (\<lambda>n. n + 1) = stat_inc Site_getrouterip"
  "totalerrorgetrouterip_update (\<lambda>n. n + 1) = stat_inc Site_getrouterip_error"
  "totalipdown_update (\<lambda>n. n + 1) = stat_inc Site_ipdown" "totalerroripdown_update (\<lambda>n. n + 1) = stat_inc Site_ipdown_error"
  "totalpppipup_update (\<lambda>n. n + 1) = stat_inc Site_pppipup" "totalerrorpppipup_update (\<lambda>n. n + 1) = stat_inc Site_pppipup_error"
  by (simp_all add: fun_eq_iff stat_inc_def)

lemma same_sites:
  "stat_inc Site_getvpnreport_error = stat_inc Site_getreport_error" "stat_inc Site_sdipup = stat_inc Site_pppipup"
  "stat_inc Site_sdipup_error = stat_inc Site_pppipup_error"
  by (simp_all add: fun_eq_iff stat_inc_def)

lemma report_counts:
  "doGetReport ops p s = Some (r, t) \<Longrightarrow> counts Site_getreport Site_getreport_error s t"
  "doGetVPNReport ops p s = Some (r, t) \<Longrightarrow> counts Site_getvpnreport Site_getvpnreport_error s t"
  "doGetRouterIp ops p s = Some (r, t) \<Longrightarrow> counts Site_getrouterip Site_getrouterip_error s t"
  unfolding doGetReport_def doGetVPNReport_def doGetRouterIp_def upd_sites counts_iff same_sites
  by (auto simp: stat_returned prod_eq_iff)

lemma ip_up_counts:
  "doPppIpUp ops p s = Some (r, t) \<Longrightarrow> counts Site_pppipup Site_pppipup_error s t"
  "doSdIpUp ops p s = Some (r, t) \<Longrightarrow> counts Site_sdipup Site_sdipup_error s t"
  unfolding doPppIpUp_def handlePppIpUp_def doSdIpUp_def upd_sites counts_iff same_sites
  by (auto simp: stat_returned split: option.splits if_splits dest!: stat_ip)

lemma ip_down_ends [simp]:
  "currentStat (snd (ip_down_ok ops s)) = currentStat s"
  "currentStat (snd (ip_down_error ops e s)) = stat_inc Site_ipdown_error (currentStat s)"
  unfolding ip_down_ok_def ip_down_error_def upd_sites by (simp_all add: split_beta Let_def)

lemma ip_down_counts: "doIpDown ops p s = Some (r, t) \<Longrightarrow> counts Site_ipdown Site_ipdown_error s t"
  unfolding doIpDown_def upd_sites counts_iff
  by (auto simp: stat_returned prod_eq_iff split: if_splits dest!: stat_events)

section \<open>The other handlers\<close>

lemma stat_answer_text: "answer_text ops e m s = Some (r, t) \<Longrightarrow> currentStat t = currentStat s"
  unfolding answer_text_def by (auto simp: stat_returned prod_eq_iff)

lemma stat_ask_asset: "ask_asset ops p rs = Some (r, t) \<Longrightarrow> currentStat t = currentStat (snd rs)"
  unfolding ask_asset_def by (auto simp: stat_returned dest!: stat_locks)

lemma stat_plain_handlers:
  assumes "f \<in> {V_doCheckProvisioning, V_doStaging, V_doStagingMap, V_doGenTemplate, V_doBackupConf, V_doGetRunningConf,
      V_doGetConfig, V_doGetActivityReport, V_doHaSwap, V_doSendDataFiles, V_doCheckSerial, V_doUnarchiveConf,
      V_doGetArchiveConf, V_doSnmpTest, V_doPing, V_doPS, V_doReinitLogs, V_doIsAlive, V_doStat, V_doListVerb,
      V_doSetLogLevel, V_do_SnmpGet, V_do_SnmpGetNext, V_doResolveTemplate}"
    and "run_verb ops env f arg s = Some (r, t)"
  shows "currentStat t = currentStat s"
  using assms
  by (auto simp: doCheckProvisioning_def doStaging_def doStagingMap_def doGenTemplate_def doBackupConf_def
      doGetRunningConf_def doGetConfig_def doGetActivityReport_def doHaSwap_def doSendDataFiles_def doCheckSerial_def
      doUnarchiveConf_def doGetArchiveConf_def doSnmpTest_def doPing_def doPS_def doReinitLogs_def doIsAlive_def doStat_def
      doListVerb_def doSetLogLevel_def do_SnmpGet_def do_SnmpGetNext_def doResolveTemplate_def logs_only_def
      if_eq_Some split_beta Let_def prod_eq_iff split: if_splits)

lemma stat_status_handlers:
  assumes "f \<in> {V_doCheckUpdate, V_doCheckAllUpdate, V_doCheckCmd, V_doCheckUpdateLicense, V_doCheckUpdateFirmware, V_doCheckBackup,
      V_doCheckSendDataFiles, V_doCheckRestore, V_doUnlockUpdate, V_doLockProvisioning, V_doUnLockProvisioning, V_doGetAsset,
      V_doForceAsset, V_doSetConfigMode}"
    and "run_verb ops env f arg s = Some (r, t)"
  shows "currentStat t = currentStat s"
  using assms
  by (auto simp: doCheckUpdate_def doCheckAllUpdate_def doCheckCmd_def doCheckUpdateLicense_def doCheckUpdateFirmware_def
      doCheckBackup_def doCheckSendDataFiles_def doCheckRestore_def doUnlockUpdate_def doLockProvisioning_def
      doUnLockProvisioning_def doGetAsset_def doForceAsset_def doSetConfigMode_def bind_eq_Some_conv if_eq_Some split_beta Let_def
      prod_eq_iff split: if_splits option.splits
      dest!: stat_status stat_lock_requests stat_locks stat_answer_text stat_getUpdateStatus)

lemma stat_script_handlers:
  assumes "f \<in> {V_doCmd, V_doCustCmd, V_doProvisioning, V_doPushConfig, V_doRestoreConf, V_doCallCommand, V_doGetSDConf,
      V_doJsSmsexec, V_doJsSmsexecn, V_doJsSmsAddonExec, V_doUpdateLicense, V_doUpdateFirmware, V_doResolve,
      V_doImmediateSaveConf, V_doUpdateConfig, V_doJsExecScript, V_doJsAExecScript}"
    and "run_verb ops env f arg s = Some (r, t)"
  shows "currentStat t = currentStat s"
  using assms
  by (auto simp: doCmd_def doCustCmd_def doProvisioning_def doPushConfig_def doRestoreConf_def doCallCommand_def doGetSDConf_def
      doJsSmsexec_def doJsSmsexecn_def doJsSmsAddonExec_def doUpdateLicense_def doUpdateFirmware_def doResolve_def
      doImmediateSaveConf_def doUpdateConfig_def doJsExecScript_def doJsAExecScript_def js_exec_script_def logs_only_def
      bind_eq_Some_conv if_eq_Some split_beta Let_def prod_eq_iff split: if_splits
      dest!: stat_script_requests stat_update_requests stat_call_command stat_ask_asset stat_answer_text stat_reads)

section \<open>A request counts at its sites only\<close>

definition verb_counts :: "verb_fn \<Rightarrow> 'w smsd \<Rightarrow> 'w smsd \<Rightarrow> bool" where
  "verb_counts f s t \<longleftrightarrow>
     (case verb_sites f of None \<Rightarrow> currentStat t = currentStat s | Some (x, x_error) \<Rightarrow> counts x x_error s t)"

lemma run_verb_counts:
  assumes "run_verb ops env f arg s = Some (r, t)"
  shows "verb_counts f s t"
  using assms report_counts ip_up_counts ip_down_counts stat_plain_handlers [OF _ assms] stat_status_handlers [OF _ assms]
    stat_script_handlers [OF _ assms]
  by (cases f) (simp_all add: verb_counts_def)

lemma stat_release [simp]: "currentStat (release_ctx ops s) = currentStat s"
  by (simp add: release_ctx_def)

lemma verb_counts_cong:
  "currentStat s' = currentStat s \<Longrightarrow> currentStat t' = currentStat t \<Longrightarrow> verb_counts f s' t' = verb_counts f s t"
  by (auto simp: verb_counts_def counts_iff split: option.split)

lemma CheckVerb_verb_counts:
  assumes "hash_contract h" "VerbInit h = Some tbl" "split_command buf = Some (cmd, arg)"
    and "CheckVerb ops env h tbl buf s = Some t"
  shows "currentStat t = currentStat s \<or> (\<exists>v \<in> set verbTab. verb v = cmd \<and> verb_counts (doVerb v) s t)"
proof (cases "h_get_str h tbl cmd")
  case None
  with assms(3,4) show ?thesis by (auto simp: CheckVerb_def split: if_splits)
next
  case (Some v)
  with VerbInit_get [OF assms(1,2)] have v: "v \<in> set verbTab" "verb v = cmd" by (auto dest!: map_of_SomeD)
  obtain c u where c: "sms_db_find_ctx ops DB_SMS s = (c, u)" by (cases "sms_db_find_ctx ops DB_SMS s")
  consider (short) "t = s"
    | (param) r w where "run_verb ops env (doVerb v) arg (set_db_ctx (Some c) u) = Some (r, w)" "t = release_ctx ops w"
    | (plain) r w where "run_verb ops env (doVerb v) ''N/A'' s = Some (r, w)" "t = release_ctx ops w"
    using assms(3,4) Some c by (auto simp: CheckVerb_def returned)
  then show ?thesis
  proof cases
    case param
    have "verb_counts (doVerb v) s t"
      using run_verb_counts [OF param(1)] verb_counts_cong [of "set_db_ctx (Some c) u" s w t] sms_db_find_ctx_D [OF c] param(2) by simp
    with v show ?thesis by blast
  next
    case plain
    have "verb_counts (doVerb v) s t" using run_verb_counts [OF plain(1)] verb_counts_cong [of s s w t] plain(2) by simp
    with v show ?thesis by blast
  qed simp
qed

text \<open>The counters that \<^verbatim>\<open>STAT\<close> reports and no site increments.\<close>

definition uncounted :: "sms_stat \<Rightarrow> 64 word list" where
  "uncounted st = [totalupdate st, totalerrorupdate st, totalgetconf st, totalerrorgetconf st, totalerrorgetvpnreport st,
     totalcheckupdate st, totalerrorcheckupdate st]"

lemma uncounted_inc [simp]: "uncounted (stat_inc x st) = uncounted st"
  by (cases x) (simp_all add: stat_inc_def uncounted_def)

lemma uncounted_verb: "verb_counts f s t \<Longrightarrow> uncounted (currentStat t) = uncounted (currentStat s)"
  by (auto simp: verb_counts_def counts_iff split: option.splits)



end
