(* ===== verification/Smsd_Tailq.thy ===== *)
theory Smsd_Tailq
  imports Smsd_Prelude
begin

text \<open>
  The tail queues of \<^verbatim>\<open>gpul.h\<close>, macros on memory: a head points at the first element and at the last
  \<^verbatim>\<open>next\<close> field, an element at the next element and back at the field that points to it. The command lists
  of the configuration, the commands of SMSEXEC and the SNMP counters are such queues.

  A \<^verbatim>\<open>type **\<close> of the macros is the address of one of two kinds of field, the datatype \<open>slot\<close>. Memory maps the
  addresses of heads and of elements to their contents; reading or writing an element that is not allocated, or
  through a null pointer, is \<open>None\<close>. The queues are shown to implement lists.
\<close>

section \<open>Memory\<close>

datatype slot = First_of nat | Next_of nat

record tq_head =
  tqh_first :: "nat option"
  tqh_last :: "slot option"

record 'v tq_entry =
  tqe_next :: "nat option"
  tqe_prev :: "slot option"
  tqe_val :: 'v

record 'v tq_heap =
  tq_heads :: "nat \<rightharpoonup> tq_head"
  tq_elms :: "nat \<rightharpoonup> 'v tq_entry"

text \<open>Reading and writing through a \<^verbatim>\<open>type **\<close>, and the other fields of a head and of an element.\<close>

fun load :: "slot \<Rightarrow> 'v tq_heap \<Rightarrow> nat option option" where
  "load (First_of q) h = map_option tqh_first (tq_heads h q)"
| "load (Next_of e) h = map_option tqe_next (tq_elms h e)"

fun store :: "slot \<Rightarrow> nat option \<Rightarrow> 'v tq_heap \<Rightarrow> 'v tq_heap option" where
  "store (First_of q) v h = (case tq_heads h q of None \<Rightarrow> None
     | Some x \<Rightarrow> Some (h\<lparr>tq_heads := (tq_heads h)(q \<mapsto> x\<lparr>tqh_first := v\<rparr>)\<rparr>))"
| "store (Next_of e) v h = (case tq_elms h e of None \<Rightarrow> None
     | Some x \<Rightarrow> Some (h\<lparr>tq_elms := (tq_elms h)(e \<mapsto> x\<lparr>tqe_next := v\<rparr>)\<rparr>))"

definition get_last :: "nat \<Rightarrow> 'v tq_heap \<Rightarrow> slot option option" where
  "get_last q h = map_option tqh_last (tq_heads h q)"

definition set_last :: "nat \<Rightarrow> slot option \<Rightarrow> 'v tq_heap \<Rightarrow> 'v tq_heap option" where
  "set_last q v h = (case tq_heads h q of None \<Rightarrow> None
     | Some x \<Rightarrow> Some (h\<lparr>tq_heads := (tq_heads h)(q \<mapsto> x\<lparr>tqh_last := v\<rparr>)\<rparr>))"

definition get_prev :: "nat \<Rightarrow> 'v tq_heap \<Rightarrow> slot option option" where
  "get_prev e h = map_option tqe_prev (tq_elms h e)"

definition set_prev :: "nat \<Rightarrow> slot option \<Rightarrow> 'v tq_heap \<Rightarrow> 'v tq_heap option" where
  "set_prev e v h = (case tq_elms h e of None \<Rightarrow> None
     | Some x \<Rightarrow> Some (h\<lparr>tq_elms := (tq_elms h)(e \<mapsto> x\<lparr>tqe_prev := v\<rparr>)\<rparr>))"

text \<open>The cast of a \<^verbatim>\<open>type **\<close> to a head, as \<^verbatim>\<open>GPUL_TAILQ_LAST\<close> does it: the word after the field.\<close>

fun word_after :: "slot \<Rightarrow> 'v tq_heap \<Rightarrow> slot option option" where
  "word_after (First_of q) h = get_last q h"
| "word_after (Next_of e) h = get_prev e h"

section \<open>The macros\<close>

definition GPUL_TAILQ_FIRST :: "nat \<Rightarrow> 'v tq_heap \<Rightarrow> nat option option" where
  "GPUL_TAILQ_FIRST q h = load (First_of q) h"

definition GPUL_TAILQ_NEXT :: "nat \<Rightarrow> 'v tq_heap \<Rightarrow> nat option option" where
  "GPUL_TAILQ_NEXT e h = load (Next_of e) h"

definition GPUL_TAILQ_LAST :: "nat \<Rightarrow> 'v tq_heap \<Rightarrow> nat option option" where
  "GPUL_TAILQ_LAST q h = do {
     last \<leftarrow> get_last q h;
     p \<leftarrow> last;
     p_last \<leftarrow> word_after p h;
     pp \<leftarrow> p_last;
     load pp h
   }"

definition GPUL_TAILQ_PREV :: "nat \<Rightarrow> 'v tq_heap \<Rightarrow> nat option option" where
  "GPUL_TAILQ_PREV e h = do {
     prev \<leftarrow> get_prev e h;
     p \<leftarrow> prev;
     p_last \<leftarrow> word_after p h;
     pp \<leftarrow> p_last;
     load pp h
   }"

definition GPUL_TAILQ_INIT :: "nat \<Rightarrow> 'v tq_heap \<Rightarrow> 'v tq_heap" where
  "GPUL_TAILQ_INIT q h = h\<lparr>tq_heads := (tq_heads h)(q \<mapsto> \<lparr>tqh_first = None, tqh_last = Some (First_of q)\<rparr>)\<rparr>"

definition GPUL_TAILQ_INIT_ENTRY :: "nat \<Rightarrow> 'v tq_heap \<Rightarrow> 'v tq_heap option" where
  "GPUL_TAILQ_INIT_ENTRY e h = do {
     h \<leftarrow> store (Next_of e) None h;
     set_prev e None h
   }"

definition GPUL_TAILQ_INSERT_HEAD :: "nat \<Rightarrow> nat \<Rightarrow> 'v tq_heap \<Rightarrow> 'v tq_heap option" where
  "GPUL_TAILQ_INSERT_HEAD q e h = do {
     first \<leftarrow> load (First_of q) h;
     h \<leftarrow> store (Next_of e) first h;
     h \<leftarrow> (case first of Some f \<Rightarrow> set_prev f (Some (Next_of e)) h | None \<Rightarrow> set_last q (Some (Next_of e)) h);
     h \<leftarrow> store (First_of q) (Some e) h;
     set_prev e (Some (First_of q)) h
   }"

definition GPUL_TAILQ_INSERT_TAIL :: "nat \<Rightarrow> nat \<Rightarrow> 'v tq_heap \<Rightarrow> 'v tq_heap option" where
  "GPUL_TAILQ_INSERT_TAIL q e h = do {
     h \<leftarrow> store (Next_of e) None h;
     last \<leftarrow> get_last q h;
     h \<leftarrow> set_prev e last h;
     p \<leftarrow> last;
     h \<leftarrow> store p (Some e) h;
     set_last q (Some (Next_of e)) h
   }"

definition GPUL_TAILQ_INSERT_AFTER :: "nat \<Rightarrow> nat \<Rightarrow> nat \<Rightarrow> 'v tq_heap \<Rightarrow> 'v tq_heap option" where
  "GPUL_TAILQ_INSERT_AFTER q l e h = do {
     nxt \<leftarrow> load (Next_of l) h;
     h \<leftarrow> store (Next_of e) nxt h;
     h \<leftarrow> (case nxt of Some n \<Rightarrow> set_prev n (Some (Next_of e)) h | None \<Rightarrow> set_last q (Some (Next_of e)) h);
     h \<leftarrow> store (Next_of l) (Some e) h;
     set_prev e (Some (Next_of l)) h
   }"

definition GPUL_TAILQ_INSERT_BEFORE :: "nat \<Rightarrow> nat \<Rightarrow> 'v tq_heap \<Rightarrow> 'v tq_heap option" where
  "GPUL_TAILQ_INSERT_BEFORE l e h = do {
     prev \<leftarrow> get_prev l h;
     h \<leftarrow> set_prev e prev h;
     h \<leftarrow> store (Next_of e) (Some l) h;
     prev \<leftarrow> get_prev l h;
     p \<leftarrow> prev;
     h \<leftarrow> store p (Some e) h;
     set_prev l (Some (Next_of e)) h
   }"

definition GPUL_TAILQ_REMOVE :: "nat \<Rightarrow> nat \<Rightarrow> 'v tq_heap \<Rightarrow> 'v tq_heap option" where
  "GPUL_TAILQ_REMOVE q e h = do {
     nxt \<leftarrow> load (Next_of e) h;
     prev \<leftarrow> get_prev e h;
     h \<leftarrow> (case nxt of Some n \<Rightarrow> set_prev n prev h | None \<Rightarrow> set_last q prev h);
     prev \<leftarrow> get_prev e h;
     p \<leftarrow> prev;
     nxt \<leftarrow> load (Next_of e) h;
     store p nxt h
   }"

section \<open>Segments\<close>

text \<open>
  From the slot \<open>s\<close> on, memory holds the elements \<open>xs\<close>, each pointing back at the slot that points to it, and the
  slot after the last of them holds \<open>t\<close>.
\<close>

fun seg :: "'v tq_heap \<Rightarrow> slot \<Rightarrow> nat list \<Rightarrow> nat option \<Rightarrow> bool" where
  "seg h s [] t \<longleftrightarrow> load s h = Some t"
| "seg h s (x # xs) t \<longleftrightarrow> load s h = Some (Some x) \<and> get_prev x h = Some (Some s) \<and> seg h (Next_of x) xs t"

fun end_slot :: "slot \<Rightarrow> nat list \<Rightarrow> slot" where
  "end_slot s [] = s"
| "end_slot s (x # xs) = end_slot (Next_of x) xs"

definition tailq :: "'v tq_heap \<Rightarrow> nat \<Rightarrow> nat list \<Rightarrow> bool" where
  "tailq h q xs \<longleftrightarrow> distinct xs \<and> seg h (First_of q) xs None \<and> get_last q h = Some (Some (end_slot (First_of q) xs))"

lemma end_slot_last: "end_slot s xs = (if xs = [] then s else Next_of (last xs))"
  by (induction xs arbitrary: s) auto

lemma end_slot_append [simp]: "end_slot s (xs @ y # ys) = end_slot (Next_of y) ys"
  by (simp add: end_slot_last)

lemma seg_append:
  "seg h s (xs @ y # ys) t \<longleftrightarrow> seg h s xs (Some y) \<and> get_prev y h = Some (Some (end_slot s xs)) \<and> seg h (Next_of y) ys t"
  by (induction xs arbitrary: s) auto

lemma seg_end: "seg h s xs t \<Longrightarrow> load (end_slot s xs) h = Some t"
  by (induction xs arbitrary: s) auto

lemma seg_allocated: "seg h s xs t \<Longrightarrow> x \<in> set xs \<Longrightarrow> tq_elms h x \<noteq> None"
  by (induction xs arbitrary: s) (auto simp: get_prev_def)

text \<open>Writing a slot or a back pointer changes that field only.\<close>

lemma store_ok: "(\<exists>h'. store s v h = Some h') \<longleftrightarrow> load s h \<noteq> None"
  by (cases s) (auto split: option.splits)

lemma load_store: "store s v h = Some h' \<Longrightarrow> load s' h' = (if s' = s then Some v else load s' h)"
  by (cases s; cases s') (auto split: option.splits)

lemma get_prev_store: "store s v h = Some h' \<Longrightarrow> get_prev x h' = get_prev x h"
  by (cases s) (auto simp: get_prev_def split: option.splits)

lemma get_last_store: "store s v h = Some h' \<Longrightarrow> get_last q h' = get_last q h"
  by (cases s) (auto simp: get_last_def split: option.splits)

lemma set_prev_ok: "(\<exists>h'. set_prev e v h = Some h') \<longleftrightarrow> get_prev e h \<noteq> None"
  by (auto simp: get_prev_def set_prev_def split: option.splits)

lemma load_set_prev: "set_prev e v h = Some h' \<Longrightarrow> load s h' = load s h"
  by (cases s) (auto simp: set_prev_def split: option.splits)

lemma get_prev_set_prev: "set_prev e v h = Some h' \<Longrightarrow> get_prev x h' = (if x = e then Some v else get_prev x h)"
  by (auto simp: get_prev_def set_prev_def split: option.splits)

lemma get_last_set_prev: "set_prev e v h = Some h' \<Longrightarrow> get_last q h' = get_last q h"
  by (auto simp: get_last_def set_prev_def split: option.splits)

lemma set_last_ok: "(\<exists>h'. set_last q v h = Some h') \<longleftrightarrow> get_last q h \<noteq> None"
  by (auto simp: get_last_def set_last_def split: option.splits)

lemma load_set_last: "set_last q v h = Some h' \<Longrightarrow> load s h' = load s h"
  by (cases s) (auto simp: set_last_def split: option.splits)

lemma get_prev_set_last: "set_last q v h = Some h' \<Longrightarrow> get_prev x h' = get_prev x h"
  by (auto simp: get_prev_def set_last_def split: option.splits)

lemma get_last_set_last: "set_last q v h = Some h' \<Longrightarrow> get_last q' h' = (if q' = q then Some v else get_last q' h)"
  by (auto simp: get_last_def set_last_def split: option.splits)

lemmas writable = store_ok set_prev_ok set_last_ok

lemmas field_update = load_store get_prev_store get_last_store load_set_prev get_prev_set_prev get_last_set_prev
  load_set_last get_prev_set_last get_last_set_last

declare load.simps [simp del] store.simps [simp del]

text \<open>A segment depends on its slots and its back pointers only.\<close>

lemma seg_keep:
  assumes "seg h s xs t" "load s h' = load s h"
    "\<And>x. x \<in> set xs \<Longrightarrow> load (Next_of x) h' = load (Next_of x) h \<and> get_prev x h' = get_prev x h"
  shows "seg h' s xs t"
  using assms by (induction xs arbitrary: s) auto

lemma seg_store:
  assumes "store (end_slot s xs) v h = Some h'" "seg h s xs t" "distinct xs" "s \<notin> Next_of ` set xs"
  shows "seg h' s xs v"
  using assms
proof (induction xs arbitrary: s)
  case (Cons x xs)
  from Cons.prems have "seg h' (Next_of x) xs v" by (intro Cons.IH) auto
  moreover have "s \<noteq> end_slot s (x # xs)" using Cons.prems(4) by (auto simp: end_slot_last)
  ultimately show ?case using Cons.prems by (auto simp: field_update)
qed (simp add: field_update)

section \<open>The macros implement list operations\<close>

definition vals :: "'v tq_heap \<Rightarrow> nat \<rightharpoonup> 'v" where
  "vals h x = map_option tqe_val (tq_elms h x)"

lemma vals_store: "store s v h = Some h' \<Longrightarrow> vals h' = vals h"
  by (cases s) (auto simp: store.simps vals_def fun_eq_iff split: option.splits)

lemma vals_set_prev: "set_prev e v h = Some h' \<Longrightarrow> vals h' = vals h"
  by (auto simp: vals_def set_prev_def fun_eq_iff split: option.splits)

lemma vals_set_last: "set_last q v h = Some h' \<Longrightarrow> vals h' = vals h"
  by (auto simp: vals_def set_last_def fun_eq_iff split: option.splits)

lemmas field_updates = field_update vals_store vals_set_prev vals_set_last

lemma allocated_fields: "vals h e \<noteq> None \<Longrightarrow> \<exists>n p. load (Next_of e) h = Some n \<and> get_prev e h = Some p"
  by (auto simp: load.simps vals_def get_prev_def)

lemma fields_allocated: "get_prev e h = Some p \<Longrightarrow> vals h e \<noteq> None"
  by (auto simp: vals_def get_prev_def)

lemma seg_vals: "seg h s xs t \<Longrightarrow> x \<in> set xs \<Longrightarrow> vals h x \<noteq> None"
  by (induction xs arbitrary: s) (auto dest: fields_allocated)

text \<open>An operation on the queue \<open>q\<close> touches its head and the pointers of the elements \<open>S\<close>, never a value.\<close>

definition touches :: "nat \<Rightarrow> nat set \<Rightarrow> 'v tq_heap \<Rightarrow> 'v tq_heap \<Rightarrow> bool" where
  "touches q S h h' \<longleftrightarrow> vals h' = vals h \<and>
     (\<forall>q'. q' \<noteq> q \<longrightarrow> load (First_of q') h' = load (First_of q') h \<and> get_last q' h' = get_last q' h) \<and>
     (\<forall>x. x \<notin> S \<longrightarrow> load (Next_of x) h' = load (Next_of x) h \<and> get_prev x h' = get_prev x h)"

lemma tailq_other: "touches q S h h' \<Longrightarrow> q' \<noteq> q \<Longrightarrow> set xs \<inter> S = {} \<Longrightarrow> tailq h q' xs \<Longrightarrow> tailq h' q' xs"
  by (auto simp: tailq_def touches_def intro: seg_keep)

lemma tailq_slots:
  assumes "tailq h q (xs @ e # ys)"
  shows "load (Next_of e) h = Some (if ys = [] then None else Some (hd ys))"
    "get_prev e h = Some (Some (end_slot (First_of q) xs))"
  using assms by (auto simp: tailq_def seg_append) (cases ys; simp)+

lemma remove_tailq:
  assumes q: "tailq h q (xs @ e # ys)"
  shows "\<exists>h'. GPUL_TAILQ_REMOVE q e h = Some h' \<and> tailq h' q (xs @ ys) \<and> touches q (set (xs @ e # ys)) h h'"
proof -
  let ?p = "end_slot (First_of q) xs"
  note slots = tailq_slots [OF q]
  have seg: "seg h (First_of q) xs (Some e)" "seg h (Next_of e) ys None" "distinct (xs @ e # ys)"
    and last: "get_last q h = Some (Some (end_slot (Next_of e) ys))"
    using q by (auto simp: tailq_def seg_append)
  have p: "load ?p h = Some (Some e)" by (rule seg_end [OF seg(1)])
  have p_in: "?p = First_of q \<or> (\<exists>x \<in> set xs. ?p = Next_of x)" by (auto simp: end_slot_last)
  show ?thesis
  proof (cases ys)
    case Nil
    obtain h1 where h1: "set_last q (Some ?p) h = Some h1" using set_last_ok last by fastforce
    then have "\<exists>h2. store ?p None h1 = Some h2" using p by (simp add: writable field_updates)
    then obtain h2 where h2: "store ?p None h1 = Some h2" ..
    have "seg h1 (First_of q) xs (Some e)" 
      by (rule seg_keep [OF seg(1)]) (use h1 in \<open>auto simp: field_updates\<close>)
    then have "seg h2 (First_of q) xs None" using seg_store [OF h2] seg(3) by auto
    with Nil h1 h2 slots seg(3) p_in show ?thesis
      by (auto simp: GPUL_TAILQ_REMOVE_def tailq_def touches_def field_updates)
  next
    case (Cons n ns)
    have n: "get_prev n h = Some (Some (Next_of e))" using seg(2) Cons by simp
    obtain h1 where h1: "set_prev n (Some ?p) h = Some h1" using set_prev_ok n by fastforce
    then have "\<exists>h2. store ?p (Some n) h1 = Some h2" using p by (simp add: writable field_updates)
    then obtain h2 where h2: "store ?p (Some n) h1 = Some h2" ..
    have "seg h1 (First_of q) xs (Some e)"
      by (rule seg_keep [OF seg(1)]) (use h1 seg(3) Cons in \<open>auto simp: field_updates\<close>)
    then have 1: "seg h2 (First_of q) xs (Some n)" using seg_store [OF h2] seg(3) by auto
    have "seg h (Next_of n) ns None" using seg(2) Cons by simp
    then have 2: "seg h2 (Next_of n) ns None"
      by (rule seg_keep) (use h1 h2 seg(3) p_in Cons in \<open>auto simp: field_updates\<close>)
    from Cons h1 h2 slots seg(3) p_in 1 2 last show ?thesis
      by (auto simp: GPUL_TAILQ_REMOVE_def tailq_def touches_def field_updates seg_append)
  qed
qed

text \<open>The four insertions write the same fields: \<open>e\<close> comes between \<open>xs\<close> and \<open>ys\<close>.\<close>

definition spliced :: "nat \<Rightarrow> nat list \<Rightarrow> nat \<Rightarrow> nat list \<Rightarrow> 'v tq_heap \<Rightarrow> 'v tq_heap \<Rightarrow> bool" where
  "spliced q xs e ys h h' \<longleftrightarrow> vals h' = vals h \<and>
     (\<forall>s. load s h' = (if s = Next_of e then Some (if ys = [] then None else Some (hd ys))
        else if s = end_slot (First_of q) xs then Some (Some e) else load s h)) \<and>
     (\<forall>x. get_prev x h' = (if x = e then Some (Some (end_slot (First_of q) xs))
        else if ys \<noteq> [] \<and> x = hd ys then Some (Some (Next_of e)) else get_prev x h)) \<and>
     (\<forall>q'. get_last q' h' = (if q' = q \<and> ys = [] then Some (Some (Next_of e)) else get_last q' h))"

lemma spliced_tailq:
  assumes q: "tailq h q (xs @ ys)" and e: "e \<notin> set (xs @ ys)" and sp: "spliced q xs e ys h h'"
  shows "tailq h' q (xs @ e # ys) \<and> touches q (set (xs @ e # ys)) h h'"
proof
  let ?p = "end_slot (First_of q) xs"
  have p_in: "?p = First_of q \<or> (\<exists>x \<in> set xs. ?p = Next_of x)" by (auto simp: end_slot_last)
  have d: "distinct (xs @ ys)" using q by (simp add: tailq_def)
  obtain t where xs: "seg h (First_of q) xs t"
    using q by (cases ys) (auto simp: tailq_def seg_append)
  obtain h1 where h1: "store ?p (Some e) h = Some h1" using store_ok seg_end [OF xs] by fastforce
  have "seg h1 (First_of q) xs (Some e)" using seg_store [OF h1 xs] d by auto
  then have 1: "seg h' (First_of q) xs (Some e)"
  proof (rule seg_keep)
    show "load (First_of q) h' = load (First_of q) h1" using sp h1 by (simp add: spliced_def field_updates)
    fix x assume "x \<in> set xs"
    then show "load (Next_of x) h' = load (Next_of x) h1 \<and> get_prev x h' = get_prev x h1"
      using sp h1 e d by (cases ys) (auto simp: spliced_def field_updates)
  qed
  have 2: "seg h' (Next_of e) ys None"
  proof (cases ys)
    case (Cons n ns)
    have "seg h (Next_of n) ns None" using q Cons by (simp add: tailq_def seg_append)
    then have "seg h' (Next_of n) ns None"
      by (rule seg_keep) (use sp e d p_in Cons in \<open>auto simp: spliced_def\<close>)
    with sp e Cons show ?thesis by (simp add: spliced_def)
  qed (use sp in \<open>simp add: spliced_def\<close>)
  show "tailq h' q (xs @ e # ys)"
    using 1 2 sp e d q by (auto simp: tailq_def seg_append spliced_def end_slot_last)
  show "touches q (set (xs @ e # ys)) h h'"
    using sp p_in by (cases ys) (auto simp: touches_def spliced_def)
qed

lemma insert_head_spliced:
  assumes "tailq h q ys" "e \<notin> set ys" "vals h e \<noteq> None"
  shows "\<exists>h'. GPUL_TAILQ_INSERT_HEAD q e h = Some h' \<and> spliced q [] e ys h h'"
proof -
  let ?n = "if ys = [] then None else Some (hd ys)"
  note e = allocated_fields [OF assms(3)]
  have first: "load (First_of q) h = Some ?n" using assms(1) by (cases ys) (auto simp: tailq_def)
  have "\<exists>h1. store (Next_of e) ?n h = Some h1" using e by (auto simp: writable)
  then obtain h1 where h1: "store (Next_of e) ?n h = Some h1" ..
  then have "\<exists>h2. (if ys = [] then set_last q (Some (Next_of e)) h1 else set_prev (hd ys) (Some (Next_of e)) h1) = Some h2"
    using assms(1) by (cases ys) (auto simp: tailq_def field_updates writable)
  then obtain h2 where h2: "(if ys = [] then set_last q (Some (Next_of e)) h1 else set_prev (hd ys) (Some (Next_of e)) h1) = Some h2" ..
  with h1 first have "\<exists>h3. store (First_of q) (Some e) h2 = Some h3"
    by (auto simp: field_updates writable split: if_splits)
  then obtain h3 where h3: "store (First_of q) (Some e) h2 = Some h3" ..
  with h1 h2 assms(2) e have "\<exists>h4. set_prev e (Some (First_of q)) h3 = Some h4"
    by (cases ys) (auto simp: field_updates writable)
  then obtain h4 where h4: "set_prev e (Some (First_of q)) h3 = Some h4" ..
  have "GPUL_TAILQ_INSERT_HEAD q e h = Some h4"
    using first h1 h2 h3 h4 by (cases ys) (auto simp: GPUL_TAILQ_INSERT_HEAD_def)
  moreover have "spliced q [] e ys h h4"
    using h1 h2 h3 h4 assms(2) by (cases ys) (auto simp: spliced_def field_updates)
  ultimately show ?thesis by blast
qed

lemma insert_tail_spliced:
  assumes "tailq h q xs" "e \<notin> set xs" "vals h e \<noteq> None"
  shows "\<exists>h'. GPUL_TAILQ_INSERT_TAIL q e h = Some h' \<and> spliced q xs e [] h h'"
proof -
  let ?p = "end_slot (First_of q) xs"
  note e = allocated_fields [OF assms(3)]
  have last: "get_last q h = Some (Some ?p)" and seg: "seg h (First_of q) xs None" using assms(1) by (auto simp: tailq_def)
  have pe: "?p \<noteq> Next_of e" using assms(2) by (auto simp: end_slot_last)
  have "\<exists>h1. store (Next_of e) None h = Some h1" using e by (auto simp: writable)
  then obtain h1 where h1: "store (Next_of e) None h = Some h1" ..
  with e have "\<exists>h2. set_prev e (Some ?p) h1 = Some h2" by (auto simp: field_updates writable)
  then obtain h2 where h2: "set_prev e (Some ?p) h1 = Some h2" ..
  with h1 pe seg_end [OF seg] have "\<exists>h3. store ?p (Some e) h2 = Some h3" by (auto simp: field_updates writable)
  then obtain h3 where h3: "store ?p (Some e) h2 = Some h3" ..
  with h1 h2 last have "\<exists>h4. set_last q (Some (Next_of e)) h3 = Some h4" by (auto simp: field_updates writable)
  then obtain h4 where h4: "set_last q (Some (Next_of e)) h3 = Some h4" ..
  have "GPUL_TAILQ_INSERT_TAIL q e h = Some h4"
    using last h1 h2 h3 h4 by (auto simp: GPUL_TAILQ_INSERT_TAIL_def field_updates)
  moreover have "spliced q xs e [] h h4"
    using h1 h2 h3 h4 pe by (auto simp: spliced_def field_updates)
  ultimately show ?thesis by blast
qed

lemma insert_after_spliced:
  assumes "tailq h q (xs @ l # ys)" "e \<notin> set (xs @ l # ys)" "vals h e \<noteq> None"
  shows "\<exists>h'. GPUL_TAILQ_INSERT_AFTER q l e h = Some h' \<and> spliced q (xs @ [l]) e ys h h'"
proof -
  let ?n = "if ys = [] then None else Some (hd ys)"
  note e = allocated_fields [OF assms(3)]
  note l = tailq_slots [OF assms(1)]
  have "\<exists>h1. store (Next_of e) ?n h = Some h1" using e by (auto simp: writable)
  then obtain h1 where h1: "store (Next_of e) ?n h = Some h1" ..
  then have "\<exists>h2. (if ys = [] then set_last q (Some (Next_of e)) h1 else set_prev (hd ys) (Some (Next_of e)) h1) = Some h2"
    using assms(1) by (cases ys) (auto simp: tailq_def seg_append field_updates writable)
  then obtain h2 where h2: "(if ys = [] then set_last q (Some (Next_of e)) h1 else set_prev (hd ys) (Some (Next_of e)) h1) = Some h2" ..
  with h1 l have "\<exists>h3. store (Next_of l) (Some e) h2 = Some h3"
    by (auto simp: field_updates writable split: if_splits)
  then obtain h3 where h3: "store (Next_of l) (Some e) h2 = Some h3" ..
  with h1 h2 assms(2) e have "\<exists>h4. set_prev e (Some (Next_of l)) h3 = Some h4"
    by (cases ys) (auto simp: field_updates writable)
  then obtain h4 where h4: "set_prev e (Some (Next_of l)) h3 = Some h4" ..
  have "GPUL_TAILQ_INSERT_AFTER q l e h = Some h4"
    using l h1 h2 h3 h4 by (cases ys) (auto simp: GPUL_TAILQ_INSERT_AFTER_def)
  moreover have "spliced q (xs @ [l]) e ys h h4"
    using h1 h2 h3 h4 assms(2) by (cases ys) (auto simp: spliced_def field_updates)
  ultimately show ?thesis by blast
qed

lemma insert_before_spliced:
  assumes "tailq h q (xs @ l # ys)" "e \<notin> set (xs @ l # ys)" "vals h e \<noteq> None"
  shows "\<exists>h'. GPUL_TAILQ_INSERT_BEFORE l e h = Some h' \<and> spliced q xs e (l # ys) h h'"
proof -
  let ?p = "end_slot (First_of q) xs"
  note e = allocated_fields [OF assms(3)]
  note l = tailq_slots [OF assms(1)]
  have seg: "seg h (First_of q) xs (Some l)" using assms(1) by (simp add: tailq_def seg_append)
  have pe: "?p \<noteq> Next_of e" using assms(2) by (auto simp: end_slot_last)
  have "\<exists>h1. set_prev e (Some ?p) h = Some h1" using e by (auto simp: writable)
  then obtain h1 where h1: "set_prev e (Some ?p) h = Some h1" ..
  with e have "\<exists>h2. store (Next_of e) (Some l) h1 = Some h2" by (auto simp: field_updates writable)
  then obtain h2 where h2: "store (Next_of e) (Some l) h1 = Some h2" ..
  with h1 pe seg_end [OF seg] have "\<exists>h3. store ?p (Some e) h2 = Some h3" by (auto simp: field_updates writable)
  then obtain h3 where h3: "store ?p (Some e) h2 = Some h3" ..
  with h1 h2 l have "\<exists>h4. set_prev l (Some (Next_of e)) h3 = Some h4" by (auto simp: field_updates writable)
  then obtain h4 where h4: "set_prev l (Some (Next_of e)) h3 = Some h4" ..
  have "GPUL_TAILQ_INSERT_BEFORE l e h = Some h4"
    using l h1 h2 h3 h4 assms(2) by (auto simp: GPUL_TAILQ_INSERT_BEFORE_def field_updates)
  moreover have "spliced q xs e (l # ys) h h4"
    using h1 h2 h3 h4 pe assms(2) by (auto simp: spliced_def field_updates)
  ultimately show ?thesis by blast
qed

section \<open>Observers\<close>

abbreviation head_of :: "nat list \<Rightarrow> nat option" where
  "head_of xs \<equiv> (if xs = [] then None else Some (hd xs))"

lemma first_tailq: "tailq h q xs \<Longrightarrow> GPUL_TAILQ_FIRST q h = Some (head_of xs)"
  by (cases xs) (auto simp: tailq_def GPUL_TAILQ_FIRST_def)

lemma next_tailq: "tailq h q (xs @ e # ys) \<Longrightarrow> GPUL_TAILQ_NEXT e h = Some (head_of ys)"
  by (simp add: GPUL_TAILQ_NEXT_def tailq_slots)

lemma last_tailq:
  assumes "tailq h q xs"
  shows "GPUL_TAILQ_LAST q h = Some (if xs = [] then None else Some (last xs))"
proof (cases xs rule: rev_cases)
  case (snoc ys y)
  with assms have "seg h (First_of q) ys (Some y)" "get_prev y h = Some (Some (end_slot (First_of q) ys))"
    "get_last q h = Some (Some (Next_of y))" by (auto simp: tailq_def seg_append)
  with snoc seg_end [of h "First_of q" ys "Some y"] show ?thesis by (simp add: GPUL_TAILQ_LAST_def)
qed (use assms in \<open>auto simp: tailq_def GPUL_TAILQ_LAST_def\<close>)

lemma prev_tailq:
  assumes "tailq h q (xs @ e # ys)"
  shows "GPUL_TAILQ_PREV e h = Some (if xs = [] then None else Some (last xs))"
proof (cases xs rule: rev_cases)
  case Nil
  have "load (end_slot (First_of q) (xs @ e # ys)) h = Some None" 
    using assms seg_end [of h "First_of q" "xs @ e # ys" None] by (simp add: tailq_def)
  with Nil assms show ?thesis by (auto simp: tailq_def GPUL_TAILQ_PREV_def)
next
  case (snoc zs z)
  have "seg h (First_of q) (zs @ z # e # ys) None" using assms snoc by (simp add: tailq_def)
  then have "seg h (First_of q) zs (Some z)" "get_prev z h = Some (Some (end_slot (First_of q) zs))" "get_prev e h = Some (Some (Next_of z))"
    by (auto simp: seg_append)
  with snoc seg_end [of h "First_of q" zs "Some z"] show ?thesis by (auto simp: GPUL_TAILQ_PREV_def)
qed

section \<open>Refinement of lists\<close>

text \<open>
  A program on tail queues is a sequence of the macros and of allocations; \<open>Malloc\<close> brings an entry whose pointers
  hold anything.
\<close>

datatype 'v tq_op =
    Init nat
  | Insert_head nat nat
  | Insert_tail nat nat
  | Insert_after nat nat nat
  | Insert_before nat nat
  | Remove nat nat
  | Malloc nat "nat option" "slot option" 'v
  | Free nat

definition tq_free :: "nat \<Rightarrow> 'v tq_heap \<Rightarrow> 'v tq_heap option" where
  "tq_free e h = (if tq_elms h e = None then None else Some (h\<lparr>tq_elms := (tq_elms h)(e := None)\<rparr>))"

definition tq_malloc :: "nat \<Rightarrow> nat option \<Rightarrow> slot option \<Rightarrow> 'v \<Rightarrow> 'v tq_heap \<Rightarrow> 'v tq_heap" where
  "tq_malloc e n p v h = h\<lparr>tq_elms := (tq_elms h)(e \<mapsto> \<lparr>tqe_next = n, tqe_prev = p, tqe_val = v\<rparr>)\<rparr>"

fun tq_exec :: "'v tq_op \<Rightarrow> 'v tq_heap \<Rightarrow> 'v tq_heap option" where
  "tq_exec (Init q) h = Some (GPUL_TAILQ_INIT q h)"
| "tq_exec (Insert_head q e) h = GPUL_TAILQ_INSERT_HEAD q e h"
| "tq_exec (Insert_tail q e) h = GPUL_TAILQ_INSERT_TAIL q e h"
| "tq_exec (Insert_after q l e) h = GPUL_TAILQ_INSERT_AFTER q l e h"
| "tq_exec (Insert_before l e) h = GPUL_TAILQ_INSERT_BEFORE l e h"
| "tq_exec (Remove q e) h = GPUL_TAILQ_REMOVE q e h"
| "tq_exec (Malloc e n p v) h = (if tq_elms h e = None then Some (tq_malloc e n p v h) else None)"
| "tq_exec (Free e) h = tq_free e h"

fun tq_run :: "'v tq_op list \<Rightarrow> 'v tq_heap \<Rightarrow> 'v tq_heap option" where
  "tq_run [] h = Some h"
| "tq_run (c # cs) h = Option.bind (tq_exec c h) (tq_run cs)"

text \<open>The specification: queues are lists of elements, an element is in one of them at most.\<close>

type_synonym 'v queues = "(nat \<rightharpoonup> nat list) \<times> (nat \<rightharpoonup> 'v)"

definition unlinked :: "nat \<Rightarrow> (nat \<rightharpoonup> nat list) \<Rightarrow> bool" where
  "unlinked e Q \<longleftrightarrow> (\<forall>q xs. Q q = Some xs \<longrightarrow> e \<notin> set xs)"

inductive list_step :: "'v tq_op \<Rightarrow> 'v queues \<Rightarrow> 'v queues \<Rightarrow> bool" where
  init: "list_step (Init q) (Q, V) (Q(q \<mapsto> []), V)"
| insert_head: "Q q = Some xs \<Longrightarrow> V e \<noteq> None \<Longrightarrow> unlinked e Q \<Longrightarrow>
    list_step (Insert_head q e) (Q, V) (Q(q \<mapsto> e # xs), V)"
| insert_tail: "Q q = Some xs \<Longrightarrow> V e \<noteq> None \<Longrightarrow> unlinked e Q \<Longrightarrow>
    list_step (Insert_tail q e) (Q, V) (Q(q \<mapsto> xs @ [e]), V)"
| insert_after: "Q q = Some (xs @ l # ys) \<Longrightarrow> V e \<noteq> None \<Longrightarrow> unlinked e Q \<Longrightarrow>
    list_step (Insert_after q l e) (Q, V) (Q(q \<mapsto> xs @ l # e # ys), V)"
| insert_before: "Q q = Some (xs @ l # ys) \<Longrightarrow> V e \<noteq> None \<Longrightarrow> unlinked e Q \<Longrightarrow>
    list_step (Insert_before l e) (Q, V) (Q(q \<mapsto> xs @ e # l # ys), V)"
| remove: "Q q = Some (xs @ e # ys) \<Longrightarrow> list_step (Remove q e) (Q, V) (Q(q \<mapsto> xs @ ys), V)"
| malloc: "V e = None \<Longrightarrow> list_step (Malloc e n p v) (Q, V) (Q, V(e \<mapsto> v))"
| free: "V e \<noteq> None \<Longrightarrow> unlinked e Q \<Longrightarrow> list_step (Free e) (Q, V) (Q, V(e := None))"

inductive list_run :: "'v tq_op list \<Rightarrow> 'v queues \<Rightarrow> 'v queues \<Rightarrow> bool" where
  stop: "list_run [] a a"
| step: "list_step c a b \<Longrightarrow> list_run cs b d \<Longrightarrow> list_run (c # cs) a d"

definition represents :: "'v tq_heap \<Rightarrow> 'v queues \<Rightarrow> bool" where
  "represents h a \<longleftrightarrow> vals h = snd a \<and> (\<forall>q xs. fst a q = Some xs \<longrightarrow> tailq h q xs) \<and>
     (\<forall>q q' xs ys. fst a q = Some xs \<longrightarrow> fst a q' = Some ys \<longrightarrow> q \<noteq> q' \<longrightarrow> set xs \<inter> set ys = {})"

text \<open>A step on one queue that touches its own elements and at most one unlinked one keeps the other queues.\<close>

lemma represents_update:
  assumes r: "represents h (Q, V)" and q: "Q q = Some xs" and t: "tailq h' q ys" "touches q S h h'"
    and S: "S \<subseteq> set xs \<union> {e. unlinked e Q}" and ys: "set ys \<subseteq> set xs \<union> {e. unlinked e Q}"
  shows "represents h' (Q(q \<mapsto> ys), V)"
proof -
  have other: "set zs \<inter> (set xs \<union> {e. unlinked e Q}) = {}" if "Q q' = Some zs" "q' \<noteq> q" for q' zs
    using r q that unfolding represents_def unlinked_def by fastforce
  have "tailq h' q' zs" if "Q q' = Some zs" "q' \<noteq> q" for q' zs
    using tailq_other [OF t(2) that(2)] other [OF that] S r that(1) unfolding represents_def by fastforce
  moreover have "set zs \<inter> set us = {}" if "(Q(q \<mapsto> ys)) q1 = Some zs" "(Q(q \<mapsto> ys)) q2 = Some us" "q1 \<noteq> q2" for q1 q2 zs us
  proof -
    have "set zs \<inter> set ys = {}" if "Q q' = Some zs" "q' \<noteq> q" for q' zs using other [OF that] ys by blast
    then show ?thesis using that r by (cases "q1 = q"; cases "q2 = q") (fastforce simp: represents_def)+
  qed
  moreover have "vals h' = V" using r t(2) by (simp add: represents_def touches_def)
  ultimately show ?thesis using t(1) unfolding represents_def by (simp split: if_splits)
qed

lemma tailq_elms: "tailq h q xs \<Longrightarrow> e \<in> set xs \<Longrightarrow> tq_elms h e \<noteq> None"
  using seg_vals [of h "First_of q" xs None e] by (auto simp: tailq_def vals_def)

lemma represents_malloc:
  assumes "represents h (Q, V)" "tq_elms h e = None"
  shows "represents (tq_malloc e n p v h) (Q, V(e \<mapsto> v))"
proof -
  have "tailq (tq_malloc e n p v h) q xs" if "Q q = Some xs" for q xs
  proof -
    have "tailq h q xs" using assms(1) that by (auto simp: represents_def)
    moreover have "e \<notin> set xs" using tailq_elms [OF calculation] assms(2) by blast
    ultimately show ?thesis
      by (auto simp: tailq_def tq_malloc_def get_last_def get_prev_def load.simps intro: seg_keep)
  qed
  then show ?thesis using assms(1) by (auto simp: represents_def vals_def tq_malloc_def fun_eq_iff)
qed

lemma represents_free:
  assumes "represents h (Q, V)" "tq_free e h = Some h'" "unlinked e Q"
  shows "represents h' (Q, V(e := None))"
proof -
  have h': "h' = h\<lparr>tq_elms := (tq_elms h)(e := None)\<rparr>" using assms(2) by (auto simp: tq_free_def split: if_splits)
  have "tailq h' q xs" if "Q q = Some xs" for q xs
  proof -
    have "tailq h q xs" "e \<notin> set xs" using assms(1,3) that by (auto simp: represents_def unlinked_def)
    then show ?thesis by (auto simp: tailq_def h' get_last_def get_prev_def load.simps intro: seg_keep)
  qed
  then show ?thesis using assms(1) by (auto simp: represents_def vals_def h' fun_eq_iff)
qed

lemma represents_init:
  assumes "represents h (Q, V)"
  shows "represents (GPUL_TAILQ_INIT q h) (Q(q \<mapsto> []), V)"
proof -
  let ?h = "GPUL_TAILQ_INIT q h"
  have "touches q {} h ?h"
    by (auto simp: touches_def GPUL_TAILQ_INIT_def vals_def fun_eq_iff load.simps get_last_def get_prev_def)
  moreover have "tailq ?h q []" by (simp add: tailq_def GPUL_TAILQ_INIT_def load.simps get_last_def)
  ultimately show ?thesis
    using assms tailq_other [of q "{}" h ?h] by (auto simp: represents_def touches_def)
qed

lemma representsD:
  assumes "represents h (Q, V)"
  shows "vals h = V" "Q q = Some xs \<Longrightarrow> tailq h q xs"
  using assms by (auto simp: represents_def)

lemma unlinkedD: "unlinked e Q \<Longrightarrow> Q q = Some xs \<Longrightarrow> e \<notin> set xs"
  by (auto simp: unlinked_def)

lemma vals_None: "vals h e = None \<longleftrightarrow> tq_elms h e = None"
  by (simp add: vals_def)

lemma represents_insert:
  assumes "represents h (Q, V)" "Q q = Some (xs @ ys)" "unlinked e Q" "spliced q xs e ys h h'"
  shows "represents h' (Q(q \<mapsto> xs @ e # ys), V)"
proof -
  have t: "tailq h q (xs @ ys)" "e \<notin> set (xs @ ys)" 
    using representsD(2) [OF assms(1,2)] unlinkedD [OF assms(3,2)] by auto
  note s = spliced_tailq [OF t assms(4)]
  show ?thesis
    by (rule represents_update [OF assms(1,2) conjunct1 [OF s] conjunct2 [OF s]]) (use assms(3) in auto)
qed

lemma list_step_refined:
  assumes "list_step c a b" "represents h a"
  shows "\<exists>h'. tq_exec c h = Some h' \<and> represents h' b"
  using assms(1)
proof (cases rule: list_step.cases)
  case (insert_head Q q xs V e)
  note r = assms(2) [unfolded insert_head]
  obtain h' where "GPUL_TAILQ_INSERT_HEAD q e h = Some h'" "spliced q [] e xs h h'"
    using insert_head_spliced [OF representsD(2) [OF r]] unlinkedD insert_head representsD(1) [OF r] by metis
  then show ?thesis using represents_insert [OF r, of q "[]" xs] insert_head by simp
next
  case (insert_tail Q q xs V e)
  note r = assms(2) [unfolded insert_tail]
  obtain h' where "GPUL_TAILQ_INSERT_TAIL q e h = Some h'" "spliced q xs e [] h h'"
    using insert_tail_spliced [OF representsD(2) [OF r]] unlinkedD insert_tail representsD(1) [OF r] by metis
  then show ?thesis using represents_insert [OF r, of q xs "[]"] insert_tail by simp
next
  case (insert_after Q q xs l ys V e)
  note r = assms(2) [unfolded insert_after]
  obtain h' where "GPUL_TAILQ_INSERT_AFTER q l e h = Some h'" "spliced q (xs @ [l]) e ys h h'"
    using insert_after_spliced [OF representsD(2) [OF r]] unlinkedD insert_after representsD(1) [OF r] by metis
  then show ?thesis using represents_insert [OF r, of q "xs @ [l]" ys] insert_after by simp
next
  case (insert_before Q q xs l ys V e)
  note r = assms(2) [unfolded insert_before]
  obtain h' where "GPUL_TAILQ_INSERT_BEFORE l e h = Some h'" "spliced q xs e (l # ys) h h'"
    using insert_before_spliced [OF representsD(2) [OF r]] unlinkedD insert_before representsD(1) [OF r] by metis
  then show ?thesis using represents_insert [OF r, of q xs "l # ys"] insert_before by simp
next
  case (remove Q q xs e ys V)
  note r = assms(2) [unfolded remove]
  obtain h' where "GPUL_TAILQ_REMOVE q e h = Some h'" "tailq h' q (xs @ ys)" "touches q (set (xs @ e # ys)) h h'"
    using remove_tailq representsD(2) [OF r] remove by blast
  with remove represents_update [OF r, of q "xs @ e # ys" h' "xs @ ys"] show ?thesis by auto
next
  case (malloc V e n p v Q)
  note r = assms(2) [unfolded malloc]
  have "tq_elms h e = None" using representsD(1) [OF r] malloc vals_None by metis
  with malloc represents_malloc [OF r] show ?thesis by auto
next
  case (free V e Q)
  note r = assms(2) [unfolded free]
  have "tq_elms h e \<noteq> None" using representsD(1) [OF r] free vals_None by metis
  with free represents_free [OF r] show ?thesis by (auto simp: tq_free_def)
qed (use assms(2) represents_init in auto)

text \<open>The empty memory represents no queue and no element.\<close>

definition empty_heap :: "'v tq_heap" where
  "empty_heap = \<lparr>tq_heads = Map.empty, tq_elms = Map.empty\<rparr>"

lemma represents_empty: "represents empty_heap (Map.empty, Map.empty)"
  by (simp add: represents_def empty_heap_def vals_def fun_eq_iff)

lemma list_run_refined: "list_run cs a b \<Longrightarrow> represents h a \<Longrightarrow> \<exists>h'. tq_run cs h = Some h' \<and> represents h' b"
proof (induction arbitrary: h rule: list_run.induct)
  case (step c a b cs d)
  then obtain h1 where "tq_exec c h = Some h1" "represents h1 b" using list_step_refined by blast
  with step.IH show ?case by auto
qed simp

section \<open>Loops over a queue\<close>

text \<open>
  The two loops the daemon runs over its queues: \<^verbatim>\<open>walk\<close> reads the value of every element, from
  \<^verbatim>\<open>GPUL_TAILQ_FIRST\<close> on through \<^verbatim>\<open>GPUL_TAILQ_NEXT\<close>, and \<open>drain\<close> removes and frees the first element
  until there is none. Both may run for ever on memory that is no queue.
\<close>

partial_function (option) walk :: "(nat \<Rightarrow> 'h \<Rightarrow> nat option option) \<Rightarrow> (nat \<Rightarrow> 'h \<Rightarrow> 'v option) \<Rightarrow> nat option \<Rightarrow> 'h \<Rightarrow> 'v list option" where
  "walk next value e h = (case e of None \<Rightarrow> Some [] | Some x \<Rightarrow> do {
     v \<leftarrow> value x h;
     n \<leftarrow> next x h;
     vs \<leftarrow> walk next value n h;
     Some (v # vs)
   })"

partial_function (option) drain :: "(nat \<Rightarrow> 'h \<Rightarrow> nat option option) \<Rightarrow> (nat \<Rightarrow> nat \<Rightarrow> 'h \<Rightarrow> 'h option) \<Rightarrow> (nat \<Rightarrow> 'h \<Rightarrow> 'h option) \<Rightarrow>
    nat \<Rightarrow> nat list \<Rightarrow> 'h \<Rightarrow> (nat list \<times> 'h) option" where
  "drain first remove free q freed h = do {
     f \<leftarrow> first q h;
     (case f of None \<Rightarrow> Some (freed, h) | Some e \<Rightarrow> do {
        h \<leftarrow> remove q e h;
        h \<leftarrow> free e h;
        drain first remove free q (freed @ [e]) h
      })
   }"

text \<open>What the loops rely on, for any representation of queues.\<close>

locale readable_queue =
  fixes is_queue :: "'h \<Rightarrow> nat \<Rightarrow> nat list \<Rightarrow> bool"
    and first :: "nat \<Rightarrow> 'h \<Rightarrow> nat option option"
    and succ :: "nat \<Rightarrow> 'h \<Rightarrow> nat option option"
    and val_of :: "nat \<Rightarrow> 'h \<Rightarrow> 'v option"
  assumes first: "is_queue h q xs \<Longrightarrow> first q h = Some (head_of xs)"
    and succ: "is_queue h q (xs @ e # ys) \<Longrightarrow> succ e h = Some (head_of ys)"
    and allocated: "is_queue h q xs \<Longrightarrow> e \<in> set xs \<Longrightarrow> val_of e h \<noteq> None"
begin

lemma walk_suffix:
  "is_queue h q (xs @ ys) \<Longrightarrow> walk succ val_of (head_of ys) h = Some (map (\<lambda>e. the (val_of e h)) ys)"
proof (induction ys arbitrary: xs)
  case (Cons y ys)
  have "walk succ val_of (head_of ys) h = Some (map (\<lambda>e. the (val_of e h)) ys)"
    using Cons.IH [of "xs @ [y]"] Cons.prems by simp
  moreover obtain v where "val_of y h = Some v" using allocated [OF Cons.prems, of y] by auto
  ultimately show ?case using succ [OF Cons.prems] by (subst walk.simps) simp
qed (subst walk.simps, simp)

lemma walk_queue:
  assumes "is_queue h q xs"
  shows "Option.bind (first q h) (\<lambda>e. walk succ val_of e h) = Some (map (\<lambda>e. the (val_of e h)) xs)"
  using first [OF assms] walk_suffix [of h q "[]" xs] assms by simp

end

locale consumable_queue = readable_queue is_queue first succ val_of
  for is_queue :: "'h \<Rightarrow> nat \<Rightarrow> nat list \<Rightarrow> bool"
    and first :: "nat \<Rightarrow> 'h \<Rightarrow> nat option option"
    and succ :: "nat \<Rightarrow> 'h \<Rightarrow> nat option option"
    and val_of :: "nat \<Rightarrow> 'h \<Rightarrow> 'v option" +
  fixes remove :: "nat \<Rightarrow> nat \<Rightarrow> 'h \<Rightarrow> 'h option"
    and free :: "nat \<Rightarrow> 'h \<Rightarrow> 'h option"
  assumes pop: "is_queue h q (e # xs) \<Longrightarrow>
      \<exists>h1 h2. remove q e h = Some h1 \<and> free e h1 = Some h2 \<and> is_queue h2 q xs \<and> val_of e h2 = None"
    and keeps: "remove q e h = Some h1 \<Longrightarrow> free e h1 = Some h2 \<Longrightarrow> x \<noteq> e \<Longrightarrow> val_of x h2 = val_of x h"
begin

lemma drain_queue:
  assumes "is_queue h q xs"
  shows "\<exists>h'. drain first remove free q freed h = Some (freed @ xs, h') \<and> is_queue h' q [] \<and>
    (\<forall>x. val_of x h' = (if x \<in> set xs then None else val_of x h))"
  using assms
proof (induction xs arbitrary: freed h)
  case Nil
  then show ?case using first [OF Nil] by (subst drain.simps) simp
next
  case (Cons e xs)
  obtain h1 h2 where h: "remove q e h = Some h1" "free e h1 = Some h2" "is_queue h2 q xs" "val_of e h2 = None"
    using pop [OF Cons.prems] by blast
  obtain h' where "drain first remove free q (freed @ [e]) h2 = Some (freed @ e # xs, h')" "is_queue h' q []"
    "\<forall>x. val_of x h' = (if x \<in> set xs then None else val_of x h2)"
    using Cons.IH [OF h(3), of "freed @ [e]"] by auto
  with first [OF Cons.prems] h keeps [OF h(1,2)] show ?case by (subst drain.simps) auto
qed

end

lemma tailq_pop:
  assumes "tailq h q (e # xs)"
  shows "\<exists>h1 h2. GPUL_TAILQ_REMOVE q e h = Some h1 \<and> tq_free e h1 = Some h2 \<and> tailq h2 q xs \<and> vals h2 e = None"
proof -
  obtain h1 where h1: "GPUL_TAILQ_REMOVE q e h = Some h1" "tailq h1 q xs" "vals h1 = vals h"
    using remove_tailq [of h q "[]" e xs] assms by (auto simp: touches_def)
  moreover have "tq_elms h1 e \<noteq> None" using tailq_elms [OF assms, of e] h1(3) vals_None by (metis list.set_intros(1))
  moreover have "e \<notin> set xs" using assms by (simp add: tailq_def)
  ultimately show ?thesis
    by (auto simp: tq_free_def tailq_def vals_def get_last_def get_prev_def load.simps intro: seg_keep)
qed

lemma vals_remove: "GPUL_TAILQ_REMOVE q e h = Some h' \<Longrightarrow> vals h' = vals h"
  by (auto simp: GPUL_TAILQ_REMOVE_def bind_eq_Some_conv vals_store vals_set_prev vals_set_last split: option.splits)

lemma vals_free: "tq_free e h = Some h' \<Longrightarrow> vals h' = (vals h)(e := None)"
  by (auto simp: tq_free_def vals_def fun_eq_iff split: if_splits)

interpretation tailq: consumable_queue tailq GPUL_TAILQ_FIRST GPUL_TAILQ_NEXT "\<lambda>e h. vals h e" GPUL_TAILQ_REMOVE tq_free
proof
  fix h :: "'a tq_heap" and q e xs
  assume "tailq h q xs" "e \<in> set xs"
  then show "vals h e \<noteq> None" using tailq_elms vals_None by metis
next
  fix q e x and h h1 h2 :: "'a tq_heap"
  assume "GPUL_TAILQ_REMOVE q e h = Some h1" "tq_free e h1 = Some h2" "x \<noteq> e"
  then show "vals h2 x = vals h x" by (simp add: vals_remove vals_free)
qed (erule first_tailq next_tailq tailq_pop)+

section \<open>Properties\<close>

text \<open>
  C6. Whatever sequence of initialisations, insertions at the head, at the tail, after or before an element,
  removals, allocations and deallocations is run on the empty memory, over any number of queues that share the
  elements: if the sequence is legal on lists, then the pointer code runs without touching memory that is not
  allocated, and afterwards the first element, the last element and the values read by walking each queue are those
  of its list.
\<close>

theorem tailq_refines_lists:
  assumes "list_run cs (Map.empty, Map.empty) (Q, V)"
  shows "\<exists>h. tq_run cs empty_heap = Some h \<and>
    (\<forall>q xs. Q q = Some xs \<longrightarrow> GPUL_TAILQ_FIRST q h = Some (head_of xs) \<and>
       GPUL_TAILQ_LAST q h = Some (if xs = [] then None else Some (last xs)) \<and>
       Option.bind (GPUL_TAILQ_FIRST q h) (\<lambda>e. walk GPUL_TAILQ_NEXT (\<lambda>e h. vals h e) e h) = Some (map (\<lambda>e. the (V e)) xs))"
proof -
  obtain h where h: "tq_run cs empty_heap = Some h" "represents h (Q, V)"
    using list_run_refined [OF assms represents_empty] by blast
  have "GPUL_TAILQ_FIRST q h = Some (head_of xs) \<and> GPUL_TAILQ_LAST q h = Some (if xs = [] then None else Some (last xs)) \<and>
     Option.bind (GPUL_TAILQ_FIRST q h) (\<lambda>e. walk GPUL_TAILQ_NEXT (\<lambda>e h. vals h e) e h) = Some (map (\<lambda>e. the (V e)) xs)"
    if "Q q = Some xs" for q xs
  proof -
    have t: "tailq h q xs" by (rule representsD(2) [OF h(2) that])
    show ?thesis
      using first_tailq [OF t] last_tailq [OF t] tailq.walk_queue [OF t] representsD(1) [OF h(2)] by (simp del: split_paired_All)
  qed
  with h(1) show ?thesis by blast
qed

definition sample_ops :: "string tq_op list" where
  "sample_ops = [Init 1, Init 2, Malloc 10 None None ''a'', Insert_tail 1 10, Malloc 11 (Some 7) None ''b'', Insert_head 1 11,
     Malloc 12 None None ''c'', Insert_after 1 11 12, Remove 1 10, Insert_tail 2 10]"

lemma sample_ops_run:
  "\<exists>Q V. list_run sample_ops (Map.empty, Map.empty) (Q, V) \<and> Q 1 = Some [11, 12] \<and> V 11 = Some ''b'' \<and> V 12 = Some ''c''"
  unfolding sample_ops_def
  apply (intro exI conjI)
     apply (rule list_run.step list_step.init list_step.malloc | simp; fail)+
     apply (rule list_step.insert_tail [where xs = "[]"], simp, simp, simp add: unlinked_def)
     apply (rule list_run.step list_step.malloc | simp; fail)+
     apply (rule list_step.insert_head [where xs = "[10]"], simp, simp, simp add: unlinked_def)
     apply (rule list_run.step list_step.malloc | simp; fail)+
     apply (rule list_step.insert_after [where xs = "[]" and ys = "[10]"], simp, simp, simp add: unlinked_def)
     apply (rule list_run.step, rule list_step.remove [where xs = "[11, 12]" and ys = "[]"], simp)
     apply (rule list_run.step, rule list_step.insert_tail [where xs = "[]"], simp, simp, simp add: unlinked_def)
     apply (rule list_run.stop)
  apply simp_all
  done

theorem tailq_refines_lists_witness:
  "\<exists>h. tq_run sample_ops empty_heap = Some h \<and> GPUL_TAILQ_LAST 1 h = Some (Some 12) \<and>
     Option.bind (GPUL_TAILQ_FIRST 1 h) (\<lambda>e. walk GPUL_TAILQ_NEXT (\<lambda>e h. vals h e) e h) = Some [''b'', ''c'']"
proof -
  obtain Q V where V: "list_run sample_ops (Map.empty, Map.empty) (Q, V)" "Q 1 = Some [11, 12]" "V 11 = Some ''b''" "V 12 = Some ''c''"
    using sample_ops_run by blast
  from tailq_refines_lists [OF V(1)] V(2-4) show ?thesis by force
qed

text \<open>
  The commands of a request, \<^verbatim>\<open>smsexecn\<close>: for every command an element is allocated and inserted at the tail.
  \<open>cs\<close> pairs the address that \<^verbatim>\<open>malloc\<close> returns with the command.
\<close>

fun push_commands :: "nat \<Rightarrow> (nat \<times> 'v) list \<Rightarrow> 'v tq_heap \<Rightarrow> 'v tq_heap option" where
  "push_commands q [] h = Some h"
| "push_commands q ((e, v) # cs) h = do {
     h \<leftarrow> tq_exec (Malloc e None None v) h;
     h \<leftarrow> GPUL_TAILQ_INSERT_TAIL q e h;
     push_commands q cs h
   }"

lemma represents_unlinked: "represents h (Q, V) \<Longrightarrow> V e = None \<Longrightarrow> unlinked e Q"
  using tailq_elms vals_None unfolding unlinked_def represents_def by (metis fst_conv snd_conv)

lemma push_represents:
  assumes "represents h (Q, V)" "Q q = Some xs" "distinct (map fst cs)" "\<forall>e \<in> set (map fst cs). V e = None"
  shows "\<exists>h'. push_commands q cs h = Some h' \<and> represents h' (Q(q \<mapsto> xs @ map fst cs), V ++ map_of cs)"
  using assms
proof (induction cs arbitrary: h Q V xs)
  case (Cons c cs)
  obtain e v where c: "c = (e, v)" by (cases c)
  have e: "V e = None" using Cons.prems c by simp
  have u: "unlinked e Q" by (rule represents_unlinked [OF Cons.prems(1) e])
  obtain h1 where h1: "tq_exec (Malloc e None None v) h = Some h1" "represents h1 (Q, V(e \<mapsto> v))"
    using list_step_refined [OF list_step.malloc Cons.prems(1)] e by blast
  have st: "list_step (Insert_tail q e) (Q, V(e \<mapsto> v)) (Q(q \<mapsto> xs @ [e]), V(e \<mapsto> v))"
    by (rule list_step.insert_tail) (use Cons.prems(2) u in auto)
  obtain h2 where h2: "GPUL_TAILQ_INSERT_TAIL q e h1 = Some h2" "represents h2 (Q(q \<mapsto> xs @ [e]), V(e \<mapsto> v))"
    using list_step_refined [OF st h1(2)] by auto
  have m: "V(e \<mapsto> v) ++ map_of cs = V ++ map_of (c # cs)"
    using Cons.prems(3) c by (force simp: fun_eq_iff map_add_def dest: map_of_SomeD split: option.splits)
  have fresh: "\<forall>e' \<in> set (map fst cs). (V(e \<mapsto> v)) e' = None" "distinct (map fst cs)" using Cons.prems(3,4) c by force+
  have "(Q(q \<mapsto> xs @ [e])) q = Some (xs @ [e])" by simp
  note IH = Cons.IH [OF h2(2) this fresh(2,1)]
  have q: "(Q(q \<mapsto> xs @ [e]))(q \<mapsto> (xs @ [e]) @ map fst cs) = Q(q \<mapsto> xs @ map fst (c # cs))" using c by simp
  have "push_commands q (c # cs) h = push_commands q cs h2" using c h1(1) h2(1) by (simp del: tq_exec.simps)
  with IH [unfolded q m] show ?case by metis
qed (simp add: fun_upd_idem)

lemma drain_represents:
  assumes "represents h (Q, V)" "Q q = Some xs"
  shows "\<exists>h'. drain GPUL_TAILQ_FIRST GPUL_TAILQ_REMOVE tq_free q freed h = Some (freed @ xs, h') \<and>
    represents h' (Q(q \<mapsto> []), V |` (- set xs))"
  using assms
proof (induction xs arbitrary: h Q V freed)
  case Nil
  then have "GPUL_TAILQ_FIRST q h = Some None" using first_tailq [OF representsD(2)] by fastforce
  moreover have "Q(q \<mapsto> []) = Q" using Nil by (auto simp: fun_eq_iff)
  ultimately show ?case using Nil by (subst drain.simps) (simp add: restrict_map_def)
next
  case (Cons e xs)
  have t: "tailq h q (e # xs)" by (rule representsD(2) [OF Cons.prems])
  have "list_step (Remove q e) (Q, V) (Q(q \<mapsto> [] @ xs), V)" by (rule list_step.remove) (use Cons.prems in simp)
  from list_step_refined [OF this Cons.prems(1)]
  obtain h1 where h1: "GPUL_TAILQ_REMOVE q e h = Some h1" "represents h1 (Q(q \<mapsto> xs), V)" by auto
  have "V e \<noteq> None" using tailq_elms [OF t] vals_None representsD(1) [OF Cons.prems(1)] by (metis list.set_intros(1))
  moreover have "unlinked e (Q(q \<mapsto> xs))" unfolding unlinked_def
  proof (intro allI impI)
    fix q' ys assume ys: "(Q(q \<mapsto> xs)) q' = Some ys"
    show "e \<notin> set ys"
    proof (cases "q' = q")
      case False
      with ys Cons.prems have "set (e # xs) \<inter> set ys = {}" unfolding represents_def by (metis fst_conv fun_upd_apply)
      then show ?thesis by simp
    qed (use ys t in \<open>simp add: tailq_def\<close>)
  qed
  ultimately have "list_step (Free e) (Q(q \<mapsto> xs), V) (Q(q \<mapsto> xs), V(e := None))" by (rule list_step.free)
  from list_step_refined [OF this h1(2)]
  obtain h2 where h2: "tq_free e h1 = Some h2" "represents h2 (Q(q \<mapsto> xs), V(e := None))" by auto
  have v: "(V(e := None)) |` (- set xs) = V |` (- set (e # xs))" by (auto simp: fun_eq_iff restrict_map_def)
  have "\<exists>h'. drain GPUL_TAILQ_FIRST GPUL_TAILQ_REMOVE tq_free q (freed @ [e]) h2 = Some ((freed @ [e]) @ xs, h') \<and>
      represents h' ((Q(q \<mapsto> xs))(q \<mapsto> []), (V(e := None)) |` (- set xs))"
    by (rule Cons.IH [OF h2(2)]) simp
  with first_tailq [OF t] h1(1) h2(1) v show ?case by (subst drain.simps) auto
qed

text \<open>
  C34. The commands of a request go through a queue and come back: from any memory with any queues in it, the list
  that \<^verbatim>\<open>smsexecn\<close> builds of freshly allocated elements is read back as the same commands in the same order by
  the walk of \<^verbatim>\<open>genericSmsexecCmd\<close>, and the loop that frees it ends, frees every element once, in order, and leaves
  every other queue and element as it was before the request.
\<close>

theorem command_queue_round_trip:
  assumes "represents h (Q, V)" "distinct (map fst cs)" "\<forall>e \<in> set (map fst cs). V e = None"
  shows "\<exists>h1 h2. push_commands q cs (GPUL_TAILQ_INIT q h) = Some h1 \<and>
    Option.bind (GPUL_TAILQ_FIRST q h1) (\<lambda>e. walk GPUL_TAILQ_NEXT (\<lambda>e h. vals h e) e h1) = Some (map snd cs) \<and>
    drain GPUL_TAILQ_FIRST GPUL_TAILQ_REMOVE tq_free q [] h1 = Some (map fst cs, h2) \<and>
    represents h2 (Q(q \<mapsto> []), V)"
proof -
  have i: "represents (GPUL_TAILQ_INIT q h) (Q(q \<mapsto> []), V)" by (rule represents_init [OF assms(1)])
  obtain h1 where h1: "push_commands q cs (GPUL_TAILQ_INIT q h) = Some h1"
    "represents h1 (Q(q \<mapsto> map fst cs), V ++ map_of cs)"
    using push_represents [OF i, of q "[]" cs] assms(2,3) by auto
  have t: "tailq h1 q (map fst cs)" by (rule representsD(2) [OF h1(2)]) simp
  have v: "map (\<lambda>e. the (vals h1 e)) (map fst cs) = map snd cs"
    using representsD(1) [OF h1(2)] assms(2) by (auto simp: map_add_def)
  obtain h2 where h2: "drain GPUL_TAILQ_FIRST GPUL_TAILQ_REMOVE tq_free q [] h1 = Some (map fst cs, h2)"
    "represents h2 (Q(q \<mapsto> []), (V ++ map_of cs) |` (- set (map fst cs)))"
    using drain_represents [OF h1(2), of q "map fst cs" "[]"] by auto
  have "(V ++ map_of cs) |` (- set (map fst cs)) = V"
    using assms(3) by (force simp: fun_eq_iff restrict_map_def map_add_def map_of_eq_None_iff split: option.splits dest: map_of_SomeD)
  with h1(1) h2 v tailq.walk_queue [OF t] show ?thesis by (metis (no_types, lifting))
qed

theorem command_queue_round_trip_witness:
  "\<exists>h1. push_commands 5 [(1, ''show version''), (2, ''show run'')] (GPUL_TAILQ_INIT 5 empty_heap) = Some h1 \<and>
     Option.bind (GPUL_TAILQ_FIRST 5 h1) (\<lambda>e. walk GPUL_TAILQ_NEXT (\<lambda>e h. vals h e) e h1) = Some [''show version'', ''show run'']"
proof -
  have "distinct (map fst [(1 :: nat, ''show version''), (2, ''show run'')])" by simp
  from command_queue_round_trip [OF represents_empty this, of 5] show ?thesis by (simp only: list.map fst_conv snd_conv) blast
qed

end
