(* ===== verification/Smsd_Timer.thy ===== *)
theory Smsd_Timer
  imports Smsd_Prelude
begin

text \<open>
  The operations of \<^verbatim>\<open>gpul.h\<close> on \<^verbatim>\<open>struct timeval\<close>, the clock of the scheduler library, and that they are the
  arithmetic of microseconds on normalised times. A \<^verbatim>\<open>timeval\<close> holds two signed 64-bit numbers, and the comments
  of the macros exclude negative times; the numbers are integers here, which differ from those of C only when a
  second counter leaves 64 bits.
\<close>

section \<open>The macros\<close>

record timeval =
  tv_sec :: int
  tv_usec :: int

definition GPUL_MICRO_PER_SEC :: int where "GPUL_MICRO_PER_SEC = 1000000"

definition GPUL_TIMERADD :: "timeval \<Rightarrow> timeval \<Rightarrow> timeval" where
  "GPUL_TIMERADD t1 t2 =
     (let tr = \<lparr>tv_sec = tv_sec t1 + tv_sec t2, tv_usec = tv_usec t1 + tv_usec t2\<rparr>
      in if tv_usec tr \<ge> GPUL_MICRO_PER_SEC
         then tr\<lparr>tv_usec := tv_usec tr - GPUL_MICRO_PER_SEC, tv_sec := tv_sec tr + 1\<rparr>
         else tr)"

definition GPUL_TIMERSUB :: "timeval \<Rightarrow> timeval \<Rightarrow> timeval" where
  "GPUL_TIMERSUB t1 t2 =
     (if tv_usec t2 > tv_usec t1
      then \<lparr>tv_sec = (tv_sec t1 - 1) - tv_sec t2, tv_usec = tv_usec t1 + GPUL_MICRO_PER_SEC - tv_usec t2\<rparr>
      else \<lparr>tv_sec = tv_sec t1 - tv_sec t2, tv_usec = tv_usec t1 - tv_usec t2\<rparr>)"

definition GPUL_TIMERCMP :: "timeval \<Rightarrow> timeval \<Rightarrow> int" where
  "GPUL_TIMERCMP t1 t2 =
     (if tv_sec t1 > tv_sec t2 then 1
      else if tv_sec t1 < tv_sec t2 then -1
      else if tv_usec t1 > tv_usec t2 then 1
      else if tv_usec t1 < tv_usec t2 then -1
      else 0)"

section \<open>Microseconds\<close>

definition micros :: "timeval \<Rightarrow> int" where
  "micros t = tv_sec t * GPUL_MICRO_PER_SEC + tv_usec t"

definition normalised :: "timeval \<Rightarrow> bool" where
  "normalised t \<longleftrightarrow> 0 \<le> tv_usec t \<and> tv_usec t < GPUL_MICRO_PER_SEC"

lemmas timer_defs = micros_def normalised_def GPUL_MICRO_PER_SEC_def GPUL_TIMERADD_def GPUL_TIMERSUB_def GPUL_TIMERCMP_def

lemma micros_add: "micros (GPUL_TIMERADD t1 t2) = micros t1 + micros t2"
  by (simp add: timer_defs Let_def algebra_simps)

lemma micros_sub: "micros (GPUL_TIMERSUB t1 t2) = micros t1 - micros t2"
  by (simp add: timer_defs algebra_simps)

lemma normalised_ops:
  assumes "normalised t1" "normalised t2"
  shows "normalised (GPUL_TIMERADD t1 t2)" "normalised (GPUL_TIMERSUB t1 t2)"
  using assms by (simp_all add: timer_defs Let_def)

lemma micros_cmp:
  assumes "normalised t1" "normalised t2"
  shows "GPUL_TIMERCMP t1 t2 = sgn (micros t1 - micros t2)"
  using assms by (auto simp: timer_defs sgn_if)

text \<open>A normalised time is its number of microseconds.\<close>

lemma micros_inject: "normalised t1 \<Longrightarrow> normalised t2 \<Longrightarrow> micros t1 = micros t2 \<longleftrightarrow> t1 = t2"
  using micros_cmp [of t1 t2] by (cases t1; cases t2) (auto simp: timer_defs split: if_splits)

lemma timer_round_trip:
  assumes "normalised t1" "normalised t2"
  shows "GPUL_TIMERSUB (GPUL_TIMERADD t1 t2) t2 = t1" "GPUL_TIMERADD (GPUL_TIMERSUB t1 t2) t2 = t1"
  using assms by (auto simp: micros_add micros_sub normalised_ops simp flip: micros_inject)

end
