(* ===== verification/Spec2Isabelle.thy ===== *)
theory Spec2Isabelle
  imports Smsd_Start Smsd_Script Smsd_Interleave Smsd_Counts Smsd_Tailq Smsd_Timer
begin

text \<open>
  Verification of SMSD, the security management daemon of OpenMSA Core-Engine
  (\<^verbatim>\<open>src/sms/smsd\<close>).

  \<^bold>\<open>The program.\<close> SMSD accepts connections on a TCP port. A task per connection reads one line, a verb
  and its arguments, looks the verb up in a hash table and calls its handler. Handlers read and write a
  database through a pool of contexts, run PHP scripts against the devices, and answer with a textual or
  a JSON reply. Scheduled tasks update devices and save their configurations. A signal stops the daemon
  or makes it reload its configuration file.

  \<^bold>\<open>The theories.\<close>
  \<^item> \<open>Smsd_Prelude\<close>: characters, C string and number functions, return codes
    (\<^verbatim>\<open>smserror/include/sms_error.h\<close>).
  \<^item> \<open>Smsd_State\<close>: the state of a task (\<^verbatim>\<open>client_state_t\<close>, \<^verbatim>\<open>sms_stat_t\<close>, the PHP variables), the
    records of the database and the record \<open>ops\<close> of the library functions; every call of the library is
    recorded in the list \<open>calls\<close>, on which the resource properties are stated.
  \<^item> \<open>Smsd_Instance\<close>: a small database in memory that instantiates \<open>ops\<close>, on which properties are
    evaluated.
  \<^item> \<open>Smsd_Bd\<close> (\<^verbatim>\<open>bd.c\<close>): the database functions that retry while the connection is lost. The
    interface \<open>ha_operation\<close> is interpreted for each of them; the loop refines the relation \<open>ha_run\<close>.
  \<^item> \<open>Smsd_Locks\<close> (\<^verbatim>\<open>update.c\<close>): provisioning locks, update locks and update status, under the laws
    \<open>lock_contract\<close> of the lock table. The interface \<open>ctx_borrower\<close> says that an operation gives back
    the context it borrows.
  \<^item> \<open>Smsd_Reply\<close> (\<^verbatim>\<open>verb.c\<close>, \<^verbatim>\<open>php_misc.c\<close>): what is written to the client.
  \<^item> \<open>Smsd_Generic\<close> (\<^verbatim>\<open>generic_router.c\<close>, \<^verbatim>\<open>pattern.c\<close>, \<^verbatim>\<open>report.c\<close>, \<^verbatim>\<open>php_sdinfo.c\<close>): the functions
    that run a PHP script; the interface \<open>php_runner\<close> says that they open and close one session.
  \<^item> \<open>Smsd_Router\<close> (\<^verbatim>\<open>router.c\<close>) and \<open>Smsd_Update\<close> (\<^verbatim>\<open>update.c\<close>): the operations on a device.
  \<^item> \<open>Smsd_Wrappers\<close> (\<^verbatim>\<open>smsphp/include/sms_php_wrappers.h\<close>): the macros that make PHP functions of C functions, over
    the argument parser of the Zend engine as a parameter. The interface \<open>php_macro\<close> says what every macro does with
    arguments that do not convert, and with the result; it is interpreted for each.
  \<^item> \<open>Smsd_PhpDb\<close> (\<^verbatim>\<open>php_db.c\<close>): the database functions offered to PHP, which receive addresses as integers.
  \<^item> \<open>Smsd_Binding\<close> (\<^verbatim>\<open>php.c\<close>): the table of the functions a script can call, with their declared types.
  \<^item> \<open>Smsd_Script\<close>: a script as a sequence of calls, and what it does to the database context of its task.
  \<^item> \<open>Smsd_Interleave\<close> (\<^verbatim>\<open>update.c\<close>, \<^verbatim>\<open>bd.c\<close>): the lock operations as programs over single database calls, equal to
    those of \<open>Smsd_Locks\<close> when they run alone, and their interleavings.
  \<^item> \<open>Smsd_Stats\<close> (\<^verbatim>\<open>verb.c\<close>, \<^verbatim>\<open>smsd.h\<close>): the increments of the statistics as lock, load, store and unlock steps
    of interleaved tasks. The interface \<open>counter_discipline\<close> is a set of places with one mutex per counter; it is
    interpreted for all places but one of the two that share a counter and not a mutex.
  \<^item> \<open>Smsd_Counts\<close> (\<^verbatim>\<open>verb.c\<close>): what every handler and every request counts.
  \<^item> \<open>Smsd_Tailq\<close> (\<^verbatim>\<open>gpul/include/gpul.h\<close>): the tail queues, pointer by pointer on a heap, refining lists. The interface
    \<open>consumable_queue\<close> carries the loops that walk and empty a queue.
  \<^item> \<open>Smsd_Timer\<close> (\<^verbatim>\<open>gpul/include/gpul.h\<close>): the operations on times.
  \<^item> \<open>Smsd_Config\<close> (\<^verbatim>\<open>smsconfig.c\<close>): the configuration file.
  \<^item> \<open>Smsd_Release\<close> (\<^verbatim>\<open>smsconfig.c\<close>, \<^verbatim>\<open>smsd.c\<close>, \<^verbatim>\<open>smsd.h\<close>): what \<^verbatim>\<open>deleteConfig\<close> and the end of \<^verbatim>\<open>main\<close> free,
    checked against the resources that are alive.
  \<^item> \<open>Smsd_Handlers\<close> and \<open>Smsd_Verb\<close> (\<^verbatim>\<open>verb.c\<close>): the handlers, the table of the verbs, the parsing of
    a request and its dispatch. The hash table of \<^verbatim>\<open>libgpul\<close> is a parameter with the law
    \<open>hash_contract\<close>.
  \<^item> \<open>Smsd_Context\<close>: the discipline of the database contexts, proved for every handler.
  \<^item> \<open>Smsd_Php\<close> (\<^verbatim>\<open>php.c\<close>): the variables that scripts find in \<^verbatim>\<open>$_SERVER\<close>.
  \<^item> \<open>Smsd_Main\<close> (\<^verbatim>\<open>smsd.c\<close>): one connection, the SNMP counters and the accept loop, a step relation in
    which signals arrive at any point.
  \<^item> \<open>Smsd_Start\<close> (\<^verbatim>\<open>smsd.c\<close>): \<^verbatim>\<open>main\<close> up to its accept loop.

  \<^bold>\<open>What is shown.\<close> Contexts: every request but those of three handlers gives back each database context
  exactly once, from the accept loop to the end of the task, and the three that do not are shown to release one
  twice. Database layer: the retry loop refines its specification, and when it returns. Locks: provisioning
  excludes updates, what each lock request changes, and a lock that is released without being held; among
  concurrent tasks the update lock is exclusive, while the provisioning lock can be overtaken. Statistics: what each
  request counts, that increments made at the same time are not lost where a counter has one mutex and all tasks
  finish, and the counter that has two mutexes and loses one. Replies:
  the bytes of every answer, and that a short write ends it. Scripts: one PHP session per operation, the calls
  are well typed, and a script without a context can leave a released one behind. Queues: the pointer code implements
  lists, and the queue of a request is read back and freed. Requests:
  the table finds every verb, unknown, short and blank requests, quoted parameters. Configuration: lines,
  directives, mandatory fields, and what uninitialised sections let through. Daemon: readiness at the start,
  conservation of connections, shutdown and reload, and what each of them frees: everything once, but for a
  pointer that was never assigned when the file leaves an optional address out.

  \<^bold>\<open>Conventions.\<close> A function that always returns is a HOL function. A function that may loop, leave an
  array or read memory that was never written returns an option, with \<open>None\<close> for an execution that does
  not come back in a defined way; where a property says that code returns, it says that the result is not
  \<open>None\<close>. Loops whose length depends on the environment (a lost database, a client that never stops
  writing) are partial functions and no fuel is used anywhere. Counters of type \<^verbatim>\<open>unsigned long\<close> are
  64-bit words and wrap around.

  \<^bold>\<open>Not modelled.\<close> Log lines, the mutex around the two numbers of threads, which only \<^verbatim>\<open>main\<close> writes,
  weak memory (loads and stores take effect in some order), the freeing of the local copies of a request, the opening of log files, and the libraries shipped as
  objects (\<^verbatim>\<open>libsmsbd\<close>, \<^verbatim>\<open>libsmsphp\<close>, \<^verbatim>\<open>libnet\<close>, \<^verbatim>\<open>libgpul\<close>, the Zend engine), which are parameters.
  Every function of \<^verbatim>\<open>smsd/source\<close> has a definition.
\<close>

section \<open>From the accept loop to the end of a request\<close>

lemma serve_owns:
  assumes "scripts_keep_csp ops" "hash_contract h" "VerbInit h = Some tbl" "owns s" "ctx_of s = None"
    and "serve ops env h tbl s = Some (r, t)"
    and "\<And>n buf u v arg. socketReadLine ops (cfd (csp s)) BUFSIZ SELECTTIMEOUT s = ((n, buf), u) \<Longrightarrow>
      v \<in> set verbTab \<Longrightarrow> split_command buf = Some (verb v, arg) \<Longrightarrow> doVerb v \<notin> double_release_verbs"
  shows "owns t \<and> ctx_of t = None \<and> (cfd (csp t) = -1 \<or> last (calls t) = SockClose (cfd (csp t)))"
proof -
  obtain n buf u where rd: "socketReadLine ops (cfd (csp s)) BUFSIZ SELECTTIMEOUT s = ((n, buf), u)" by (metis prod.collapse)
  have "calm s (snd (socketReadLine ops (cfd (csp s)) BUFSIZ SELECTTIMEOUT s))" by (intro calm_snd calm_refl)
  with rd have "calm s u" by simp
  with assms(4,5) have u: "owns u" "ctx_of u = None" using calm_owns [of s u] by (simp_all add: calm_def)
  obtain v where v: "(if n > 0 then CheckVerb ops env h tbl buf u else Some u) = Some v"
    and t: "t = (let w = v\<lparr>csp := (csp v)\<lparr>ip_addr_str := None\<rparr>\<rparr>
      in if cfd (csp w) \<noteq> -1 then snd (socketClose ops (cfd (csp w)) w) else w)"
    using assms(6) rd by (auto simp: serve_def bind_eq_Some_conv Let_def)
  have "owns v \<and> ctx_of v = None"
    using v u CheckVerb_owns [OF assms(1-3) u] assms(7) [OF rd] by (auto split: if_splits)
  then show ?thesis
    using t by (auto simp: Let_def owns_def socketClose_def log_call_def ctx_run_append split: prod.splits)
qed



end
